(* ===== verification/Prelude.thy ===== *)
theory Prelude
  imports "HOL-Library.Word" "HOL-Library.AList" "HOL-Library.Multiset"
begin

text \<open>
  Shared vocabulary of the development: bytes and machine words, the memory image of packed
  C++ structs (little-endian host, \<^verbatim>\<open>__attribute__((packed))\<close>), byte swapping as done by
  \<^verbatim>\<open>boost::endian::native_to_big\<close>, \<^verbatim>\<open>strncpy\<close>, and the association lists that stand
  for \<^verbatim>\<open>std::unordered_map\<close>.
  The locale \<open>packed_struct\<close> is the interface every message struct offers: its bytes can be
  read back, and reading never invents bytes.
\<close>

unbundle bit_operations_syntax

section \<open>Collections of facts and type names\<close>

named_theorems struct_simps "definitions of the message structs: size, bytes, reader, validity"
named_theorems send_simps "definitions of the functions that build one outgoing message"

type_synonym byte = "8 word"
type_synonym u16 = "16 word"
type_synonym u32 = "32 word"
type_synonym u64 = "64 word"

text \<open>A character constant of the source as the byte it is stored in.\<close>

definition ch :: "char \<Rightarrow> byte" where
  "ch c = of_char c"

text \<open>A string literal as bytes.\<close>

definition bytes_of_string :: "string \<Rightarrow> byte list" where
  "bytes_of_string s = List.map ch s"

section \<open>Errors\<close>

text \<open>
  What ends a handler other than by returning: the exceptions the source throws, and a read or a
  write past the end of the receive buffer, which is undefined behaviour in C++.
\<close>

datatype sim_error =
    RuntimeError string
  | InvalidArgument string
  | EvtError string
  | OutOfBounds

type_synonym 'a result = "sim_error + 'a"

definition bind_result :: "'a result \<Rightarrow> ('a \<Rightarrow> 'b result) \<Rightarrow> 'b result" where
  "bind_result r f = (case r of Inl e \<Rightarrow> Inl e | Inr x \<Rightarrow> f x)"

lemma bind_result_simps [simp]:
  "bind_result (Inl e) f = Inl e"
  "bind_result (Inr x) f = f x"
  by (simp_all add: bind_result_def)

lemma bind_result_Inr_iff:
  "bind_result r f = Inr y \<longleftrightarrow> (\<exists>x. r = Inr x \<and> f x = Inr y)"
  by (cases r) auto

section \<open>Little-endian memory images of words\<close>

primrec le_bytes :: "nat \<Rightarrow> 'a::len word \<Rightarrow> byte list" where
  "le_bytes 0 w = []"
| "le_bytes (Suc n) w = ucast w # le_bytes n (drop_bit 8 w)"

primrec of_le :: "byte list \<Rightarrow> 'a::len word" where
  "of_le [] = 0"
| "of_le (b # bs) = ucast b OR push_bit 8 (of_le bs)"

lemma length_le_bytes [simp]: "length (le_bytes n w) = n"
  by (induction n arbitrary: w) auto

lemma of_le_le_bytes_take: "of_le (le_bytes n w) = take_bit (8 * n) (w :: 'a::len word)"
proof (induction n arbitrary: w)
  case 0
  then show ?case by simp
next
  case (Suc n)
  show ?case
    by (rule bit_word_eqI) (auto simp: Suc bit_simps not_le less_diff_conv2)
qed

lemma of_le_le_bytes:
  "LENGTH('a) \<le> 8 * n \<Longrightarrow> of_le (le_bytes n w) = (w :: 'a::len word)"
  by (simp add: of_le_le_bytes_take take_bit_word_eq_self)

lemma le_bytes_take_bit:
  "8 * n \<le> m \<Longrightarrow> le_bytes n (take_bit m w) = le_bytes n (w :: 'a::len word)"
proof (induction n arbitrary: w m)
  case 0
  then show ?case by simp
next
  case (Suc n)
  have "ucast (take_bit m w) = (ucast w :: byte)"
    using Suc.prems by (intro bit_word_eqI) (auto simp: bit_simps)
  moreover have "le_bytes n (drop_bit 8 (take_bit m w)) = le_bytes n (drop_bit 8 w)"
    using Suc by (simp add: drop_bit_take_bit)
  ultimately show ?case by simp
qed

lemma le_bytes_of_le:
  "8 * length bs \<le> LENGTH('a::len) \<Longrightarrow> le_bytes (length bs) (of_le bs :: 'a word) = bs"
proof (induction bs)
  case Nil
  then show ?case by simp
next
  case (Cons b bs)
  have "ucast (ucast b OR push_bit 8 (of_le bs) :: 'a word) = b"
    using Cons.prems by (intro bit_word_eqI) (auto simp: bit_simps)
  moreover have "drop_bit 8 (ucast b OR push_bit 8 (of_le bs) :: 'a word)
      = take_bit (LENGTH('a) - 8) (of_le bs)"
    using Cons.prems by (intro bit_word_eqI) (auto simp: bit_simps dest: bit_imp_le_length)
  ultimately show ?case using Cons by (simp add: le_bytes_take_bit)
qed

lemma le_bytes_of_le_length:
  "length bs = n \<Longrightarrow> 8 * n \<le> LENGTH('a::len) \<Longrightarrow> le_bytes n (of_le bs :: 'a word) = bs"
  using le_bytes_of_le by blast

lemma le_bytes_eval:
  "le_bytes (numeral k) w = ucast w # le_bytes (pred_numeral k) (drop_bit 8 w)"
  by (simp add: numeral_eq_Suc)

section \<open>Byte order\<close>

text \<open>
  On the little-endian host both \<^verbatim>\<open>boost::endian::native_to_big\<close> and
  \<^verbatim>\<open>boost::endian::big_to_native\<close> reverse the bytes of the value.
\<close>

definition swap16 :: "u16 \<Rightarrow> u16" where
  "swap16 w = of_le (rev (le_bytes 2 w))"

definition swap32 :: "u32 \<Rightarrow> u32" where
  "swap32 w = of_le (rev (le_bytes 4 w))"

definition swap64 :: "u64 \<Rightarrow> u64" where
  "swap64 w = of_le (rev (le_bytes 8 w))"

lemma le_bytes_swap:
  "le_bytes 2 (swap16 a) = rev (le_bytes 2 a)"
  "le_bytes 4 (swap32 b) = rev (le_bytes 4 b)"
  "le_bytes 8 (swap64 c) = rev (le_bytes 8 c)"
  by (simp_all add: swap16_def swap32_def swap64_def le_bytes_of_le_length)

lemma swap_swap [simp]:
  "swap16 (swap16 a) = a" "swap32 (swap32 b) = b" "swap64 (swap64 c) = c"
proof -
  show "swap16 (swap16 a) = a"
    by (subst swap16_def) (simp add: of_le_le_bytes le_bytes_swap)
  show "swap32 (swap32 b) = b"
    by (subst swap32_def) (simp add: of_le_le_bytes le_bytes_swap)
  show "swap64 (swap64 c) = c"
    by (subst swap64_def) (simp add: of_le_le_bytes le_bytes_swap)
qed

lemma swap_eq_iff [simp]:
  "swap16 a = swap16 a' \<longleftrightarrow> a = a'"
  "swap32 b = swap32 b' \<longleftrightarrow> b = b'"
  "swap64 c = swap64 c' \<longleftrightarrow> c = c'"
  by (metis swap_swap)+

section \<open>Reading fields of a packed struct\<close>

text \<open>The image of a one-byte field, and the field of the given width at a byte offset.\<close>

definition byte1 :: "byte \<Rightarrow> byte list" where
  "byte1 b = [b]"

lemma length_byte1 [simp]: "length (byte1 b) = 1"
  by (simp add: byte1_def)

definition u8_at :: "nat \<Rightarrow> byte list \<Rightarrow> byte" where
  "u8_at i m = of_le (take 1 (drop i m))"

definition u16_at :: "nat \<Rightarrow> byte list \<Rightarrow> u16" where
  "u16_at i m = of_le (take 2 (drop i m))"

definition u32_at :: "nat \<Rightarrow> byte list \<Rightarrow> u32" where
  "u32_at i m = of_le (take 4 (drop i m))"

definition u64_at :: "nat \<Rightarrow> byte list \<Rightarrow> u64" where
  "u64_at i m = of_le (take 8 (drop i m))"

definition arr_at :: "nat \<Rightarrow> nat \<Rightarrow> byte list \<Rightarrow> byte list" where
  "arr_at i n m = take n (drop i m)"

lemmas at_defs = u8_at_def u16_at_def u32_at_def u64_at_def arr_at_def

lemma at_skip:
  "length xs \<le> i \<Longrightarrow> u8_at i (xs @ r) = u8_at (i - length xs) r"
  "length xs \<le> i \<Longrightarrow> u16_at i (xs @ r) = u16_at (i - length xs) r"
  "length xs \<le> i \<Longrightarrow> u32_at i (xs @ r) = u32_at (i - length xs) r"
  "length xs \<le> i \<Longrightarrow> u64_at i (xs @ r) = u64_at (i - length xs) r"
  "length xs \<le> i \<Longrightarrow> arr_at i n (xs @ r) = arr_at (i - length xs) n r"
  by (simp_all add: at_defs)

lemma at_here:
  "u8_at 0 (byte1 w @ r) = w"
  "u16_at 0 (le_bytes 2 w2 @ r) = w2"
  "u32_at 0 (le_bytes 4 w4 @ r) = w4"
  "u64_at 0 (le_bytes 8 w8 @ r) = w8"
  "length xs = n \<Longrightarrow> arr_at 0 n (xs @ r) = xs"
  using of_le_le_bytes [of 2 w2] of_le_le_bytes [of 4 w4] of_le_le_bytes [of 8 w8]
  by (simp_all add: at_defs byte1_def)

lemma at_here_exact:
  "u8_at 0 (byte1 w) = w"
  "u16_at 0 (le_bytes 2 w2) = w2"
  "u32_at 0 (le_bytes 4 w4) = w4"
  "u64_at 0 (le_bytes 8 w8) = w8"
  "length xs = n \<Longrightarrow> arr_at 0 n xs = xs"
  using at_here(1-4) [where r = "[]"] by (simp_all add: arr_at_def)

lemma length_arr_at: "i + n \<le> length m \<Longrightarrow> length (arr_at i n m) = n"
  by (simp add: arr_at_def)

lemma bytes_of_at:
  "i + 1 \<le> length m \<Longrightarrow> byte1 (u8_at i m) = take 1 (drop i m)"
  "i + 2 \<le> length m \<Longrightarrow> le_bytes 2 (u16_at i m) = take 2 (drop i m)"
  "i + 4 \<le> length m \<Longrightarrow> le_bytes 4 (u32_at i m) = take 4 (drop i m)"
  "i + 8 \<le> length m \<Longrightarrow> le_bytes 8 (u64_at i m) = take 8 (drop i m)"
  "arr_at i n m = take n (drop i m)"
proof -
  show "i + 1 \<le> length m \<Longrightarrow> byte1 (u8_at i m) = take 1 (drop i m)"
    by (cases "drop i m") (auto simp: byte1_def u8_at_def)
qed (simp_all add: at_defs le_bytes_of_le_length)

lemma take_join:
  "j = a \<Longrightarrow> take a m @ take b (drop j m) = take (a + b) m"
  "j = a \<Longrightarrow> take a m @ take b (drop j m) @ r = take (a + b) m @ r"
  by (simp_all add: take_add)

lemmas struct_proof = at_skip at_here bytes_of_at take_join

section \<open>The packed-struct interface\<close>

text \<open>
  \<open>size_of\<close> is \<^verbatim>\<open>sizeof\<close>, \<open>bytes\<close> the memory image of a value, \<open>at\<close> the value a
  \<^verbatim>\<open>reinterpret_cast\<close> of a memory block gives, \<open>ok\<close> says that every
  character array of the value has its declared length.
\<close>

locale packed_struct =
  fixes size_of :: nat
    and bytes :: "'a \<Rightarrow> byte list"
    and at :: "byte list \<Rightarrow> 'a"
    and ok :: "'a \<Rightarrow> bool"
  assumes length_bytes: "ok x \<Longrightarrow> length (bytes x) = size_of"
    and at_bytes: "ok x \<Longrightarrow> at (bytes x @ r) = x"
    and bytes_at: "size_of \<le> length m \<Longrightarrow> bytes (at m) = take size_of m"
    and ok_at: "size_of \<le> length m \<Longrightarrow> ok (at m)"
begin

lemma at_bytes_exact: "ok x \<Longrightarrow> at (bytes x) = x"
  using at_bytes [of x "[]"] by simp

lemma bytes_inject: "ok x \<Longrightarrow> ok y \<Longrightarrow> bytes x = bytes y \<longleftrightarrow> x = y"
  by (metis at_bytes_exact)

lemma at_take: "size_of \<le> length m \<Longrightarrow> at (take size_of m) = at m"
  by (metis at_bytes_exact bytes_at ok_at)

lemma at_cong:
  "size_of \<le> length m \<Longrightarrow> size_of \<le> length m' \<Longrightarrow> at m = at m' \<longleftrightarrow> take size_of m = take size_of m'"
  by (metis at_take bytes_at)

lemma at_surj: "ok x \<Longrightarrow> \<exists>m. length m = size_of \<and> at m = x"
  by (metis at_bytes_exact length_bytes)

end

text \<open>Reading and overwriting a struct at the start of a memory block, with its bounds.\<close>

definition read_struct :: "nat \<Rightarrow> (byte list \<Rightarrow> 'a) \<Rightarrow> byte list \<Rightarrow> 'a result" where
  "read_struct n at_fun m = (if length m < n then Inl OutOfBounds else Inr (at_fun m))"

definition write_struct :: "byte list \<Rightarrow> byte list \<Rightarrow> byte list" where
  "write_struct bs m = bs @ drop (length bs) m"

lemma length_write_struct: "length bs \<le> length m \<Longrightarrow> length (write_struct bs m) = length m"
  by (simp add: write_struct_def)

lemma read_struct_Inr:
  "read_struct n f m = Inr x \<longleftrightarrow> n \<le> length m \<and> x = f m"
  by (auto simp: read_struct_def)

section \<open>C library helpers\<close>

text \<open>
  \<^verbatim>\<open>strncpy(dst, src, n)\<close>: the bytes of \<open>src\<close> up to its first NUL, at most \<open>n\<close>,
  padded with NUL to \<open>n\<close>.
\<close>

definition strncpy :: "nat \<Rightarrow> byte list \<Rightarrow> byte list" where
  "strncpy n src = (let s = takeWhile (\<lambda>b. b \<noteq> 0) (take n src) in s @ replicate (n - length s) 0)"

lemma length_strncpy [simp]: "length (strncpy n src) = n"
proof -
  have "length (takeWhile (\<lambda>b. b \<noteq> 0) (take n src)) \<le> n"
    by (metis length_takeWhile_le length_take min.cobounded2 order_trans)
  then show ?thesis by (simp add: strncpy_def Let_def)
qed

lemma takeWhile_all: "\<forall>x\<in>set xs. P x \<Longrightarrow> takeWhile P xs = xs"
  by (induction xs) auto

lemma strncpy_no_nul:
  assumes "length src = n" and "0 \<notin> set src"
  shows "strncpy n src = src"
proof -
  have "\<forall>x\<in>set src. x \<noteq> 0" using assms(2) by metis
  with assms(1) show ?thesis
    by (simp add: strncpy_def Let_def takeWhile_all)
qed

text \<open>
  \<^verbatim>\<open>strcpy(dst, src)\<close> into a buffer of \<open>n\<close> bytes whose old contents are \<open>old\<close>: the
  string, its NUL, and what was there before.
\<close>

definition strcpy_into :: "byte list \<Rightarrow> string \<Rightarrow> byte list" where
  "strcpy_into old s = (let t = bytes_of_string s @ [0] in t @ drop (length t) old)"

lemma length_strcpy_into:
  "length s < length old \<Longrightarrow> length (strcpy_into old s) = length old"
  by (simp add: strcpy_into_def Let_def bytes_of_string_def)

text \<open>A number in decimal digits, as \<^verbatim>\<open>std::to_string\<close> and \<^verbatim>\<open>printf\<close> write it.\<close>

fun decimal :: "nat \<Rightarrow> byte list" where
  "decimal n = (if n < 10 then [48 + of_nat n] else decimal (n div 10) @ [48 + of_nat (n mod 10)])"

declare decimal.simps [simp del]

text \<open>A decimal numeral is never empty and fits the field for an unsigned int.\<close>

lemma length_decimal: "n < 10 ^ Suc k \<Longrightarrow> length (decimal n) \<le> Suc k"
proof (induction k arbitrary: n)
  case 0
  then show ?case by (subst decimal.simps) simp
next
  case (Suc k)
  have "n div 10 < 10 ^ Suc k" using Suc.prems by (simp add: less_mult_imp_div_less mult.commute)
  from Suc.IH [OF this] show ?case by (subst decimal.simps) simp
qed

lemma length_decimal_u32: "length (decimal (unat (w :: u32))) \<le> 10"
proof -
  have "unat w < 2 ^ LENGTH(32)" by (rule unsigned_less)
  then have "unat w < 10 ^ Suc 9" by simp
  then have "length (decimal (unat w)) \<le> Suc 9" by (rule length_decimal)
  then show ?thesis by simp
qed

section \<open>Hash tables as association lists\<close>

text \<open>
  A \<^verbatim>\<open>std::unordered_map\<close> is an association list with distinct keys:
  \<^verbatim>\<open>find\<close> is \<^const>\<open>map_of\<close>, assignment through \<^verbatim>\<open>operator[]\<close> is
  \<^const>\<open>AList.update\<close>, \<^verbatim>\<open>erase\<close> is \<^const>\<open>AList.delete\<close>. The order in which a loop
  visits the table is unspecified in C++: a loop here runs over \<open>visit rank m\<close>, the table
  sorted by a rank that the environment chooses, so every order is possible.
\<close>

definition visit :: "('k \<Rightarrow> nat) \<Rightarrow> ('k \<times> 'v) list \<Rightarrow> ('k \<times> 'v) list" where
  "visit rank m = sort_key (\<lambda>p. rank (fst p)) m"

definition keys :: "('k \<times> 'v) list \<Rightarrow> 'k list" where
  "keys m = List.map fst m"

definition erase_all :: "'k list \<Rightarrow> ('k \<times> 'v) list \<Rightarrow> ('k \<times> 'v) list" where
  "erase_all ks m = foldl (\<lambda>m k. AList.delete k m) m ks"

text \<open>\<^verbatim>\<open>swap(m[k1], m[k2])\<close> when both keys are present.\<close>

definition swap_entries ::
    "'k \<Rightarrow> 'k \<Rightarrow> ('k \<times> 'v) list \<Rightarrow> ('k \<times> 'v) list" where
  "swap_entries k1 k2 m =
     (case (map_of m k1, map_of m k2) of
        (Some v1, Some v2) \<Rightarrow> AList.update k2 v1 (AList.update k1 v2 m)
      | _ \<Rightarrow> m)"

lemma set_visit [simp]: "set (visit rank m) = set m"
  by (simp add: visit_def)

lemma length_visit [simp]: "length (visit rank m) = length m"
  by (simp add: visit_def)

lemma distinct_keys_visit [simp]: "distinct (keys (visit rank m)) = distinct (keys m)"
proof -
  have "mset (keys (visit rank m)) = mset (keys m)"
    by (simp add: keys_def visit_def)
  then show ?thesis by (metis mset_eq_imp_distinct_iff)
qed

lemma erase_all_simps [simp]:
  "erase_all [] m = m"
  "erase_all (k # ks) m = erase_all ks (AList.delete k m)"
  by (simp_all add: erase_all_def)

lemma map_of_erase_all: "map_of (erase_all ks m) k = (if k \<in> set ks then None else map_of m k)"
  by (induction ks arbitrary: m) (auto simp: delete_conv)

lemma set_erase_all: "set (erase_all ks m) = {p \<in> set m. fst p \<notin> set ks}"
  by (induction ks arbitrary: m) (auto simp: AList.delete_eq)

lemma distinct_keys_update [simp]: "distinct (keys (AList.update k v m)) = distinct (keys m)"
  unfolding keys_def
proof
  assume "distinct (List.map fst m)"
  then show "distinct (List.map fst (AList.update k v m))" by (rule distinct_update)
next
  show "distinct (List.map fst (AList.update k v m)) \<Longrightarrow> distinct (List.map fst m)"
    by (induction m) (auto simp: update_keys split: if_splits)
qed

lemma distinct_keys_delete: "distinct (keys m) \<Longrightarrow> distinct (keys (AList.delete k m))"
  by (simp add: keys_def distinct_delete)

lemma distinct_keys_erase_all: "distinct (keys m) \<Longrightarrow> distinct (keys (erase_all ks m))"
  by (induction ks arbitrary: m) (auto simp: distinct_keys_delete)

lemma map_of_update [simp]: "map_of (AList.update k v m) = (map_of m)(k \<mapsto> v)"
  by (simp add: update_conv')

lemma map_of_delete [simp]: "map_of (AList.delete k m) = (map_of m)(k := None)"
  by (simp add: delete_conv')

lemma map_of_in_set: "distinct (keys m) \<Longrightarrow> (k, v) \<in> set m \<longleftrightarrow> map_of m k = Some v"
  by (simp add: keys_def)

lemma map_of_swap_entries:
  assumes "map_of m k1 = Some v1" and "map_of m k2 = Some v2"
  shows "map_of (swap_entries k1 k2 m) = (map_of m)(k1 \<mapsto> v2, k2 \<mapsto> v1)"
  using assms by (simp add: swap_entries_def)

lemma distinct_keys_swap_entries [simp]:
  "distinct (keys (swap_entries k1 k2 m)) = distinct (keys m)"
  by (simp add: swap_entries_def split: option.splits)

end
