(* ===== verification/World.thy ===== *)
theory World
  imports Prelude
begin

text \<open>
  What the program takes from its environment: the clocks, \<^verbatim>\<open>rand()\<close>, the contents of
  uninitialised memory, the order in which a hash table is visited and local midnight. Each is a
  sequence of answers with a counter of the answers already used, so a run is a function of the
  world it starts in and every theorem speaks about all environments. The warnings written to the
  log are kept as pairs of the literal text and the packet printed after it.
\<close>

record world =
  w_time :: "nat \<Rightarrow> int"
  w_clock :: "nat \<Rightarrow> int"
  w_nano :: "nat \<Rightarrow> int"
  w_rand :: "nat \<Rightarrow> 31 word"
  w_stack :: "nat \<Rightarrow> nat \<Rightarrow> byte"
  w_rank :: "nat \<Rightarrow> byte list \<Rightarrow> nat"
  w_midnight :: "int \<Rightarrow> int"
  n_time :: nat
  n_clock :: nat
  n_nano :: nat
  n_rand :: nat
  n_stack :: nat
  n_rank :: nat
  w_log :: "(string \<times> byte list) list"

text \<open>\<^verbatim>\<open>time(NULL)\<close>, in seconds, and \<^verbatim>\<open>clock()\<close>, in processor ticks.\<close>

definition time_NULL :: "'w world_scheme \<Rightarrow> int \<times> 'w world_scheme" where
  "time_NULL w = (w_time w (n_time w), w\<lparr>n_time := Suc (n_time w)\<rparr>)"

definition clock_ticks :: "'w world_scheme \<Rightarrow> int \<times> 'w world_scheme" where
  "clock_ticks w = (w_clock w (n_clock w), w\<lparr>n_clock := Suc (n_clock w)\<rparr>)"

text \<open>\<^verbatim>\<open>chrono::system_clock::now()\<close> in nanoseconds since the epoch.\<close>

definition clock_now :: "'w world_scheme \<Rightarrow> int \<times> 'w world_scheme" where
  "clock_now w = (w_nano w (n_nano w), w\<lparr>n_nano := Suc (n_nano w)\<rparr>)"

text \<open>\<^verbatim>\<open>rand()\<close>: between 0 and \<^verbatim>\<open>RAND_MAX\<close> = 2147483647.\<close>

definition rand_int :: "'w world_scheme \<Rightarrow> int \<times> 'w world_scheme" where
  "rand_int w = (uint (w_rand w (n_rand w)), w\<lparr>n_rand := Suc (n_rand w)\<rparr>)"

text \<open>The bytes found in \<open>n\<close> bytes of memory that nothing has initialised.\<close>

definition uninit :: "nat \<Rightarrow> 'w world_scheme \<Rightarrow> byte list \<times> 'w world_scheme" where
  "uninit n w = (List.map (w_stack w (n_stack w)) [0..<n], w\<lparr>n_stack := Suc (n_stack w)\<rparr>)"

text \<open>The visiting order of the next loop over a hash table.\<close>

definition next_rank :: "'w world_scheme \<Rightarrow> (byte list \<Rightarrow> nat) \<times> 'w world_scheme" where
  "next_rank w = (w_rank w (n_rank w), w\<lparr>n_rank := Suc (n_rank w)\<rparr>)"

definition log_warning :: "string \<Rightarrow> byte list \<Rightarrow> 'w world_scheme \<Rightarrow> 'w world_scheme" where
  "log_warning txt packet w = w\<lparr>w_log := w_log w @ [(txt, packet)]\<rparr>"

lemmas draw_defs = time_NULL_def clock_ticks_def clock_now_def rand_int_def uninit_def
  next_rank_def

lemma rand_int_bounds:
  "0 \<le> fst (rand_int w)" "fst (rand_int w) \<le> 2147483647"
proof -
  have "uint (w_rand w (n_rand w)) < 2 ^ LENGTH(31)" by (rule uint_lt2p)
  then show "fst (rand_int w) \<le> 2147483647" by (simp add: rand_int_def)
qed (simp add: rand_int_def)

lemma length_uninit [simp]: "length (fst (uninit n w)) = n"
  by (simp add: uninit_def)

section \<open>Conversions between C++ integer types\<close>

text \<open>Signed 64-bit and 32-bit values are integers; narrowing wraps as on every C++ target.\<close>

definition to_int32 :: "int \<Rightarrow> int" where
  "to_int32 x = sint (word_of_int x :: u32)"

definition to_uint32 :: "int \<Rightarrow> u32" where
  "to_uint32 x = word_of_int x"

definition to_uint64 :: "int \<Rightarrow> u64" where
  "to_uint64 x = word_of_int x"

lemma to_int32_id: "- (2 ^ 31) \<le> x \<Longrightarrow> x < 2 ^ 31 \<Longrightarrow> to_int32 x = x"
  by (simp add: to_int32_def signed_of_int signed_take_bit_int_eq_self)

lemma uint_to_uint32: "0 \<le> x \<Longrightarrow> x < 2 ^ 32 \<Longrightarrow> uint (to_uint32 x) = x"
  by (simp add: to_uint32_def word_of_int_inverse)

lemma uint_u32_bounds: "0 \<le> uint (w :: u32)" "uint (w :: u32) < 4294967296"
  using uint_lt2p [of w] by simp_all

text \<open>\<^verbatim>\<open>rand() * rand()\<close> stored in a \<^verbatim>\<open>uint64_t\<close>: the product is an \<^verbatim>\<open>int\<close>
  (it overflows for most draws; the wrapped value is taken) and is then sign-extended.\<close>

definition rand_times_rand :: "'w world_scheme \<Rightarrow> u64 \<times> 'w world_scheme" where
  "rand_times_rand w =
     (let (a, w1) = rand_int w; (b, w2) = rand_int w1
      in (to_uint64 (to_int32 (a * b)), w2))"

end
