(* ===== verification/BehaviorManager.thy ===== *)
theory BehaviorManager
  imports World
begin

text \<open>
  \<^verbatim>\<open>behavior_manager.h\<close> and \<^verbatim>\<open>behavior_manager.cpp\<close>: the three behaviour objects the
  manager owns, the pointer it keeps for each action, the forced execution quantity and the
  administrator commands that change them. The manager extends the world, because a random
  behaviour draws from \<^verbatim>\<open>rand()\<close>; the extended record \<open>env\<close> is what both sessions share.
  The seven equally shaped fields and methods of each class (one per action) are one function
  of the action.
\<close>

section \<open>Doubles between 0 and 1\<close>

text \<open>
  A probability is an IEEE double. A finite one is \<open>m * 2 ^ e\<close>; only the operations the code
  applies to it are modelled: multiplication by 100 (rounded to nearest even at 53 bits) and
  comparison with an integer.
\<close>

datatype dbl = NaN | Infinite bool | Finite int int

fun bit_length :: "nat \<Rightarrow> nat" where
  "bit_length n = (if n = 0 then 0 else Suc (bit_length (n div 2)))"

declare bit_length.simps [simp del]

definition round53 :: "int \<Rightarrow> int \<Rightarrow> dbl" where
  "round53 m e =
     (let k = bit_length (nat \<bar>m\<bar>) - 53 in
      if k = 0 then Finite m e
      else let q = \<bar>m\<bar> div 2 ^ k; r = \<bar>m\<bar> mod 2 ^ k; half = 2 ^ (k - 1);
               q' = (if r > half \<or> r = half \<and> odd q then q + 1 else q)
           in Finite (sgn m * q') (e + int k))"

fun dbl_times_100 :: "dbl \<Rightarrow> dbl" where
  "dbl_times_100 NaN = NaN"
| "dbl_times_100 (Infinite s) = Infinite s"
| "dbl_times_100 (Finite m e) = round53 (100 * m) e"

text \<open>\<^verbatim>\<open>i < x\<close> and \<^verbatim>\<open>x < i\<close> for an integer \<open>i\<close>; every comparison with NaN is false.\<close>

fun int_less_dbl :: "int \<Rightarrow> dbl \<Rightarrow> bool" where
  "int_less_dbl i NaN = False"
| "int_less_dbl i (Infinite neg) = (\<not> neg)"
| "int_less_dbl i (Finite m e) =
     (if 0 \<le> e then i < m * 2 ^ nat e else i * 2 ^ nat (- e) < m)"

fun dbl_less_int :: "dbl \<Rightarrow> int \<Rightarrow> bool" where
  "dbl_less_int NaN i = False"
| "dbl_less_int (Infinite neg) i = neg"
| "dbl_less_int (Finite m e) i =
     (if 0 \<le> e then m * 2 ^ nat e < i else m < i * 2 ^ nat (- e))"

section \<open>The manager's state\<close>

datatype action =
    Login | Logout | New_order | Modify_order | Replace_order | Cancel_order | Execution

datatype behavior_object = DefaultBehavior | RandomBehavior | CountBehavior

record env = world +
  cb_times :: "action \<Rightarrow> int"
  rb_prob :: "action \<Rightarrow> dbl"
  behavior :: "action \<Rightarrow> behavior_object"
  exe_qty :: int

text \<open>The initial values of the members, and what the constructor leaves.\<close>

definition reset_to_default :: "env \<Rightarrow> env" where
  "reset_to_default e = e\<lparr>behavior := (\<lambda>_. DefaultBehavior)\<rparr>"

definition new_BehaviorManager :: "world \<Rightarrow> env" where
  "new_BehaviorManager w = reset_to_default
     (world.extend w (env.fields (\<lambda>_. 0) (\<lambda>_. Finite 1 0) (\<lambda>_. DefaultBehavior) (- 1)))"

section \<open>Asking the manager\<close>

definition default_behavior :: "action \<Rightarrow> env \<Rightarrow> bool \<times> env" where
  "default_behavior a e = (True, e)"

definition random_behavior :: "action \<Rightarrow> env \<Rightarrow> bool \<times> env" where
  "random_behavior a e =
     (let (r, e1) = rand_int e in (int_less_dbl (r mod 100) (dbl_times_100 (rb_prob e1 a)), e1))"

definition count_behavior :: "action \<Rightarrow> env \<Rightarrow> bool \<times> env" where
  "count_behavior a e =
     (if cb_times e a > 0 then (True, e\<lparr>cb_times := (cb_times e)(a := cb_times e a - 1)\<rparr>)
      else (False, e))"

text \<open>\<^verbatim>\<open>login()\<close>, \<^verbatim>\<open>new_order()\<close>, ... : the call through the action's pointer.\<close>

definition bm_allows :: "action \<Rightarrow> env \<Rightarrow> bool \<times> env" where
  "bm_allows a e =
     (case behavior e a of
        DefaultBehavior \<Rightarrow> default_behavior a e
      | RandomBehavior \<Rightarrow> random_behavior a e
      | CountBehavior \<Rightarrow> count_behavior a e)"

definition execution_qty :: "env \<Rightarrow> int \<times> env" where
  "execution_qty e = (if exe_qty e = - 1 then (- 1, e) else (exe_qty e, e\<lparr>exe_qty := 0\<rparr>))"

section \<open>Administrator commands\<close>

text \<open>
  The response stream is the list of the items inserted into it: how a number is printed is
  left to the stream.
\<close>

datatype out_item = Str string | IntV int | DblV dbl | Endl

record admin_context =
  args :: "string list"
  response :: "out_item list"

definition say :: "out_item list \<Rightarrow> admin_context \<Rightarrow> admin_context" where
  "say items c = c\<lparr>response := response c @ items\<rparr>"

definition say_line :: "string \<Rightarrow> admin_context \<Rightarrow> admin_context" where
  "say_line s = say [Str s, Endl]"

text \<open>The action names the commands accept.\<close>

definition action_of :: "string \<Rightarrow> action option" where
  "action_of s =
     (if s = ''login'' then Some Login
      else if s = ''logout'' then Some Logout
      else if s = ''new_order'' then Some New_order
      else if s = ''modify_order'' then Some Modify_order
      else if s = ''replace_order'' then Some Replace_order
      else if s = ''cancel_order'' then Some Cancel_order
      else if s = ''execution'' then Some Execution
      else None)"

text \<open>
  \<^verbatim>\<open>std::stoi\<close>: white space, an optional sign, decimal digits, anything after them; no digits
  or a value outside \<^verbatim>\<open>int\<close> throws (\<open>None\<close>).
\<close>

definition is_space :: "char \<Rightarrow> bool" where
  "is_space c \<longleftrightarrow> c = CHR '' '' \<or> c = CHR 0x09 \<or> c = CHR 0x0A \<or> c = CHR 0x0B \<or> c = CHR 0x0C
     \<or> c = CHR 0x0D"

definition is_digit :: "char \<Rightarrow> bool" where
  "is_digit c \<longleftrightarrow> 48 \<le> (of_char c :: nat) \<and> (of_char c :: nat) \<le> 57"

definition digits_value :: "string \<Rightarrow> int" where
  "digits_value ds = foldl (\<lambda>v c. 10 * v + (of_char c - 48)) 0 ds"

definition stoi :: "string \<Rightarrow> int option" where
  "stoi s =
     (let t = dropWhile is_space s;
          (neg, u) = (case t of
             [] \<Rightarrow> (False, [])
           | c # cs \<Rightarrow> if c = CHR ''-'' then (True, cs) else if c = CHR ''+'' then (False, cs)
                      else (False, t));
          ds = takeWhile is_digit u;
          v = (if neg then - digits_value ds else digits_value ds)
      in if ds = [] \<or> v < - 2147483648 \<or> 2147483647 < v then None else Some v)"

definition bm_reset :: "admin_context \<Rightarrow> env \<Rightarrow> admin_context \<times> env" where
  "bm_reset c e = (say_line ''all set to default'' c, reset_to_default e)"

definition point_to :: "behavior_object \<Rightarrow> action \<Rightarrow> env \<Rightarrow> env" where
  "point_to b a e =
     (let e1 = e\<lparr>behavior := (behavior e)(a := b)\<rparr>
      in if a = Execution then e1\<lparr>exe_qty := - 1\<rparr> else e1)"

definition set_to_default :: "admin_context \<Rightarrow> env \<Rightarrow> admin_context \<times> env" where
  "set_to_default c e =
     (if length (args c) \<noteq> 2 then (say_line ''need two parameters to set to default'' c, e)
      else case action_of (args c ! 1) of
        None \<Rightarrow> (say_line ''invalid parameters'' c, e)
      | Some a \<Rightarrow>
          (say [Str (args c ! 1), Str '' set to default'', Endl] c, point_to DefaultBehavior a e))"

definition set_count :: "admin_context \<Rightarrow> env \<Rightarrow> admin_context \<times> env" where
  "set_count c e =
     (if length (args c) \<noteq> 3 then (say_line ''need three parameters'' c, e)
      else case stoi (args c ! 2) of
        None \<Rightarrow> (say_line ''need a integer parameter > 0'' (say_line ''failed'' c),
                 log_warning ''stoi'' [] e)
      | Some x \<Rightarrow>
          if x < 0 then (say_line ''need a integer parameter > 0'' c, e)
          else case action_of (args c ! 1) of
            None \<Rightarrow> (say_line ''invalid parameters'' c, e)
          | Some a \<Rightarrow>
              (say [Str (args c ! 1), Str '' '', Str (args c ! 2), Str '' times'', Endl] c,
               point_to CountBehavior a (e\<lparr>cb_times := (cb_times e)(a := x)\<rparr>)))"

text \<open>\<^verbatim>\<open>std::stod\<close> is the parameter \<open>stod\<close> of the command that parses a probability.\<close>

definition set_random ::
    "(string \<Rightarrow> dbl option) \<Rightarrow> admin_context \<Rightarrow> env \<Rightarrow> admin_context \<times> env" where
  "set_random stod c e =
     (if length (args c) \<noteq> 3 then (say_line ''need three parameters'' c, e)
      else case stod (args c ! 2) of
        None \<Rightarrow> (say_line ''need a prob parameter (0<=x<=1)'' (say_line ''failed'' c),
                 log_warning ''stod'' [] e)
      | Some x \<Rightarrow>
          if dbl_less_int x 0 \<or> int_less_dbl 1 x
          then (say_line ''need a prob parameter (0<=x<=1)'' c, e)
          else case action_of (args c ! 1) of
            None \<Rightarrow> (say_line ''invalid parameters'' c, e)
          | Some a \<Rightarrow>
              (say [Str (args c ! 1), Str '' set to random, prob='', DblV x, Endl] c,
               point_to RandomBehavior a (e\<lparr>rb_prob := (rb_prob e)(a := x)\<rparr>)))"

definition set_execution_qty :: "admin_context \<Rightarrow> env \<Rightarrow> admin_context \<times> env" where
  "set_execution_qty c e =
     (if length (args c) \<noteq> 1 then (say_line ''need a integer qty > 0'' c, e)
      else case stoi (args c ! 0) of
        None \<Rightarrow> (say_line ''failed'' c, log_warning ''stoi'' [] e)
      | Some qty \<Rightarrow>
          if qty \<le> 0 then (say_line ''need a integer qty > 0'' c, e)
          else (say [Str ''execution qty='', IntV qty, Endl] c,
                e\<lparr>behavior := (behavior e)(Execution := DefaultBehavior), exe_qty := qty\<rparr>))"

definition set_action ::
    "(string \<Rightarrow> dbl option) \<Rightarrow> admin_context \<Rightarrow> env \<Rightarrow> admin_context \<times> env" where
  "set_action stod c e =
     (case args c of
        [] \<Rightarrow> (say_line ''need at least one parameter'' c, e)
      | w # _ \<Rightarrow>
          if w = ''reset'' then bm_reset c e
          else if w = ''default'' then set_to_default c e
          else if w = ''count'' then set_count c e
          else if w = ''random'' then set_random stod c e
          else (say_line ''unsupported action'' c, e))"

end
