(* ===== verification/Session.thy ===== *)
theory Session
  imports BehaviorManager
begin

text \<open>
  The base class \<^verbatim>\<open>session\<close> of \<^verbatim>\<open>session.h\<close>: its members as a record that both protocol
  sessions extend, and its non-virtual operations. The pointer \<^verbatim>\<open>_behavior\<close> is the field
  \<open>s_env\<close>, the manager and world the session runs in; a simulator with two sessions hands the
  same \<open>env\<close> to whichever session runs.
\<close>

definition NotLoggedIn :: byte where
  "NotLoggedIn = ch CHR ''N''"

definition LoggedIn :: byte where
  "LoggedIn = ch CHR ''L''"

lemma LoggedIn_neq [simp]: "LoggedIn \<noteq> NotLoggedIn" "NotLoggedIn \<noteq> LoggedIn"
  by (simp_all add: LoggedIn_def NotLoggedIn_def ch_def)

record session =
  s_env :: env
  pending_out_messages :: "byte list list"
  last_send_heartbeat :: int
  last_recv_heartbeat :: int
  session_state :: byte
  logger_set :: bool

text \<open>Run an operation of the environment inside a session.\<close>

definition on_env :: "(env \<Rightarrow> 'a \<times> env) \<Rightarrow> 's session_scheme \<Rightarrow> 'a \<times> 's session_scheme" where
  "on_env f s = (let (x, e) = f (s_env s) in (x, s\<lparr>s_env := e\<rparr>))"

definition post :: "byte list \<Rightarrow> 's session_scheme \<Rightarrow> 's session_scheme" where
  "post packet s = s\<lparr>pending_out_messages := pending_out_messages s @ [packet]\<rparr>"

definition disconnect :: "'s session_scheme \<Rightarrow> 's session_scheme" where
  "disconnect s = s\<lparr>session_state := NotLoggedIn\<rparr>"

definition set_logger :: "'s session_scheme \<Rightarrow> 's session_scheme" where
  "set_logger s = s\<lparr>logger_set := True\<rparr>"

definition warn :: "string \<Rightarrow> byte list \<Rightarrow> 's session_scheme \<Rightarrow> 's session_scheme" where
  "warn txt packet s = s\<lparr>s_env := log_warning txt packet (s_env s)\<rparr>"

text \<open>
  \<^verbatim>\<open>heartbeat_logic()\<close>, the same in both sessions but for the packet: the clock is read
  before the login state is tested and once more when a heartbeat is due.
\<close>

definition heartbeat_with ::
    "('s session_scheme \<Rightarrow> 's session_scheme) \<Rightarrow> 's session_scheme \<Rightarrow> 's session_scheme" where
  "heartbeat_with send s =
     (let (t, s1) = on_env time_NULL s; second = t - last_send_heartbeat s1
      in if session_state s1 = NotLoggedIn then s1
         else if second \<ge> 1
         then let (t2, s2) = on_env time_NULL s1 in send (s2\<lparr>last_send_heartbeat := t2\<rparr>)
         else s1)"

section \<open>Frame facts\<close>

lemma on_env_frame:
  assumes "on_env f s = (x, s')"
  shows "s' = s\<lparr>s_env := s_env s'\<rparr>"
  using assms by (auto simp: on_env_def split: prod.splits)

lemma on_env_result:
  "on_env f s = (fst (f (s_env s)), s\<lparr>s_env := snd (f (s_env s))\<rparr>)"
  by (simp add: on_env_def split: prod.splits)

lemma post_sel [simp]:
  "pending_out_messages (post p s) = pending_out_messages s @ [p]"
  "s_env (post p s) = s_env s"
  "last_send_heartbeat (post p s) = last_send_heartbeat s"
  "last_recv_heartbeat (post p s) = last_recv_heartbeat s"
  "session_state (post p s) = session_state s"
  "logger_set (post p s) = logger_set s"
  by (simp_all add: post_def)

lemma bm_allows_frame:
  assumes "bm_allows a e = (b, e')"
  shows "\<exists>r t. e' = e\<lparr>n_rand := r, cb_times := t\<rparr>"
proof -
  have self: "\<exists>r t. e = e\<lparr>n_rand := r, cb_times := t\<rparr>"
    by (rule exI [of _ "n_rand e"], rule exI [of _ "cb_times e"]) simp
  show ?thesis
  proof (cases "behavior e a")
    case DefaultBehavior
    with assms self show ?thesis by (simp add: bm_allows_def default_behavior_def)
  next
    case RandomBehavior
    then have "e' = e\<lparr>n_rand := Suc (n_rand e), cb_times := cb_times e\<rparr>"
      using assms by (auto simp: bm_allows_def random_behavior_def rand_int_def)
    then show ?thesis by blast
  next
    case CountBehavior
    show ?thesis
    proof (cases "cb_times e a > 0")
      case True
      with CountBehavior assms
      have "e' = e\<lparr>n_rand := n_rand e, cb_times := (cb_times e)(a := cb_times e a - 1)\<rparr>"
        by (auto simp: bm_allows_def count_behavior_def)
      then show ?thesis by blast
    next
      case False
      with CountBehavior assms self show ?thesis
        by (simp add: bm_allows_def count_behavior_def)
    qed
  qed
qed

end
