(* ===== verification/OuchMessages.thy ===== *)
theory OuchMessages
  imports Prelude
begin

text \<open>
  The messages of \<^verbatim>\<open>ouch_messages.h\<close>: the enumerations with the byte each enumerator stands for,
  and every packed struct the session reads or sends. For a struct \<open>X\<close>,
  \<open>ouch_X\<close> is the record of its fields (host values), \<open>ouch_X_bytes\<close> its memory image,
  \<open>ouch_X_at\<close> the value found at the start of a memory block by a \<^verbatim>\<open>reinterpret_cast\<close>,
  \<open>new_ouch_X g\<close> its constructor run on uninitialised memory \<open>g\<close>, and
  \<open>ouch_X_to_network\<close> or \<open>ouch_X_from_network\<close> its byte-order conversion.
  Each struct is an instance of \<open>packed_struct\<close>. Signed fields (\<^verbatim>\<open>int32_t price\<close>) are words
  read with \<^const>\<open>sint\<close> where their sign matters.
\<close>

section \<open>Enumerations\<close>

definition MAX_SHARES :: int where
  "MAX_SHARES = 999999"

datatype PacketType =
    PT_Debug
  | PT_UnsequencedData
  | PT_ClientHeartbeat
  | PT_LoginRequest
  | PT_LogoutRequest
  | PT_SequencedData
  | PT_EndOfSession
  | PT_LoginAccepted
  | PT_LoginRejected
  | PT_ServerHeartbeat

primrec PacketType_code :: "PacketType \<Rightarrow> byte" where
    "PacketType_code PT_Debug = ch CHR ''+''"
  | "PacketType_code PT_UnsequencedData = ch CHR ''U''"
  | "PacketType_code PT_ClientHeartbeat = ch CHR ''R''"
  | "PacketType_code PT_LoginRequest = ch CHR ''L''"
  | "PacketType_code PT_LogoutRequest = ch CHR ''O''"
  | "PacketType_code PT_SequencedData = ch CHR ''S''"
  | "PacketType_code PT_EndOfSession = ch CHR ''Z''"
  | "PacketType_code PT_LoginAccepted = ch CHR ''A''"
  | "PacketType_code PT_LoginRejected = ch CHR ''J''"
  | "PacketType_code PT_ServerHeartbeat = ch CHR ''H''"

primrec PacketType_to_string :: "PacketType \<Rightarrow> string" where
    "PacketType_to_string PT_Debug = ''Debug''"
  | "PacketType_to_string PT_UnsequencedData = ''UnsequencedData''"
  | "PacketType_to_string PT_ClientHeartbeat = ''ClientHeartbeat''"
  | "PacketType_to_string PT_LoginRequest = ''LoginRequest''"
  | "PacketType_to_string PT_LogoutRequest = ''LogoutRequest''"
  | "PacketType_to_string PT_SequencedData = ''SequencedData''"
  | "PacketType_to_string PT_EndOfSession = ''EndOfSession''"
  | "PacketType_to_string PT_LoginAccepted = ''LoginAccepted''"
  | "PacketType_to_string PT_LoginRejected = ''LoginRejected''"
  | "PacketType_to_string PT_ServerHeartbeat = ''ServerHeartbeat''"

datatype OutboundMsgType =
    Out_CancelOrder
  | Out_EnterOrder
  | Out_ModifyOrder
  | Out_ReplaceOrder

primrec OutboundMsgType_code :: "OutboundMsgType \<Rightarrow> byte" where
    "OutboundMsgType_code Out_CancelOrder = ch CHR ''X''"
  | "OutboundMsgType_code Out_EnterOrder = ch CHR ''O''"
  | "OutboundMsgType_code Out_ModifyOrder = ch CHR ''M''"
  | "OutboundMsgType_code Out_ReplaceOrder = ch CHR ''U''"

primrec OutboundMsgType_to_string :: "OutboundMsgType \<Rightarrow> string" where
    "OutboundMsgType_to_string Out_CancelOrder = ''CancelOrder''"
  | "OutboundMsgType_to_string Out_EnterOrder = ''EnterOrder''"
  | "OutboundMsgType_to_string Out_ModifyOrder = ''ModifyOrder''"
  | "OutboundMsgType_to_string Out_ReplaceOrder = ''ReplaceOrder''"

datatype InboundMsgType =
    In_AiqCanceled
  | In_BrokenTrade
  | In_CancelPending
  | In_CancelReject
  | In_Executed
  | In_ExecutedWithRefPrice
  | In_OrderAccepted
  | In_OrderCanceled
  | In_OrderModified
  | In_OrderRejected
  | In_OrderReplaced
  | In_PriorityUpdate
  | In_SystemEvent
  | In_TradeCorrection
  | In_TradeNow

primrec InboundMsgType_code :: "InboundMsgType \<Rightarrow> byte" where
    "InboundMsgType_code In_AiqCanceled = ch CHR ''D''"
  | "InboundMsgType_code In_BrokenTrade = ch CHR ''B''"
  | "InboundMsgType_code In_CancelPending = ch CHR ''P''"
  | "InboundMsgType_code In_CancelReject = ch CHR ''I''"
  | "InboundMsgType_code In_Executed = ch CHR ''E''"
  | "InboundMsgType_code In_ExecutedWithRefPrice = ch CHR ''G''"
  | "InboundMsgType_code In_OrderAccepted = ch CHR ''A''"
  | "InboundMsgType_code In_OrderCanceled = ch CHR ''C''"
  | "InboundMsgType_code In_OrderModified = ch CHR ''M''"
  | "InboundMsgType_code In_OrderRejected = ch CHR ''J''"
  | "InboundMsgType_code In_OrderReplaced = ch CHR ''U''"
  | "InboundMsgType_code In_PriorityUpdate = ch CHR ''T''"
  | "InboundMsgType_code In_SystemEvent = ch CHR ''S''"
  | "InboundMsgType_code In_TradeCorrection = ch CHR ''F''"
  | "InboundMsgType_code In_TradeNow = ch CHR ''N''"

primrec InboundMsgType_to_string :: "InboundMsgType \<Rightarrow> string" where
    "InboundMsgType_to_string In_AiqCanceled = ''AiqCanceled''"
  | "InboundMsgType_to_string In_BrokenTrade = ''BrokenTrade''"
  | "InboundMsgType_to_string In_CancelPending = ''CancelPending''"
  | "InboundMsgType_to_string In_CancelReject = ''CancelReject''"
  | "InboundMsgType_to_string In_Executed = ''Executed''"
  | "InboundMsgType_to_string In_ExecutedWithRefPrice = ''ExecutedWithRefPrice''"
  | "InboundMsgType_to_string In_OrderAccepted = ''OrderAccepted''"
  | "InboundMsgType_to_string In_OrderCanceled = ''OrderCanceled''"
  | "InboundMsgType_to_string In_OrderModified = ''OrderModified''"
  | "InboundMsgType_to_string In_OrderRejected = ''OrderRejected''"
  | "InboundMsgType_to_string In_OrderReplaced = ''OrderReplaced''"
  | "InboundMsgType_to_string In_PriorityUpdate = ''PriorityUpdate''"
  | "InboundMsgType_to_string In_SystemEvent = ''SystemEvent''"
  | "InboundMsgType_to_string In_TradeCorrection = ''TradeCorrection''"
  | "InboundMsgType_to_string In_TradeNow = ''TradeNow''"

datatype LoginRejectReason =
    LRR_NotAuthorized
  | LRR_SessionNotAvailable

primrec LoginRejectReason_code :: "LoginRejectReason \<Rightarrow> byte" where
    "LoginRejectReason_code LRR_NotAuthorized = ch CHR ''A''"
  | "LoginRejectReason_code LRR_SessionNotAvailable = ch CHR ''S''"

datatype CancelReason =
    CR_UserRequested
  | CR_IOC
  | CR_TimeOut
  | CR_Supervisory
  | CR_Regulatory
  | CR_SelfMatch
  | CR_SystemCancel
  | CR_CrossCanceled
  | CR_MarketCollars
  | CR_Halted
  | CR_OpenProtection
  | CR_Closed

primrec CancelReason_code :: "CancelReason \<Rightarrow> byte" where
    "CancelReason_code CR_UserRequested = ch CHR ''U''"
  | "CancelReason_code CR_IOC = ch CHR ''I''"
  | "CancelReason_code CR_TimeOut = ch CHR ''T''"
  | "CancelReason_code CR_Supervisory = ch CHR ''S''"
  | "CancelReason_code CR_Regulatory = ch CHR ''D''"
  | "CancelReason_code CR_SelfMatch = ch CHR ''Q''"
  | "CancelReason_code CR_SystemCancel = ch CHR ''Z''"
  | "CancelReason_code CR_CrossCanceled = ch CHR ''C''"
  | "CancelReason_code CR_MarketCollars = ch CHR ''K''"
  | "CancelReason_code CR_Halted = ch CHR ''H''"
  | "CancelReason_code CR_OpenProtection = ch CHR ''X''"
  | "CancelReason_code CR_Closed = ch CHR ''E''"

datatype TimeInForce =
    TIF_Ioc
  | TIF_Market
  | TIF_System

primrec TimeInForce_code :: "TimeInForce \<Rightarrow> u32" where
    "TimeInForce_code TIF_Ioc = 0"
  | "TimeInForce_code TIF_Market = 99998"
  | "TimeInForce_code TIF_System = 99999"

datatype Side =
    Side_Buy
  | Side_Sell
  | Side_SellShort
  | Side_SellShortExempt

primrec Side_code :: "Side \<Rightarrow> byte" where
    "Side_code Side_Buy = ch CHR ''B''"
  | "Side_code Side_Sell = ch CHR ''S''"
  | "Side_code Side_SellShort = ch CHR ''T''"
  | "Side_code Side_SellShortExempt = ch CHR ''E''"

datatype OrderState =
    OS_Live
  | OS_Dead

primrec OrderState_code :: "OrderState \<Rightarrow> byte" where
    "OrderState_code OS_Live = ch CHR ''L''"
  | "OrderState_code OS_Dead = ch CHR ''D''"

datatype RejectedReason =
    RR_TestMode
  | RR_Halted
  | RR_ExceededConfiguredSafety
  | RR_InvalidStock
  | RR_InvalidDisplayType
  | RR_OuchClosed
  | RR_RequestedFirmNotAuthorized
  | RR_ClearingTypeOutsideOfPermittedTimes
  | RR_OrderNotAllowedInTypeOfCross
  | RR_InvalidPrice
  | RR_InvalidMinQty
  | RR_Other
  | RR_InvalidMidpointPostOnlyPrice
  | RR_RejectAllEnabled
  | RR_EasyToBorrowReject
  | RR_RestrictedSymbolList
  | RR_IsoOrderRestriction
  | RR_OddLotRestriction
  | RR_MidpointRestriction
  | RR_PreMarketRestriction
  | RR_PostMarketRestriction
  | RR_ShortSaleRestriction
  | RR_OnOpenRestriction
  | RR_OnCloseRestriction
  | RR_TwoSidedQuoteReject
  | RR_ExceededSharesLimit
  | RR_ExceededDollarValue

primrec RejectedReason_code :: "RejectedReason \<Rightarrow> byte" where
    "RejectedReason_code RR_TestMode = ch CHR ''T''"
  | "RejectedReason_code RR_Halted = ch CHR ''H''"
  | "RejectedReason_code RR_ExceededConfiguredSafety = ch CHR ''Z''"
  | "RejectedReason_code RR_InvalidStock = ch CHR ''S''"
  | "RejectedReason_code RR_InvalidDisplayType = ch CHR ''D''"
  | "RejectedReason_code RR_OuchClosed = ch CHR ''C''"
  | "RejectedReason_code RR_RequestedFirmNotAuthorized = ch CHR ''L''"
  | "RejectedReason_code RR_ClearingTypeOutsideOfPermittedTimes = ch CHR ''L''"
  | "RejectedReason_code RR_OrderNotAllowedInTypeOfCross = ch CHR ''R''"
  | "RejectedReason_code RR_InvalidPrice = ch CHR ''X''"
  | "RejectedReason_code RR_InvalidMinQty = ch CHR ''N''"
  | "RejectedReason_code RR_Other = ch CHR ''O''"
  | "RejectedReason_code RR_InvalidMidpointPostOnlyPrice = ch CHR ''W''"
  | "RejectedReason_code RR_RejectAllEnabled = ch CHR ''a''"
  | "RejectedReason_code RR_EasyToBorrowReject = ch CHR ''b''"
  | "RejectedReason_code RR_RestrictedSymbolList = ch CHR ''c''"
  | "RejectedReason_code RR_IsoOrderRestriction = ch CHR ''d''"
  | "RejectedReason_code RR_OddLotRestriction = ch CHR ''e''"
  | "RejectedReason_code RR_MidpointRestriction = ch CHR ''f''"
  | "RejectedReason_code RR_PreMarketRestriction = ch CHR ''g''"
  | "RejectedReason_code RR_PostMarketRestriction = ch CHR ''h''"
  | "RejectedReason_code RR_ShortSaleRestriction = ch CHR ''i''"
  | "RejectedReason_code RR_OnOpenRestriction = ch CHR ''j''"
  | "RejectedReason_code RR_OnCloseRestriction = ch CHR ''k''"
  | "RejectedReason_code RR_TwoSidedQuoteReject = ch CHR ''l''"
  | "RejectedReason_code RR_ExceededSharesLimit = ch CHR ''m''"
  | "RejectedReason_code RR_ExceededDollarValue = ch CHR ''n''"

section \<open>Packed structs\<close>

subsection \<open>Headers\<close>

record ouch_MsgHeader =
  mh_length :: u16
  mh_packet_type :: byte

definition ouch_MsgHeader_size :: nat where
  "ouch_MsgHeader_size = 3"

definition ouch_MsgHeader_bytes :: "ouch_MsgHeader \<Rightarrow> byte list" where
  "ouch_MsgHeader_bytes x =
     le_bytes 2 (mh_length x) @
     byte1 (mh_packet_type x)"

definition ouch_MsgHeader_at :: "byte list \<Rightarrow> ouch_MsgHeader" where
  "ouch_MsgHeader_at m =
     \<lparr>mh_length = u16_at 0 m,
      mh_packet_type = u8_at 2 m\<rparr>"

definition ouch_MsgHeader_ok :: "ouch_MsgHeader \<Rightarrow> bool" where
  "ouch_MsgHeader_ok x \<longleftrightarrow> True"

lemmas ouch_MsgHeader_defs [struct_simps] = ouch_MsgHeader_size_def ouch_MsgHeader_bytes_def ouch_MsgHeader_at_def ouch_MsgHeader_ok_def

interpretation ouch_MsgHeader: packed_struct ouch_MsgHeader_size ouch_MsgHeader_bytes ouch_MsgHeader_at ouch_MsgHeader_ok
  by unfold_locales (auto simp: ouch_MsgHeader_defs struct_proof)

record ouch_OuchMsgHeader =
  omh_length :: u16
  omh_packet_type :: byte
  omh_msg_type :: byte

definition ouch_OuchMsgHeader_size :: nat where
  "ouch_OuchMsgHeader_size = 4"

definition ouch_OuchMsgHeader_bytes :: "ouch_OuchMsgHeader \<Rightarrow> byte list" where
  "ouch_OuchMsgHeader_bytes x =
     le_bytes 2 (omh_length x) @
     byte1 (omh_packet_type x) @
     byte1 (omh_msg_type x)"

definition ouch_OuchMsgHeader_at :: "byte list \<Rightarrow> ouch_OuchMsgHeader" where
  "ouch_OuchMsgHeader_at m =
     \<lparr>omh_length = u16_at 0 m,
      omh_packet_type = u8_at 2 m,
      omh_msg_type = u8_at 3 m\<rparr>"

definition ouch_OuchMsgHeader_ok :: "ouch_OuchMsgHeader \<Rightarrow> bool" where
  "ouch_OuchMsgHeader_ok x \<longleftrightarrow> True"

lemmas ouch_OuchMsgHeader_defs [struct_simps] = ouch_OuchMsgHeader_size_def ouch_OuchMsgHeader_bytes_def ouch_OuchMsgHeader_at_def ouch_OuchMsgHeader_ok_def

interpretation ouch_OuchMsgHeader: packed_struct ouch_OuchMsgHeader_size ouch_OuchMsgHeader_bytes ouch_OuchMsgHeader_at ouch_OuchMsgHeader_ok
  by unfold_locales (auto simp: ouch_OuchMsgHeader_defs struct_proof)

subsection \<open>Session-level messages\<close>

record ouch_LoginAccepted =
  la_length :: u16
  la_packet_type :: byte
  la_session :: "byte list"
  la_seq_num :: "byte list"

definition ouch_LoginAccepted_size :: nat where
  "ouch_LoginAccepted_size = 33"

definition ouch_LoginAccepted_bytes :: "ouch_LoginAccepted \<Rightarrow> byte list" where
  "ouch_LoginAccepted_bytes x =
     le_bytes 2 (la_length x) @
     byte1 (la_packet_type x) @
     la_session x @
     la_seq_num x"

definition ouch_LoginAccepted_at :: "byte list \<Rightarrow> ouch_LoginAccepted" where
  "ouch_LoginAccepted_at m =
     \<lparr>la_length = u16_at 0 m,
      la_packet_type = u8_at 2 m,
      la_session = arr_at 3 10 m,
      la_seq_num = arr_at 13 20 m\<rparr>"

definition ouch_LoginAccepted_ok :: "ouch_LoginAccepted \<Rightarrow> bool" where
  "ouch_LoginAccepted_ok x \<longleftrightarrow> length (la_session x) = 10 \<and> length (la_seq_num x) = 20"

lemmas ouch_LoginAccepted_defs [struct_simps] = ouch_LoginAccepted_size_def ouch_LoginAccepted_bytes_def ouch_LoginAccepted_at_def ouch_LoginAccepted_ok_def

interpretation ouch_LoginAccepted: packed_struct ouch_LoginAccepted_size ouch_LoginAccepted_bytes ouch_LoginAccepted_at ouch_LoginAccepted_ok
  by unfold_locales (auto simp: ouch_LoginAccepted_defs struct_proof)

definition new_ouch_LoginAccepted :: "byte list \<Rightarrow> ouch_LoginAccepted" where
  "new_ouch_LoginAccepted g = (ouch_LoginAccepted_at g)\<lparr>la_length := swap16 (33 - 2), la_packet_type := PacketType_code PT_LoginAccepted\<rparr>"

record ouch_LoginRejected =
  lj_length :: u16
  lj_packet_type :: byte
  lj_reason :: byte

definition ouch_LoginRejected_size :: nat where
  "ouch_LoginRejected_size = 4"

definition ouch_LoginRejected_bytes :: "ouch_LoginRejected \<Rightarrow> byte list" where
  "ouch_LoginRejected_bytes x =
     le_bytes 2 (lj_length x) @
     byte1 (lj_packet_type x) @
     byte1 (lj_reason x)"

definition ouch_LoginRejected_at :: "byte list \<Rightarrow> ouch_LoginRejected" where
  "ouch_LoginRejected_at m =
     \<lparr>lj_length = u16_at 0 m,
      lj_packet_type = u8_at 2 m,
      lj_reason = u8_at 3 m\<rparr>"

definition ouch_LoginRejected_ok :: "ouch_LoginRejected \<Rightarrow> bool" where
  "ouch_LoginRejected_ok x \<longleftrightarrow> True"

lemmas ouch_LoginRejected_defs [struct_simps] = ouch_LoginRejected_size_def ouch_LoginRejected_bytes_def ouch_LoginRejected_at_def ouch_LoginRejected_ok_def

interpretation ouch_LoginRejected: packed_struct ouch_LoginRejected_size ouch_LoginRejected_bytes ouch_LoginRejected_at ouch_LoginRejected_ok
  by unfold_locales (auto simp: ouch_LoginRejected_defs struct_proof)

definition new_ouch_LoginRejected :: "byte list \<Rightarrow> ouch_LoginRejected" where
  "new_ouch_LoginRejected g = (ouch_LoginRejected_at g)\<lparr>lj_length := swap16 (4 - 2), lj_packet_type := PacketType_code PT_LoginRejected\<rparr>"

record ouch_ServerHeartbeat =
  sh_length :: u16
  sh_packet_type :: byte

definition ouch_ServerHeartbeat_size :: nat where
  "ouch_ServerHeartbeat_size = 3"

definition ouch_ServerHeartbeat_bytes :: "ouch_ServerHeartbeat \<Rightarrow> byte list" where
  "ouch_ServerHeartbeat_bytes x =
     le_bytes 2 (sh_length x) @
     byte1 (sh_packet_type x)"

definition ouch_ServerHeartbeat_at :: "byte list \<Rightarrow> ouch_ServerHeartbeat" where
  "ouch_ServerHeartbeat_at m =
     \<lparr>sh_length = u16_at 0 m,
      sh_packet_type = u8_at 2 m\<rparr>"

definition ouch_ServerHeartbeat_ok :: "ouch_ServerHeartbeat \<Rightarrow> bool" where
  "ouch_ServerHeartbeat_ok x \<longleftrightarrow> True"

lemmas ouch_ServerHeartbeat_defs [struct_simps] = ouch_ServerHeartbeat_size_def ouch_ServerHeartbeat_bytes_def ouch_ServerHeartbeat_at_def ouch_ServerHeartbeat_ok_def

interpretation ouch_ServerHeartbeat: packed_struct ouch_ServerHeartbeat_size ouch_ServerHeartbeat_bytes ouch_ServerHeartbeat_at ouch_ServerHeartbeat_ok
  by unfold_locales (auto simp: ouch_ServerHeartbeat_defs struct_proof)

definition new_ouch_ServerHeartbeat :: "byte list \<Rightarrow> ouch_ServerHeartbeat" where
  "new_ouch_ServerHeartbeat g = (ouch_ServerHeartbeat_at g)\<lparr>sh_length := swap16 (3 - 2), sh_packet_type := PacketType_code PT_ServerHeartbeat\<rparr>"

record ouch_LoginRequest =
  lr_length :: u16
  lr_packet_type :: byte
  lr_username :: "byte list"
  lr_password :: "byte list"
  lr_requested_session :: "byte list"
  lr_requested_seq_num :: "byte list"

definition ouch_LoginRequest_size :: nat where
  "ouch_LoginRequest_size = 49"

definition ouch_LoginRequest_bytes :: "ouch_LoginRequest \<Rightarrow> byte list" where
  "ouch_LoginRequest_bytes x =
     le_bytes 2 (lr_length x) @
     byte1 (lr_packet_type x) @
     lr_username x @
     lr_password x @
     lr_requested_session x @
     lr_requested_seq_num x"

definition ouch_LoginRequest_at :: "byte list \<Rightarrow> ouch_LoginRequest" where
  "ouch_LoginRequest_at m =
     \<lparr>lr_length = u16_at 0 m,
      lr_packet_type = u8_at 2 m,
      lr_username = arr_at 3 6 m,
      lr_password = arr_at 9 10 m,
      lr_requested_session = arr_at 19 10 m,
      lr_requested_seq_num = arr_at 29 20 m\<rparr>"

definition ouch_LoginRequest_ok :: "ouch_LoginRequest \<Rightarrow> bool" where
  "ouch_LoginRequest_ok x \<longleftrightarrow> length (lr_username x) = 6 \<and> length (lr_password x) = 10 \<and> length (lr_requested_session x) = 10 \<and> length (lr_requested_seq_num x) = 20"

lemmas ouch_LoginRequest_defs [struct_simps] = ouch_LoginRequest_size_def ouch_LoginRequest_bytes_def ouch_LoginRequest_at_def ouch_LoginRequest_ok_def

interpretation ouch_LoginRequest: packed_struct ouch_LoginRequest_size ouch_LoginRequest_bytes ouch_LoginRequest_at ouch_LoginRequest_ok
  by unfold_locales (auto simp: ouch_LoginRequest_defs struct_proof)

definition new_ouch_LoginRequest :: "byte list \<Rightarrow> ouch_LoginRequest" where
  "new_ouch_LoginRequest g = (ouch_LoginRequest_at g)\<lparr>lr_length := swap16 (49 - 2), lr_packet_type := PacketType_code PT_LoginRequest\<rparr>"

record ouch_ClientHeartbeat =
  chb_length :: u16
  chb_packet_type :: byte

definition ouch_ClientHeartbeat_size :: nat where
  "ouch_ClientHeartbeat_size = 3"

definition ouch_ClientHeartbeat_bytes :: "ouch_ClientHeartbeat \<Rightarrow> byte list" where
  "ouch_ClientHeartbeat_bytes x =
     le_bytes 2 (chb_length x) @
     byte1 (chb_packet_type x)"

definition ouch_ClientHeartbeat_at :: "byte list \<Rightarrow> ouch_ClientHeartbeat" where
  "ouch_ClientHeartbeat_at m =
     \<lparr>chb_length = u16_at 0 m,
      chb_packet_type = u8_at 2 m\<rparr>"

definition ouch_ClientHeartbeat_ok :: "ouch_ClientHeartbeat \<Rightarrow> bool" where
  "ouch_ClientHeartbeat_ok x \<longleftrightarrow> True"

lemmas ouch_ClientHeartbeat_defs [struct_simps] = ouch_ClientHeartbeat_size_def ouch_ClientHeartbeat_bytes_def ouch_ClientHeartbeat_at_def ouch_ClientHeartbeat_ok_def

interpretation ouch_ClientHeartbeat: packed_struct ouch_ClientHeartbeat_size ouch_ClientHeartbeat_bytes ouch_ClientHeartbeat_at ouch_ClientHeartbeat_ok
  by unfold_locales (auto simp: ouch_ClientHeartbeat_defs struct_proof)

definition new_ouch_ClientHeartbeat :: "byte list \<Rightarrow> ouch_ClientHeartbeat" where
  "new_ouch_ClientHeartbeat g = (ouch_ClientHeartbeat_at g)\<lparr>chb_length := swap16 (3 - 2), chb_packet_type := PacketType_code PT_ClientHeartbeat\<rparr>"

record ouch_LogoutRequest =
  lo_length :: u16
  lo_packet_type :: byte

definition ouch_LogoutRequest_size :: nat where
  "ouch_LogoutRequest_size = 3"

definition ouch_LogoutRequest_bytes :: "ouch_LogoutRequest \<Rightarrow> byte list" where
  "ouch_LogoutRequest_bytes x =
     le_bytes 2 (lo_length x) @
     byte1 (lo_packet_type x)"

definition ouch_LogoutRequest_at :: "byte list \<Rightarrow> ouch_LogoutRequest" where
  "ouch_LogoutRequest_at m =
     \<lparr>lo_length = u16_at 0 m,
      lo_packet_type = u8_at 2 m\<rparr>"

definition ouch_LogoutRequest_ok :: "ouch_LogoutRequest \<Rightarrow> bool" where
  "ouch_LogoutRequest_ok x \<longleftrightarrow> True"

lemmas ouch_LogoutRequest_defs [struct_simps] = ouch_LogoutRequest_size_def ouch_LogoutRequest_bytes_def ouch_LogoutRequest_at_def ouch_LogoutRequest_ok_def

interpretation ouch_LogoutRequest: packed_struct ouch_LogoutRequest_size ouch_LogoutRequest_bytes ouch_LogoutRequest_at ouch_LogoutRequest_ok
  by unfold_locales (auto simp: ouch_LogoutRequest_defs struct_proof)

definition new_ouch_LogoutRequest :: "byte list \<Rightarrow> ouch_LogoutRequest" where
  "new_ouch_LogoutRequest g = (ouch_LogoutRequest_at g)\<lparr>lo_length := swap16 (3 - 2), lo_packet_type := PacketType_code PT_LogoutRequest\<rparr>"

subsection \<open>Client to exchange\<close>

record ouch_EnterOrder =
  eo_length :: u16
  eo_packet_type :: byte
  eo_msg_type :: byte
  eo_token :: "byte list"
  eo_side :: byte
  eo_qty :: u32
  eo_symbol :: "byte list"
  eo_price :: u32
  eo_time_in_force :: u32
  eo_firm :: "byte list"
  eo_display :: byte
  eo_capacity :: byte
  eo_intermarket_sweep_eligibility :: byte
  eo_min_qty :: u32
  eo_cross_type :: byte
  eo_customer_type :: byte

definition ouch_EnterOrder_size :: nat where
  "ouch_EnterOrder_size = 52"

definition ouch_EnterOrder_bytes :: "ouch_EnterOrder \<Rightarrow> byte list" where
  "ouch_EnterOrder_bytes x =
     le_bytes 2 (eo_length x) @
     byte1 (eo_packet_type x) @
     byte1 (eo_msg_type x) @
     eo_token x @
     byte1 (eo_side x) @
     le_bytes 4 (eo_qty x) @
     eo_symbol x @
     le_bytes 4 (eo_price x) @
     le_bytes 4 (eo_time_in_force x) @
     eo_firm x @
     byte1 (eo_display x) @
     byte1 (eo_capacity x) @
     byte1 (eo_intermarket_sweep_eligibility x) @
     le_bytes 4 (eo_min_qty x) @
     byte1 (eo_cross_type x) @
     byte1 (eo_customer_type x)"

definition ouch_EnterOrder_at :: "byte list \<Rightarrow> ouch_EnterOrder" where
  "ouch_EnterOrder_at m =
     \<lparr>eo_length = u16_at 0 m,
      eo_packet_type = u8_at 2 m,
      eo_msg_type = u8_at 3 m,
      eo_token = arr_at 4 14 m,
      eo_side = u8_at 18 m,
      eo_qty = u32_at 19 m,
      eo_symbol = arr_at 23 8 m,
      eo_price = u32_at 31 m,
      eo_time_in_force = u32_at 35 m,
      eo_firm = arr_at 39 4 m,
      eo_display = u8_at 43 m,
      eo_capacity = u8_at 44 m,
      eo_intermarket_sweep_eligibility = u8_at 45 m,
      eo_min_qty = u32_at 46 m,
      eo_cross_type = u8_at 50 m,
      eo_customer_type = u8_at 51 m\<rparr>"

definition ouch_EnterOrder_ok :: "ouch_EnterOrder \<Rightarrow> bool" where
  "ouch_EnterOrder_ok x \<longleftrightarrow> length (eo_token x) = 14 \<and> length (eo_symbol x) = 8 \<and> length (eo_firm x) = 4"

lemmas ouch_EnterOrder_defs [struct_simps] = ouch_EnterOrder_size_def ouch_EnterOrder_bytes_def ouch_EnterOrder_at_def ouch_EnterOrder_ok_def

interpretation ouch_EnterOrder: packed_struct ouch_EnterOrder_size ouch_EnterOrder_bytes ouch_EnterOrder_at ouch_EnterOrder_ok
  by unfold_locales (auto simp: ouch_EnterOrder_defs struct_proof)

definition new_ouch_EnterOrder :: "byte list \<Rightarrow> ouch_EnterOrder" where
  "new_ouch_EnterOrder g = (ouch_EnterOrder_at g)\<lparr>eo_length := swap16 (52 - 2), eo_packet_type := PacketType_code PT_UnsequencedData, eo_msg_type := OutboundMsgType_code Out_EnterOrder\<rparr>"

definition ouch_EnterOrder_from_network :: "ouch_EnterOrder \<Rightarrow> ouch_EnterOrder" where
  "ouch_EnterOrder_from_network x = x\<lparr>eo_qty := swap32 (eo_qty x),
     eo_price := swap32 (eo_price x),
     eo_time_in_force := swap32 (eo_time_in_force x),
     eo_min_qty := swap32 (eo_min_qty x)\<rparr>"

record ouch_ReplaceOrder =
  ro_length :: u16
  ro_packet_type :: byte
  ro_msg_type :: byte
  ro_existing_token :: "byte list"
  ro_token :: "byte list"
  ro_qty :: u32
  ro_price :: u32
  ro_time_in_force :: u32
  ro_display :: byte
  ro_intermarket_sweep_eligibility :: byte
  ro_min_qty :: u32

definition ouch_ReplaceOrder_size :: nat where
  "ouch_ReplaceOrder_size = 50"

definition ouch_ReplaceOrder_bytes :: "ouch_ReplaceOrder \<Rightarrow> byte list" where
  "ouch_ReplaceOrder_bytes x =
     le_bytes 2 (ro_length x) @
     byte1 (ro_packet_type x) @
     byte1 (ro_msg_type x) @
     ro_existing_token x @
     ro_token x @
     le_bytes 4 (ro_qty x) @
     le_bytes 4 (ro_price x) @
     le_bytes 4 (ro_time_in_force x) @
     byte1 (ro_display x) @
     byte1 (ro_intermarket_sweep_eligibility x) @
     le_bytes 4 (ro_min_qty x)"

definition ouch_ReplaceOrder_at :: "byte list \<Rightarrow> ouch_ReplaceOrder" where
  "ouch_ReplaceOrder_at m =
     \<lparr>ro_length = u16_at 0 m,
      ro_packet_type = u8_at 2 m,
      ro_msg_type = u8_at 3 m,
      ro_existing_token = arr_at 4 14 m,
      ro_token = arr_at 18 14 m,
      ro_qty = u32_at 32 m,
      ro_price = u32_at 36 m,
      ro_time_in_force = u32_at 40 m,
      ro_display = u8_at 44 m,
      ro_intermarket_sweep_eligibility = u8_at 45 m,
      ro_min_qty = u32_at 46 m\<rparr>"

definition ouch_ReplaceOrder_ok :: "ouch_ReplaceOrder \<Rightarrow> bool" where
  "ouch_ReplaceOrder_ok x \<longleftrightarrow> length (ro_existing_token x) = 14 \<and> length (ro_token x) = 14"

lemmas ouch_ReplaceOrder_defs [struct_simps] = ouch_ReplaceOrder_size_def ouch_ReplaceOrder_bytes_def ouch_ReplaceOrder_at_def ouch_ReplaceOrder_ok_def

interpretation ouch_ReplaceOrder: packed_struct ouch_ReplaceOrder_size ouch_ReplaceOrder_bytes ouch_ReplaceOrder_at ouch_ReplaceOrder_ok
  by unfold_locales (auto simp: ouch_ReplaceOrder_defs struct_proof)

definition new_ouch_ReplaceOrder :: "byte list \<Rightarrow> ouch_ReplaceOrder" where
  "new_ouch_ReplaceOrder g = (ouch_ReplaceOrder_at g)\<lparr>ro_length := swap16 (50 - 2), ro_packet_type := PacketType_code PT_UnsequencedData, ro_msg_type := OutboundMsgType_code Out_ReplaceOrder\<rparr>"

definition ouch_ReplaceOrder_from_network :: "ouch_ReplaceOrder \<Rightarrow> ouch_ReplaceOrder" where
  "ouch_ReplaceOrder_from_network x = x\<lparr>ro_qty := swap32 (ro_qty x),
     ro_price := swap32 (ro_price x),
     ro_time_in_force := swap32 (ro_time_in_force x),
     ro_min_qty := swap32 (ro_min_qty x)\<rparr>"

record ouch_CancelOrder =
  co_length :: u16
  co_packet_type :: byte
  co_msg_type :: byte
  co_token :: "byte list"
  co_qty :: u32

definition ouch_CancelOrder_size :: nat where
  "ouch_CancelOrder_size = 22"

definition ouch_CancelOrder_bytes :: "ouch_CancelOrder \<Rightarrow> byte list" where
  "ouch_CancelOrder_bytes x =
     le_bytes 2 (co_length x) @
     byte1 (co_packet_type x) @
     byte1 (co_msg_type x) @
     co_token x @
     le_bytes 4 (co_qty x)"

definition ouch_CancelOrder_at :: "byte list \<Rightarrow> ouch_CancelOrder" where
  "ouch_CancelOrder_at m =
     \<lparr>co_length = u16_at 0 m,
      co_packet_type = u8_at 2 m,
      co_msg_type = u8_at 3 m,
      co_token = arr_at 4 14 m,
      co_qty = u32_at 18 m\<rparr>"

definition ouch_CancelOrder_ok :: "ouch_CancelOrder \<Rightarrow> bool" where
  "ouch_CancelOrder_ok x \<longleftrightarrow> length (co_token x) = 14"

lemmas ouch_CancelOrder_defs [struct_simps] = ouch_CancelOrder_size_def ouch_CancelOrder_bytes_def ouch_CancelOrder_at_def ouch_CancelOrder_ok_def

interpretation ouch_CancelOrder: packed_struct ouch_CancelOrder_size ouch_CancelOrder_bytes ouch_CancelOrder_at ouch_CancelOrder_ok
  by unfold_locales (auto simp: ouch_CancelOrder_defs struct_proof)

definition new_ouch_CancelOrder :: "byte list \<Rightarrow> ouch_CancelOrder" where
  "new_ouch_CancelOrder g = (ouch_CancelOrder_at g)\<lparr>co_length := swap16 (22 - 2), co_packet_type := PacketType_code PT_UnsequencedData, co_msg_type := OutboundMsgType_code Out_CancelOrder\<rparr>"

definition ouch_CancelOrder_from_network :: "ouch_CancelOrder \<Rightarrow> ouch_CancelOrder" where
  "ouch_CancelOrder_from_network x = x\<lparr>co_qty := swap32 (co_qty x)\<rparr>"

record ouch_ModifyOrder =
  mo_length :: u16
  mo_packet_type :: byte
  mo_msg_type :: byte
  mo_token :: "byte list"
  mo_side :: byte
  mo_qty :: u32

definition ouch_ModifyOrder_size :: nat where
  "ouch_ModifyOrder_size = 23"

definition ouch_ModifyOrder_bytes :: "ouch_ModifyOrder \<Rightarrow> byte list" where
  "ouch_ModifyOrder_bytes x =
     le_bytes 2 (mo_length x) @
     byte1 (mo_packet_type x) @
     byte1 (mo_msg_type x) @
     mo_token x @
     byte1 (mo_side x) @
     le_bytes 4 (mo_qty x)"

definition ouch_ModifyOrder_at :: "byte list \<Rightarrow> ouch_ModifyOrder" where
  "ouch_ModifyOrder_at m =
     \<lparr>mo_length = u16_at 0 m,
      mo_packet_type = u8_at 2 m,
      mo_msg_type = u8_at 3 m,
      mo_token = arr_at 4 14 m,
      mo_side = u8_at 18 m,
      mo_qty = u32_at 19 m\<rparr>"

definition ouch_ModifyOrder_ok :: "ouch_ModifyOrder \<Rightarrow> bool" where
  "ouch_ModifyOrder_ok x \<longleftrightarrow> length (mo_token x) = 14"

lemmas ouch_ModifyOrder_defs [struct_simps] = ouch_ModifyOrder_size_def ouch_ModifyOrder_bytes_def ouch_ModifyOrder_at_def ouch_ModifyOrder_ok_def

interpretation ouch_ModifyOrder: packed_struct ouch_ModifyOrder_size ouch_ModifyOrder_bytes ouch_ModifyOrder_at ouch_ModifyOrder_ok
  by unfold_locales (auto simp: ouch_ModifyOrder_defs struct_proof)

definition new_ouch_ModifyOrder :: "byte list \<Rightarrow> ouch_ModifyOrder" where
  "new_ouch_ModifyOrder g = (ouch_ModifyOrder_at g)\<lparr>mo_length := swap16 (23 - 2), mo_packet_type := PacketType_code PT_UnsequencedData, mo_msg_type := OutboundMsgType_code Out_ModifyOrder\<rparr>"

definition ouch_ModifyOrder_from_network :: "ouch_ModifyOrder \<Rightarrow> ouch_ModifyOrder" where
  "ouch_ModifyOrder_from_network x = x\<lparr>mo_qty := swap32 (mo_qty x)\<rparr>"

subsection \<open>Exchange to client\<close>

record ouch_OrderAccepted =
  oa_length :: u16
  oa_packet_type :: byte
  oa_msg_type :: byte
  oa_timestamp :: u64
  oa_token :: "byte list"
  oa_side :: byte
  oa_qty :: u32
  oa_symbol :: "byte list"
  oa_price :: u32
  oa_time_in_force :: u32
  oa_firm :: "byte list"
  oa_display :: byte
  oa_order_reference_number :: u64
  oa_capacity :: byte
  oa_intermarket_sweep_eligibility :: byte
  oa_min_qty :: u32
  oa_cross_type :: byte
  oa_order_state :: byte
  oa_bbo_weight_indicator :: byte

definition ouch_OrderAccepted_size :: nat where
  "ouch_OrderAccepted_size = 69"

definition ouch_OrderAccepted_bytes :: "ouch_OrderAccepted \<Rightarrow> byte list" where
  "ouch_OrderAccepted_bytes x =
     le_bytes 2 (oa_length x) @
     byte1 (oa_packet_type x) @
     byte1 (oa_msg_type x) @
     le_bytes 8 (oa_timestamp x) @
     oa_token x @
     byte1 (oa_side x) @
     le_bytes 4 (oa_qty x) @
     oa_symbol x @
     le_bytes 4 (oa_price x) @
     le_bytes 4 (oa_time_in_force x) @
     oa_firm x @
     byte1 (oa_display x) @
     le_bytes 8 (oa_order_reference_number x) @
     byte1 (oa_capacity x) @
     byte1 (oa_intermarket_sweep_eligibility x) @
     le_bytes 4 (oa_min_qty x) @
     byte1 (oa_cross_type x) @
     byte1 (oa_order_state x) @
     byte1 (oa_bbo_weight_indicator x)"

definition ouch_OrderAccepted_at :: "byte list \<Rightarrow> ouch_OrderAccepted" where
  "ouch_OrderAccepted_at m =
     \<lparr>oa_length = u16_at 0 m,
      oa_packet_type = u8_at 2 m,
      oa_msg_type = u8_at 3 m,
      oa_timestamp = u64_at 4 m,
      oa_token = arr_at 12 14 m,
      oa_side = u8_at 26 m,
      oa_qty = u32_at 27 m,
      oa_symbol = arr_at 31 8 m,
      oa_price = u32_at 39 m,
      oa_time_in_force = u32_at 43 m,
      oa_firm = arr_at 47 4 m,
      oa_display = u8_at 51 m,
      oa_order_reference_number = u64_at 52 m,
      oa_capacity = u8_at 60 m,
      oa_intermarket_sweep_eligibility = u8_at 61 m,
      oa_min_qty = u32_at 62 m,
      oa_cross_type = u8_at 66 m,
      oa_order_state = u8_at 67 m,
      oa_bbo_weight_indicator = u8_at 68 m\<rparr>"

definition ouch_OrderAccepted_ok :: "ouch_OrderAccepted \<Rightarrow> bool" where
  "ouch_OrderAccepted_ok x \<longleftrightarrow> length (oa_token x) = 14 \<and> length (oa_symbol x) = 8 \<and> length (oa_firm x) = 4"

lemmas ouch_OrderAccepted_defs [struct_simps] = ouch_OrderAccepted_size_def ouch_OrderAccepted_bytes_def ouch_OrderAccepted_at_def ouch_OrderAccepted_ok_def

interpretation ouch_OrderAccepted: packed_struct ouch_OrderAccepted_size ouch_OrderAccepted_bytes ouch_OrderAccepted_at ouch_OrderAccepted_ok
  by unfold_locales (auto simp: ouch_OrderAccepted_defs struct_proof)

definition new_ouch_OrderAccepted :: "byte list \<Rightarrow> ouch_OrderAccepted" where
  "new_ouch_OrderAccepted g = (ouch_OrderAccepted_at g)\<lparr>oa_length := swap16 (69 - 2), oa_packet_type := PacketType_code PT_SequencedData, oa_msg_type := InboundMsgType_code In_OrderAccepted\<rparr>"

definition ouch_OrderAccepted_to_network :: "ouch_OrderAccepted \<Rightarrow> ouch_OrderAccepted" where
  "ouch_OrderAccepted_to_network x = x\<lparr>oa_timestamp := swap64 (oa_timestamp x),
     oa_price := swap32 (oa_price x),
     oa_qty := swap32 (oa_qty x),
     oa_time_in_force := swap32 (oa_time_in_force x),
     oa_order_reference_number := swap64 (oa_order_reference_number x),
     oa_min_qty := swap32 (oa_min_qty x)\<rparr>"

record ouch_OrderCanceled =
  oc_length :: u16
  oc_packet_type :: byte
  oc_msg_type :: byte
  oc_timestamp :: u64
  oc_token :: "byte list"
  oc_decrement_qty :: u32
  oc_reason :: byte

definition ouch_OrderCanceled_size :: nat where
  "ouch_OrderCanceled_size = 31"

definition ouch_OrderCanceled_bytes :: "ouch_OrderCanceled \<Rightarrow> byte list" where
  "ouch_OrderCanceled_bytes x =
     le_bytes 2 (oc_length x) @
     byte1 (oc_packet_type x) @
     byte1 (oc_msg_type x) @
     le_bytes 8 (oc_timestamp x) @
     oc_token x @
     le_bytes 4 (oc_decrement_qty x) @
     byte1 (oc_reason x)"

definition ouch_OrderCanceled_at :: "byte list \<Rightarrow> ouch_OrderCanceled" where
  "ouch_OrderCanceled_at m =
     \<lparr>oc_length = u16_at 0 m,
      oc_packet_type = u8_at 2 m,
      oc_msg_type = u8_at 3 m,
      oc_timestamp = u64_at 4 m,
      oc_token = arr_at 12 14 m,
      oc_decrement_qty = u32_at 26 m,
      oc_reason = u8_at 30 m\<rparr>"

definition ouch_OrderCanceled_ok :: "ouch_OrderCanceled \<Rightarrow> bool" where
  "ouch_OrderCanceled_ok x \<longleftrightarrow> length (oc_token x) = 14"

lemmas ouch_OrderCanceled_defs [struct_simps] = ouch_OrderCanceled_size_def ouch_OrderCanceled_bytes_def ouch_OrderCanceled_at_def ouch_OrderCanceled_ok_def

interpretation ouch_OrderCanceled: packed_struct ouch_OrderCanceled_size ouch_OrderCanceled_bytes ouch_OrderCanceled_at ouch_OrderCanceled_ok
  by unfold_locales (auto simp: ouch_OrderCanceled_defs struct_proof)

definition new_ouch_OrderCanceled :: "byte list \<Rightarrow> ouch_OrderCanceled" where
  "new_ouch_OrderCanceled g = (ouch_OrderCanceled_at g)\<lparr>oc_length := swap16 (31 - 2), oc_packet_type := PacketType_code PT_SequencedData, oc_msg_type := InboundMsgType_code In_OrderCanceled\<rparr>"

definition ouch_OrderCanceled_to_network :: "ouch_OrderCanceled \<Rightarrow> ouch_OrderCanceled" where
  "ouch_OrderCanceled_to_network x = x\<lparr>oc_timestamp := swap64 (oc_timestamp x),
     oc_decrement_qty := swap32 (oc_decrement_qty x)\<rparr>"

record ouch_OrderModified =
  om_length :: u16
  om_packet_type :: byte
  om_msg_type :: byte
  om_timestamp :: u64
  om_token :: "byte list"
  om_side :: byte
  om_shares :: u32

definition ouch_OrderModified_size :: nat where
  "ouch_OrderModified_size = 31"

definition ouch_OrderModified_bytes :: "ouch_OrderModified \<Rightarrow> byte list" where
  "ouch_OrderModified_bytes x =
     le_bytes 2 (om_length x) @
     byte1 (om_packet_type x) @
     byte1 (om_msg_type x) @
     le_bytes 8 (om_timestamp x) @
     om_token x @
     byte1 (om_side x) @
     le_bytes 4 (om_shares x)"

definition ouch_OrderModified_at :: "byte list \<Rightarrow> ouch_OrderModified" where
  "ouch_OrderModified_at m =
     \<lparr>om_length = u16_at 0 m,
      om_packet_type = u8_at 2 m,
      om_msg_type = u8_at 3 m,
      om_timestamp = u64_at 4 m,
      om_token = arr_at 12 14 m,
      om_side = u8_at 26 m,
      om_shares = u32_at 27 m\<rparr>"

definition ouch_OrderModified_ok :: "ouch_OrderModified \<Rightarrow> bool" where
  "ouch_OrderModified_ok x \<longleftrightarrow> length (om_token x) = 14"

lemmas ouch_OrderModified_defs [struct_simps] = ouch_OrderModified_size_def ouch_OrderModified_bytes_def ouch_OrderModified_at_def ouch_OrderModified_ok_def

interpretation ouch_OrderModified: packed_struct ouch_OrderModified_size ouch_OrderModified_bytes ouch_OrderModified_at ouch_OrderModified_ok
  by unfold_locales (auto simp: ouch_OrderModified_defs struct_proof)

definition new_ouch_OrderModified :: "byte list \<Rightarrow> ouch_OrderModified" where
  "new_ouch_OrderModified g = (ouch_OrderModified_at g)\<lparr>om_length := swap16 (31 - 2), om_packet_type := PacketType_code PT_SequencedData, om_msg_type := InboundMsgType_code In_OrderModified\<rparr>"

definition ouch_OrderModified_to_network :: "ouch_OrderModified \<Rightarrow> ouch_OrderModified" where
  "ouch_OrderModified_to_network x = x\<lparr>om_timestamp := swap64 (om_timestamp x),
     om_shares := swap32 (om_shares x)\<rparr>"

record ouch_OrderRejected =
  oj_length :: u16
  oj_packet_type :: byte
  oj_msg_type :: byte
  oj_timestamp :: u64
  oj_token :: "byte list"
  oj_reason :: byte

definition ouch_OrderRejected_size :: nat where
  "ouch_OrderRejected_size = 27"

definition ouch_OrderRejected_bytes :: "ouch_OrderRejected \<Rightarrow> byte list" where
  "ouch_OrderRejected_bytes x =
     le_bytes 2 (oj_length x) @
     byte1 (oj_packet_type x) @
     byte1 (oj_msg_type x) @
     le_bytes 8 (oj_timestamp x) @
     oj_token x @
     byte1 (oj_reason x)"

definition ouch_OrderRejected_at :: "byte list \<Rightarrow> ouch_OrderRejected" where
  "ouch_OrderRejected_at m =
     \<lparr>oj_length = u16_at 0 m,
      oj_packet_type = u8_at 2 m,
      oj_msg_type = u8_at 3 m,
      oj_timestamp = u64_at 4 m,
      oj_token = arr_at 12 14 m,
      oj_reason = u8_at 26 m\<rparr>"

definition ouch_OrderRejected_ok :: "ouch_OrderRejected \<Rightarrow> bool" where
  "ouch_OrderRejected_ok x \<longleftrightarrow> length (oj_token x) = 14"

lemmas ouch_OrderRejected_defs [struct_simps] = ouch_OrderRejected_size_def ouch_OrderRejected_bytes_def ouch_OrderRejected_at_def ouch_OrderRejected_ok_def

interpretation ouch_OrderRejected: packed_struct ouch_OrderRejected_size ouch_OrderRejected_bytes ouch_OrderRejected_at ouch_OrderRejected_ok
  by unfold_locales (auto simp: ouch_OrderRejected_defs struct_proof)

definition new_ouch_OrderRejected :: "byte list \<Rightarrow> ouch_OrderRejected" where
  "new_ouch_OrderRejected g = (ouch_OrderRejected_at g)\<lparr>oj_length := swap16 (27 - 2), oj_packet_type := PacketType_code PT_SequencedData, oj_msg_type := InboundMsgType_code In_OrderRejected\<rparr>"

definition ouch_OrderRejected_to_network :: "ouch_OrderRejected \<Rightarrow> ouch_OrderRejected" where
  "ouch_OrderRejected_to_network x = x\<lparr>oj_timestamp := swap64 (oj_timestamp x)\<rparr>"

record ouch_OrderReplaced =
  orp_length :: u16
  orp_packet_type :: byte
  orp_msg_type :: byte
  orp_timestamp :: u64
  orp_token :: "byte list"
  orp_side :: byte
  orp_qty :: u32
  orp_symbol :: "byte list"
  orp_price :: u32
  orp_time_in_force :: u32
  orp_firm :: "byte list"
  orp_display :: byte
  orp_order_reference_number :: u64
  orp_capacity :: byte
  orp_intermarket_sweep_eligibility :: byte
  orp_min_qty :: u32
  orp_cross_type :: byte
  orp_order_state :: byte
  orp_orig_token :: "byte list"
  orp_bbo_weight_indicator :: byte

definition ouch_OrderReplaced_size :: nat where
  "ouch_OrderReplaced_size = 83"

definition ouch_OrderReplaced_bytes :: "ouch_OrderReplaced \<Rightarrow> byte list" where
  "ouch_OrderReplaced_bytes x =
     le_bytes 2 (orp_length x) @
     byte1 (orp_packet_type x) @
     byte1 (orp_msg_type x) @
     le_bytes 8 (orp_timestamp x) @
     orp_token x @
     byte1 (orp_side x) @
     le_bytes 4 (orp_qty x) @
     orp_symbol x @
     le_bytes 4 (orp_price x) @
     le_bytes 4 (orp_time_in_force x) @
     orp_firm x @
     byte1 (orp_display x) @
     le_bytes 8 (orp_order_reference_number x) @
     byte1 (orp_capacity x) @
     byte1 (orp_intermarket_sweep_eligibility x) @
     le_bytes 4 (orp_min_qty x) @
     byte1 (orp_cross_type x) @
     byte1 (orp_order_state x) @
     orp_orig_token x @
     byte1 (orp_bbo_weight_indicator x)"

definition ouch_OrderReplaced_at :: "byte list \<Rightarrow> ouch_OrderReplaced" where
  "ouch_OrderReplaced_at m =
     \<lparr>orp_length = u16_at 0 m,
      orp_packet_type = u8_at 2 m,
      orp_msg_type = u8_at 3 m,
      orp_timestamp = u64_at 4 m,
      orp_token = arr_at 12 14 m,
      orp_side = u8_at 26 m,
      orp_qty = u32_at 27 m,
      orp_symbol = arr_at 31 8 m,
      orp_price = u32_at 39 m,
      orp_time_in_force = u32_at 43 m,
      orp_firm = arr_at 47 4 m,
      orp_display = u8_at 51 m,
      orp_order_reference_number = u64_at 52 m,
      orp_capacity = u8_at 60 m,
      orp_intermarket_sweep_eligibility = u8_at 61 m,
      orp_min_qty = u32_at 62 m,
      orp_cross_type = u8_at 66 m,
      orp_order_state = u8_at 67 m,
      orp_orig_token = arr_at 68 14 m,
      orp_bbo_weight_indicator = u8_at 82 m\<rparr>"

definition ouch_OrderReplaced_ok :: "ouch_OrderReplaced \<Rightarrow> bool" where
  "ouch_OrderReplaced_ok x \<longleftrightarrow> length (orp_token x) = 14 \<and> length (orp_symbol x) = 8 \<and> length (orp_firm x) = 4 \<and> length (orp_orig_token x) = 14"

lemmas ouch_OrderReplaced_defs [struct_simps] = ouch_OrderReplaced_size_def ouch_OrderReplaced_bytes_def ouch_OrderReplaced_at_def ouch_OrderReplaced_ok_def

interpretation ouch_OrderReplaced: packed_struct ouch_OrderReplaced_size ouch_OrderReplaced_bytes ouch_OrderReplaced_at ouch_OrderReplaced_ok
  by unfold_locales (auto simp: ouch_OrderReplaced_defs struct_proof)

definition new_ouch_OrderReplaced :: "byte list \<Rightarrow> ouch_OrderReplaced" where
  "new_ouch_OrderReplaced g = (ouch_OrderReplaced_at g)\<lparr>orp_length := swap16 (83 - 2), orp_packet_type := PacketType_code PT_SequencedData, orp_msg_type := InboundMsgType_code In_OrderReplaced\<rparr>"

definition ouch_OrderReplaced_to_network :: "ouch_OrderReplaced \<Rightarrow> ouch_OrderReplaced" where
  "ouch_OrderReplaced_to_network x = x\<lparr>orp_timestamp := swap64 (orp_timestamp x),
     orp_price := swap32 (orp_price x),
     orp_qty := swap32 (orp_qty x),
     orp_time_in_force := swap32 (orp_time_in_force x),
     orp_min_qty := swap32 (orp_min_qty x)\<rparr>"

record ouch_Executed =
  ex_length :: u16
  ex_packet_type :: byte
  ex_msg_type :: byte
  ex_timestamp :: u64
  ex_token :: "byte list"
  ex_executed_qty :: u32
  ex_execution_price :: u32
  ex_liquidity_flag :: byte
  ex_match_number :: u64

definition ouch_Executed_size :: nat where
  "ouch_Executed_size = 43"

definition ouch_Executed_bytes :: "ouch_Executed \<Rightarrow> byte list" where
  "ouch_Executed_bytes x =
     le_bytes 2 (ex_length x) @
     byte1 (ex_packet_type x) @
     byte1 (ex_msg_type x) @
     le_bytes 8 (ex_timestamp x) @
     ex_token x @
     le_bytes 4 (ex_executed_qty x) @
     le_bytes 4 (ex_execution_price x) @
     byte1 (ex_liquidity_flag x) @
     le_bytes 8 (ex_match_number x)"

definition ouch_Executed_at :: "byte list \<Rightarrow> ouch_Executed" where
  "ouch_Executed_at m =
     \<lparr>ex_length = u16_at 0 m,
      ex_packet_type = u8_at 2 m,
      ex_msg_type = u8_at 3 m,
      ex_timestamp = u64_at 4 m,
      ex_token = arr_at 12 14 m,
      ex_executed_qty = u32_at 26 m,
      ex_execution_price = u32_at 30 m,
      ex_liquidity_flag = u8_at 34 m,
      ex_match_number = u64_at 35 m\<rparr>"

definition ouch_Executed_ok :: "ouch_Executed \<Rightarrow> bool" where
  "ouch_Executed_ok x \<longleftrightarrow> length (ex_token x) = 14"

lemmas ouch_Executed_defs [struct_simps] = ouch_Executed_size_def ouch_Executed_bytes_def ouch_Executed_at_def ouch_Executed_ok_def

interpretation ouch_Executed: packed_struct ouch_Executed_size ouch_Executed_bytes ouch_Executed_at ouch_Executed_ok
  by unfold_locales (auto simp: ouch_Executed_defs struct_proof)

definition new_ouch_Executed :: "byte list \<Rightarrow> ouch_Executed" where
  "new_ouch_Executed g = (ouch_Executed_at g)\<lparr>ex_length := swap16 (43 - 2), ex_packet_type := PacketType_code PT_SequencedData, ex_msg_type := InboundMsgType_code In_Executed\<rparr>"

definition ouch_Executed_to_network :: "ouch_Executed \<Rightarrow> ouch_Executed" where
  "ouch_Executed_to_network x = x\<lparr>ex_timestamp := swap64 (ex_timestamp x),
     ex_execution_price := swap32 (ex_execution_price x),
     ex_executed_qty := swap32 (ex_executed_qty x),
     ex_match_number := swap64 (ex_match_number x)\<rparr>"

record ouch_CancelReject =
  cr_length :: u16
  cr_packet_type :: byte
  cr_msg_type :: byte
  cr_timestamp :: u64
  cr_token :: "byte list"

definition ouch_CancelReject_size :: nat where
  "ouch_CancelReject_size = 26"

definition ouch_CancelReject_bytes :: "ouch_CancelReject \<Rightarrow> byte list" where
  "ouch_CancelReject_bytes x =
     le_bytes 2 (cr_length x) @
     byte1 (cr_packet_type x) @
     byte1 (cr_msg_type x) @
     le_bytes 8 (cr_timestamp x) @
     cr_token x"

definition ouch_CancelReject_at :: "byte list \<Rightarrow> ouch_CancelReject" where
  "ouch_CancelReject_at m =
     \<lparr>cr_length = u16_at 0 m,
      cr_packet_type = u8_at 2 m,
      cr_msg_type = u8_at 3 m,
      cr_timestamp = u64_at 4 m,
      cr_token = arr_at 12 14 m\<rparr>"

definition ouch_CancelReject_ok :: "ouch_CancelReject \<Rightarrow> bool" where
  "ouch_CancelReject_ok x \<longleftrightarrow> length (cr_token x) = 14"

lemmas ouch_CancelReject_defs [struct_simps] = ouch_CancelReject_size_def ouch_CancelReject_bytes_def ouch_CancelReject_at_def ouch_CancelReject_ok_def

interpretation ouch_CancelReject: packed_struct ouch_CancelReject_size ouch_CancelReject_bytes ouch_CancelReject_at ouch_CancelReject_ok
  by unfold_locales (auto simp: ouch_CancelReject_defs struct_proof)

definition new_ouch_CancelReject :: "byte list \<Rightarrow> ouch_CancelReject" where
  "new_ouch_CancelReject g = (ouch_CancelReject_at g)\<lparr>cr_length := swap16 (26 - 2), cr_packet_type := PacketType_code PT_SequencedData, cr_msg_type := InboundMsgType_code In_CancelReject\<rparr>"

definition ouch_CancelReject_to_network :: "ouch_CancelReject \<Rightarrow> ouch_CancelReject" where
  "ouch_CancelReject_to_network x = x\<lparr>cr_timestamp := swap64 (cr_timestamp x)\<rparr>"

end
