(* ===== verification/Orders.thy ===== *)
theory Orders
  imports World OuchMessages
begin

text \<open>
  The classes of \<^verbatim>\<open>order.h\<close> with the bodies of \<^verbatim>\<open>ouch_order.cpp\<close>: the base class
  \<^verbatim>\<open>order\<close> as \<open>order_base\<close>, \<^verbatim>\<open>Ouch_Order\<close> as its extension and the queued OUCH
  requests. \<^verbatim>\<open>int64_t\<close> and \<^verbatim>\<open>int32_t\<close> quantities are integers; unsigned fields and
  \<^verbatim>\<open>int32_t price\<close>, which is only copied, are words.
\<close>

section \<open>The base class\<close>

record order_base =
  recv_order_time :: int
  char_time_in_force :: byte
  remaining_qty :: int
  orderID :: u64
  executed_qty :: int
  symbol :: "byte list"
  side :: byte
  firm :: "byte list"
  capacity :: byte
  display :: byte
  remain_time_in_force :: int
  min_qty :: u32

record Ouch_Order = order_base +
  time_in_force :: u32
  intermarket_sweep_eligibility :: byte
  price :: u32
  cross_type :: byte
  token :: "byte list"
  order_state :: byte

text \<open>
  \<^verbatim>\<open>order::order()\<close> sets the receive time and a random identifier; every other field of a
  default-constructed order holds whatever the memory held (\<open>g\<close>).
\<close>

definition raw_Ouch_Order :: "byte list \<Rightarrow> int \<Rightarrow> u64 \<Rightarrow> Ouch_Order" where
  "raw_Ouch_Order g t ident =
     \<lparr>recv_order_time = t, char_time_in_force = u8_at 0 g, remaining_qty = sint (u64_at 1 g),
      orderID = ident, executed_qty = sint (u64_at 9 g), symbol = arr_at 17 8 g,
      side = u8_at 25 g, firm = arr_at 26 4 g, capacity = u8_at 30 g, display = u8_at 31 g,
      remain_time_in_force = sint (u32_at 32 g), min_qty = u32_at 36 g,
      time_in_force = u32_at 40 g, intermarket_sweep_eligibility = u8_at 44 g,
      price = u32_at 45 g, cross_type = u8_at 49 g, token = arr_at 50 14 g,
      order_state = u8_at 64 g\<rparr>"

definition new_Ouch_Order :: "'w world_scheme \<Rightarrow> Ouch_Order \<times> 'w world_scheme" where
  "new_Ouch_Order w =
     (let (g, w1) = uninit 65 w; (t, w2) = time_NULL w1; (ident, w3) = rand_times_rand w2
      in (raw_Ouch_Order g t ident, w3))"

section \<open>Ouch_Order\<close>

definition Ouch_Order_parse_order :: "Ouch_Order \<Rightarrow> ouch_EnterOrder \<Rightarrow> Ouch_Order" where
  "Ouch_Order_parse_order o1 eo = o1\<lparr>
     time_in_force := eo_time_in_force eo,
     remain_time_in_force := to_int32 (uint (eo_time_in_force eo)),
     token := eo_token eo,
     remaining_qty := uint (eo_qty eo),
     executed_qty := 0,
     price := eo_price eo,
     min_qty := eo_min_qty eo,
     symbol := strncpy 8 (eo_symbol eo),
     order_state := OrderState_code OS_Live,
     side := eo_side eo,
     cross_type := eo_cross_type eo,
     intermarket_sweep_eligibility := eo_intermarket_sweep_eligibility eo,
     firm := strncpy 4 (eo_firm eo),
     display := eo_display eo,
     capacity := eo_capacity eo\<rparr>"

text \<open>\<^verbatim>\<open>Ouch_Order(eo)\<close>: the default construction, then the fields of the message.\<close>

definition Ouch_Order_of :: "ouch_EnterOrder \<Rightarrow> 'w world_scheme \<Rightarrow> Ouch_Order \<times> 'w world_scheme" where
  "Ouch_Order_of eo w = (let (o1, w1) = new_Ouch_Order w in (Ouch_Order_parse_order o1 eo, w1))"

text \<open>
  \<^verbatim>\<open>expired()\<close>: for a time in force other than the three special values the remaining
  seconds are recomputed from the clock (and narrowed to \<^verbatim>\<open>int32_t\<close>) before the test.
\<close>

definition special_time_in_force :: "u32 \<Rightarrow> bool" where
  "special_time_in_force t \<longleftrightarrow>
     t = TimeInForce_code TIF_Ioc \<or> t = TimeInForce_code TIF_Market \<or> t = TimeInForce_code TIF_System"

definition Ouch_Order_expired ::
    "Ouch_Order \<Rightarrow> 'w world_scheme \<Rightarrow> bool \<times> Ouch_Order \<times> 'w world_scheme" where
  "Ouch_Order_expired o1 w =
     (let (o2, w2) =
        (if \<not> special_time_in_force (time_in_force o1)
         then let (curr_time, w1) = time_NULL w
              in (o1\<lparr>remain_time_in_force :=
                    to_int32 (uint (time_in_force o1) - (curr_time - recv_order_time o1))\<rparr>, w1)
         else (o1, w))
      in (remain_time_in_force o2 \<le> 0, o2, w2))"

definition Ouch_Order_still_active ::
    "Ouch_Order \<Rightarrow> 'w world_scheme \<Rightarrow> bool \<times> Ouch_Order \<times> 'w world_scheme" where
  "Ouch_Order_still_active o1 w =
     (let (dead, o2, w2) =
        (if remaining_qty o1 \<le> 0 then (True, o1, w)
         else let (e, o2, w2) = Ouch_Order_expired o1 w
              in (e \<or> order_state o2 = OrderState_code OS_Dead, o2, w2))
      in if dead then (False, o2\<lparr>order_state := OrderState_code OS_Dead\<rparr>, w2)
         else (True, o2, w2))"

section \<open>Queued requests\<close>

record Ouch_CancelOrderReq =
  cxl_token :: "byte list"
  cxl_qty :: u32

record Ouch_ModifyOrderReq =
  mod_token :: "byte list"
  req_qty :: u32
  new_side :: byte

record Ouch_ReplaceOrderReq =
  existing_token :: "byte list"
  new_token :: "byte list"
  rpl_qty :: u32
  rpl_price :: u32
  rpl_time_in_force :: u32
  rpl_display :: byte
  rpl_intermarket_sweep_eligibility :: byte
  rpl_min_qty :: u32

definition parse_cancel_order :: "ouch_CancelOrder \<Rightarrow> Ouch_CancelOrderReq" where
  "parse_cancel_order co = \<lparr>cxl_token = co_token co, cxl_qty = co_qty co\<rparr>"

definition ouch_parse_modify_order :: "ouch_ModifyOrder \<Rightarrow> Ouch_ModifyOrderReq" where
  "ouch_parse_modify_order mo =
     \<lparr>mod_token = mo_token mo, req_qty = mo_qty mo, new_side = mo_side mo\<rparr>"

definition parse_replace_order :: "ouch_ReplaceOrder \<Rightarrow> Ouch_ReplaceOrderReq" where
  "parse_replace_order ro =
     \<lparr>existing_token = ro_existing_token ro, new_token = ro_token ro, rpl_qty = ro_qty ro,
      rpl_price = ro_price ro, rpl_time_in_force = ro_time_in_force ro,
      rpl_display = ro_display ro,
      rpl_intermarket_sweep_eligibility = ro_intermarket_sweep_eligibility ro,
      rpl_min_qty = ro_min_qty ro\<rparr>"

section \<open>Facts about orders\<close>

lemma special_time_in_force_iff:
  "special_time_in_force t \<longleftrightarrow> t = 0 \<or> t = 99998 \<or> t = 99999"
  by (simp add: special_time_in_force_def)

lemma world_n_time_self: "\<exists>n. w = w\<lparr>n_time := n\<rparr>"
  by (rule exI [of _ "n_time w"]) simp

text \<open>Only the remaining seconds of an order change when its expiry is tested.\<close>

lemma Ouch_Order_expired_frame:
  assumes "Ouch_Order_expired o1 w = (e, o2, w2)"
  shows "\<exists>r. o2 = o1\<lparr>remain_time_in_force := r\<rparr> \<and> (e \<longleftrightarrow> r \<le> 0)"
    and "\<exists>n. w2 = w\<lparr>n_time := n\<rparr>"
proof -
  show "\<exists>r. o2 = o1\<lparr>remain_time_in_force := r\<rparr> \<and> (e \<longleftrightarrow> r \<le> 0)"
  proof (cases "special_time_in_force (time_in_force o1)")
    case True
    with assms have "o2 = o1\<lparr>remain_time_in_force := remain_time_in_force o1\<rparr>
        \<and> (e \<longleftrightarrow> remain_time_in_force o1 \<le> 0)"
      by (auto simp: Ouch_Order_expired_def)
    then show ?thesis by blast
  next
    case False
    with assms show ?thesis
      by (auto simp: Ouch_Order_expired_def time_NULL_def)
  qed
  show "\<exists>n. w2 = w\<lparr>n_time := n\<rparr>"
  proof (cases "special_time_in_force (time_in_force o1)")
    case True
    with assms world_n_time_self [of w] show ?thesis by (auto simp: Ouch_Order_expired_def)
  next
    case False
    with assms show ?thesis
      by (auto simp: Ouch_Order_expired_def time_NULL_def)
  qed
qed

lemma Ouch_Order_expired_special:
  "special_time_in_force (time_in_force o1) \<Longrightarrow>
   Ouch_Order_expired o1 w = (remain_time_in_force o1 \<le> 0, o1, w)"
  by (simp add: Ouch_Order_expired_def)

lemma Ouch_Order_still_active_frame:
  assumes "Ouch_Order_still_active o1 w = (a, o2, w2)"
  shows "\<exists>r st. o2 = o1\<lparr>remain_time_in_force := r, order_state := st\<rparr>"
    and "\<exists>n. w2 = w\<lparr>n_time := n\<rparr>"
    and "a \<Longrightarrow> 0 < remaining_qty o1"
proof -
  obtain e o3 w3 where e: "Ouch_Order_expired o1 w = (e, o3, w3)"
    by (metis prod_cases3)
  note f = Ouch_Order_expired_frame [OF e]
  show "\<exists>r st. o2 = o1\<lparr>remain_time_in_force := r, order_state := st\<rparr>"
  proof (cases "remaining_qty o1 \<le> 0")
    case True
    with assms have "o2 = o1\<lparr>remain_time_in_force := remain_time_in_force o1,
        order_state := OrderState_code OS_Dead\<rparr>"
      by (simp add: Ouch_Order_still_active_def)
    then show ?thesis by blast
  next
    case False
    obtain r where r: "o3 = o1\<lparr>remain_time_in_force := r\<rparr>" using f(1) by blast
    have "o2 = o3 \<or> o2 = o3\<lparr>order_state := OrderState_code OS_Dead\<rparr>"
      using False assms e by (auto simp: Ouch_Order_still_active_def split: if_splits)
    then show ?thesis
    proof
      assume "o2 = o3"
      with r have "o2 = o1\<lparr>remain_time_in_force := r, order_state := order_state o1\<rparr>" by simp
      then show ?thesis by blast
    qed (use r in blast)
  qed
  show "\<exists>n. w2 = w\<lparr>n_time := n\<rparr>"
    using assms e f(2) world_n_time_self [of w]
    by (auto simp: Ouch_Order_still_active_def split: if_splits)
  show "a \<Longrightarrow> 0 < remaining_qty o1"
    using assms by (auto simp: Ouch_Order_still_active_def split: if_splits)
qed

end
