(* ===== verification/OuchSession.thy ===== *)
theory OuchSession
  imports Session Orders
begin

text \<open>
  The OUCH session of \<^verbatim>\<open>ouch_session.cpp\<close>: its state, the functions that build each
  outgoing message, the handlers for incoming packets and the market logic run on every timer
  tick, in the order of the code. A handler that works on the packet in place
  (\<^verbatim>\<open>from_network()\<close> swaps bytes inside the receive buffer) returns the changed buffer with
  the session.
\<close>

section \<open>State\<close>

record ouch_session = session +
  active_orders :: "(byte list \<times> Ouch_Order) list"
  finished_orders :: "(byte list \<times> Ouch_Order) list"
  pending_cancel :: "Ouch_CancelOrderReq list"
  pending_modify :: "Ouch_ModifyOrderReq list"
  pending_replace :: "Ouch_ReplaceOrderReq list"
  start_of_day :: int

text \<open>
  The constructor and \<^verbatim>\<open>init()\<close>: not logged in, no logger, empty tables, the clock read for
  the heartbeat times and again for local midnight.
\<close>

definition new_ouch_session :: "env \<Rightarrow> ouch_session" where
  "new_ouch_session e =
     (let (curr_time, e1) = time_NULL e; (t1, e2) = time_NULL e1
      in \<lparr>s_env = e2, pending_out_messages = [], last_send_heartbeat = curr_time,
          last_recv_heartbeat = curr_time, session_state = NotLoggedIn, logger_set = False,
          active_orders = [], finished_orders = [], pending_cancel = [], pending_modify = [],
          pending_replace = [], start_of_day = w_midnight e2 t1\<rparr>)"

text \<open>Nanoseconds since the start of the day, as the \<^verbatim>\<open>uint64_t\<close> of a duration.\<close>

definition ouch_get_timestamp :: "ouch_session \<Rightarrow> u64 \<times> ouch_session" where
  "ouch_get_timestamp s =
     (let (curr_time, s1) = on_env clock_now s
      in (to_uint64 (curr_time - start_of_day s1 * 1000000000), s1))"

text \<open>
  \<^verbatim>\<open>active_orders[k]\<close> and \<^verbatim>\<open>finished_orders[k]\<close> as an lvalue: a missing key is inserted
  with a default-constructed order, whose fields are mostly uninitialised.
\<close>

definition active_index :: "byte list \<Rightarrow> ouch_session \<Rightarrow> ouch_session" where
  "active_index k s =
     (case map_of (active_orders s) k of
        Some _ \<Rightarrow> s
      | None \<Rightarrow> let (o1, s1) = on_env new_Ouch_Order s
                in s1\<lparr>active_orders := AList.update k o1 (active_orders s1)\<rparr>)"

definition finished_index :: "byte list \<Rightarrow> ouch_session \<Rightarrow> ouch_session" where
  "finished_index k s =
     (case map_of (finished_orders s) k of
        Some _ \<Rightarrow> s
      | None \<Rightarrow> let (o1, s1) = on_env new_Ouch_Order s
                in s1\<lparr>finished_orders := AList.update k o1 (finished_orders s1)\<rparr>)"

definition put_active :: "byte list \<Rightarrow> Ouch_Order \<Rightarrow> ouch_session \<Rightarrow> ouch_session" where
  "put_active k o1 s = s\<lparr>active_orders := AList.update k o1 (active_orders s)\<rparr>"

definition put_finished :: "byte list \<Rightarrow> Ouch_Order \<Rightarrow> ouch_session \<Rightarrow> ouch_session" where
  "put_finished k o1 s = s\<lparr>finished_orders := AList.update k o1 (finished_orders s)\<rparr>"

definition erase_active :: "byte list list \<Rightarrow> ouch_session \<Rightarrow> ouch_session" where
  "erase_active ks s = s\<lparr>active_orders := erase_all ks (active_orders s)\<rparr>"

section \<open>Outgoing messages\<close>

text \<open>
  \<^verbatim>\<open>construct_login_accepted\<close>: both numbers are written right-aligned over spaces.
\<close>

definition ouch_construct_login_accepted :: "u32 \<Rightarrow> u32 \<Rightarrow> ouch_session \<Rightarrow> ouch_session" where
  "ouch_construct_login_accepted session_num seq_num s =
     (let (g, s1) = on_env (uninit ouch_LoginAccepted_size) s;
          session_str = decimal (unat session_num); seq_str = decimal (unat seq_num);
          la = (new_ouch_LoginAccepted g)\<lparr>
            la_session := replicate (10 - length session_str) (ch CHR '' '') @ session_str,
            la_seq_num := replicate (20 - length seq_str) (ch CHR '' '') @ seq_str\<rparr>
      in post (ouch_LoginAccepted_bytes la) s1)"

definition ouch_construct_login_rejected :: "LoginRejectReason \<Rightarrow> ouch_session \<Rightarrow> ouch_session" where
  "ouch_construct_login_rejected r s =
     (let (g, s1) = on_env (uninit ouch_LoginRejected_size) s;
          lj = (new_ouch_LoginRejected g)\<lparr>lj_reason := LoginRejectReason_code r\<rparr>
      in post (ouch_LoginRejected_bytes lj) s1)"

definition ouch_construct_cancel_rejected :: "byte list \<Rightarrow> ouch_session \<Rightarrow> ouch_session" where
  "ouch_construct_cancel_rejected t s =
     (let (g, s1) = on_env (uninit ouch_CancelReject_size) s;
          (ts, s2) = ouch_get_timestamp s1;
          cr = (new_ouch_CancelReject g)\<lparr>cr_timestamp := ts, cr_token := t\<rparr>
      in post (ouch_CancelReject_bytes (ouch_CancelReject_to_network cr)) s2)"

definition ouch_construct_order_accepted :: "Ouch_Order \<Rightarrow> ouch_session \<Rightarrow> ouch_session" where
  "ouch_construct_order_accepted o1 s =
     (let (g, s1) = on_env (uninit ouch_OrderAccepted_size) s;
          (ts, s2) = ouch_get_timestamp s1;
          oa = (new_ouch_OrderAccepted g)\<lparr>
            oa_timestamp := ts,
            oa_token := token o1,
            oa_side := side o1,
            oa_qty := to_uint32 (remaining_qty o1),
            oa_symbol := strncpy 8 (symbol o1),
            oa_price := price o1,
            oa_time_in_force := time_in_force o1,
            oa_firm := strncpy 4 (firm o1),
            oa_display := display o1,
            oa_capacity := capacity o1,
            oa_intermarket_sweep_eligibility := intermarket_sweep_eligibility o1,
            oa_min_qty := min_qty o1,
            oa_cross_type := cross_type o1,
            oa_bbo_weight_indicator := ch CHR ''2'',
            oa_order_state := OrderState_code OS_Live,
            oa_order_reference_number := orderID o1\<rparr>
      in post (ouch_OrderAccepted_bytes (ouch_OrderAccepted_to_network oa)) s2)"

definition ouch_construct_order_rejected ::
    "RejectedReason \<Rightarrow> byte list \<Rightarrow> ouch_session \<Rightarrow> ouch_session" where
  "ouch_construct_order_rejected reason t s =
     (let (g, s1) = on_env (uninit ouch_OrderRejected_size) s;
          (ts, s2) = ouch_get_timestamp s1;
          oj = (new_ouch_OrderRejected g)\<lparr>
            oj_token := t, oj_timestamp := ts, oj_reason := RejectedReason_code reason\<rparr>
      in post (ouch_OrderRejected_bytes (ouch_OrderRejected_to_network oj)) s2)"

definition ouch_construct_order_canceled ::
    "u32 \<Rightarrow> CancelReason \<Rightarrow> byte list \<Rightarrow> ouch_session \<Rightarrow> ouch_session" where
  "ouch_construct_order_canceled dec_qty reason t s =
     (let (g, s1) = on_env (uninit ouch_OrderCanceled_size) s;
          (ts, s2) = ouch_get_timestamp s1;
          oc = (new_ouch_OrderCanceled g)\<lparr>
            oc_timestamp := ts, oc_token := t, oc_decrement_qty := dec_qty,
            oc_reason := CancelReason_code reason\<rparr>
      in post (ouch_OrderCanceled_bytes (ouch_OrderCanceled_to_network oc)) s2)"

definition ouch_construct_order_modified ::
    "u32 \<Rightarrow> Ouch_ModifyOrderReq \<Rightarrow> ouch_session \<Rightarrow> ouch_session" where
  "ouch_construct_order_modified remaining mo s =
     (let (g, s1) = on_env (uninit ouch_OrderModified_size) s;
          (ts, s2) = ouch_get_timestamp s1;
          m = (new_ouch_OrderModified g)\<lparr>
            om_timestamp := ts, om_token := mod_token mo, om_side := new_side mo,
            om_shares := remaining\<rparr>
      in post (ouch_OrderModified_bytes (ouch_OrderModified_to_network m)) s2)"

text \<open>
  \<^verbatim>\<open>construct_order_executed(o, exe_qty)\<close>: the order is passed by reference, so the changed
  order is returned. A negative quantity asks for a random one, (1 + rand() % 10) * 100.
\<close>

definition ouch_construct_order_executed ::
    "Ouch_Order \<Rightarrow> int \<Rightarrow> ouch_session \<Rightarrow> Ouch_Order \<times> ouch_session" where
  "ouch_construct_order_executed o1 exe s =
     (if exe = 0 then (o1, s)
      else
        let (exe1, s1) =
              (if exe < 0 then let (r, s1) = on_env rand_int s in ((1 + r mod 10) * 100, s1)
               else (exe, s));
            q = min exe1 (remaining_qty o1)
        in if min_qty o1 \<noteq> 0 \<and> q > uint (min_qty o1) then (o1, s1)
           else
             let (g, s2) = on_env (uninit ouch_Executed_size) s1;
                 (ts, s3) = ouch_get_timestamp s2;
                 (ts2, s4) = ouch_get_timestamp s3;
                 ex = (new_ouch_Executed g)\<lparr>
                   ex_timestamp := ts,
                   ex_token := token o1,
                   ex_executed_qty := to_uint32 q,
                   ex_execution_price := price o1,
                   ex_liquidity_flag := ch CHR ''R'',
                   ex_match_number := ts2\<rparr>
             in (o1\<lparr>remaining_qty := remaining_qty o1 - q, executed_qty := executed_qty o1 + q\<rparr>,
                 post (ouch_Executed_bytes (ouch_Executed_to_network ex)) s4))"

text \<open>
  \<^verbatim>\<open>construct_order_replaced\<close> leaves \<^verbatim>\<open>display\<close>, \<^verbatim>\<open>intermarket_sweep_eligibility\<close> and
  \<^verbatim>\<open>cross_type\<close> of the message uninitialised, and does not convert the order reference
  number to network order.
\<close>

definition ouch_construct_order_replaced ::
    "Ouch_ReplaceOrderReq \<Rightarrow> Ouch_Order \<Rightarrow> ouch_session \<Rightarrow> ouch_session" where
  "ouch_construct_order_replaced ro new_order s =
     (let (g, s1) = on_env (uninit ouch_OrderReplaced_size) s;
          (ts, s2) = ouch_get_timestamp s1;
          r = (new_ouch_OrderReplaced g)\<lparr>
            orp_timestamp := ts,
            orp_token := token new_order,
            orp_side := side new_order,
            orp_qty := to_uint32 (remaining_qty new_order),
            orp_symbol := strncpy 8 (symbol new_order),
            orp_price := price new_order,
            orp_time_in_force := time_in_force new_order,
            orp_firm := strncpy 4 (firm new_order),
            orp_capacity := capacity new_order,
            orp_order_reference_number := orderID new_order,
            orp_bbo_weight_indicator := ch CHR ''2'',
            orp_orig_token := existing_token ro,
            orp_order_state := OrderState_code OS_Live,
            orp_min_qty := min_qty new_order\<rparr>
      in post (ouch_OrderReplaced_bytes (ouch_OrderReplaced_to_network r)) s2)"

section \<open>Validation of incoming packets\<close>

text \<open>
  Each \<^verbatim>\<open>validate_...\<close> function returns \<^verbatim>\<open>true\<close> silently or logs one warning and
  returns \<^verbatim>\<open>false\<close>: here \<open>None\<close> or the warning. The declared length is tested before the
  struct is copied out of the buffer.
\<close>

definition with_declared_length ::
    "nat \<Rightarrow> (byte list \<Rightarrow> 'a) \<Rightarrow> byte list \<Rightarrow> ('a \<Rightarrow> string option) \<Rightarrow> string option result" where
  "with_declared_length n at_fun mem check =
     bind_result (read_struct ouch_MsgHeader_size ouch_MsgHeader_at mem) (\<lambda>h.
       if uint (swap16 (mh_length h)) \<noteq> int n - 2 then Inr (Some ''message length mismatch: '')
       else bind_result (read_struct n at_fun mem) (\<lambda>x. Inr (check x)))"

definition display_ok :: "byte \<Rightarrow> bool" where
  "display_ok d \<longleftrightarrow> d \<in> set (bytes_of_string ''AYNPIMWLOTQ'')"

definition sweep_ok :: "byte \<Rightarrow> bool" where
  "sweep_ok b \<longleftrightarrow> b \<in> set (bytes_of_string ''YNy'')"

definition price_ok :: "u32 \<Rightarrow> bool" where
  "price_ok p \<longleftrightarrow> \<not> (sint p > 1999999900 \<and> sint p \<noteq> 2147483647)"

definition check_enter_order :: "ouch_EnterOrder \<Rightarrow> string option" where
  "check_enter_order eo =
     (if eo_side eo \<notin> set (bytes_of_string ''BSTE'') then Some ''invalide EnterOrder side: ''
      else if \<not> price_ok (eo_price eo) then Some ''invalide EnterOrder price: ''
      else if uint (eo_qty eo) \<le> 0 \<or> uint (eo_qty eo) > 1000000
        then Some ''invalide EnterOrder qty: ''
      else if \<not> display_ok (eo_display eo) then Some ''invalide EnterOrder display: ''
      else if \<not> sweep_ok (eo_intermarket_sweep_eligibility eo)
        then Some ''invalide EnterOrder intermarket_sweep_eligibility: ''
      else if eo_cross_type eo \<notin> set (bytes_of_string ''NOCHSR'')
        then Some ''invalide EnterOrder cross_type: ''
      else if eo_customer_type eo \<notin> set (bytes_of_string '' RN'')
        then Some ''invalide EnterOrder customer_type: ''
      else None)"

definition check_replace_order :: "ouch_ReplaceOrder \<Rightarrow> string option" where
  "check_replace_order ro =
     (if uint (ro_qty ro) \<le> 0 \<or> uint (ro_qty ro) > 1000000
        then Some ''invalide ReplaceOrder qty: ''
      else if \<not> display_ok (ro_display ro) then Some ''invalide ReplaceOrder display: ''
      else if \<not> sweep_ok (ro_intermarket_sweep_eligibility ro)
        then Some ''invalide ReplaceOrder intermarket_sweep_eligibility: ''
      else if \<not> price_ok (ro_price ro) then Some ''invalide ReplaceOrder price: ''
      else None)"

definition check_cancel_order :: "ouch_CancelOrder \<Rightarrow> string option" where
  "check_cancel_order co =
     (if uint (co_qty co) > 1000000 then Some ''invalide CancelOrder qty: '' else None)"

definition check_modify_order :: "ouch_ModifyOrder \<Rightarrow> string option" where
  "check_modify_order mo =
     (if uint (mo_qty mo) > 1000000 then Some ''invalide ModifyOrder qty: '' else None)"

definition validate_enter_order :: "byte list \<Rightarrow> string option result" where
  "validate_enter_order mem =
     with_declared_length ouch_EnterOrder_size ouch_EnterOrder_at mem
       (\<lambda>x. check_enter_order (ouch_EnterOrder_from_network x))"

definition validate_replace_order :: "byte list \<Rightarrow> string option result" where
  "validate_replace_order mem =
     with_declared_length ouch_ReplaceOrder_size ouch_ReplaceOrder_at mem
       (\<lambda>x. check_replace_order (ouch_ReplaceOrder_from_network x))"

definition validate_cancel_order :: "byte list \<Rightarrow> string option result" where
  "validate_cancel_order mem =
     with_declared_length ouch_CancelOrder_size ouch_CancelOrder_at mem
       (\<lambda>x. check_cancel_order (ouch_CancelOrder_from_network x))"

definition validate_modify_order :: "byte list \<Rightarrow> string option result" where
  "validate_modify_order mem =
     with_declared_length ouch_ModifyOrder_size ouch_ModifyOrder_at mem
       (\<lambda>x. check_modify_order (ouch_ModifyOrder_from_network x))"

text \<open>These two test the declared length only and read nothing beyond the header.\<close>

definition validate_header_only :: "nat \<Rightarrow> byte list \<Rightarrow> string option result" where
  "validate_header_only n mem =
     bind_result (read_struct ouch_MsgHeader_size ouch_MsgHeader_at mem) (\<lambda>h.
       Inr (if uint (swap16 (mh_length h)) \<noteq> int n - 2 then Some ''message length mismatch: ''
            else None))"

definition validate_client_heartbeat :: "byte list \<Rightarrow> string option result" where
  "validate_client_heartbeat mem = validate_header_only ouch_ClientHeartbeat_size mem"

definition validate_logout_request :: "byte list \<Rightarrow> string option result" where
  "validate_logout_request mem = validate_header_only ouch_LogoutRequest_size mem"

text \<open>
  \<^verbatim>\<open>regex("([[:space:]]*)([[:digit:]]+)")\<close> against the whole field, decided by a scan.
\<close>

definition byte_is_space :: "byte \<Rightarrow> bool" where
  "byte_is_space b \<longleftrightarrow> b = 32 \<or> 9 \<le> b \<and> b \<le> 13"

definition byte_is_digit :: "byte \<Rightarrow> bool" where
  "byte_is_digit b \<longleftrightarrow> 48 \<le> b \<and> b \<le> 57"

definition seq_num_ok :: "byte list \<Rightarrow> bool" where
  "seq_num_ok bs \<longleftrightarrow>
     (let ds = dropWhile byte_is_space bs in ds \<noteq> [] \<and> list_all byte_is_digit ds)"

definition check_login_request :: "ouch_LoginRequest \<Rightarrow> string option" where
  "check_login_request lr =
     (if \<not> seq_num_ok (lr_requested_seq_num lr) then Some ''invalid login request seq_num: ''
      else None)"

definition validate_login_request :: "byte list \<Rightarrow> string option result" where
  "validate_login_request mem =
     with_declared_length ouch_LoginRequest_size ouch_LoginRequest_at mem check_login_request"

text \<open>
  The dispatch of \<^verbatim>\<open>validate\<close>: the outcome for the packet type, or the fall-through
  warning. An unsequenced packet with an unknown message type falls out of both switches.
\<close>

definition validate_by_type :: "byte list \<Rightarrow> string option result" where
  "validate_by_type mem =
     bind_result (read_struct ouch_MsgHeader_size ouch_MsgHeader_at mem) (\<lambda>h.
       let p = mh_packet_type h; unsupported = Inr (Some ''unsupported message type: '') in
       if p = PacketType_code PT_LoginRequest then validate_login_request mem
       else if p = PacketType_code PT_LogoutRequest then validate_logout_request mem
       else if p = PacketType_code PT_ClientHeartbeat then validate_client_heartbeat mem
       else if p = PacketType_code PT_UnsequencedData then
         bind_result (read_struct ouch_OuchMsgHeader_size ouch_OuchMsgHeader_at mem) (\<lambda>oh.
           let m = omh_msg_type oh in
           if m = OutboundMsgType_code Out_EnterOrder then validate_enter_order mem
           else if m = OutboundMsgType_code Out_ReplaceOrder then validate_replace_order mem
           else if m = OutboundMsgType_code Out_CancelOrder then validate_cancel_order mem
           else if m = OutboundMsgType_code Out_ModifyOrder then validate_modify_order mem
           else unsupported)
       else unsupported)"

definition ouch_validate ::
    "byte list \<Rightarrow> nat \<Rightarrow> ouch_session \<Rightarrow> (bool \<times> ouch_session) result" where
  "ouch_validate mem len s =
     (if \<not> logger_set s then Inl (RuntimeError ''evtsim::Logger has not been set'')
      else
        bind_result (read_struct ouch_MsgHeader_size ouch_MsgHeader_at mem) (\<lambda>h.
          let s1 = (if uint (swap16 (mh_length h)) \<noteq> int len - 2
                    then warn ''message length mismatch: '' mem s else s)
          in bind_result (validate_by_type mem) (\<lambda>w.
               Inr (case w of None \<Rightarrow> (True, s1) | Some txt \<Rightarrow> (False, warn txt mem s1)))))"

section \<open>Handlers\<close>

definition ouch_handle_login_request :: "ouch_session \<Rightarrow> ouch_session" where
  "ouch_handle_login_request s =
     (if session_state s \<noteq> NotLoggedIn then ouch_construct_login_rejected LRR_SessionNotAvailable s
      else let (allowed, s1) = on_env (bm_allows Login) s
           in if \<not> allowed then ouch_construct_login_rejected LRR_NotAuthorized s1
              else ouch_construct_login_accepted 0 0 (s1\<lparr>session_state := LoggedIn\<rparr>))"

definition ouch_handle_logout_request :: "ouch_session \<Rightarrow> ouch_session" where
  "ouch_handle_logout_request s = s\<lparr>session_state := NotLoggedIn\<rparr>"

definition ouch_handle_client_heartbeat :: "ouch_session \<Rightarrow> ouch_session" where
  "ouch_handle_client_heartbeat s =
     (let (t, s1) = on_env clock_ticks s in s1\<lparr>last_recv_heartbeat := t\<rparr>)"

definition ouch_accept_order :: "ouch_EnterOrder \<Rightarrow> ouch_session \<Rightarrow> ouch_session" where
  "ouch_accept_order eo s =
     (let (new_order, s1) = on_env (Ouch_Order_of eo) s;
          s2 = put_active (eo_token eo) new_order (active_index (eo_token eo) s1)
      in ouch_construct_order_accepted new_order s2)"

definition ouch_enter_order_msg :: "ouch_EnterOrder \<Rightarrow> ouch_session \<Rightarrow> ouch_session" where
  "ouch_enter_order_msg eo s =
     (if uint (eo_qty eo) > MAX_SHARES
      then ouch_construct_order_rejected RR_ExceededConfiguredSafety (eo_token eo) s
      else
        let (allowed, s1) =
              (if session_state s \<noteq> LoggedIn then (False, s) else on_env (bm_allows New_order) s)
        in if \<not> allowed then ouch_construct_order_rejected RR_Other (eo_token eo) s1
           else if map_of (active_orders s1) (eo_token eo) = None \<and>
                   map_of (finished_orders s1) (eo_token eo) = None
           then ouch_accept_order eo s1
           else s1)"

definition ouch_enter_order ::
    "byte list \<Rightarrow> ouch_session \<Rightarrow> (byte list \<times> ouch_session) result" where
  "ouch_enter_order mem s =
     bind_result (read_struct ouch_EnterOrder_size ouch_EnterOrder_at mem) (\<lambda>raw.
       let eo = ouch_EnterOrder_from_network raw
       in Inr (write_struct (ouch_EnterOrder_bytes eo) mem, ouch_enter_order_msg eo s))"

definition ouch_modify_order_msg :: "ouch_ModifyOrder \<Rightarrow> ouch_session \<Rightarrow> ouch_session" where
  "ouch_modify_order_msg mo s =
     (if map_of (active_orders s) (mo_token mo) = None then s
      else let (allowed, s1) = on_env (bm_allows Modify_order) s
           in if \<not> allowed then s1
              else s1\<lparr>pending_modify := pending_modify s1 @ [ouch_parse_modify_order mo]\<rparr>)"

definition ouch_modify_order ::
    "byte list \<Rightarrow> ouch_session \<Rightarrow> (byte list \<times> ouch_session) result" where
  "ouch_modify_order mem s =
     bind_result (read_struct ouch_ModifyOrder_size ouch_ModifyOrder_at mem) (\<lambda>raw.
       let mo = ouch_ModifyOrder_from_network raw
       in Inr (write_struct (ouch_ModifyOrder_bytes mo) mem, ouch_modify_order_msg mo s))"

text \<open>A replace request is queued without looking its token up, and before any login test.\<close>

definition ouch_replace_order ::
    "byte list \<Rightarrow> ouch_session \<Rightarrow> (byte list \<times> ouch_session) result" where
  "ouch_replace_order mem s =
     (let (allowed, s1) = on_env (bm_allows Replace_order) s
      in if \<not> allowed then Inr (mem, s1)
         else bind_result (read_struct ouch_ReplaceOrder_size ouch_ReplaceOrder_at mem) (\<lambda>raw.
           let ro = ouch_ReplaceOrder_from_network raw
           in Inr (write_struct (ouch_ReplaceOrder_bytes ro) mem,
                   s1\<lparr>pending_replace := pending_replace s1 @ [parse_replace_order ro]\<rparr>)))"

definition ouch_cancel_order_msg :: "ouch_CancelOrder \<Rightarrow> ouch_session \<Rightarrow> ouch_session" where
  "ouch_cancel_order_msg co s =
     (if map_of (active_orders s) (co_token co) = None then s
      else let (allowed, s1) = on_env (bm_allows Cancel_order) s
           in if \<not> allowed then s1
              else s1\<lparr>pending_cancel := pending_cancel s1 @ [parse_cancel_order co]\<rparr>)"

definition ouch_cancel_order ::
    "byte list \<Rightarrow> ouch_session \<Rightarrow> (byte list \<times> ouch_session) result" where
  "ouch_cancel_order mem s =
     bind_result (read_struct ouch_CancelOrder_size ouch_CancelOrder_at mem) (\<lambda>raw.
       let co = ouch_CancelOrder_from_network raw
       in Inr (write_struct (ouch_CancelOrder_bytes co) mem, ouch_cancel_order_msg co s))"

definition ouch_handle_message ::
    "byte list \<Rightarrow> ouch_session \<Rightarrow> (byte list \<times> ouch_session) result" where
  "ouch_handle_message mem s =
     bind_result (read_struct ouch_OuchMsgHeader_size ouch_OuchMsgHeader_at mem) (\<lambda>h.
       let m = omh_msg_type h in
       if m = OutboundMsgType_code Out_EnterOrder then ouch_enter_order mem s
       else if m = OutboundMsgType_code Out_ReplaceOrder then ouch_replace_order mem s
       else if m = OutboundMsgType_code Out_CancelOrder then ouch_cancel_order mem s
       else if m = OutboundMsgType_code Out_ModifyOrder then ouch_modify_order mem s
       else Inr (mem, s))"

text \<open>
  \<open>mem\<close> is the receive buffer from the packet pointer to its end, \<open>len\<close> the packet length the
  caller computed.
\<close>

definition ouch_handle_packet ::
    "byte list \<Rightarrow> nat \<Rightarrow> ouch_session \<Rightarrow> (byte list \<times> ouch_session) result" where
  "ouch_handle_packet mem len s =
     bind_result (ouch_validate mem len s) (\<lambda>(valid, s1).
       if \<not> valid then Inr (mem, s1)
       else bind_result (read_struct ouch_MsgHeader_size ouch_MsgHeader_at mem) (\<lambda>h.
         let p = mh_packet_type h in
         if p = PacketType_code PT_LoginRequest then Inr (mem, ouch_handle_login_request s1)
         else if p = PacketType_code PT_LogoutRequest then Inr (mem, ouch_handle_logout_request s1)
         else if p = PacketType_code PT_ClientHeartbeat
           then Inr (mem, ouch_handle_client_heartbeat s1)
         else if p = PacketType_code PT_UnsequencedData then ouch_handle_message mem s1
         else Inr (mem, s1)))"

end
