(* ===== verification/OuchMarket.thy ===== *)
theory OuchMarket
  imports OuchSession
begin

text \<open>
  The market logic of the OUCH session: what \<^verbatim>\<open>session::market_logic()\<close> runs on every timer
  tick (heartbeat, cancels, modifications, replacements, executions, in this order) and the two
  functions the administrator console calls. Loops over the request queues are recursions over
  the queue; loops over the hash table of active orders run over the visiting order the
  environment chooses. Tokens collected in \<^verbatim>\<open>done_tokens\<close> are erased after the loop.
\<close>

section \<open>Heartbeat\<close>

definition ouch_post_heartbeat :: "ouch_session \<Rightarrow> ouch_session" where
  "ouch_post_heartbeat s =
     (let (g, s1) = on_env (uninit ouch_ServerHeartbeat_size) s
      in post (ouch_ServerHeartbeat_bytes (new_ouch_ServerHeartbeat g)) s1)"

definition ouch_heartbeat_logic :: "ouch_session \<Rightarrow> ouch_session" where
  "ouch_heartbeat_logic s = heartbeat_with ouch_post_heartbeat s"

section \<open>Cancels\<close>

definition ouch_cancel_one ::
    "Ouch_CancelOrderReq \<Rightarrow> ouch_session \<Rightarrow> byte list list \<times> ouch_session" where
  "ouch_cancel_one co s =
     (let t = cxl_token co in
      case map_of (active_orders s) t of
        None \<Rightarrow> ([], ouch_construct_cancel_rejected t s)
      | Some o1 \<Rightarrow>
          let (allowed, s1) = on_env (bm_allows Cancel_order) s in
          if \<not> allowed then ([], ouch_construct_cancel_rejected t s1)
          else
            let curr_qty = to_uint32 (remaining_qty o1) in
            if cxl_qty co = 0
            then ([t], ouch_construct_order_canceled curr_qty CR_UserRequested t s1)
            else if cxl_qty co \<ge> curr_qty then ([], s1)
            else ([], ouch_construct_order_canceled (curr_qty - cxl_qty co) CR_UserRequested t
                        (put_active t (o1\<lparr>remaining_qty := uint (cxl_qty co)\<rparr>) s1)))"

fun ouch_cancel_loop ::
    "Ouch_CancelOrderReq list \<Rightarrow> ouch_session \<Rightarrow> byte list list \<times> ouch_session" where
  "ouch_cancel_loop [] s = ([], s)"
| "ouch_cancel_loop (co # reqs) s =
     (let (d, s1) = ouch_cancel_one co s; (ds, s2) = ouch_cancel_loop reqs s1 in (d @ ds, s2))"

definition ouch_cancel_logic :: "ouch_session \<Rightarrow> ouch_session" where
  "ouch_cancel_logic s =
     (let (done_tokens, s1) = ouch_cancel_loop (pending_cancel s) s
      in erase_active done_tokens (s1\<lparr>pending_cancel := []\<rparr>))"

section \<open>Modifications\<close>

text \<open>
  The \<^verbatim>\<open>switch\<close> on the side of the order has no \<^verbatim>\<open>break\<close>: control falls through to the
  tests of the cases below. \<open>True\<close> is the \<^verbatim>\<open>continue\<close> that skips the request.
\<close>

definition modify_skipped :: "byte \<Rightarrow> byte \<Rightarrow> bool" where
  "modify_skipped old new =
     (let sell_test = (new \<noteq> Side_code Side_SellShort \<and> new \<noteq> Side_code Side_SellShortExempt);
          exempt_test = (new \<noteq> Side_code Side_SellShort \<and> new \<noteq> Side_code Side_Sell);
          short_test = (new \<noteq> Side_code Side_SellShortExempt \<and> new \<noteq> Side_code Side_Sell)
      in if old = Side_code Side_Sell then sell_test \<or> exempt_test \<or> short_test
         else if old = Side_code Side_SellShortExempt then exempt_test \<or> short_test
         else if old = Side_code Side_SellShort then short_test
         else False)"

definition ouch_modify_one ::
    "Ouch_ModifyOrderReq \<Rightarrow> ouch_session \<Rightarrow> byte list list \<times> ouch_session" where
  "ouch_modify_one mo s =
     (case map_of (active_orders s) (mod_token mo) of
        None \<Rightarrow> ([], s)
      | Some o1 \<Rightarrow>
          if modify_skipped (side o1) (new_side mo) then ([], s)
          else if executed_qty o1 \<ge> uint (req_qty mo)
          then ([token o1], ouch_construct_order_modified 0 mo s)
          else
            let o2 = o1\<lparr>side := new_side mo, remaining_qty := uint (req_qty mo) - executed_qty o1\<rparr>
            in ([], ouch_construct_order_modified (to_uint32 (remaining_qty o2)) mo
                      (put_active (mod_token mo) o2 s)))"

fun ouch_modify_loop ::
    "Ouch_ModifyOrderReq list \<Rightarrow> ouch_session \<Rightarrow> byte list list \<times> ouch_session" where
  "ouch_modify_loop [] s = ([], s)"
| "ouch_modify_loop (mo # reqs) s =
     (let (d, s1) = ouch_modify_one mo s; (ds, s2) = ouch_modify_loop reqs s1 in (d @ ds, s2))"

text \<open>The queue of modifications is not cleared.\<close>

definition ouch_modify_logic :: "ouch_session \<Rightarrow> ouch_session" where
  "ouch_modify_logic s =
     (let (done_tokens, s1) = ouch_modify_loop (pending_modify s) s
      in erase_active done_tokens s1)"

section \<open>Replacements\<close>

definition replaced_order :: "Ouch_ReplaceOrderReq \<Rightarrow> Ouch_Order \<Rightarrow> Ouch_Order" where
  "replaced_order ro o1 = o1\<lparr>
     token := new_token ro,
     remaining_qty := uint (rpl_qty ro) - executed_qty o1,
     time_in_force := rpl_time_in_force ro,
     remain_time_in_force := to_int32 (uint (rpl_time_in_force ro)),
     price := rpl_price ro,
     intermarket_sweep_eligibility := rpl_intermarket_sweep_eligibility ro\<rparr>"

text \<open>
  The target is fetched with \<^verbatim>\<open>operator[]\<close> before it is looked up, so an unknown token
  creates an order and the lookup that follows always succeeds.
\<close>

definition ouch_replace_one ::
    "Ouch_ReplaceOrderReq \<Rightarrow> ouch_session \<Rightarrow> byte list list \<times> ouch_session" where
  "ouch_replace_one ro s =
     (let t = existing_token ro; s1 = active_index t s in
      case map_of (active_orders s1) t of
        None \<Rightarrow> ([], s1)
      | Some o1 \<Rightarrow>
          if uint (rpl_qty ro) > MAX_SHARES \<or> uint (rpl_qty ro) \<le> executed_qty o1
          then ([t], ouch_construct_order_canceled (to_uint32 (remaining_qty o1)) CR_SystemCancel t s1)
          else
            let o2 = replaced_order ro o1;
                s2 = ouch_construct_order_replaced ro o2 (put_active t o2 s1);
                s3 = active_index (new_token ro) s2
            in ([], s3\<lparr>active_orders :=
                       AList.delete t (swap_entries t (new_token ro) (active_orders s3))\<rparr>))"

fun ouch_replace_loop ::
    "Ouch_ReplaceOrderReq list \<Rightarrow> ouch_session \<Rightarrow> byte list list \<times> ouch_session" where
  "ouch_replace_loop [] s = ([], s)"
| "ouch_replace_loop (ro # reqs) s =
     (let (d, s1) = ouch_replace_one ro s; (ds, s2) = ouch_replace_loop reqs s1 in (d @ ds, s2))"

definition ouch_replace_logic :: "ouch_session \<Rightarrow> ouch_session" where
  "ouch_replace_logic s =
     (let (done_tokens, s1) = ouch_replace_loop (pending_replace s) s
      in (erase_active done_tokens s1)\<lparr>pending_replace := []\<rparr>)"

section \<open>Executions\<close>

text \<open>
  One round of the loop for the entry \<open>(k, o1)\<close> of the table: the result says whether the key
  goes to \<^verbatim>\<open>done_tokens\<close>. The entry is a reference, so every change of the order is written
  back, the remaining seconds that \<^verbatim>\<open>expired()\<close> recomputes included.
\<close>

definition ouch_execute_one ::
    "byte list \<Rightarrow> Ouch_Order \<Rightarrow> ouch_session \<Rightarrow> byte list list \<times> ouch_session" where
  "ouch_execute_one k o1 s =
     (let (allowed, s1) = on_env (bm_allows Execution) s in
      if \<not> allowed then ([], s1)
      else
        let ((late, o2), s2) =
              on_env (\<lambda>e. let (b, o2, e2) = Ouch_Order_expired o1 e in ((b, o2), e2)) s1;
            s3 = put_active k o2 s2
        in if late
           then ([k], ouch_construct_order_canceled (to_uint32 (remaining_qty o2)) CR_TimeOut
                        (token o2) s3)
           else if time_in_force o2 = 0
           then ([k], if remaining_qty o2 \<noteq> 0
                      then ouch_construct_order_canceled (to_uint32 (remaining_qty o2)) CR_IOC
                             (token o2) s3
                      else s3)
           else
             let ((alive, o3), s4) =
                   on_env (\<lambda>e. let (b, o3, e3) = Ouch_Order_still_active o2 e in ((b, o3), e3)) s3;
                 s5 = put_active k o3 s4
             in if alive
                then let (o4, s6) = ouch_construct_order_executed o3 (- 1) s5
                     in ([], put_active k o4 s6)
                else ([k], put_finished k o3 (finished_index k s5)))"

fun ouch_execute_loop ::
    "(byte list \<times> Ouch_Order) list \<Rightarrow> ouch_session \<Rightarrow> byte list list \<times> ouch_session" where
  "ouch_execute_loop [] s = ([], s)"
| "ouch_execute_loop (p # ps) s =
     (let (d, s1) = ouch_execute_one (fst p) (snd p) s; (ds, s2) = ouch_execute_loop ps s1
      in (d @ ds, s2))"

definition ouch_execution_logic :: "ouch_session \<Rightarrow> ouch_session" where
  "ouch_execution_logic s =
     (let (rank, s1) = on_env next_rank s;
          (done_tokens, s2) = ouch_execute_loop (visit rank (active_orders s1)) s1
      in erase_active done_tokens s2)"

definition ouch_market_logic :: "ouch_session \<Rightarrow> ouch_session" where
  "ouch_market_logic s =
     ouch_execution_logic (ouch_replace_logic (ouch_modify_logic (ouch_cancel_logic
       (ouch_heartbeat_logic s))))"

section \<open>Console callbacks\<close>

fun ouch_cancel_all_loop ::
    "(byte list \<times> Ouch_Order) list \<Rightarrow> ouch_session \<Rightarrow> int \<times> ouch_session" where
  "ouch_cancel_all_loop [] s = (0, s)"
| "ouch_cancel_all_loop (p # ps) s =
     (let ((alive, o2), s1) =
            on_env (\<lambda>e. let (b, o2, e2) = Ouch_Order_still_active (snd p) e in ((b, o2), e2)) s;
          s2 = put_active (fst p) o2 s1;
          s3 = (if alive
                then ouch_construct_order_canceled (to_uint32 (remaining_qty o2)) CR_SystemCancel
                       (token o2) s2
                else s2);
          (n, s4) = ouch_cancel_all_loop ps s3
      in (if alive then n + 1 else n, s4))"

definition ouch_cancel_all :: "ouch_session \<Rightarrow> int \<times> ouch_session" where
  "ouch_cancel_all s =
     (let (rank, s1) = on_env next_rank s;
          (num_canceled, s2) = ouch_cancel_all_loop (visit rank (active_orders s1)) s1
      in (num_canceled, s2\<lparr>active_orders := []\<rparr>))"

text \<open>
  \<^verbatim>\<open>curr_status()\<close> writes to a string stream; the result is the list of what is inserted.
\<close>

definition chars_of :: "byte list \<Rightarrow> string" where
  "chars_of bs = List.map (\<lambda>b. char_of (unat b)) bs"

definition ouch_order_status :: "Ouch_Order \<Rightarrow> out_item list" where
  "ouch_order_status o1 =
     [Str ''[OrderID: '', IntV (uint (orderID o1)), Str '']'', Endl,
      Str ''Symbol: '', Str (chars_of (symbol o1)), Endl,
      Str ''Side: '', Str (chars_of [side o1]), Str '' Price: '', IntV (sint (price o1)), Endl,
      Str ''Executed qty: '', IntV (executed_qty o1), Endl,
      Str ''Remaining qty: '', IntV (remaining_qty o1), Endl]"

definition ouch_curr_status :: "ouch_session \<Rightarrow> out_item list \<times> ouch_session" where
  "ouch_curr_status s =
     (if active_orders s = [] then ([Str ''[OUCH]No active order''], s)
      else let (rank, s1) = on_env next_rank s
           in ([Str ''[OUCH]Active Order(s):'', Endl] @
               concat (List.map (\<lambda>p. ouch_order_status (snd p)) (visit rank (active_orders s1))), s1))"

end
