(* ===== verification/OuchFacts.thy ===== *)
theory OuchFacts
  imports OuchMarket
begin

text \<open>
  Shared lemmas on the OUCH session. The first part reads a sent packet the way a client does:
  \<open>ouch_event_of\<close> decodes it to an event, \<open>ouch_frame\<close> says that its declared length is its real
  length. The second part gives, for each \<^verbatim>\<open>construct_...\<close> function, the event it sends and the
  fields it leaves alone.
\<close>

section \<open>What a client reads\<close>

datatype ouch_event =
    Ev_LoginAccepted "byte list" "byte list"
  | Ev_LoginRejected byte
  | Ev_Heartbeat
  | Ev_Accepted ouch_OrderAccepted
  | Ev_Rejected "byte list" byte
  | Ev_Canceled "byte list" u32 byte
  | Ev_Modified "byte list" byte u32
  | Ev_Replaced ouch_OrderReplaced
  | Ev_Executed "byte list" u32 u32
  | Ev_CancelRejected "byte list"

definition ouch_event_of :: "byte list \<Rightarrow> ouch_event option" where
  "ouch_event_of m =
     (let p = u8_at 2 m; t = u8_at 3 m in
      if p = PacketType_code PT_LoginAccepted
        then let x = ouch_LoginAccepted_at m in Some (Ev_LoginAccepted (la_session x) (la_seq_num x))
      else if p = PacketType_code PT_LoginRejected
        then Some (Ev_LoginRejected (lj_reason (ouch_LoginRejected_at m)))
      else if p = PacketType_code PT_ServerHeartbeat then Some Ev_Heartbeat
      else if p \<noteq> PacketType_code PT_SequencedData then None
      else if t = InboundMsgType_code In_OrderAccepted
        then Some (Ev_Accepted (ouch_OrderAccepted_to_network (ouch_OrderAccepted_at m)))
      else if t = InboundMsgType_code In_OrderRejected
        then let x = ouch_OrderRejected_to_network (ouch_OrderRejected_at m)
             in Some (Ev_Rejected (oj_token x) (oj_reason x))
      else if t = InboundMsgType_code In_OrderCanceled
        then let x = ouch_OrderCanceled_to_network (ouch_OrderCanceled_at m)
             in Some (Ev_Canceled (oc_token x) (oc_decrement_qty x) (oc_reason x))
      else if t = InboundMsgType_code In_OrderModified
        then let x = ouch_OrderModified_to_network (ouch_OrderModified_at m)
             in Some (Ev_Modified (om_token x) (om_side x) (om_shares x))
      else if t = InboundMsgType_code In_OrderReplaced
        then Some (Ev_Replaced (ouch_OrderReplaced_to_network (ouch_OrderReplaced_at m)))
      else if t = InboundMsgType_code In_Executed
        then let x = ouch_Executed_to_network (ouch_Executed_at m)
             in Some (Ev_Executed (ex_token x) (ex_executed_qty x) (ex_execution_price x))
      else if t = InboundMsgType_code In_CancelReject
        then Some (Ev_CancelRejected (cr_token (ouch_CancelReject_to_network (ouch_CancelReject_at m))))
      else None)"

definition ouch_events :: "ouch_session \<Rightarrow> ouch_event option list" where
  "ouch_events s = List.map ouch_event_of (pending_out_messages s)"

text \<open>A packet whose big-endian length field says how many bytes follow it.\<close>

definition ouch_frame :: "byte list \<Rightarrow> bool" where
  "ouch_frame m \<longleftrightarrow> 3 \<le> length m \<and> uint (swap16 (u16_at 0 m)) = int (length m) - 2"

text \<open>The types of the messages a server sends: the packet type and, for sequenced data, the message type give the size.\<close>

definition ouch_sent_size :: "byte \<Rightarrow> byte \<Rightarrow> nat" where
  "ouch_sent_size p t =
     (if p = PacketType_code PT_LoginAccepted then ouch_LoginAccepted_size
      else if p = PacketType_code PT_LoginRejected then ouch_LoginRejected_size
      else if p = PacketType_code PT_ServerHeartbeat then ouch_ServerHeartbeat_size
      else if p \<noteq> PacketType_code PT_SequencedData then 0
      else if t = InboundMsgType_code In_OrderAccepted then ouch_OrderAccepted_size
      else if t = InboundMsgType_code In_OrderRejected then ouch_OrderRejected_size
      else if t = InboundMsgType_code In_OrderCanceled then ouch_OrderCanceled_size
      else if t = InboundMsgType_code In_OrderModified then ouch_OrderModified_size
      else if t = InboundMsgType_code In_OrderReplaced then ouch_OrderReplaced_size
      else if t = InboundMsgType_code In_Executed then ouch_Executed_size
      else if t = InboundMsgType_code In_CancelReject then ouch_CancelReject_size
      else 0)"

definition ouch_typed :: "byte list \<Rightarrow> bool" where
  "ouch_typed m \<longleftrightarrow> 0 < length m \<and> length m = ouch_sent_size (u8_at 2 m) (u8_at 3 m)"

definition ouch_framed :: "ouch_session \<Rightarrow> bool" where
  "ouch_framed s \<longleftrightarrow>
     (\<forall>m\<in>set (pending_out_messages s). ouch_frame m \<and> ouch_event_of m \<noteq> None \<and> ouch_typed m)"

lemma ouch_events_post [simp]: "ouch_events (post m s) = ouch_events s @ [ouch_event_of m]"
  by (simp add: ouch_events_def)

lemma ouch_framed_post [simp]:
  "ouch_framed (post m s) \<longleftrightarrow> ouch_framed s \<and> ouch_frame m \<and> ouch_event_of m \<noteq> None \<and> ouch_typed m"
  by (auto simp: ouch_framed_def)

text \<open>The record extension sees through \<^const>\<open>post\<close> and environment updates.\<close>

lemma post_ouch_sel [simp]:
  "active_orders (post m s) = active_orders s"
  "finished_orders (post m s) = finished_orders s"
  "pending_cancel (post m s) = pending_cancel s"
  "pending_modify (post m s) = pending_modify s"
  "pending_replace (post m s) = pending_replace s"
  "start_of_day (post m s) = start_of_day s"
  by (simp_all add: post_def)

lemma ouch_events_upd [simp]:
  "ouch_events (s\<lparr>s_env := e\<rparr>) = ouch_events s"
  "ouch_events (s\<lparr>active_orders := m\<rparr>) = ouch_events s"
  "ouch_events (s\<lparr>finished_orders := m\<rparr>) = ouch_events s"
  "ouch_events (s\<lparr>pending_cancel := c\<rparr>) = ouch_events s"
  "ouch_events (s\<lparr>pending_modify := d\<rparr>) = ouch_events s"
  "ouch_events (s\<lparr>pending_replace := r\<rparr>) = ouch_events s"
  "ouch_events (s\<lparr>session_state := st\<rparr>) = ouch_events s"
  "ouch_events (s\<lparr>last_send_heartbeat := h\<rparr>) = ouch_events s"
  "ouch_events (s\<lparr>last_recv_heartbeat := h\<rparr>) = ouch_events s"
  "ouch_events (s\<lparr>logger_set := b\<rparr>) = ouch_events s"
  by (simp_all add: ouch_events_def)

lemma ouch_framed_upd [simp]:
  "ouch_framed (s\<lparr>s_env := e\<rparr>) = ouch_framed s"
  "ouch_framed (s\<lparr>active_orders := m\<rparr>) = ouch_framed s"
  "ouch_framed (s\<lparr>finished_orders := m\<rparr>) = ouch_framed s"
  "ouch_framed (s\<lparr>pending_cancel := c\<rparr>) = ouch_framed s"
  "ouch_framed (s\<lparr>pending_modify := d\<rparr>) = ouch_framed s"
  "ouch_framed (s\<lparr>pending_replace := r\<rparr>) = ouch_framed s"
  "ouch_framed (s\<lparr>session_state := st\<rparr>) = ouch_framed s"
  "ouch_framed (s\<lparr>last_send_heartbeat := h\<rparr>) = ouch_framed s"
  "ouch_framed (s\<lparr>last_recv_heartbeat := h\<rparr>) = ouch_framed s"
  "ouch_framed (s\<lparr>logger_set := b\<rparr>) = ouch_framed s"
  by (simp_all add: ouch_framed_def)

section \<open>Fields a message constructor leaves alone\<close>

lemmas construct_defs = on_env_result ouch_get_timestamp_def Let_def split_def

lemma construct_login_accepted_sel [simp]:
  "active_orders (ouch_construct_login_accepted sn qn s) = active_orders s"
  "finished_orders (ouch_construct_login_accepted sn qn s) = finished_orders s"
  "pending_cancel (ouch_construct_login_accepted sn qn s) = pending_cancel s"
  "pending_modify (ouch_construct_login_accepted sn qn s) = pending_modify s"
  "pending_replace (ouch_construct_login_accepted sn qn s) = pending_replace s"
  "start_of_day (ouch_construct_login_accepted sn qn s) = start_of_day s"
  "session_state (ouch_construct_login_accepted sn qn s) = session_state s"
  "logger_set (ouch_construct_login_accepted sn qn s) = logger_set s"
  "last_send_heartbeat (ouch_construct_login_accepted sn qn s) = last_send_heartbeat s"
  "last_recv_heartbeat (ouch_construct_login_accepted sn qn s) = last_recv_heartbeat s"
  by (simp_all add: ouch_construct_login_accepted_def construct_defs)

lemma construct_login_rejected_sel [simp]:
  "active_orders (ouch_construct_login_rejected lr s) = active_orders s"
  "finished_orders (ouch_construct_login_rejected lr s) = finished_orders s"
  "pending_cancel (ouch_construct_login_rejected lr s) = pending_cancel s"
  "pending_modify (ouch_construct_login_rejected lr s) = pending_modify s"
  "pending_replace (ouch_construct_login_rejected lr s) = pending_replace s"
  "start_of_day (ouch_construct_login_rejected lr s) = start_of_day s"
  "session_state (ouch_construct_login_rejected lr s) = session_state s"
  "logger_set (ouch_construct_login_rejected lr s) = logger_set s"
  "last_send_heartbeat (ouch_construct_login_rejected lr s) = last_send_heartbeat s"
  "last_recv_heartbeat (ouch_construct_login_rejected lr s) = last_recv_heartbeat s"
  by (simp_all add: ouch_construct_login_rejected_def construct_defs)

lemma construct_cancel_rejected_sel [simp]:
  "active_orders (ouch_construct_cancel_rejected t s) = active_orders s"
  "finished_orders (ouch_construct_cancel_rejected t s) = finished_orders s"
  "pending_cancel (ouch_construct_cancel_rejected t s) = pending_cancel s"
  "pending_modify (ouch_construct_cancel_rejected t s) = pending_modify s"
  "pending_replace (ouch_construct_cancel_rejected t s) = pending_replace s"
  "start_of_day (ouch_construct_cancel_rejected t s) = start_of_day s"
  "session_state (ouch_construct_cancel_rejected t s) = session_state s"
  "logger_set (ouch_construct_cancel_rejected t s) = logger_set s"
  "last_send_heartbeat (ouch_construct_cancel_rejected t s) = last_send_heartbeat s"
  "last_recv_heartbeat (ouch_construct_cancel_rejected t s) = last_recv_heartbeat s"
  by (simp_all add: ouch_construct_cancel_rejected_def construct_defs)

lemma construct_order_accepted_sel [simp]:
  "active_orders (ouch_construct_order_accepted o1 s) = active_orders s"
  "finished_orders (ouch_construct_order_accepted o1 s) = finished_orders s"
  "pending_cancel (ouch_construct_order_accepted o1 s) = pending_cancel s"
  "pending_modify (ouch_construct_order_accepted o1 s) = pending_modify s"
  "pending_replace (ouch_construct_order_accepted o1 s) = pending_replace s"
  "start_of_day (ouch_construct_order_accepted o1 s) = start_of_day s"
  "session_state (ouch_construct_order_accepted o1 s) = session_state s"
  "logger_set (ouch_construct_order_accepted o1 s) = logger_set s"
  "last_send_heartbeat (ouch_construct_order_accepted o1 s) = last_send_heartbeat s"
  "last_recv_heartbeat (ouch_construct_order_accepted o1 s) = last_recv_heartbeat s"
  by (simp_all add: ouch_construct_order_accepted_def construct_defs)

lemma construct_order_rejected_sel [simp]:
  "active_orders (ouch_construct_order_rejected rr t s) = active_orders s"
  "finished_orders (ouch_construct_order_rejected rr t s) = finished_orders s"
  "pending_cancel (ouch_construct_order_rejected rr t s) = pending_cancel s"
  "pending_modify (ouch_construct_order_rejected rr t s) = pending_modify s"
  "pending_replace (ouch_construct_order_rejected rr t s) = pending_replace s"
  "start_of_day (ouch_construct_order_rejected rr t s) = start_of_day s"
  "session_state (ouch_construct_order_rejected rr t s) = session_state s"
  "logger_set (ouch_construct_order_rejected rr t s) = logger_set s"
  "last_send_heartbeat (ouch_construct_order_rejected rr t s) = last_send_heartbeat s"
  "last_recv_heartbeat (ouch_construct_order_rejected rr t s) = last_recv_heartbeat s"
  by (simp_all add: ouch_construct_order_rejected_def construct_defs)

lemma construct_order_canceled_sel [simp]:
  "active_orders (ouch_construct_order_canceled q r t s) = active_orders s"
  "finished_orders (ouch_construct_order_canceled q r t s) = finished_orders s"
  "pending_cancel (ouch_construct_order_canceled q r t s) = pending_cancel s"
  "pending_modify (ouch_construct_order_canceled q r t s) = pending_modify s"
  "pending_replace (ouch_construct_order_canceled q r t s) = pending_replace s"
  "start_of_day (ouch_construct_order_canceled q r t s) = start_of_day s"
  "session_state (ouch_construct_order_canceled q r t s) = session_state s"
  "logger_set (ouch_construct_order_canceled q r t s) = logger_set s"
  "last_send_heartbeat (ouch_construct_order_canceled q r t s) = last_send_heartbeat s"
  "last_recv_heartbeat (ouch_construct_order_canceled q r t s) = last_recv_heartbeat s"
  by (simp_all add: ouch_construct_order_canceled_def construct_defs)

lemma construct_order_modified_sel [simp]:
  "active_orders (ouch_construct_order_modified q mo s) = active_orders s"
  "finished_orders (ouch_construct_order_modified q mo s) = finished_orders s"
  "pending_cancel (ouch_construct_order_modified q mo s) = pending_cancel s"
  "pending_modify (ouch_construct_order_modified q mo s) = pending_modify s"
  "pending_replace (ouch_construct_order_modified q mo s) = pending_replace s"
  "start_of_day (ouch_construct_order_modified q mo s) = start_of_day s"
  "session_state (ouch_construct_order_modified q mo s) = session_state s"
  "logger_set (ouch_construct_order_modified q mo s) = logger_set s"
  "last_send_heartbeat (ouch_construct_order_modified q mo s) = last_send_heartbeat s"
  "last_recv_heartbeat (ouch_construct_order_modified q mo s) = last_recv_heartbeat s"
  by (simp_all add: ouch_construct_order_modified_def construct_defs)

lemma construct_order_replaced_sel [simp]:
  "active_orders (ouch_construct_order_replaced ro o1 s) = active_orders s"
  "finished_orders (ouch_construct_order_replaced ro o1 s) = finished_orders s"
  "pending_cancel (ouch_construct_order_replaced ro o1 s) = pending_cancel s"
  "pending_modify (ouch_construct_order_replaced ro o1 s) = pending_modify s"
  "pending_replace (ouch_construct_order_replaced ro o1 s) = pending_replace s"
  "start_of_day (ouch_construct_order_replaced ro o1 s) = start_of_day s"
  "session_state (ouch_construct_order_replaced ro o1 s) = session_state s"
  "logger_set (ouch_construct_order_replaced ro o1 s) = logger_set s"
  "last_send_heartbeat (ouch_construct_order_replaced ro o1 s) = last_send_heartbeat s"
  "last_recv_heartbeat (ouch_construct_order_replaced ro o1 s) = last_recv_heartbeat s"
  by (simp_all add: ouch_construct_order_replaced_def construct_defs)
section \<open>The event each message constructor sends\<close>

lemma ouch_LoginAccepted_header:
  "u16_at 0 (ouch_LoginAccepted_bytes x) = la_length x"
  "u8_at 2 (ouch_LoginAccepted_bytes x) = la_packet_type x"
  by (simp_all add: ouch_LoginAccepted_bytes_def at_skip at_here at_here_exact)

lemma ouch_LoginRejected_header:
  "u16_at 0 (ouch_LoginRejected_bytes x) = lj_length x"
  "u8_at 2 (ouch_LoginRejected_bytes x) = lj_packet_type x"
  by (simp_all add: ouch_LoginRejected_bytes_def at_skip at_here at_here_exact)

lemma ouch_ServerHeartbeat_header:
  "u16_at 0 (ouch_ServerHeartbeat_bytes x) = sh_length x"
  "u8_at 2 (ouch_ServerHeartbeat_bytes x) = sh_packet_type x"
  by (simp_all add: ouch_ServerHeartbeat_bytes_def at_skip at_here at_here_exact)

lemma ouch_OrderAccepted_header:
  "u16_at 0 (ouch_OrderAccepted_bytes x) = oa_length x"
  "u8_at 2 (ouch_OrderAccepted_bytes x) = oa_packet_type x"
  "u8_at 3 (ouch_OrderAccepted_bytes x) = oa_msg_type x"
  by (simp_all add: ouch_OrderAccepted_bytes_def at_skip at_here at_here_exact)

lemma ouch_OrderCanceled_header:
  "u16_at 0 (ouch_OrderCanceled_bytes x) = oc_length x"
  "u8_at 2 (ouch_OrderCanceled_bytes x) = oc_packet_type x"
  "u8_at 3 (ouch_OrderCanceled_bytes x) = oc_msg_type x"
  by (simp_all add: ouch_OrderCanceled_bytes_def at_skip at_here at_here_exact)

lemma ouch_OrderModified_header:
  "u16_at 0 (ouch_OrderModified_bytes x) = om_length x"
  "u8_at 2 (ouch_OrderModified_bytes x) = om_packet_type x"
  "u8_at 3 (ouch_OrderModified_bytes x) = om_msg_type x"
  by (simp_all add: ouch_OrderModified_bytes_def at_skip at_here at_here_exact)

lemma ouch_OrderRejected_header:
  "u16_at 0 (ouch_OrderRejected_bytes x) = oj_length x"
  "u8_at 2 (ouch_OrderRejected_bytes x) = oj_packet_type x"
  "u8_at 3 (ouch_OrderRejected_bytes x) = oj_msg_type x"
  by (simp_all add: ouch_OrderRejected_bytes_def at_skip at_here at_here_exact)

lemma ouch_OrderReplaced_header:
  "u16_at 0 (ouch_OrderReplaced_bytes x) = orp_length x"
  "u8_at 2 (ouch_OrderReplaced_bytes x) = orp_packet_type x"
  "u8_at 3 (ouch_OrderReplaced_bytes x) = orp_msg_type x"
  by (simp_all add: ouch_OrderReplaced_bytes_def at_skip at_here at_here_exact)

lemma ouch_Executed_header:
  "u16_at 0 (ouch_Executed_bytes x) = ex_length x"
  "u8_at 2 (ouch_Executed_bytes x) = ex_packet_type x"
  "u8_at 3 (ouch_Executed_bytes x) = ex_msg_type x"
  by (simp_all add: ouch_Executed_bytes_def at_skip at_here at_here_exact)

lemma ouch_CancelReject_header:
  "u16_at 0 (ouch_CancelReject_bytes x) = cr_length x"
  "u8_at 2 (ouch_CancelReject_bytes x) = cr_packet_type x"
  "u8_at 3 (ouch_CancelReject_bytes x) = cr_msg_type x"
  by (simp_all add: ouch_CancelReject_bytes_def at_skip at_here at_here_exact)

lemmas ouch_headers =
  ouch_LoginAccepted_header
  ouch_LoginRejected_header
  ouch_ServerHeartbeat_header
  ouch_OrderAccepted_header
  ouch_OrderCanceled_header
  ouch_OrderModified_header
  ouch_OrderRejected_header
  ouch_OrderReplaced_header
  ouch_Executed_header
  ouch_CancelReject_header

lemmas ouch_oks =
  ouch_LoginAccepted_ok_def
  ouch_LoginRejected_ok_def
  ouch_ServerHeartbeat_ok_def
  ouch_OrderAccepted_ok_def
  ouch_OrderCanceled_ok_def
  ouch_OrderModified_ok_def
  ouch_OrderRejected_ok_def
  ouch_OrderReplaced_ok_def
  ouch_Executed_ok_def
  ouch_CancelReject_ok_def

lemmas ouch_news =
  new_ouch_LoginAccepted_def ouch_LoginAccepted_size_def
  new_ouch_LoginRejected_def ouch_LoginRejected_size_def
  new_ouch_ServerHeartbeat_def ouch_ServerHeartbeat_size_def
  new_ouch_OrderAccepted_def ouch_OrderAccepted_size_def
  new_ouch_OrderCanceled_def ouch_OrderCanceled_size_def
  new_ouch_OrderModified_def ouch_OrderModified_size_def
  new_ouch_OrderRejected_def ouch_OrderRejected_size_def
  new_ouch_OrderReplaced_def ouch_OrderReplaced_size_def
  new_ouch_Executed_def ouch_Executed_size_def
  new_ouch_CancelReject_def ouch_CancelReject_size_def

lemmas ouch_to_networks =
  ouch_OrderAccepted_to_network_def
  ouch_OrderCanceled_to_network_def
  ouch_OrderModified_to_network_def
  ouch_OrderRejected_to_network_def
  ouch_OrderReplaced_to_network_def
  ouch_Executed_to_network_def
  ouch_CancelReject_to_network_def

lemmas ouch_at_exact =
  ouch_LoginAccepted.at_bytes_exact ouch_LoginAccepted.length_bytes
  ouch_LoginRejected.at_bytes_exact ouch_LoginRejected.length_bytes
  ouch_ServerHeartbeat.at_bytes_exact ouch_ServerHeartbeat.length_bytes
  ouch_OrderAccepted.at_bytes_exact ouch_OrderAccepted.length_bytes
  ouch_OrderCanceled.at_bytes_exact ouch_OrderCanceled.length_bytes
  ouch_OrderModified.at_bytes_exact ouch_OrderModified.length_bytes
  ouch_OrderRejected.at_bytes_exact ouch_OrderRejected.length_bytes
  ouch_OrderReplaced.at_bytes_exact ouch_OrderReplaced.length_bytes
  ouch_Executed.at_bytes_exact ouch_Executed.length_bytes
  ouch_CancelReject.at_bytes_exact ouch_CancelReject.length_bytes

text \<open>
  The packet a constructor sends: its event, and that it is framed. The size of every struct is
  small, so the length field never wraps.
\<close>

lemmas event_proof = construct_defs ouch_event_of_def ouch_headers ouch_at_exact ouch_oks
  ouch_to_networks ouch_news ch_def ouch_frame_def ouch_typed_def ouch_sent_size_def

definition order_ok :: "Ouch_Order \<Rightarrow> bool" where
  "order_ok o1 \<longleftrightarrow> length (token o1) = 14 \<and> length (symbol o1) = 8 \<and> length (firm o1) = 4"

text \<open>The timestamp the next message carries.\<close>

definition ouch_stamp :: "ouch_session \<Rightarrow> u64" where
  "ouch_stamp s = to_uint64 (w_nano (s_env s) (n_nano (s_env s)) - start_of_day s * 1000000000)"

text \<open>The order-accepted message, in host values, that answers for an order.\<close>

definition order_accepted_msg :: "u64 \<Rightarrow> Ouch_Order \<Rightarrow> ouch_OrderAccepted" where
  "order_accepted_msg ts o1 =
     \<lparr>oa_length = swap16 67, oa_packet_type = PacketType_code PT_SequencedData,
      oa_msg_type = InboundMsgType_code In_OrderAccepted, oa_timestamp = ts,
      oa_token = token o1, oa_side = side o1, oa_qty = to_uint32 (remaining_qty o1),
      oa_symbol = strncpy 8 (symbol o1), oa_price = price o1,
      oa_time_in_force = time_in_force o1, oa_firm = strncpy 4 (firm o1),
      oa_display = display o1, oa_order_reference_number = orderID o1,
      oa_capacity = capacity o1,
      oa_intermarket_sweep_eligibility = intermarket_sweep_eligibility o1,
      oa_min_qty = min_qty o1, oa_cross_type = cross_type o1,
      oa_order_state = OrderState_code OS_Live, oa_bbo_weight_indicator = ch CHR ''2''\<rparr>"

text \<open>The order-replaced message; \<open>g\<close> is the uninitialised memory it was built in.\<close>

definition order_replaced_msg ::
    "byte list \<Rightarrow> u64 \<Rightarrow> Ouch_ReplaceOrderReq \<Rightarrow> Ouch_Order \<Rightarrow> ouch_OrderReplaced" where
  "order_replaced_msg g ts ro o1 =
     \<lparr>orp_length = swap16 81, orp_packet_type = PacketType_code PT_SequencedData,
      orp_msg_type = InboundMsgType_code In_OrderReplaced, orp_timestamp = ts,
      orp_token = token o1, orp_side = side o1, orp_qty = to_uint32 (remaining_qty o1),
      orp_symbol = strncpy 8 (symbol o1), orp_price = price o1,
      orp_time_in_force = time_in_force o1, orp_firm = strncpy 4 (firm o1),
      orp_display = orp_display (ouch_OrderReplaced_at g),
      orp_order_reference_number = orderID o1, orp_capacity = capacity o1,
      orp_intermarket_sweep_eligibility =
        orp_intermarket_sweep_eligibility (ouch_OrderReplaced_at g),
      orp_min_qty = min_qty o1, orp_cross_type = orp_cross_type (ouch_OrderReplaced_at g),
      orp_order_state = OrderState_code OS_Live, orp_orig_token = existing_token ro,
      orp_bbo_weight_indicator = ch CHR ''2''\<rparr>"

lemma login_accepted_event:
  "ouch_events (ouch_construct_login_accepted sn qn s) = ouch_events s @
     [Some (Ev_LoginAccepted
        (replicate (10 - length (decimal (unat sn))) (ch CHR '' '') @ decimal (unat sn))
        (replicate (20 - length (decimal (unat qn))) (ch CHR '' '') @ decimal (unat qn)))]"
  "ouch_framed (ouch_construct_login_accepted sn qn s) = ouch_framed s"
  using length_decimal_u32 [of sn] length_decimal_u32 [of qn]
  by (simp_all add: ouch_construct_login_accepted_def event_proof)

lemma login_rejected_event:
  "ouch_events (ouch_construct_login_rejected lr s) =
     ouch_events s @ [Some (Ev_LoginRejected (LoginRejectReason_code lr))]"
  "ouch_framed (ouch_construct_login_rejected lr s) = ouch_framed s"
  by (simp_all add: ouch_construct_login_rejected_def event_proof)

lemma heartbeat_event:
  "ouch_events (ouch_post_heartbeat s) = ouch_events s @ [Some Ev_Heartbeat]"
  "ouch_framed (ouch_post_heartbeat s) = ouch_framed s"
  by (simp_all add: ouch_post_heartbeat_def event_proof)

lemma cancel_rejected_event:
  "length t = 14 \<Longrightarrow> ouch_events (ouch_construct_cancel_rejected t s) =
     ouch_events s @ [Some (Ev_CancelRejected t)]"
  "length t = 14 \<Longrightarrow> ouch_framed (ouch_construct_cancel_rejected t s) = ouch_framed s"
  by (simp_all add: ouch_construct_cancel_rejected_def event_proof)

lemma order_accepted_event:
  "length (token o1) = 14 \<Longrightarrow> ouch_events (ouch_construct_order_accepted o1 s) =
     ouch_events s @ [Some (Ev_Accepted (order_accepted_msg (ouch_stamp s) o1))]"
  "length (token o1) = 14 \<Longrightarrow>
     ouch_framed (ouch_construct_order_accepted o1 s) = ouch_framed s"
  by (simp_all add: ouch_construct_order_accepted_def event_proof order_accepted_msg_def
      ouch_stamp_def uninit_def clock_now_def)

lemma order_rejected_event:
  "length t = 14 \<Longrightarrow> ouch_events (ouch_construct_order_rejected rr t s) =
     ouch_events s @ [Some (Ev_Rejected t (RejectedReason_code rr))]"
  "length t = 14 \<Longrightarrow> ouch_framed (ouch_construct_order_rejected rr t s) = ouch_framed s"
  by (simp_all add: ouch_construct_order_rejected_def event_proof)

lemma order_canceled_event:
  "length t = 14 \<Longrightarrow> ouch_events (ouch_construct_order_canceled q r t s) =
     ouch_events s @ [Some (Ev_Canceled t q (CancelReason_code r))]"
  "length t = 14 \<Longrightarrow> ouch_framed (ouch_construct_order_canceled q r t s) = ouch_framed s"
  by (simp_all add: ouch_construct_order_canceled_def event_proof)

lemma order_modified_event:
  "length (mod_token mo) = 14 \<Longrightarrow> ouch_events (ouch_construct_order_modified q mo s) =
     ouch_events s @ [Some (Ev_Modified (mod_token mo) (new_side mo) q)]"
  "length (mod_token mo) = 14 \<Longrightarrow>
     ouch_framed (ouch_construct_order_modified q mo s) = ouch_framed s"
  by (simp_all add: ouch_construct_order_modified_def event_proof)

lemma order_replaced_event:
  "length (token o1) = 14 \<Longrightarrow> length (existing_token ro) = 14 \<Longrightarrow>
     ouch_events (ouch_construct_order_replaced ro o1 s) = ouch_events s @
     [Some (Ev_Replaced (order_replaced_msg (fst (uninit 83 (s_env s))) (ouch_stamp s) ro o1))]"
  "length (token o1) = 14 \<Longrightarrow> length (existing_token ro) = 14 \<Longrightarrow>
     ouch_framed (ouch_construct_order_replaced ro o1 s) = ouch_framed s"
  by (simp_all add: ouch_construct_order_replaced_def event_proof order_replaced_msg_def
      ouch_stamp_def uninit_def clock_now_def)

lemmas sent_events =
  login_accepted_event login_rejected_event heartbeat_event cancel_rejected_event
  order_accepted_event order_rejected_event order_canceled_event order_modified_event
  order_replaced_event

end
