(* ===== verification/OuchInv.thy ===== *)
theory OuchInv
  imports OuchFacts
begin

text \<open>
  The well-formedness invariant of the OUCH session and its preservation by every operation of
  the session. Every table has distinct keys, every order sits under its own token, tokens and
  character arrays have their declared lengths, every queued message is a well-framed packet of
  the protocol. Inside the replace loop the invariant is weaker: an order conjured up by
  \<^verbatim>\<open>operator[]\<close> may sit under a foreign key, as long as the key is already marked for
  erasure; \<open>D\<close> is the set of such keys.
\<close>

section \<open>Well-formed tables\<close>

definition entry_ok :: "byte list set \<Rightarrow> byte list \<Rightarrow> Ouch_Order \<Rightarrow> bool" where
  "entry_ok D k o1 \<longleftrightarrow> length k = 14 \<and> order_ok o1 \<and> (token o1 = k \<or> k \<in> D)"

definition table_ok :: "byte list set \<Rightarrow> (byte list \<times> Ouch_Order) list \<Rightarrow> bool" where
  "table_ok D m \<longleftrightarrow> distinct (keys m) \<and> (\<forall>k o1. map_of m k = Some o1 \<longrightarrow> entry_ok D k o1)"

lemma table_ok_Nil [simp]: "table_ok D []"
  by (simp add: table_ok_def keys_def)

lemma table_okD: "table_ok D m \<Longrightarrow> map_of m k = Some o1 \<Longrightarrow> entry_ok D k o1"
  by (simp add: table_ok_def)

lemma table_ok_distinct: "table_ok D m \<Longrightarrow> distinct (keys m)"
  by (simp add: table_ok_def)

lemma entry_ok_mono: "entry_ok D k o1 \<Longrightarrow> D \<subseteq> D' \<Longrightarrow> entry_ok D' k o1"
  by (auto simp: entry_ok_def)

lemma table_ok_mono: "table_ok D m \<Longrightarrow> D \<subseteq> D' \<Longrightarrow> table_ok D' m"
  unfolding table_ok_def using entry_ok_mono by blast

lemma table_ok_update:
  "table_ok D m \<Longrightarrow> entry_ok D k o1 \<Longrightarrow> table_ok D (AList.update k o1 m)"
  by (simp add: table_ok_def)

lemma table_ok_delete: "table_ok D m \<Longrightarrow> table_ok (D - {k}) (AList.delete k m)"
  by (auto simp: table_ok_def distinct_keys_delete entry_ok_def split: if_splits)

lemma table_ok_erase_all:
  "table_ok D m \<Longrightarrow> D - set ks \<subseteq> D' \<Longrightarrow> table_ok D' (erase_all ks m)"
  by (auto simp: table_ok_def distinct_keys_erase_all map_of_erase_all entry_ok_def
      split: if_splits)

lemma table_ok_set: "table_ok D m \<Longrightarrow> p \<in> set m \<Longrightarrow> entry_ok D (fst p) (snd p)"
  using map_of_in_set [of m "fst p" "snd p"] by (auto simp: table_ok_def)

lemma update_update [simp]: "AList.update k v (AList.update k v' m) = AList.update k v m"
  by (induction m) auto

lemma put_active_put_active [simp]: "put_active k o1 (put_active k o2 s) = put_active k o1 s"
  by (simp add: put_active_def)

section \<open>The session invariant\<close>

definition ouch_inv :: "byte list set \<Rightarrow> ouch_session \<Rightarrow> bool" where
  "ouch_inv D s \<longleftrightarrow>
     table_ok D (active_orders s) \<and> table_ok {} (finished_orders s) \<and>
     (\<forall>co\<in>set (pending_cancel s). length (cxl_token co) = 14) \<and>
     (\<forall>mo\<in>set (pending_modify s). length (mod_token mo) = 14) \<and>
     (\<forall>ro\<in>set (pending_replace s). length (existing_token ro) = 14 \<and> length (new_token ro) = 14) \<and>
     ouch_framed s"

abbreviation ouch_wf :: "ouch_session \<Rightarrow> bool" where
  "ouch_wf s \<equiv> ouch_inv {} s"

lemma ouch_inv_active: "ouch_inv D s \<Longrightarrow> table_ok D (active_orders s)"
  by (simp add: ouch_inv_def)

lemma ouch_inv_mono: "ouch_inv D s \<Longrightarrow> D \<subseteq> D' \<Longrightarrow> ouch_inv D' s"
  using table_ok_mono by (auto simp: ouch_inv_def)

lemma ouch_inv_frame [simp]:
  "ouch_inv D (s\<lparr>s_env := e\<rparr>) = ouch_inv D s"
  "ouch_inv D (s\<lparr>session_state := st\<rparr>) = ouch_inv D s"
  "ouch_inv D (s\<lparr>last_send_heartbeat := h\<rparr>) = ouch_inv D s"
  "ouch_inv D (s\<lparr>last_recv_heartbeat := h\<rparr>) = ouch_inv D s"
  "ouch_inv D (s\<lparr>logger_set := b\<rparr>) = ouch_inv D s"
  by (simp_all add: ouch_inv_def)

lemma ouch_post_heartbeat_sel [simp]:
  "active_orders (ouch_post_heartbeat s) = active_orders s"
  "finished_orders (ouch_post_heartbeat s) = finished_orders s"
  "pending_cancel (ouch_post_heartbeat s) = pending_cancel s"
  "pending_modify (ouch_post_heartbeat s) = pending_modify s"
  "pending_replace (ouch_post_heartbeat s) = pending_replace s"
  "session_state (ouch_post_heartbeat s) = session_state s"
  "logger_set (ouch_post_heartbeat s) = logger_set s"
  "last_send_heartbeat (ouch_post_heartbeat s) = last_send_heartbeat s"
  by (simp_all add: ouch_post_heartbeat_def construct_defs)

lemma ouch_inv_messages [simp]:
  "ouch_inv D (ouch_construct_login_accepted sn qn s) = ouch_inv D s"
  "ouch_inv D (ouch_construct_login_rejected lr s) = ouch_inv D s"
  "ouch_inv D (ouch_post_heartbeat s) = ouch_inv D s"
  "length t = 14 \<Longrightarrow> ouch_inv D (ouch_construct_cancel_rejected t s) = ouch_inv D s"
  "length t = 14 \<Longrightarrow> ouch_inv D (ouch_construct_order_rejected rr t s) = ouch_inv D s"
  "length t = 14 \<Longrightarrow> ouch_inv D (ouch_construct_order_canceled q r t s) = ouch_inv D s"
  "length (token o1) = 14 \<Longrightarrow> ouch_inv D (ouch_construct_order_accepted o1 s) = ouch_inv D s"
  "length (mod_token mo) = 14 \<Longrightarrow> ouch_inv D (ouch_construct_order_modified q mo s) = ouch_inv D s"
  "length (token o1) = 14 \<Longrightarrow> length (existing_token ro) = 14 \<Longrightarrow>
     ouch_inv D (ouch_construct_order_replaced ro o1 s) = ouch_inv D s"
  by (simp_all add: ouch_inv_def sent_events)

lemma put_active_sel [simp]:
  "active_orders (put_active k o1 s) = AList.update k o1 (active_orders s)"
  "finished_orders (put_active k o1 s) = finished_orders s"
  "pending_cancel (put_active k o1 s) = pending_cancel s"
  "pending_modify (put_active k o1 s) = pending_modify s"
  "pending_replace (put_active k o1 s) = pending_replace s"
  "session_state (put_active k o1 s) = session_state s"
  "s_env (put_active k o1 s) = s_env s"
  "pending_out_messages (put_active k o1 s) = pending_out_messages s"
  "ouch_events (put_active k o1 s) = ouch_events s"
  "ouch_framed (put_active k o1 s) = ouch_framed s"
  by (simp_all add: put_active_def)

lemma ouch_inv_put_active:
  "ouch_inv D s \<Longrightarrow> entry_ok D k o1 \<Longrightarrow> ouch_inv D (put_active k o1 s)"
  by (simp add: ouch_inv_def table_ok_update)

lemma put_finished_sel [simp]:
  "active_orders (put_finished k o1 s) = active_orders s"
  "finished_orders (put_finished k o1 s) = AList.update k o1 (finished_orders s)"
  "pending_cancel (put_finished k o1 s) = pending_cancel s"
  "pending_modify (put_finished k o1 s) = pending_modify s"
  "pending_replace (put_finished k o1 s) = pending_replace s"
  "session_state (put_finished k o1 s) = session_state s"
  "ouch_events (put_finished k o1 s) = ouch_events s"
  "ouch_framed (put_finished k o1 s) = ouch_framed s"
  by (simp_all add: put_finished_def)

text \<open>A default-constructed order has arrays of the right length whatever memory held.\<close>

lemma new_Ouch_Order_ok: "order_ok (fst (new_Ouch_Order w))"
  by (simp add: new_Ouch_Order_def raw_Ouch_Order_def order_ok_def uninit_def length_arr_at
      split_def Let_def)

lemma Ouch_Order_of_ok:
  "length (eo_token eo) = 14 \<Longrightarrow> order_ok (fst (Ouch_Order_of eo w))"
  "token (fst (Ouch_Order_of eo w)) = eo_token eo"
  by (simp_all add: Ouch_Order_of_def Ouch_Order_parse_order_def order_ok_def split_def Let_def)

lemma active_index_sel [simp]:
  "finished_orders (active_index k s) = finished_orders s"
  "pending_cancel (active_index k s) = pending_cancel s"
  "pending_modify (active_index k s) = pending_modify s"
  "pending_replace (active_index k s) = pending_replace s"
  "session_state (active_index k s) = session_state s"
  "pending_out_messages (active_index k s) = pending_out_messages s"
  "ouch_events (active_index k s) = ouch_events s"
  "ouch_framed (active_index k s) = ouch_framed s"
  by (simp_all add: active_index_def construct_defs split: option.splits)

lemma active_index_present:
  "map_of (active_orders s) k = Some o1 \<Longrightarrow> active_index k s = s"
  by (simp add: active_index_def)

lemma active_index_absent:
  "map_of (active_orders s) k = None \<Longrightarrow> active_orders (active_index k s) =
     AList.update k (fst (new_Ouch_Order (s_env s))) (active_orders s)"
  by (simp add: active_index_def construct_defs)

lemma map_of_active_index_other:
  "k' \<noteq> k \<Longrightarrow> map_of (active_orders (active_index k s)) k' = map_of (active_orders s) k'"
  by (cases "map_of (active_orders s) k") (simp_all add: active_index_present active_index_absent)

lemma map_of_active_index: "map_of (active_orders (active_index k s)) k \<noteq> None"
  by (cases "map_of (active_orders s) k") (simp_all add: active_index_present active_index_absent)

lemma ouch_inv_active_index:
  assumes "ouch_inv D s" and "length k = 14"
  shows "ouch_inv (insert k D) (active_index k s)"
proof (cases "map_of (active_orders s) k")
  case (Some o1)
  then show ?thesis using ouch_inv_mono [OF assms(1), of "insert k D"]
    by (simp add: active_index_present subset_insertI)
next
  case None
  have "entry_ok (insert k D) k (fst (new_Ouch_Order (s_env s)))"
    using assms(2) new_Ouch_Order_ok by (simp add: entry_ok_def)
  then show ?thesis
    using assms(1) None table_ok_mono [of D "active_orders s" "insert k D"]
    by (auto simp: ouch_inv_def active_index_absent intro: table_ok_update)
qed

lemma finished_index_sel [simp]:
  "active_orders (finished_index k s) = active_orders s"
  "pending_cancel (finished_index k s) = pending_cancel s"
  "pending_modify (finished_index k s) = pending_modify s"
  "pending_replace (finished_index k s) = pending_replace s"
  "session_state (finished_index k s) = session_state s"
  "ouch_events (finished_index k s) = ouch_events s"
  "ouch_framed (finished_index k s) = ouch_framed s"
  by (simp_all add: finished_index_def construct_defs split: option.splits)

lemma put_finished_index [simp]:
  "AList.update k o1 (finished_orders (finished_index k s)) = AList.update k o1 (finished_orders s)"
  by (cases "map_of (finished_orders s) k") (simp_all add: finished_index_def construct_defs)

lemma ouch_inv_finish:
  "ouch_inv D s \<Longrightarrow> entry_ok {} k o1 \<Longrightarrow> ouch_inv D (put_finished k o1 (finished_index k s))"
  by (simp add: ouch_inv_def table_ok_update)

lemma erase_active_sel [simp]:
  "active_orders (erase_active ks s) = erase_all ks (active_orders s)"
  "finished_orders (erase_active ks s) = finished_orders s"
  "pending_cancel (erase_active ks s) = pending_cancel s"
  "pending_modify (erase_active ks s) = pending_modify s"
  "pending_replace (erase_active ks s) = pending_replace s"
  "session_state (erase_active ks s) = session_state s"
  "ouch_events (erase_active ks s) = ouch_events s"
  "ouch_framed (erase_active ks s) = ouch_framed s"
  by (simp_all add: erase_active_def)

lemma ouch_inv_erase_active:
  "ouch_inv D s \<Longrightarrow> D - set ks \<subseteq> D' \<Longrightarrow> ouch_inv D' (erase_active ks s)"
  using table_ok_erase_all by (auto simp: ouch_inv_def)

section \<open>Cancels\<close>

lemma ouch_inv_cancel_one:
  assumes "ouch_inv {} s" and "length (cxl_token co) = 14"
  shows "ouch_inv {} (snd (ouch_cancel_one co s))"
    and "pending_cancel (snd (ouch_cancel_one co s)) = pending_cancel s"
proof -
  show "ouch_inv {} (snd (ouch_cancel_one co s))"
  proof (cases "map_of (active_orders s) (cxl_token co)")
    case None
    then show ?thesis using assms by (simp add: ouch_cancel_one_def Let_def)
  next
    case (Some o1)
    from table_okD [OF ouch_inv_active [OF assms(1)] Some]
    have "entry_ok {} (cxl_token co) (o1\<lparr>remaining_qty := uint (cxl_qty co)\<rparr>)"
      by (simp add: entry_ok_def order_ok_def)
    then show ?thesis using assms Some ouch_inv_put_active
      by (simp add: ouch_cancel_one_def construct_defs)
  qed
  show "pending_cancel (snd (ouch_cancel_one co s)) = pending_cancel s"
    by (simp add: ouch_cancel_one_def construct_defs split: option.splits)
qed

lemma ouch_inv_cancel_loop:
  "ouch_inv {} s \<Longrightarrow> \<forall>co\<in>set reqs. length (cxl_token co) = 14 \<Longrightarrow>
   ouch_inv {} (snd (ouch_cancel_loop reqs s))"
  by (induction reqs arbitrary: s) (auto simp: split_def Let_def ouch_inv_cancel_one)

lemma ouch_inv_cancel_logic: "ouch_wf s \<Longrightarrow> ouch_wf (ouch_cancel_logic s)"
proof -
  assume wf: "ouch_wf s"
  then have "ouch_inv {} (snd (ouch_cancel_loop (pending_cancel s) s))"
    by (intro ouch_inv_cancel_loop) (auto simp: ouch_inv_def)
  then have "ouch_inv {} ((snd (ouch_cancel_loop (pending_cancel s) s))\<lparr>pending_cancel := []\<rparr>)"
    by (simp add: ouch_inv_def)
  then show ?thesis by (simp add: ouch_cancel_logic_def split_def Let_def ouch_inv_erase_active)
qed

section \<open>Modifications\<close>

lemma ouch_modify_one_frame:
  "pending_modify (snd (ouch_modify_one mo s)) = pending_modify s"
  "pending_cancel (snd (ouch_modify_one mo s)) = pending_cancel s"
  "pending_replace (snd (ouch_modify_one mo s)) = pending_replace s"
  "finished_orders (snd (ouch_modify_one mo s)) = finished_orders s"
  by (simp_all add: ouch_modify_one_def Let_def split: option.splits)

lemma ouch_inv_modify_one:
  assumes "ouch_inv {} s" and "length (mod_token mo) = 14"
  shows "ouch_inv {} (snd (ouch_modify_one mo s))"
proof (cases "map_of (active_orders s) (mod_token mo)")
  case None
  then show ?thesis using assms by (simp add: ouch_modify_one_def)
next
  case (Some o1)
  from table_okD [OF ouch_inv_active [OF assms(1)] Some]
  have "entry_ok {} (mod_token mo) (o1\<lparr>side := x, remaining_qty := q\<rparr>)" for x q
    by (simp add: entry_ok_def order_ok_def)
  then show ?thesis using assms Some ouch_inv_put_active
    by (simp add: ouch_modify_one_def construct_defs)
qed

lemma ouch_modify_loop_frame:
  "pending_modify (snd (ouch_modify_loop reqs s)) = pending_modify s"
  "pending_cancel (snd (ouch_modify_loop reqs s)) = pending_cancel s"
  "pending_replace (snd (ouch_modify_loop reqs s)) = pending_replace s"
  "finished_orders (snd (ouch_modify_loop reqs s)) = finished_orders s"
  by (induction reqs arbitrary: s) (simp_all add: split_def Let_def ouch_modify_one_frame)

lemma ouch_inv_modify_loop:
  "ouch_inv {} s \<Longrightarrow> \<forall>mo\<in>set reqs. length (mod_token mo) = 14 \<Longrightarrow>
   ouch_inv {} (snd (ouch_modify_loop reqs s))"
  by (induction reqs arbitrary: s) (auto simp: split_def Let_def ouch_inv_modify_one)

lemma ouch_inv_modify_logic: "ouch_wf s \<Longrightarrow> ouch_wf (ouch_modify_logic s)"
proof -
  assume wf: "ouch_wf s"
  then have "ouch_inv {} (snd (ouch_modify_loop (pending_modify s) s))"
    by (intro ouch_inv_modify_loop) (auto simp: ouch_inv_def)
  then show ?thesis by (simp add: ouch_modify_logic_def split_def Let_def ouch_inv_erase_active)
qed

section \<open>Replacements\<close>

text \<open>
  The key the order leaves is deleted right after the swap, so what the swap put there does not
  matter; the order arrives under its new token.
\<close>

lemma table_ok_move:
  assumes t: "table_ok D m" and k1: "map_of m k1 = Some o1" and k2: "map_of m k2 \<noteq> None"
    and o1: "entry_ok {} k2 o1"
  shows "table_ok (D - {k1}) (AList.delete k1 (swap_entries k1 k2 m))"
proof -
  from k2 obtain o2 where k2': "map_of m k2 = Some o2" by blast
  have "entry_ok (D - {k1}) k o3"
    if "k \<noteq> k1" "((map_of m)(k1 \<mapsto> o2, k2 \<mapsto> o1)) k = Some o3" for k o3
    using that t o1 by (auto simp: table_ok_def entry_ok_def split: if_splits)
  with t show ?thesis
    unfolding table_ok_def
    by (simp add: distinct_keys_delete map_of_swap_entries [OF k1 k2'])
qed

lemma ouch_replace_one_frame:
  "pending_modify (snd (ouch_replace_one ro s)) = pending_modify s"
  "pending_cancel (snd (ouch_replace_one ro s)) = pending_cancel s"
  "pending_replace (snd (ouch_replace_one ro s)) = pending_replace s"
  "finished_orders (snd (ouch_replace_one ro s)) = finished_orders s"
  "session_state (snd (ouch_replace_one ro s)) = session_state s"
  by (simp_all add: ouch_replace_one_def Let_def split: option.splits)

lemma replaced_order_ok:
  "order_ok o1 \<Longrightarrow> length (new_token ro) = 14 \<Longrightarrow> order_ok (replaced_order ro o1)"
  "token (replaced_order ro o1) = new_token ro"
  by (simp_all add: replaced_order_def order_ok_def)

text \<open>The same move to a key without an order, which gets a new one first.\<close>

lemma table_ok_move_absent:
  assumes inv: "ouch_inv (insert t D) s" and here: "map_of (active_orders s) t = Some o2"
    and n: "map_of (active_orders s) n = None" and o2: "entry_ok {} n o2"
  shows "table_ok D (AList.delete t (swap_entries t n (active_orders (active_index n s))))"
proof -
  let ?s3 = "active_index n s" and ?o3 = "fst (new_Ouch_Order (s_env s))"
  have neq: "n \<noteq> t" using here n by force
  have m3: "map_of (active_orders ?s3) = (map_of (active_orders s))(n \<mapsto> ?o3)"
    and k3: "distinct (keys (active_orders ?s3))"
    using table_ok_distinct [OF ouch_inv_active [OF inv]]
    by (simp_all only: active_index_absent [OF n] map_of_update distinct_keys_update)
  have m4: "map_of (swap_entries t n (active_orders ?s3)) = (map_of (active_orders ?s3))(t \<mapsto> ?o3, n \<mapsto> o2)"
    by (rule map_of_swap_entries) (use m3 neq here in auto)
  have "entry_ok D k o4" if "k \<noteq> t" and "((map_of (active_orders ?s3))(t \<mapsto> ?o3, n \<mapsto> o2)) k = Some o4" for k o4
    using that m3 o2 table_okD [OF ouch_inv_active [OF inv], of k] by (auto simp: entry_ok_def split: if_splits)
  then show ?thesis using k3 m4 by (simp add: table_ok_def distinct_keys_delete)
qed

lemma ouch_inv_replace_one:
  assumes inv: "ouch_inv D s"
    and len: "length (existing_token ro) = 14" "length (new_token ro) = 14"
    and step: "ouch_replace_one ro s = (d, s')"
  shows "ouch_inv (D \<union> set d) s'"
proof -
  let ?t = "existing_token ro" and ?n = "new_token ro"
  let ?s1 = "active_index ?t s"
  have inv1: "ouch_inv (insert ?t D) ?s1" by (rule ouch_inv_active_index [OF inv len(1)])
  obtain o1 where o1: "map_of (active_orders ?s1) ?t = Some o1"
    using map_of_active_index [where k = ?t and s = s] by blast
  have e1: "order_ok o1" using table_okD [OF ouch_inv_active [OF inv1] o1] by (simp add: entry_ok_def)
  show ?thesis
  proof (cases "uint (rpl_qty ro) > MAX_SHARES \<or> uint (rpl_qty ro) \<le> executed_qty o1")
    case True
    then have "d = [?t]"
      and "s' = ouch_construct_order_canceled (to_uint32 (remaining_qty o1)) CR_SystemCancel ?t ?s1"
      using step o1 by (auto simp: ouch_replace_one_def Let_def)
    with inv1 len show ?thesis by simp
  next
    case False
    let ?o2 = "replaced_order ro o1"
    let ?s2 = "ouch_construct_order_replaced ro ?o2 (put_active ?t ?o2 ?s1)"
    let ?s3 = "active_index ?n ?s2"
    have d: "d = []" and s': "s' = ?s3\<lparr>active_orders :=
        AList.delete ?t (swap_entries ?t ?n (active_orders ?s3))\<rparr>"
      using step o1 False by (auto simp: ouch_replace_one_def Let_def)
    have o2: "entry_ok {} ?n ?o2" and o2': "entry_ok (insert ?t D) ?t ?o2"
      using e1 len by (simp_all add: entry_ok_def replaced_order_ok)
    have inv2: "ouch_inv (insert ?t D) ?s2"
      using inv1 o2' len ouch_inv_put_active by (simp add: replaced_order_ok)
    have here: "map_of (active_orders ?s2) ?t = Some ?o2" by simp
    show ?thesis
    proof (cases "map_of (active_orders ?s2) ?n")
      case (Some o3)
      then have "?s3 = ?s2" by (rule active_index_present)
      moreover have "table_ok (insert ?t D - {?t})
          (AList.delete ?t (swap_entries ?t ?n (active_orders ?s2)))"
        by (rule table_ok_move [OF ouch_inv_active [OF inv2] here _ o2]) (use Some in blast)
      ultimately show ?thesis using inv2 s' d table_ok_mono [of "insert ?t D - {?t}" _ D]
        by (auto simp: ouch_inv_def)
    next
      case None
      from table_ok_move_absent [OF inv2 here None o2] show ?thesis using inv2 s' d by (simp add: ouch_inv_def)
    qed
  qed
qed

lemma ouch_replace_loop_frame:
  "pending_modify (snd (ouch_replace_loop reqs s)) = pending_modify s"
  "pending_cancel (snd (ouch_replace_loop reqs s)) = pending_cancel s"
  "pending_replace (snd (ouch_replace_loop reqs s)) = pending_replace s"
  "finished_orders (snd (ouch_replace_loop reqs s)) = finished_orders s"
  by (induction reqs arbitrary: s) (simp_all add: split_def Let_def ouch_replace_one_frame)

lemma ouch_inv_replace_loop:
  "ouch_inv D s \<Longrightarrow>
   \<forall>ro\<in>set reqs. length (existing_token ro) = 14 \<and> length (new_token ro) = 14 \<Longrightarrow>
   ouch_inv (D \<union> set (fst (ouch_replace_loop reqs s))) (snd (ouch_replace_loop reqs s))"
proof (induction reqs arbitrary: s D)
  case Nil
  then show ?case by simp
next
  case (Cons ro reqs)
  obtain d s1 where one: "ouch_replace_one ro s = (d, s1)" by fastforce
  have "ouch_inv (D \<union> set d) s1"
    by (rule ouch_inv_replace_one [OF Cons.prems(1) _ _ one]) (use Cons.prems(2) in auto)
  from Cons.IH [OF this] Cons.prems(2) one show ?case
    by (simp add: split_def Let_def Un_assoc)
qed

lemma ouch_inv_replace_logic: "ouch_wf s \<Longrightarrow> ouch_wf (ouch_replace_logic s)"
proof -
  assume wf: "ouch_wf s"
  then have "ouch_inv ({} \<union> set (fst (ouch_replace_loop (pending_replace s) s)))
      (snd (ouch_replace_loop (pending_replace s) s))"
    by (intro ouch_inv_replace_loop) (auto simp: ouch_inv_def)
  then have "ouch_wf (erase_active (fst (ouch_replace_loop (pending_replace s) s))
      (snd (ouch_replace_loop (pending_replace s) s)))"
    by (rule ouch_inv_erase_active) simp
  then show ?thesis by (simp add: ouch_replace_logic_def split_def Let_def) (simp add: ouch_inv_def)
qed

section \<open>Executions\<close>

text \<open>The five outcomes of one round of the execution loop.\<close>

lemma ouch_execute_one_eq:
  assumes "bm_allows Execution (s_env s) = (b, e1)" and "Ouch_Order_expired o1 e1 = (x, o2, e2)"
    and "Ouch_Order_still_active o2 e2 = (a, o3, e3)"
  shows "ouch_execute_one k o1 s =
    (if \<not> b then ([], s\<lparr>s_env := e1\<rparr>)
     else let s2 = put_active k o2 (s\<lparr>s_env := e2\<rparr>); s4 = put_active k o3 (s\<lparr>s_env := e3\<rparr>) in
       if x then ([k], ouch_construct_order_canceled (to_uint32 (remaining_qty o2)) CR_TimeOut (token o2) s2)
       else if time_in_force o2 = 0 then ([k], if remaining_qty o2 \<noteq> 0
              then ouch_construct_order_canceled (to_uint32 (remaining_qty o2)) CR_IOC (token o2) s2
              else s2)
       else if a then ([], put_active k (fst (ouch_construct_order_executed o3 (- 1) s4))
              (snd (ouch_construct_order_executed o3 (- 1) s4)))
       else ([k], put_finished k o3 (finished_index k s4)))"
  using assms
  by (cases b; cases x; cases "time_in_force o2 = 0"; cases a)
    (auto simp: ouch_execute_one_def on_env_def put_active_def Let_def split: prod.splits)

lemma ouch_execute_one_cases [consumes 1, case_names refused late ioc fill finish]:
  assumes "ouch_execute_one k o1 s = (d, s')"
  obtains
    (refused) e where "d = []" "s' = s\<lparr>s_env := e\<rparr>"
  | (late) e r where "d = [k]" "r \<le> 0"
      "Ouch_Order_expired o1 (snd (bm_allows Execution (s_env s))) =
         (True, o1\<lparr>remain_time_in_force := r\<rparr>, e)"
      "s' = ouch_construct_order_canceled (to_uint32 (remaining_qty o1)) CR_TimeOut (token o1)
              (put_active k (o1\<lparr>remain_time_in_force := r\<rparr>) (s\<lparr>s_env := e\<rparr>))"
  | (ioc) e r where "d = [k]" "0 < r" "time_in_force o1 = 0"
      "Ouch_Order_expired o1 (snd (bm_allows Execution (s_env s))) =
         (False, o1\<lparr>remain_time_in_force := r\<rparr>, e)"
      "s' = (let s3 = put_active k (o1\<lparr>remain_time_in_force := r\<rparr>) (s\<lparr>s_env := e\<rparr>)
             in if remaining_qty o1 \<noteq> 0
                then ouch_construct_order_canceled (to_uint32 (remaining_qty o1)) CR_IOC (token o1) s3
                else s3)"
  | (fill) e r st o4 s6 where "d = []" "0 < remaining_qty o1" "time_in_force o1 \<noteq> 0"
      "ouch_construct_order_executed (o1\<lparr>remain_time_in_force := r, order_state := st\<rparr>) (- 1)
         (put_active k (o1\<lparr>remain_time_in_force := r, order_state := st\<rparr>) (s\<lparr>s_env := e\<rparr>)) = (o4, s6)"
      "s' = put_active k o4 s6"
  | (finish) e r st where "d = [k]" "time_in_force o1 \<noteq> 0"
      "s' = put_finished k (o1\<lparr>remain_time_in_force := r, order_state := st\<rparr>)
              (finished_index k (put_active k (o1\<lparr>remain_time_in_force := r, order_state := st\<rparr>)
                (s\<lparr>s_env := e\<rparr>)))"
proof -
  obtain b e1 where q: "bm_allows Execution (s_env s) = (b, e1)" by fastforce
  obtain x o2 e2 where x: "Ouch_Order_expired o1 e1 = (x, o2, e2)" by (metis prod_cases3)
  obtain r where o2: "o2 = o1\<lparr>remain_time_in_force := r\<rparr>" and xr: "x \<longleftrightarrow> r \<le> 0"
    using Ouch_Order_expired_frame(1) [OF x] by blast
  obtain a o3 e3 where a: "Ouch_Order_still_active o2 e2 = (a, o3, e3)" by (metis prod_cases3)
  obtain r' st where o3: "o3 = o2\<lparr>remain_time_in_force := r', order_state := st\<rparr>"
    using Ouch_Order_still_active_frame(1) [OF a] by blast
  have o3': "o3 = o1\<lparr>remain_time_in_force := r', order_state := st\<rparr>" by (simp add: o3 o2)
  note alive = Ouch_Order_still_active_frame(3) [OF a]
  note step = assms [symmetric, unfolded ouch_execute_one_eq [OF q x a] Let_def]
  consider "\<not> b" | "b" "x" | "b" "\<not> x" "time_in_force o2 = 0" | "b" "\<not> x" "time_in_force o2 \<noteq> 0" "a"
    | "b" "\<not> x" "time_in_force o2 \<noteq> 0" "\<not> a" by blast
  then show thesis
  proof cases
    case 1
    with step refused show thesis by simp
  next
    case 2
    with step xr late [where r = r and e = e2] q x o2 show thesis by simp
  next
    case 3
    with step xr ioc [where r = r and e = e2] q x o2 show thesis by (simp add: Let_def)
  next
    case 4
    with step alive fill [where r = r' and st = st and e = e3] o2 o3' show thesis by (simp add: prod_eq_iff)
  next
    case 5
    with step finish [where r = r' and st = st and e = e3] o2 o3' show thesis by simp
  qed
qed

lemma ouch_order_executed_sel [simp]:
  "active_orders (snd (ouch_construct_order_executed o1 x s)) = active_orders s"
  "finished_orders (snd (ouch_construct_order_executed o1 x s)) = finished_orders s"
  "pending_cancel (snd (ouch_construct_order_executed o1 x s)) = pending_cancel s"
  "pending_modify (snd (ouch_construct_order_executed o1 x s)) = pending_modify s"
  "pending_replace (snd (ouch_construct_order_executed o1 x s)) = pending_replace s"
  "session_state (snd (ouch_construct_order_executed o1 x s)) = session_state s"
  by (simp_all add: ouch_construct_order_executed_def construct_defs)

text \<open>
  A random execution either is withheld (the minimum-quantity test) or fills a positive number
  of shares, at most the remaining ones, and reports exactly that number.
\<close>

definition random_lot :: "env \<Rightarrow> int" where
  "random_lot e = (1 + fst (rand_int e) mod 10) * 100"

definition fill_qty :: "Ouch_Order \<Rightarrow> env \<Rightarrow> int" where
  "fill_qty o1 e = min (random_lot e) (remaining_qty o1)"

lemma random_lot_bounds: "100 \<le> random_lot e" "random_lot e \<le> 1000"
  using pos_mod_bound [of 10 "fst (rand_int e)"] pos_mod_sign [of 10 "fst (rand_int e)"]
  by (simp_all add: random_lot_def)

lemma ouch_order_executed_random:
  assumes "length (token o1) = 14"
    and "ouch_construct_order_executed o1 (- 1) s = (o2, s2)"
  defines "q \<equiv> fill_qty o1 (s_env s)"
  shows "min_qty o1 \<noteq> 0 \<and> q > uint (min_qty o1) \<Longrightarrow> o2 = o1 \<and> ouch_events s2 = ouch_events s"
    and "\<not> (min_qty o1 \<noteq> 0 \<and> q > uint (min_qty o1)) \<Longrightarrow>
      o2 = o1\<lparr>remaining_qty := remaining_qty o1 - q, executed_qty := executed_qty o1 + q\<rparr> \<and>
      ouch_events s2 = ouch_events s @ [Some (Ev_Executed (token o1) (to_uint32 q) (price o1))]"
    and "ouch_framed s2 = ouch_framed s"
  using assms(1,2)
  by (auto simp: ouch_construct_order_executed_def event_proof q_def fill_qty_def random_lot_def
      split: if_splits)

lemma ouch_order_executed_entry:
  assumes "entry_ok D k o1"
  shows "entry_ok D k (fst (ouch_construct_order_executed o1 x s))"
  using assms by (simp add: ouch_construct_order_executed_def construct_defs entry_ok_def order_ok_def)

lemma ouch_inv_execute_one:
  assumes inv: "ouch_inv {} s" and entry: "entry_ok {} k o1"
    and step: "ouch_execute_one k o1 s = (d, s')"
  shows "ouch_inv {} s'"
proof -
  have e: "entry_ok {} k (o1\<lparr>remain_time_in_force := r\<rparr>)"
    "entry_ok {} k (o1\<lparr>remain_time_in_force := r, order_state := st\<rparr>)" for r st
    using entry by (simp_all add: entry_ok_def order_ok_def)
  have len: "length (token o1) = 14" using entry by (simp add: entry_ok_def order_ok_def)
  have put: "ouch_inv {} (put_active k (o1\<lparr>remain_time_in_force := r\<rparr>) (s\<lparr>s_env := e1\<rparr>))"
    "ouch_inv {} (put_active k (o1\<lparr>remain_time_in_force := r, order_state := st\<rparr>) (s\<lparr>s_env := e1\<rparr>))"
    for r st e1
    using inv e by (simp_all add: ouch_inv_put_active)
  from step show ?thesis
  proof (cases rule: ouch_execute_one_cases)
    case (refused e)
    with inv show ?thesis by simp
  next
    case (late e r)
    with put len show ?thesis by simp
  next
    case (ioc e r)
    with put len show ?thesis by (simp add: Let_def)
  next
    case (fill e r st o4 s6)
    let ?o3 = "o1\<lparr>remain_time_in_force := r, order_state := st\<rparr>"
    have "ouch_framed s6 = ouch_framed (put_active k ?o3 (s\<lparr>s_env := e\<rparr>))"
      by (rule ouch_order_executed_random(3) [OF _ fill(4)]) (use len in simp)
    moreover have "entry_ok {} k o4"
      using ouch_order_executed_entry [OF e(2)] fill(4) by (metis fst_conv)
    moreover have "s6 = snd (ouch_construct_order_executed ?o3 (- 1) (put_active k ?o3 (s\<lparr>s_env := e\<rparr>)))"
      using fill(4) by simp
    ultimately have "ouch_inv {} s6" "entry_ok {} k o4"
      using put(2) [where r = r and st = st and ?e1.0 = e] by (simp_all add: ouch_inv_def)
    with fill(5) show ?thesis by (simp add: ouch_inv_put_active)
  next
    case (finish e r st)
    with put e show ?thesis by (simp add: ouch_inv_finish)
  qed
qed

lemma ouch_inv_execute_loop:
  "ouch_inv {} s \<Longrightarrow> \<forall>p\<in>set ps. entry_ok {} (fst p) (snd p) \<Longrightarrow>
   ouch_inv {} (snd (ouch_execute_loop ps s))"
proof (induction ps arbitrary: s)
  case Nil
  then show ?case by simp
next
  case (Cons p ps)
  obtain d s1 where "ouch_execute_one (fst p) (snd p) s = (d, s1)" by fastforce
  with Cons show ?case
    by (auto simp: split_def Let_def dest: ouch_inv_execute_one)
qed

lemma visit_entries: "table_ok D m \<Longrightarrow> \<forall>p\<in>set (visit rank m). entry_ok D (fst p) (snd p)"
  by (simp add: table_ok_set)

lemma ouch_inv_execution_logic: "ouch_wf s \<Longrightarrow> ouch_wf (ouch_execution_logic s)"
proof -
  assume wf: "ouch_wf s"
  let ?s1 = "s\<lparr>s_env := snd (next_rank (s_env s))\<rparr>"
  have "ouch_inv {} (snd (ouch_execute_loop (visit (fst (next_rank (s_env s))) (active_orders s)) ?s1))"
    by (rule ouch_inv_execute_loop) (use wf visit_entries ouch_inv_active in \<open>auto\<close>)
  then show ?thesis
    unfolding ouch_execution_logic_def on_env_result Let_def split_def
    by (simp add: ouch_inv_erase_active)
qed

lemma ouch_inv_heartbeat_logic: "ouch_wf s \<Longrightarrow> ouch_wf (ouch_heartbeat_logic s)"
  by (simp add: ouch_heartbeat_logic_def heartbeat_with_def on_env_result Let_def)

lemma ouch_inv_market_logic: "ouch_wf s \<Longrightarrow> ouch_wf (ouch_market_logic s)"
  by (simp add: ouch_market_logic_def ouch_inv_execution_logic ouch_inv_replace_logic
      ouch_inv_modify_logic ouch_inv_cancel_logic ouch_inv_heartbeat_logic)

section \<open>Console callbacks\<close>

lemma ouch_inv_cancel_all_loop:
  "ouch_inv {} s \<Longrightarrow> \<forall>p\<in>set ps. entry_ok {} (fst p) (snd p) \<Longrightarrow>
   ouch_inv {} (snd (ouch_cancel_all_loop ps s))"
proof (induction ps arbitrary: s)
  case Nil
  then show ?case by simp
next
  case (Cons p ps)
  obtain k o1 where p: "p = (k, o1)" by fastforce
  obtain a o2 e where st: "Ouch_Order_still_active o1 (s_env s) = (a, o2, e)" by (metis prod_cases3)
  obtain r z where "o2 = o1\<lparr>remain_time_in_force := r, order_state := z\<rparr>"
    using Ouch_Order_still_active_frame(1) [OF st] by blast
  then have e2: "entry_ok {} k o2" and len: "length (token o2) = 14"
    using Cons.prems(2) p by (auto simp: entry_ok_def order_ok_def)
  then have "ouch_inv {} (put_active k o2 (s\<lparr>s_env := e\<rparr>))"
    using Cons.prems(1) by (simp add: ouch_inv_put_active)
  then show ?case
    using Cons.IH Cons.prems(2) st len p by (simp add: on_env_def Let_def split_def)
qed

lemma ouch_inv_cancel_all: "ouch_wf s \<Longrightarrow> ouch_wf (snd (ouch_cancel_all s))"
proof -
  assume wf: "ouch_wf s"
  let ?s1 = "s\<lparr>s_env := snd (next_rank (s_env s))\<rparr>"
  have "ouch_inv {} (snd (ouch_cancel_all_loop (visit (fst (next_rank (s_env s))) (active_orders s)) ?s1))"
    by (rule ouch_inv_cancel_all_loop) (use wf visit_entries ouch_inv_active in \<open>auto\<close>)
  then show ?thesis
    by (simp add: ouch_cancel_all_def on_env_result Let_def split_def) (simp add: ouch_inv_def)
qed

section \<open>Packet handlers\<close>

lemma ouch_EnterOrder_token:
  "52 \<le> length mem \<Longrightarrow> length (eo_token (ouch_EnterOrder_from_network (ouch_EnterOrder_at mem))) = 14"
  by (simp add: ouch_EnterOrder_from_network_def ouch_EnterOrder_at_def length_arr_at)

lemma ouch_inv_accept_order:
  assumes "ouch_wf s" and "length (eo_token eo) = 14"
  shows "ouch_wf (ouch_accept_order eo s)"
proof -
  let ?k = "eo_token eo"
  let ?o = "fst (Ouch_Order_of eo (s_env s))"
  let ?s1 = "s\<lparr>s_env := snd (Ouch_Order_of eo (s_env s))\<rparr>"
  have o: "order_ok ?o" "token ?o = ?k" using Ouch_Order_of_ok assms(2) by blast+
  then have e: "entry_ok {} ?k ?o" using assms(2) by (simp add: entry_ok_def)
  have inv1: "ouch_inv (insert ?k {}) (active_index ?k ?s1)"
    by (rule ouch_inv_active_index) (use assms in simp_all)
  have "table_ok {} (AList.update ?k ?o (active_orders (active_index ?k ?s1)))"
    using ouch_inv_active [OF inv1] e by (auto simp: table_ok_def entry_ok_def)
  then have "ouch_wf (put_active ?k ?o (active_index ?k ?s1))"
    using inv1 by (simp add: ouch_inv_def)
  then show ?thesis
    using o by (simp add: ouch_accept_order_def on_env_result Let_def order_ok_def)
qed

lemma ouch_inv_enter_order_msg:
  "ouch_wf s \<Longrightarrow> length (eo_token eo) = 14 \<Longrightarrow> ouch_wf (ouch_enter_order_msg eo s)"
  by (simp add: ouch_enter_order_msg_def on_env_result Let_def ouch_inv_accept_order
      split: if_splits)

lemma ouch_inv_queue:
  "ouch_inv D (s\<lparr>pending_cancel := cs\<rparr>) \<longleftrightarrow>
     (\<forall>co\<in>set cs. length (cxl_token co) = 14) \<and> ouch_inv D (s\<lparr>pending_cancel := []\<rparr>)"
  "ouch_inv D (s\<lparr>pending_modify := ms\<rparr>) \<longleftrightarrow>
     (\<forall>mo\<in>set ms. length (mod_token mo) = 14) \<and> ouch_inv D (s\<lparr>pending_modify := []\<rparr>)"
  "ouch_inv D (s\<lparr>pending_replace := rs\<rparr>) \<longleftrightarrow>
     (\<forall>ro\<in>set rs. length (existing_token ro) = 14 \<and> length (new_token ro) = 14) \<and>
     ouch_inv D (s\<lparr>pending_replace := []\<rparr>)"
  by (auto simp: ouch_inv_def)

lemma ouch_inv_modify_order_msg:
  "ouch_wf s \<Longrightarrow> length (mo_token mo) = 14 \<Longrightarrow> ouch_wf (ouch_modify_order_msg mo s)"
  by (auto simp: ouch_modify_order_msg_def on_env_result Let_def ouch_parse_modify_order_def
      ouch_inv_def)

lemma ouch_inv_cancel_order_msg:
  "ouch_wf s \<Longrightarrow> length (co_token co) = 14 \<Longrightarrow> ouch_wf (ouch_cancel_order_msg co s)"
  by (auto simp: ouch_cancel_order_msg_def on_env_result Let_def parse_cancel_order_def
      ouch_inv_def)

lemma ouch_inv_replace_order:
  assumes "ouch_wf s" and "ouch_replace_order mem s = Inr (mem', s')"
  shows "ouch_wf s'"
  using assms
  by (auto simp: ouch_replace_order_def bind_result_Inr_iff Let_def read_struct_Inr on_env_result
      ouch_ReplaceOrder_from_network_def ouch_ReplaceOrder_at_def ouch_ReplaceOrder_size_def
      parse_replace_order_def length_arr_at ouch_inv_def split: if_splits)

lemma ouch_inv_handle_message:
  assumes "ouch_wf s" and "ouch_handle_message mem s = Inr (mem', s')"
  shows "ouch_wf s'"
proof -
  have tokens: "52 \<le> length mem \<Longrightarrow>
      length (eo_token (ouch_EnterOrder_from_network (ouch_EnterOrder_at mem))) = 14"
    "23 \<le> length mem \<Longrightarrow>
      length (mo_token (ouch_ModifyOrder_from_network (ouch_ModifyOrder_at mem))) = 14"
    "22 \<le> length mem \<Longrightarrow>
      length (co_token (ouch_CancelOrder_from_network (ouch_CancelOrder_at mem))) = 14"
    by (simp_all add: ouch_EnterOrder_from_network_def ouch_EnterOrder_at_def
        ouch_ModifyOrder_from_network_def ouch_ModifyOrder_at_def
        ouch_CancelOrder_from_network_def ouch_CancelOrder_at_def length_arr_at)
  consider "ouch_enter_order mem s = Inr (mem', s')" | "ouch_replace_order mem s = Inr (mem', s')"
    | "ouch_cancel_order mem s = Inr (mem', s')" | "ouch_modify_order mem s = Inr (mem', s')"
    | "s' = s"
    using assms(2) by (auto simp: ouch_handle_message_def bind_result_Inr_iff Let_def split: if_splits)
  then show ?thesis
  proof cases
    case 1
    then show ?thesis using assms(1) tokens(1) ouch_inv_enter_order_msg
      by (auto simp: ouch_enter_order_def bind_result_Inr_iff read_struct_Inr Let_def
          ouch_EnterOrder_size_def)
  next
    case 2
    then show ?thesis using assms(1) ouch_inv_replace_order by blast
  next
    case 3
    then show ?thesis using assms(1) tokens(3) ouch_inv_cancel_order_msg
      by (auto simp: ouch_cancel_order_def bind_result_Inr_iff read_struct_Inr Let_def
          ouch_CancelOrder_size_def)
  next
    case 4
    then show ?thesis using assms(1) tokens(2) ouch_inv_modify_order_msg
      by (auto simp: ouch_modify_order_def bind_result_Inr_iff read_struct_Inr Let_def
          ouch_ModifyOrder_size_def)
  next
    case 5
    with assms(1) show ?thesis by simp
  qed
qed

lemma warn_sel [simp]:
  "ouch_inv D (warn txt p s) = ouch_inv D s"
  "active_orders (warn txt p s) = active_orders s"
  "finished_orders (warn txt p s) = finished_orders s"
  "pending_replace (warn txt p s) = pending_replace s"
  "session_state (warn txt p s) = session_state s"
  "logger_set (warn txt p s) = logger_set s"
  "ouch_events (warn txt p s) = ouch_events s"
  by (simp_all add: warn_def)

lemma ouch_validate_frame:
  assumes "ouch_validate mem len s = Inr (valid, s')"
  shows "\<exists>e. s' = s\<lparr>s_env := e\<rparr>"
proof -
  have self: "s = s\<lparr>s_env := s_env s\<rparr>" by simp
  from assms consider "s' = s" | w where "s' = warn w mem s"
    | w w2 where "s' = warn w2 mem (warn w mem s)"
    by (auto simp: ouch_validate_def bind_result_Inr_iff Let_def split: if_splits option.splits)
  then show ?thesis
  proof cases
    case 1
    with self show ?thesis by metis
  qed (auto simp: warn_def)
qed

lemma ouch_inv_handle_packet:
  assumes "ouch_wf s" and "ouch_handle_packet mem len s = Inr (mem', s')"
  shows "ouch_wf s'"
proof -
  obtain valid s1 where v: "ouch_validate mem len s = Inr (valid, s1)"
    using assms(2) by (auto simp: ouch_handle_packet_def bind_result_Inr_iff)
  obtain e where s1: "s1 = s\<lparr>s_env := e\<rparr>" using ouch_validate_frame [OF v] by blast
  have wf1: "ouch_wf s1" using assms(1) s1 by simp
  have handlers: "ouch_wf (ouch_handle_login_request s1)" "ouch_wf (ouch_handle_logout_request s1)"
    "ouch_wf (ouch_handle_client_heartbeat s1)"
    using wf1 by (simp_all add: ouch_handle_login_request_def ouch_handle_logout_request_def
        ouch_handle_client_heartbeat_def on_env_result Let_def)
  show ?thesis
    using assms(2) v wf1 handlers ouch_inv_handle_message [OF wf1]
    by (auto simp: ouch_handle_packet_def bind_result_Inr_iff Let_def split: if_splits)
qed

lemma ouch_inv_new: "ouch_wf (new_ouch_session e)"
  by (simp add: new_ouch_session_def ouch_inv_def ouch_framed_def split_def Let_def)

end
