(* ===== verification/Samples.thy ===== *)
theory Samples
  imports OuchMarket
begin

text \<open>
  A concrete environment for evaluating the model on closed inputs: every clock stands still at
  zero, \<^verbatim>\<open>rand()\<close> always returns 4, uninitialised memory holds zeros, tables are visited in
  list order, every behaviour is the default one.
\<close>

definition sample_world :: world where
  "sample_world = \<lparr>w_time = (\<lambda>_. 0), w_clock = (\<lambda>_. 0), w_nano = (\<lambda>_. 0), w_rand = (\<lambda>_. 4),
     w_stack = (\<lambda>_ _. 0), w_rank = (\<lambda>_ _. 0), w_midnight = (\<lambda>_. 0), n_time = 0, n_clock = 0,
     n_nano = 0, n_rand = 0, n_stack = 0, n_rank = 0, w_log = []\<rparr>"

definition sample_env :: env where
  "sample_env = new_BehaviorManager sample_world"

definition sample_token :: "byte list" where
  "sample_token = bytes_of_string ''TOKEN000000001''"

definition sample_eo :: ouch_EnterOrder where
  "sample_eo = \<lparr>eo_length = swap16 50, eo_packet_type = PacketType_code PT_UnsequencedData,
     eo_msg_type = OutboundMsgType_code Out_EnterOrder, eo_token = sample_token,
     eo_side = ch CHR ''B'', eo_qty = 500, eo_symbol = bytes_of_string ''SPY     '',
     eo_price = 2345600, eo_time_in_force = 99998, eo_firm = bytes_of_string ''FIRM'',
     eo_display = ch CHR ''Y'', eo_capacity = ch CHR ''P'',
     eo_intermarket_sweep_eligibility = ch CHR ''N'', eo_min_qty = 0,
     eo_cross_type = ch CHR ''N'', eo_customer_type = ch CHR ''R''\<rparr>"

definition sample_session :: ouch_session where
  "sample_session = (new_ouch_session sample_env)\<lparr>session_state := LoggedIn, logger_set := True\<rparr>"

lemma sample_env_eqs:
  "sample_env = world.extend sample_world
     (env.fields (\<lambda>_. 0) (\<lambda>_. Finite 1 0) (\<lambda>_. DefaultBehavior) (- 1))"
  by (simp add: sample_env_def new_BehaviorManager_def reset_to_default_def world.defs env.defs)

lemma sample_env_sel [simp]:
  "w_time sample_env n = 0" "w_clock sample_env n = 0" "w_nano sample_env n = 0"
  "w_rand sample_env n = 4" "w_stack sample_env n i = 0" "w_rank sample_env n k = 0"
  "w_midnight sample_env t = 0" "behavior sample_env a = DefaultBehavior"
  "exe_qty sample_env = - 1" "cb_times sample_env a = 0"
  by (simp_all add: sample_env_eqs sample_world_def world.defs env.defs)

lemma bm_allows_sample:
  "behavior e a = DefaultBehavior \<Longrightarrow> bm_allows a e = (True, e)"
  by (simp add: bm_allows_def default_behavior_def)

end
