(* ===== verification/OuchReach.thy ===== *)
theory OuchReach
  imports OuchInv Samples
begin

text \<open>
  The OUCH session as a state machine: what the server, the timer, the console and the network
  can do to it, and the states they can reach. Between two steps the shared environment may
  change in any way, because the other session and the console use the same behaviour manager.
\<close>

inductive ouch_step :: "ouch_session \<Rightarrow> ouch_session \<Rightarrow> bool" where
  packet: "ouch_handle_packet mem len s = Inr (mem', s') \<Longrightarrow> ouch_step s s'"
| tick: "ouch_step s (ouch_market_logic s)"
| console_cancel: "ouch_step s (snd (ouch_cancel_all s))"
| console_status: "ouch_step s (snd (ouch_curr_status s))"
| accepted_connection: "ouch_step s (set_logger s)"
| lost_connection: "ouch_step s (disconnect s)"
| sent: "ouch_step s (s\<lparr>pending_out_messages := []\<rparr>)"
| environment: "ouch_step s (s\<lparr>s_env := e\<rparr>)"

inductive ouch_reachable :: "ouch_session \<Rightarrow> bool" where
  start: "ouch_reachable (new_ouch_session e)"
| step: "ouch_reachable s \<Longrightarrow> ouch_step s s' \<Longrightarrow> ouch_reachable s'"

inductive_cases ouch_stepE: "ouch_step s s'"

lemma ouch_step_wf: "ouch_step s s' \<Longrightarrow> ouch_wf s \<Longrightarrow> ouch_wf s'"
proof (induction rule: ouch_step.induct)
  case (packet mem len s mem' s')
  then show ?case using ouch_inv_handle_packet by blast
next
  case (tick s)
  then show ?case by (rule ouch_inv_market_logic)
next
  case (console_cancel s)
  then show ?case by (rule ouch_inv_cancel_all)
next
  case (console_status s)
  then show ?case by (simp add: ouch_curr_status_def on_env_result Let_def)
next
  case (accepted_connection s)
  then show ?case by (simp add: set_logger_def)
next
  case (lost_connection s)
  then show ?case by (simp add: disconnect_def)
next
  case (sent s)
  then show ?case by (simp add: ouch_inv_def ouch_framed_def)
next
  case (environment s e)
  then show ?case by simp
qed

lemma ouch_reachable_wf: "ouch_reachable s \<Longrightarrow> ouch_wf s"
  by (induction rule: ouch_reachable.induct) (auto intro: ouch_inv_new ouch_step_wf)

text \<open>A session that has accepted a connection and no packet yet.\<close>

lemma reachable_connected: "ouch_reachable (set_logger (new_ouch_session e))"
  by (rule ouch_reachable.step [OF ouch_reachable.start ouch_step.accepted_connection])

end
