(* ===== verification/OuchEntry.thy ===== *)
theory OuchEntry
  imports OuchReach
begin

text \<open>
  Properties of the OUCH session's packet handlers: an order sent over the wire and its answer,
  the branches of order entry, validation, login, and what a client that is not logged in can do.
\<close>

section \<open>Reading an order off the wire\<close>

lemma ouch_EnterOrder_header:
  "ouch_MsgHeader_at (ouch_EnterOrder_bytes x @ r) =
     \<lparr>mh_length = eo_length x, mh_packet_type = eo_packet_type x\<rparr>"
  "ouch_OuchMsgHeader_at (ouch_EnterOrder_bytes x @ r) =
     \<lparr>omh_length = eo_length x, omh_packet_type = eo_packet_type x, omh_msg_type = eo_msg_type x\<rparr>"
  by (simp_all add: ouch_EnterOrder_bytes_def ouch_MsgHeader_at_def ouch_OuchMsgHeader_at_def
      at_skip at_here)

lemma ouch_EnterOrder_from_network_twice [simp]:
  "ouch_EnterOrder_from_network (ouch_EnterOrder_from_network x) = x"
  by (simp add: ouch_EnterOrder_from_network_def)

lemma ouch_EnterOrder_from_network_sel [simp]:
  "eo_length (ouch_EnterOrder_from_network x) = eo_length x"
  "eo_packet_type (ouch_EnterOrder_from_network x) = eo_packet_type x"
  "eo_msg_type (ouch_EnterOrder_from_network x) = eo_msg_type x"
  "ouch_EnterOrder_ok (ouch_EnterOrder_from_network x) = ouch_EnterOrder_ok x"
  by (simp_all add: ouch_EnterOrder_from_network_def ouch_EnterOrder_ok_def)

text \<open>The bytes a client puts on the wire for an order given in host values.\<close>

definition wire_EnterOrder :: "ouch_EnterOrder \<Rightarrow> byte list" where
  "wire_EnterOrder eo = ouch_EnterOrder_bytes (ouch_EnterOrder_from_network eo)"

definition enter_order_header_ok :: "ouch_EnterOrder \<Rightarrow> bool" where
  "enter_order_header_ok eo \<longleftrightarrow> ouch_EnterOrder_ok eo \<and> eo_length eo = swap16 50 \<and>
     eo_packet_type eo = PacketType_code PT_UnsequencedData \<and>
     eo_msg_type eo = OutboundMsgType_code Out_EnterOrder"

lemma length_wire: "enter_order_header_ok eo \<Longrightarrow> length (wire_EnterOrder eo) = 52"
  using ouch_EnterOrder.length_bytes [of "ouch_EnterOrder_from_network eo"]
  by (simp add: wire_EnterOrder_def enter_order_header_ok_def ouch_EnterOrder_size_def)

lemma at_wire:
  "enter_order_header_ok eo \<Longrightarrow>
   ouch_EnterOrder_from_network (ouch_EnterOrder_at (wire_EnterOrder eo @ r)) = eo"
  by (simp add: wire_EnterOrder_def enter_order_header_ok_def ouch_EnterOrder.at_bytes)

lemma validate_wire:
  assumes "enter_order_header_ok eo" and "logger_set s"
  shows "ouch_validate (wire_EnterOrder eo @ r) 52 s =
     Inr (case check_enter_order eo of
            None \<Rightarrow> (True, s)
          | Some w \<Rightarrow> (False, warn w (wire_EnterOrder eo @ r) s))"
  using assms length_wire [OF assms(1)] at_wire [OF assms(1)]
  by (simp add: ouch_validate_def validate_by_type_def validate_enter_order_def
      with_declared_length_def read_struct_def ouch_MsgHeader_size_def ouch_OuchMsgHeader_size_def
      ouch_EnterOrder_size_def Let_def)
    (simp add: wire_EnterOrder_def ouch_EnterOrder_header enter_order_header_ok_def ch_def)

lemma handle_wire:
  assumes "enter_order_header_ok eo" and "logger_set s" and "check_enter_order eo = None"
  shows "ouch_handle_packet (wire_EnterOrder eo @ r) 52 s =
     Inr (ouch_EnterOrder_bytes eo @ r, ouch_enter_order_msg eo s)"
proof -
  have "ouch_EnterOrder_ok eo" using assms(1) by (simp add: enter_order_header_ok_def)
  from ouch_EnterOrder.length_bytes [OF this]
  have len: "length (ouch_EnterOrder_bytes eo) = 52" by (simp add: ouch_EnterOrder_size_def)
  have head: "mh_packet_type (ouch_MsgHeader_at (wire_EnterOrder eo @ r)) = 85"
    "omh_msg_type (ouch_OuchMsgHeader_at (wire_EnterOrder eo @ r)) = 79"
    using assms(1)
    by (simp_all add: wire_EnterOrder_def ouch_EnterOrder_header enter_order_header_ok_def ch_def)
  show ?thesis
    using length_wire [OF assms(1)] at_wire [OF assms(1)] len
    by (simp add: ouch_handle_packet_def validate_wire [OF assms(1,2)] assms(3) read_struct_def
        ouch_MsgHeader_size_def ouch_OuchMsgHeader_size_def ouch_EnterOrder_size_def Let_def head
        ouch_handle_message_def ouch_enter_order_def write_struct_def ch_def)
qed

section \<open>Order entry\<close>

text \<open>The order the session makes of the message, its identifier and receive time aside.\<close>

definition order_answers :: "ouch_EnterOrder \<Rightarrow> Ouch_Order \<Rightarrow> bool" where
  "order_answers eo o1 \<longleftrightarrow>
     token o1 = eo_token eo \<and> remaining_qty o1 = uint (eo_qty eo) \<and> executed_qty o1 = 0 \<and>
     side o1 = eo_side eo \<and> price o1 = eo_price eo \<and> min_qty o1 = eo_min_qty eo \<and>
     time_in_force o1 = eo_time_in_force eo \<and> symbol o1 = strncpy 8 (eo_symbol eo) \<and>
     firm o1 = strncpy 4 (eo_firm eo) \<and> order_state o1 = OrderState_code OS_Live"

lemma Ouch_Order_of_answers: "order_answers eo (fst (Ouch_Order_of eo w))"
  by (simp add: order_answers_def Ouch_Order_of_def Ouch_Order_parse_order_def split_def Let_def)

lemma accept_order_effect:
  fixes eo :: ouch_EnterOrder and s :: ouch_session
  assumes "length (eo_token eo) = 14"
  obtains o1 ts where "order_answers eo o1"
    and "map_of (active_orders (ouch_accept_order eo s)) = (map_of (active_orders s))(eo_token eo \<mapsto> o1)"
    and "finished_orders (ouch_accept_order eo s) = finished_orders s"
    and "ouch_events (ouch_accept_order eo s) =
           ouch_events s @ [Some (Ev_Accepted (order_accepted_msg ts o1))]"
proof -
  let ?o = "fst (Ouch_Order_of eo (s_env s))"
  let ?s1 = "s\<lparr>s_env := snd (Ouch_Order_of eo (s_env s))\<rparr>"
  let ?s2 = "put_active (eo_token eo) ?o (active_index (eo_token eo) ?s1)"
  have eq: "ouch_accept_order eo s = ouch_construct_order_accepted ?o ?s2"
    by (simp add: ouch_accept_order_def on_env_result Let_def)
  have "length (token ?o) = 14" by (simp add: Ouch_Order_of_ok assms)
  then have 1: "ouch_events (ouch_accept_order eo s) =
      ouch_events s @ [Some (Ev_Accepted (order_accepted_msg (ouch_stamp ?s2) ?o))]"
    by (simp add: eq sent_events)
  have 2: "map_of (active_orders (ouch_accept_order eo s)) =
      (map_of (active_orders s))(eo_token eo \<mapsto> ?o)"
    by (rule ext) (simp add: eq map_of_active_index_other)
  have 3: "finished_orders (ouch_accept_order eo s) = finished_orders s" by (simp add: eq)
  show thesis by (rule that [OF Ouch_Order_of_answers 2 3 1])
qed

lemma enter_order_branches:
  assumes "length (eo_token eo) = 14"
  shows "uint (eo_qty eo) > MAX_SHARES \<Longrightarrow> ouch_enter_order_msg eo s =
      ouch_construct_order_rejected RR_ExceededConfiguredSafety (eo_token eo) s"
    and "uint (eo_qty eo) \<le> MAX_SHARES \<Longrightarrow> session_state s \<noteq> LoggedIn \<Longrightarrow>
      ouch_enter_order_msg eo s = ouch_construct_order_rejected RR_Other (eo_token eo) s"
    and "uint (eo_qty eo) \<le> MAX_SHARES \<Longrightarrow> session_state s = LoggedIn \<Longrightarrow>
      bm_allows New_order (s_env s) = (False, e) \<Longrightarrow>
      ouch_enter_order_msg eo s = ouch_construct_order_rejected RR_Other (eo_token eo) (s\<lparr>s_env := e\<rparr>)"
    and "uint (eo_qty eo) \<le> MAX_SHARES \<Longrightarrow> session_state s = LoggedIn \<Longrightarrow>
      bm_allows New_order (s_env s) = (True, e) \<Longrightarrow>
      map_of (active_orders s) (eo_token eo) = None \<Longrightarrow>
      map_of (finished_orders s) (eo_token eo) = None \<Longrightarrow>
      ouch_enter_order_msg eo s = ouch_accept_order eo (s\<lparr>s_env := e\<rparr>)"
    and "uint (eo_qty eo) \<le> MAX_SHARES \<Longrightarrow> session_state s = LoggedIn \<Longrightarrow>
      bm_allows New_order (s_env s) = (True, e) \<Longrightarrow>
      map_of (active_orders s) (eo_token eo) \<noteq> None \<or>
        map_of (finished_orders s) (eo_token eo) \<noteq> None \<Longrightarrow>
      ouch_enter_order_msg eo s = s\<lparr>s_env := e\<rparr>"
  by (auto simp: ouch_enter_order_msg_def on_env_result Let_def)


lemma sample_eo_ok:
  "enter_order_header_ok sample_eo" "check_enter_order sample_eo = None"
  "uint (eo_qty sample_eo) \<le> MAX_SHARES" "length (eo_token sample_eo) = 14"
  by code_simp+

lemma sample_session_sel [simp]:
  "logger_set sample_session" "session_state sample_session = LoggedIn"
  "active_orders sample_session = []" "finished_orders sample_session = []"
  "pending_out_messages sample_session = []" "behavior (s_env sample_session) a = DefaultBehavior"
  by (simp_all add: sample_session_def new_ouch_session_def time_NULL_def Let_def)


text \<open>
  C34: every branch of order entry: above the share limit the order is rejected with reason Z, when
  not logged in or refused by the behaviour manager with reason O, always without touching the
  tables; an order that reuses the token of an active or finished order is dropped in silence.
\<close>

theorem enter_order_refusals:
  fixes eo :: ouch_EnterOrder and s :: ouch_session
  assumes "length (eo_token eo) = 14"
  defines "s' \<equiv> ouch_enter_order_msg eo s"
  shows "\<not> (uint (eo_qty eo) \<le> MAX_SHARES \<and> session_state s = LoggedIn \<and>
        fst (bm_allows New_order (s_env s)) \<and> map_of (active_orders s) (eo_token eo) = None \<and>
        map_of (finished_orders s) (eo_token eo) = None) \<Longrightarrow>
      active_orders s' = active_orders s \<and> finished_orders s' = finished_orders s \<and>
      ouch_events s' = ouch_events s @
        (if uint (eo_qty eo) > MAX_SHARES then [Some (Ev_Rejected (eo_token eo) (ch CHR ''Z''))]
         else if session_state s \<noteq> LoggedIn \<or> \<not> fst (bm_allows New_order (s_env s))
         then [Some (Ev_Rejected (eo_token eo) (ch CHR ''O''))] else [])"
proof -
  obtain a e where a: "bm_allows New_order (s_env s) = (a, e)" by fastforce
  assume "\<not> (uint (eo_qty eo) \<le> MAX_SHARES \<and> session_state s = LoggedIn \<and>
        fst (bm_allows New_order (s_env s)) \<and> map_of (active_orders s) (eo_token eo) = None \<and>
        map_of (finished_orders s) (eo_token eo) = None)"
  then show ?thesis
    using enter_order_branches(1,2,3,5) [OF assms(1), of s] a
    by (cases "uint (eo_qty eo) > MAX_SHARES"; cases "session_state s = LoggedIn"; cases a)
      (auto simp: s'_def sent_events assms(1))
qed

text \<open>Not logged in: the order is rejected with reason O.\<close>

theorem enter_order_refusals_witness:
  "ouch_events (ouch_enter_order_msg sample_eo (new_ouch_session sample_env)) =
     [Some (Ev_Rejected sample_token (ch CHR ''O''))]"
proof -
  have "session_state (new_ouch_session sample_env) = NotLoggedIn"
    "pending_out_messages (new_ouch_session sample_env) = []"
    by (simp_all add: new_ouch_session_def split_def Let_def)
  moreover have "eo_token sample_eo = sample_token" by (simp add: sample_eo_def)
  ultimately show ?thesis
    using enter_order_refusals [OF sample_eo_ok(4), of "new_ouch_session sample_env"] sample_eo_ok(3)
    by (simp add: ouch_events_def)
qed

text \<open>
  The two quantity limits disagree. Of orders that are otherwise fine, 999,999 shares are the
  most that can be accepted; exactly 1,000,000 passes validation and is then rejected with reason
  Z; more than that is dropped by validation with a warning and no answer at all.
\<close>

theorem quantity_limits:
  assumes "enter_order_header_ok eo" and "check_enter_order (eo\<lparr>eo_qty := 1\<rparr>) = None"
    and "logger_set s" and "uint (eo_qty eo) > 999999"
  shows "ouch_handle_packet (wire_EnterOrder eo @ rest) 52 s =
     (if uint (eo_qty eo) = 1000000
      then Inr (ouch_EnterOrder_bytes eo @ rest,
                ouch_construct_order_rejected RR_ExceededConfiguredSafety (eo_token eo) s)
      else Inr (wire_EnterOrder eo @ rest,
                warn ''invalide EnterOrder qty: '' (wire_EnterOrder eo @ rest) s))"
proof -
  have len: "length (eo_token eo) = 14"
    using assms(1) by (simp add: enter_order_header_ok_def ouch_EnterOrder_ok_def)
  have c: "check_enter_order eo =
      (if uint (eo_qty eo) = 1000000 then None else Some ''invalide EnterOrder qty: '')"
    using assms(2,4) by (simp add: check_enter_order_def split: if_splits)
  show ?thesis
  proof (cases "uint (eo_qty eo) = 1000000")
    case True
    then have "check_enter_order eo = None" using c by simp
    from handle_wire [OF assms(1,3) this, of rest] enter_order_branches(1) [OF len, of s] True
    show ?thesis by (simp add: MAX_SHARES_def)
  next
    case False
    then show ?thesis
      using c by (simp add: ouch_handle_packet_def validate_wire [OF assms(1,3)])
  qed
qed

theorem quantity_limits_witness:
  "ouch_handle_packet (wire_EnterOrder (sample_eo\<lparr>eo_qty := 1000000\<rparr>)) 52 sample_session =
     Inr (ouch_EnterOrder_bytes (sample_eo\<lparr>eo_qty := 1000000\<rparr>),
          ouch_construct_order_rejected RR_ExceededConfiguredSafety sample_token sample_session)"
proof -
  have "enter_order_header_ok (sample_eo\<lparr>eo_qty := 1000000\<rparr>)"
    "check_enter_order (sample_eo\<lparr>eo_qty := 1000000, eo_qty := 1\<rparr>) = None"
    "eo_token (sample_eo\<lparr>eo_qty := 1000000\<rparr>) = sample_token"
    by code_simp+
  from quantity_limits [OF this(1,2), of sample_session "[]"] this(3) show ?thesis by simp
qed

end
