(* ===== verification/OuchPackets.thy ===== *)
theory OuchPackets
  imports OuchEntry
begin

text \<open>
  The packet entry point of the OUCH session as a whole: the outcomes of
  \<^verbatim>\<open>handle_packet\<close>, what no packet can do, when it fails, the login protocol and the
  sequence-number test.
\<close>

section \<open>The outcomes of handling a packet\<close>

lemma with_declared_length_valid:
  "with_declared_length n f mem check = Inr None \<longleftrightarrow>
     n \<le> length mem \<and> 3 \<le> length mem \<and> uint (swap16 (mh_length (ouch_MsgHeader_at mem))) = int n - 2 \<and>
     check (f mem) = None"
  by (auto simp: with_declared_length_def bind_result_Inr_iff read_struct_Inr
      ouch_MsgHeader_size_def split: if_splits)

lemma validate_header_only_valid:
  "validate_header_only n mem = Inr None \<longleftrightarrow>
     3 \<le> length mem \<and> uint (swap16 (mh_length (ouch_MsgHeader_at mem))) = int n - 2"
  by (auto simp: validate_header_only_def bind_result_Inr_iff read_struct_Inr
      ouch_MsgHeader_size_def)

text \<open>The number of bytes the packet at the start of the buffer declares.\<close>

definition declared_len :: "byte list \<Rightarrow> nat" where
  "declared_len mem = nat (uint (swap16 (mh_length (ouch_MsgHeader_at mem))) + 2)"

lemma ouch_validate_True:
  assumes "ouch_validate mem len s = Inr (True, s1)"
  shows "validate_by_type mem = Inr None"
  using assms
  by (auto simp: ouch_validate_def bind_result_Inr_iff Let_def split: if_splits option.splits)

text \<open>What a packet that validates looks like.\<close>

lemma validate_by_type_valid:
  assumes "validate_by_type mem = Inr None"
  shows "3 \<le> length mem"
    and "mh_packet_type (ouch_MsgHeader_at mem) \<in> {76, 79, 82} \<or>
      mh_packet_type (ouch_MsgHeader_at mem) = 85 \<and> 4 \<le> length mem \<and>
      (omh_msg_type (ouch_OuchMsgHeader_at mem), declared_len mem) \<in> {(79, 52), (85, 50), (88, 22), (77, 23)}"
proof -
  show "3 \<le> length mem"
    using assms by (auto simp: validate_by_type_def bind_result_Inr_iff read_struct_Inr
        ouch_MsgHeader_size_def)
  have len: "validate_enter_order mem = Inr None \<Longrightarrow> declared_len mem = 52"
    "validate_replace_order mem = Inr None \<Longrightarrow> declared_len mem = 50"
    "validate_cancel_order mem = Inr None \<Longrightarrow> declared_len mem = 22"
    "validate_modify_order mem = Inr None \<Longrightarrow> declared_len mem = 23"
    by (simp_all add: validate_enter_order_def validate_replace_order_def
        validate_cancel_order_def validate_modify_order_def with_declared_length_valid
        declared_len_def ouch_EnterOrder_size_def ouch_ReplaceOrder_size_def
        ouch_CancelOrder_size_def ouch_ModifyOrder_size_def)
  show "mh_packet_type (ouch_MsgHeader_at mem) \<in> {76, 79, 82} \<or>
      mh_packet_type (ouch_MsgHeader_at mem) = 85 \<and> 4 \<le> length mem \<and>
      (omh_msg_type (ouch_OuchMsgHeader_at mem), declared_len mem) \<in> {(79, 52), (85, 50), (88, 22), (77, 23)}"
    using assms len
    by (auto simp: validate_by_type_def bind_result_Inr_iff read_struct_Inr Let_def ch_def
        ouch_OuchMsgHeader_size_def split: if_splits)
qed

text \<open>The dispatch of a packet that validates.\<close>

lemma handle_valid_packet:
  assumes "ouch_validate mem len s = Inr (True, s1)"
  defines "p \<equiv> mh_packet_type (ouch_MsgHeader_at mem)"
    and "m \<equiv> omh_msg_type (ouch_OuchMsgHeader_at mem)"
  shows "ouch_handle_packet mem len s =
     (if p = 76 then Inr (mem, ouch_handle_login_request s1)
      else if p = 79 then Inr (mem, ouch_handle_logout_request s1)
      else if p = 82 then Inr (mem, ouch_handle_client_heartbeat s1)
      else if m = 79 then ouch_enter_order mem s1
      else if m = 85 then ouch_replace_order mem s1
      else if m = 88 then ouch_cancel_order mem s1
      else ouch_modify_order mem s1)"
proof -
  have head: "ouch_handle_packet mem len s =
     (if p = 76 then Inr (mem, ouch_handle_login_request s1)
      else if p = 79 then Inr (mem, ouch_handle_logout_request s1)
      else if p = 82 then Inr (mem, ouch_handle_client_heartbeat s1)
      else if p = 85 then ouch_handle_message mem s1 else Inr (mem, s1))"
    using validate_by_type_valid(1) [OF ouch_validate_True [OF assms(1)]] assms(1)
    by (simp add: ouch_handle_packet_def read_struct_def ouch_MsgHeader_size_def p_def Let_def ch_def)
  have "ouch_handle_message mem s1 =
     (if m = 79 then ouch_enter_order mem s1 else if m = 85 then ouch_replace_order mem s1
      else if m = 88 then ouch_cancel_order mem s1 else ouch_modify_order mem s1)"
    if "4 \<le> length mem" and "m \<in> {79, 85, 88, 77}"
    using that
    by (simp add: ouch_handle_message_def read_struct_def ouch_OuchMsgHeader_size_def m_def ch_def
        Let_def) (auto simp: m_def)
  with head validate_by_type_valid(2) [OF ouch_validate_True [OF assms(1)]] show ?thesis
    by (auto simp: p_def m_def)
qed

lemma ouch_handle_packet_cases [consumes 1, case_names invalid login logout beat enter replace cancel modify]:
  assumes "ouch_handle_packet mem len s = Inr (mem', s')"
  obtains
    (invalid) "ouch_validate mem len s = Inr (False, s')" "mem' = mem"
  | (login) s1 where "ouch_validate mem len s = Inr (True, s1)" "mem' = mem"
      "s' = ouch_handle_login_request s1"
  | (logout) s1 where "ouch_validate mem len s = Inr (True, s1)" "mem' = mem"
      "s' = ouch_handle_logout_request s1"
  | (beat) s1 where "ouch_validate mem len s = Inr (True, s1)" "mem' = mem"
      "s' = ouch_handle_client_heartbeat s1"
  | (enter) s1 where "ouch_validate mem len s = Inr (True, s1)"
      "declared_len mem = 52" "ouch_enter_order mem s1 = Inr (mem', s')"
  | (replace) s1 where "ouch_validate mem len s = Inr (True, s1)"
      "declared_len mem = 50" "ouch_replace_order mem s1 = Inr (mem', s')"
  | (cancel) s1 where "ouch_validate mem len s = Inr (True, s1)"
      "declared_len mem = 22" "ouch_cancel_order mem s1 = Inr (mem', s')"
  | (modify) s1 where "ouch_validate mem len s = Inr (True, s1)"
      "declared_len mem = 23" "ouch_modify_order mem s1 = Inr (mem', s')"
proof -
  obtain valid s1 where v: "ouch_validate mem len s = Inr (valid, s1)"
    using assms by (auto simp: ouch_handle_packet_def bind_result_Inr_iff)
  show thesis
  proof (cases valid)
    case False
    with assms v show thesis by (intro invalid) (simp_all add: ouch_handle_packet_def)
  next
    case True
      with v have v': "ouch_validate mem len s = Inr (True, s1)" by simp
    note eq = handle_valid_packet [OF v']
    let ?p = "mh_packet_type (ouch_MsgHeader_at mem)"
      and ?m = "omh_msg_type (ouch_OuchMsgHeader_at mem)"
    consider (a) "?p = 76" | (b) "?p = 79" | (c) "?p = 82"
      | (d) "?p = 85" "?m = 79" "declared_len mem = 52"
      | (e) "?p = 85" "?m = 85" "declared_len mem = 50"
      | (f) "?p = 85" "?m = 88" "declared_len mem = 22"
      | (g) "?p = 85" "?m = 77" "declared_len mem = 23"
      using validate_by_type_valid(2) [OF ouch_validate_True [OF v']] by auto
    then show thesis
    proof cases
      case a with eq assms show thesis by (intro login [OF v']) simp_all
    next
      case b with eq assms show thesis by (intro logout [OF v']) simp_all
    next
      case c with eq assms show thesis by (intro beat [OF v']) simp_all
    next
      case d with eq assms show thesis by (intro enter [OF v']) simp_all
    next
      case e with eq assms show thesis by (intro replace [OF v']) simp_all
    next
      case f with eq assms show thesis by (intro cancel [OF v']) simp_all
    next
      case g with eq assms show thesis by (intro modify [OF v']) simp_all
    qed
  qed
qed

section \<open>What no packet can do\<close>

lemma ouch_validate_other:
  assumes "ouch_validate mem len s = Inr (valid, s1)"
  shows "active_orders s1 = active_orders s" "finished_orders s1 = finished_orders s"
    "session_state s1 = session_state s" "ouch_events s1 = ouch_events s"
    "pending_cancel s1 = pending_cancel s" "pending_modify s1 = pending_modify s"
    "pending_replace s1 = pending_replace s"
  using ouch_validate_frame [OF assms] by auto

lemma ouch_handler_tables [simp]:
  "active_orders (ouch_handle_login_request s) = active_orders s"
  "finished_orders (ouch_handle_login_request s) = finished_orders s"
  "active_orders (ouch_handle_logout_request s) = active_orders s"
  "finished_orders (ouch_handle_logout_request s) = finished_orders s"
  "active_orders (ouch_handle_client_heartbeat s) = active_orders s"
  "finished_orders (ouch_handle_client_heartbeat s) = finished_orders s"
  "active_orders (ouch_modify_order_msg mo s) = active_orders s"
  "finished_orders (ouch_modify_order_msg mo s) = finished_orders s"
  "active_orders (ouch_cancel_order_msg co s) = active_orders s"
  "finished_orders (ouch_cancel_order_msg co s) = finished_orders s"
  by (simp_all add: ouch_handle_login_request_def ouch_handle_logout_request_def
      ouch_handle_client_heartbeat_def ouch_modify_order_msg_def ouch_cancel_order_msg_def
      on_env_result Let_def)

lemma enter_order_msg_tables:
  assumes "length (eo_token eo) = 14"
  shows "finished_orders (ouch_enter_order_msg eo s) = finished_orders s"
    and "session_state s \<noteq> LoggedIn \<Longrightarrow> active_orders (ouch_enter_order_msg eo s) = active_orders s"
    and "map_of (active_orders s) k = Some o1 \<Longrightarrow>
      map_of (active_orders (ouch_enter_order_msg eo s)) k = Some o1"
proof -
  obtain a e where a: "bm_allows New_order (s_env s) = (a, e)" by fastforce
  consider (acc) "ouch_enter_order_msg eo s = ouch_accept_order eo (s\<lparr>s_env := e\<rparr>)"
      "session_state s = LoggedIn" "map_of (active_orders s) (eo_token eo) = None"
    | (rej) rr e' where "ouch_enter_order_msg eo s =
        ouch_construct_order_rejected rr (eo_token eo) (s\<lparr>s_env := e'\<rparr>)"
    | (none) "ouch_enter_order_msg eo s = s\<lparr>s_env := e\<rparr>"
  proof (cases "uint (eo_qty eo) > MAX_SHARES")
    case True
    then show thesis using enter_order_branches(1) [OF assms, of s] that(2) [of _ "s_env s"] by simp
  next
    case False
    then show thesis
      using enter_order_branches(2-5) [OF assms, of s] a that(1,3) that(2) [of _ e]
        that(2) [of _ "s_env s"]
      by (cases "session_state s = LoggedIn"; cases a) auto
  qed
  then have "finished_orders (ouch_enter_order_msg eo s) = finished_orders s \<and>
    (session_state s \<noteq> LoggedIn \<longrightarrow> active_orders (ouch_enter_order_msg eo s) = active_orders s) \<and>
    (map_of (active_orders s) k = Some o1 \<longrightarrow>
      map_of (active_orders (ouch_enter_order_msg eo s)) k = Some o1)"
  proof cases
    case acc
    obtain o2 ts where "map_of (active_orders (ouch_accept_order eo (s\<lparr>s_env := e\<rparr>))) =
        (map_of (active_orders s))(eo_token eo \<mapsto> o2)"
      "finished_orders (ouch_accept_order eo (s\<lparr>s_env := e\<rparr>)) = finished_orders s"
      by (rule accept_order_effect [OF assms, of "s\<lparr>s_env := e\<rparr>"]) auto
    with acc show ?thesis by auto
  qed simp_all
  then show "finished_orders (ouch_enter_order_msg eo s) = finished_orders s"
    "session_state s \<noteq> LoggedIn \<Longrightarrow> active_orders (ouch_enter_order_msg eo s) = active_orders s"
    "map_of (active_orders s) k = Some o1 \<Longrightarrow>
      map_of (active_orders (ouch_enter_order_msg eo s)) k = Some o1" by blast+
qed

text \<open>The four handlers of an unsequenced packet, read off the buffer.\<close>

lemma ouch_enter_order_Inr:
  assumes "ouch_enter_order mem s = Inr (mem', s')"
  obtains eo where "52 \<le> length mem" "length (eo_token eo) = 14"
    "mem' = ouch_EnterOrder_bytes eo @ drop 52 mem" "length (ouch_EnterOrder_bytes eo) = 52"
    "s' = ouch_enter_order_msg eo s"
proof -
  let ?eo = "ouch_EnterOrder_from_network (ouch_EnterOrder_at mem)"
  from assms have n: "52 \<le> length mem" and "mem' = write_struct (ouch_EnterOrder_bytes ?eo) mem"
    and "s' = ouch_enter_order_msg ?eo s"
    by (auto simp: ouch_enter_order_def bind_result_Inr_iff read_struct_Inr Let_def
        ouch_EnterOrder_size_def)
  moreover have ok: "ouch_EnterOrder_ok ?eo"
    using ouch_EnterOrder.ok_at [of mem] n by (simp add: ouch_EnterOrder_size_def)
  moreover have "length (ouch_EnterOrder_bytes ?eo) = 52"
    using ouch_EnterOrder.length_bytes [OF ok] by (simp add: ouch_EnterOrder_size_def)
  ultimately show thesis
    by (intro that [of ?eo]) (simp_all add: write_struct_def ouch_EnterOrder_ok_def)
qed

lemma ouch_modify_order_Inr:
  assumes "ouch_modify_order mem s = Inr (mem', s')"
  obtains mo where "23 \<le> length mem" "mem' = ouch_ModifyOrder_bytes mo @ drop 23 mem"
    "length (ouch_ModifyOrder_bytes mo) = 23" "s' = ouch_modify_order_msg mo s"
proof -
  let ?mo = "ouch_ModifyOrder_from_network (ouch_ModifyOrder_at mem)"
  from assms have n: "23 \<le> length mem" and "mem' = write_struct (ouch_ModifyOrder_bytes ?mo) mem"
    and "s' = ouch_modify_order_msg ?mo s"
    by (auto simp: ouch_modify_order_def bind_result_Inr_iff read_struct_Inr Let_def
        ouch_ModifyOrder_size_def)
  moreover have ok: "ouch_ModifyOrder_ok ?mo"
    using ouch_ModifyOrder.ok_at [of mem] n
    by (simp add: ouch_ModifyOrder_size_def ouch_ModifyOrder_from_network_def ouch_ModifyOrder_ok_def)
  moreover have "length (ouch_ModifyOrder_bytes ?mo) = 23"
    using ouch_ModifyOrder.length_bytes [OF ok] by (simp add: ouch_ModifyOrder_size_def)
  ultimately show thesis by (intro that [of ?mo]) (simp_all add: write_struct_def)
qed

lemma ouch_cancel_order_Inr:
  assumes "ouch_cancel_order mem s = Inr (mem', s')"
  obtains co where "22 \<le> length mem" "mem' = ouch_CancelOrder_bytes co @ drop 22 mem"
    "length (ouch_CancelOrder_bytes co) = 22" "s' = ouch_cancel_order_msg co s"
proof -
  let ?co = "ouch_CancelOrder_from_network (ouch_CancelOrder_at mem)"
  from assms have n: "22 \<le> length mem" and "mem' = write_struct (ouch_CancelOrder_bytes ?co) mem"
    and "s' = ouch_cancel_order_msg ?co s"
    by (auto simp: ouch_cancel_order_def bind_result_Inr_iff read_struct_Inr Let_def
        ouch_CancelOrder_size_def)
  moreover have ok: "ouch_CancelOrder_ok ?co"
    using ouch_CancelOrder.ok_at [of mem] n
    by (simp add: ouch_CancelOrder_size_def ouch_CancelOrder_from_network_def ouch_CancelOrder_ok_def)
  moreover have "length (ouch_CancelOrder_bytes ?co) = 22"
    using ouch_CancelOrder.length_bytes [OF ok] by (simp add: ouch_CancelOrder_size_def)
  ultimately show thesis by (intro that [of ?co]) (simp_all add: write_struct_def)
qed

lemma ouch_replace_order_Inr:
  assumes "ouch_replace_order mem s = Inr (mem', s')"
  shows "active_orders s' = active_orders s" "finished_orders s' = finished_orders s"
    "length mem' = length mem" "drop 50 mem' = drop 50 mem"
proof -
  let ?ro = "ouch_ReplaceOrder_from_network (ouch_ReplaceOrder_at mem)"
  have "length (ouch_ReplaceOrder_bytes ?ro) = 50" if "50 \<le> length mem"
    using ouch_ReplaceOrder.length_bytes [of ?ro] ouch_ReplaceOrder.ok_at [of mem] that
    by (simp add: ouch_ReplaceOrder_size_def ouch_ReplaceOrder_from_network_def
        ouch_ReplaceOrder_ok_def)
  then show "active_orders s' = active_orders s" "finished_orders s' = finished_orders s"
    "length mem' = length mem" "drop 50 mem' = drop 50 mem"
    using assms
    by (auto simp: ouch_replace_order_def on_env_result Let_def bind_result_Inr_iff
        read_struct_Inr ouch_ReplaceOrder_size_def write_struct_def split: if_splits)
qed

lemma ouch_handle_packet_buffer:
  assumes "ouch_handle_packet mem len s = Inr (mem', s')"
  shows "length mem' = length mem \<and> drop (declared_len mem) mem' = drop (declared_len mem) mem"
  using assms
proof (cases rule: ouch_handle_packet_cases)
  case (enter s1)
  then show ?thesis by (auto elim!: ouch_enter_order_Inr)
next
  case (replace s1)
  then show ?thesis using ouch_replace_order_Inr [OF replace(3)] by simp
next
  case (cancel s1)
  then show ?thesis by (auto elim!: ouch_cancel_order_Inr)
next
  case (modify s1)
  then show ?thesis by (auto elim!: ouch_modify_order_Inr)
qed simp_all

lemma ouch_handle_packet_tables:
  assumes "ouch_handle_packet mem len s = Inr (mem', s')"
  shows "finished_orders s' = finished_orders s \<and>
    (session_state s \<noteq> LoggedIn \<longrightarrow> active_orders s' = active_orders s) \<and>
    (map_of (active_orders s) k = Some o1 \<longrightarrow> map_of (active_orders s') k = Some o1)"
  using assms
proof (cases rule: ouch_handle_packet_cases)
  case invalid
  then show ?thesis using ouch_validate_other [OF invalid(1)] by simp
next
  case (login s1)
  then show ?thesis using ouch_validate_other [OF login(1)] by simp
next
  case (logout s1)
  then show ?thesis using ouch_validate_other [OF logout(1)] by simp
next
  case (beat s1)
  then show ?thesis using ouch_validate_other [OF beat(1)] by simp
next
  case (enter s1)
  then show ?thesis using ouch_validate_other [OF enter(1)] enter_order_msg_tables
    by (elim ouch_enter_order_Inr) simp
next
  case (replace s1)
  then show ?thesis using ouch_validate_other [OF replace(1)] ouch_replace_order_Inr by simp
next
  case (cancel s1)
  then show ?thesis using ouch_validate_other [OF cancel(1)] by (elim ouch_cancel_order_Inr) simp
next
  case (modify s1)
  then show ?thesis using ouch_validate_other [OF modify(1)] by (elim ouch_modify_order_Inr) simp
qed

text \<open>A concrete exchange: the sample order reaches the sample session.\<close>

lemma sample_exchange:
  "ouch_handle_packet (wire_EnterOrder sample_eo @ [1, 2]) 52 sample_session =
     Inr (ouch_EnterOrder_bytes sample_eo @ [1, 2], ouch_accept_order sample_eo sample_session)"
  using handle_wire [OF sample_eo_ok(1) sample_session_sel(1) sample_eo_ok(2)]
    enter_order_branches(4) [OF sample_eo_ok(4,3), of sample_session "s_env sample_session"]
  by (simp add: bm_allows_sample)

lemma sample_exchange_logged_out:
  "ouch_handle_packet (wire_EnterOrder sample_eo @ [1, 2]) 52 (sample_session\<lparr>session_state := NotLoggedIn\<rparr>) =
     Inr (ouch_EnterOrder_bytes sample_eo @ [1, 2],
          ouch_construct_order_rejected RR_Other (eo_token sample_eo)
            (sample_session\<lparr>session_state := NotLoggedIn\<rparr>))"
  using handle_wire [OF sample_eo_ok(1) _ sample_eo_ok(2), of "sample_session\<lparr>session_state := NotLoggedIn\<rparr>"]
    enter_order_branches(2) [OF sample_eo_ok(4,3), of "sample_session\<lparr>session_state := NotLoggedIn\<rparr>"]
  by simp

text \<open>
  C18: no packet, valid or not, ever changes or removes an order the session holds, nor the table
  of finished orders; and as long as the client is not logged in no packet adds an order either.
\<close>

theorem packets_keep_orders:
  assumes "ouch_handle_packet mem len s = Inr (mem', s')"
  shows "finished_orders s' = finished_orders s \<and> map_of (active_orders s) \<subseteq>\<^sub>m map_of (active_orders s') \<and>
    (session_state s = LoggedIn \<or> active_orders s' = active_orders s)"
proof -
  have "map_of (active_orders s) \<subseteq>\<^sub>m map_of (active_orders s')"
    unfolding map_le_def
  proof
    fix k assume "k \<in> dom (map_of (active_orders s))"
    then obtain o1 where "map_of (active_orders s) k = Some o1" by blast
    with ouch_handle_packet_tables [OF assms, of k o1]
    show "map_of (active_orders s) k = map_of (active_orders s') k" by simp
  qed
  with ouch_handle_packet_tables [OF assms] show ?thesis by blast
qed

theorem packets_keep_orders_witness:
  "active_orders (ouch_construct_order_rejected RR_Other (eo_token sample_eo)
     (sample_session\<lparr>session_state := NotLoggedIn\<rparr>)) = []"
  using packets_keep_orders [OF sample_exchange_logged_out] by simp

lemma packet_handled_in_place_parts:
  assumes "ouch_handle_packet mem len s = Inr (mem', s')"
  shows "length mem' = length mem" and "drop (declared_len mem) mem' = drop (declared_len mem) mem"
  using ouch_handle_packet_buffer [OF assms] by blast+

text \<open>
  Handling a packet in place never changes the size of the receive buffer nor any byte behind
  the length the packet declares, so the packets that follow in the buffer are intact.
\<close>

theorem packet_handled_in_place:
  assumes "ouch_handle_packet mem len s = Inr (mem', s')"
  shows "(length mem' = length mem) \<and>
    (drop (declared_len mem) mem' = drop (declared_len mem) mem)"
  by (intro conjI packet_handled_in_place_parts [OF assms(1)])

theorem packet_handled_in_place_witness:
  "length (ouch_EnterOrder_bytes sample_eo @ [1, 2]) = length (wire_EnterOrder sample_eo @ [1, 2])"
  using packet_handled_in_place [OF sample_exchange] by blast

section \<open>Failure\<close>

lemma with_declared_length_total:
  "3 \<le> length mem \<Longrightarrow> n \<le> length mem \<Longrightarrow> \<exists>w. with_declared_length n f mem check = Inr w"
  by (simp add: with_declared_length_def read_struct_def ouch_MsgHeader_size_def)

lemma validate_by_type_total:
  assumes "52 \<le> length mem"
  shows "\<exists>w. validate_by_type mem = Inr w"
  using assms
  by (simp add: validate_by_type_def read_struct_def validate_enter_order_def
      validate_replace_order_def validate_cancel_order_def validate_modify_order_def
      validate_login_request_def validate_logout_request_def validate_client_heartbeat_def
      validate_header_only_def with_declared_length_total ouch_MsgHeader_size_def
      ouch_OuchMsgHeader_size_def ouch_EnterOrder_size_def ouch_ReplaceOrder_size_def
      ouch_CancelOrder_size_def ouch_ModifyOrder_size_def ouch_LoginRequest_size_def Let_def)

lemma ouch_handle_packet_returns:
  assumes "52 \<le> length mem" and "logger_set s"
  shows "\<exists>mem' s'. ouch_handle_packet mem len s = Inr (mem', s')"
proof -
  obtain w where "validate_by_type mem = Inr w" using validate_by_type_total [OF assms(1)] by blast
  then have "\<exists>r. ouch_validate mem len s = Inr r"
    using assms by (simp add: ouch_validate_def read_struct_def ouch_MsgHeader_size_def Let_def)
  then obtain valid s1 where v: "ouch_validate mem len s = Inr (valid, s1)" by auto
  have "\<exists>mem' s'. ouch_enter_order mem s1 = Inr (mem', s')"
    "\<exists>mem' s'. ouch_replace_order mem s1 = Inr (mem', s')"
    "\<exists>mem' s'. ouch_cancel_order mem s1 = Inr (mem', s')"
    "\<exists>mem' s'. ouch_modify_order mem s1 = Inr (mem', s')"
    using assms(1)
    by (simp_all add: ouch_enter_order_def ouch_replace_order_def ouch_cancel_order_def
        ouch_modify_order_def read_struct_def on_env_result Let_def ouch_EnterOrder_size_def
        ouch_ReplaceOrder_size_def ouch_CancelOrder_size_def ouch_ModifyOrder_size_def)
  then show ?thesis
  proof (cases valid)
    case True
    with v have v': "ouch_validate mem len s = Inr (True, s1)" by simp
    show ?thesis unfolding handle_valid_packet [OF v'] using \<open>\<exists>mem' s'. ouch_enter_order mem s1 = Inr (mem', s')\<close>
        \<open>\<exists>mem' s'. ouch_replace_order mem s1 = Inr (mem', s')\<close>
        \<open>\<exists>mem' s'. ouch_cancel_order mem s1 = Inr (mem', s')\<close>
        \<open>\<exists>mem' s'. ouch_modify_order mem s1 = Inr (mem', s')\<close> by simp
  next
    case False
    with v show ?thesis by (simp add: ouch_handle_packet_def)
  qed
qed



text \<open>
  A packet that fails validation has no effect but on the log: the buffer, the tables, the
  queues, the login state and the outgoing messages are as before, and the log has the warning,
  preceded by one about the length when the declared and the received length differ.
\<close>

theorem invalid_packet_only_logged:
  assumes "logger_set s" and "3 \<le> length mem" and "validate_by_type mem = Inr (Some txt)"
  shows "ouch_handle_packet mem len s = Inr (mem, s\<lparr>s_env := (s_env s)\<lparr>w_log := w_log (s_env s) @
     (if declared_len mem = len then [] else [(''message length mismatch: '', mem)]) @ [(txt, mem)]\<rparr>\<rparr>)"
  using assms
  by (auto simp: ouch_handle_packet_def ouch_validate_def read_struct_def ouch_MsgHeader_size_def
      Let_def warn_def log_warning_def declared_len_def)

theorem invalid_packet_only_logged_witness:
  "ouch_handle_packet [0, 1, 81] 3 sample_session = Inr ([0, 1, 81],
     sample_session\<lparr>s_env := (s_env sample_session)\<lparr>w_log := w_log (s_env sample_session) @
       [(''unsupported message type: '', [0, 1, 81])]\<rparr>\<rparr>)"
proof -
  have v: "validate_by_type [0, 1, 81] = Inr (Some ''unsupported message type: '')" by code_simp
  have d: "declared_len [0, 1, 81] = 3" by code_simp
  from invalid_packet_only_logged [OF _ _ v, of sample_session 3] d show ?thesis by simp
qed

section \<open>Login\<close>

text \<open>
  C36: the sequence-number test accepts exactly the fields that match the regular expression of the
  code as a whole: any white space, then at least one digit, then nothing.
\<close>

theorem seq_num_ok_regex:
  "seq_num_ok bs \<longleftrightarrow> (\<exists>ws ds. bs = ws @ ds \<and> list_all byte_is_space ws \<and> ds \<noteq> [] \<and>
     list_all byte_is_digit ds)"
proof
  assume "seq_num_ok bs"
  then have "bs = takeWhile byte_is_space bs @ dropWhile byte_is_space bs \<and>
      list_all byte_is_space (takeWhile byte_is_space bs) \<and> dropWhile byte_is_space bs \<noteq> [] \<and>
      list_all byte_is_digit (dropWhile byte_is_space bs)"
    by (auto simp: seq_num_ok_def Let_def list_all_iff dest: set_takeWhileD)
  then show "\<exists>ws ds. bs = ws @ ds \<and> list_all byte_is_space ws \<and> ds \<noteq> [] \<and>
     list_all byte_is_digit ds" by blast
next
  assume "\<exists>ws ds. bs = ws @ ds \<and> list_all byte_is_space ws \<and> ds \<noteq> [] \<and> list_all byte_is_digit ds"
  then obtain ws d ds where bs: "bs = ws @ d # ds" and ws: "list_all byte_is_space ws"
    and ds: "list_all byte_is_digit (d # ds)" by (metis neq_Nil_conv)
  have "\<not> byte_is_space d"
    using ds by (auto simp: byte_is_space_def byte_is_digit_def word_le_nat_alt)
  then have "dropWhile byte_is_space bs = d # ds"
    using ws by (simp add: bs dropWhile_append2 list_all_iff)
  then show "seq_num_ok bs" using ds by (simp add: seq_num_ok_def)
qed

lemma login_request_header:
  "ouch_MsgHeader_at (ouch_LoginRequest_bytes x @ r) =
     \<lparr>mh_length = lr_length x, mh_packet_type = lr_packet_type x\<rparr>"
  by (simp add: ouch_LoginRequest_bytes_def ouch_MsgHeader_at_def at_skip at_here)

lemma handle_login_wire:
  assumes ok: "ouch_LoginRequest_ok lr" and head: "lr_length lr = swap16 47" "lr_packet_type lr = 76"
    and seq: "seq_num_ok (lr_requested_seq_num lr)" and log: "logger_set s"
  shows "ouch_handle_packet (ouch_LoginRequest_bytes lr @ rest) 49 s =
    Inr (ouch_LoginRequest_bytes lr @ rest, ouch_handle_login_request s)"
proof -
  let ?mem = "ouch_LoginRequest_bytes lr @ rest"
  have len: "length (ouch_LoginRequest_bytes lr) = 49"
    using ouch_LoginRequest.length_bytes [OF ok] by (simp add: ouch_LoginRequest_size_def)
  have h: "ouch_MsgHeader_at ?mem = \<lparr>mh_length = swap16 47, mh_packet_type = 76\<rparr>"
    by (simp add: login_request_header head)
  have "validate_login_request ?mem = Inr None"
    unfolding validate_login_request_def with_declared_length_valid
    using len seq by (simp add: h ouch_LoginRequest.at_bytes [OF ok] ouch_LoginRequest_size_def
        check_login_request_def)
  then have "ouch_validate ?mem 49 s = Inr (True, s)"
    using log len by (simp add: ouch_validate_def validate_by_type_def read_struct_def h
        ouch_MsgHeader_size_def Let_def ch_def)
  from handle_valid_packet [OF this] show ?thesis by (simp add: h)
qed

text \<open>
  C25: a well-formed login packet gets exactly one answer: accepted
  with the session and sequence number 0, right-aligned in their fields, when the session was not
  logged in and the behaviour manager agrees; rejected with reason S when already logged in, with
  reason A when refused, the login state then being as before.
\<close>

theorem login_protocol:
  assumes "ouch_LoginRequest_ok lr" and "lr_length lr = swap16 47" and "lr_packet_type lr = ch CHR ''L''"
    and "seq_num_ok (lr_requested_seq_num lr)" and "logger_set s"
  shows "\<exists>s'. ouch_handle_packet (ouch_LoginRequest_bytes lr @ rest) 49 s =
        Inr (ouch_LoginRequest_bytes lr @ rest, s') \<and>
      session_state s' = (if session_state s = NotLoggedIn \<and> fst (bm_allows Login (s_env s))
        then LoggedIn else session_state s) \<and>
      ouch_events s' = ouch_events s @
        [Some (if session_state s \<noteq> NotLoggedIn then Ev_LoginRejected (ch CHR ''S'')
               else if \<not> fst (bm_allows Login (s_env s)) then Ev_LoginRejected (ch CHR ''A'')
               else Ev_LoginAccepted (bytes_of_string ''         0'')
                      (bytes_of_string ''                   0''))]"
proof -
  have "decimal 0 = [48]" by (simp add: decimal.simps)
  then have "session_state (ouch_handle_login_request s) =
        (if session_state s = NotLoggedIn \<and> fst (bm_allows Login (s_env s))
         then LoggedIn else session_state s) \<and>
      ouch_events (ouch_handle_login_request s) = ouch_events s @
        [Some (if session_state s \<noteq> NotLoggedIn then Ev_LoginRejected (ch CHR ''S'')
               else if \<not> fst (bm_allows Login (s_env s)) then Ev_LoginRejected (ch CHR ''A'')
               else Ev_LoginAccepted (bytes_of_string ''         0'')
                      (bytes_of_string ''                   0''))]"
    by (simp add: ouch_handle_login_request_def on_env_result Let_def sent_events
        bytes_of_string_def ch_def numeral_eq_Suc)
  with handle_login_wire [OF assms(1,2) _ assms(4,5), of rest] assms(3) show ?thesis
    by (simp add: ch_def)
qed

definition sample_login :: ouch_LoginRequest where
  "sample_login = \<lparr>lr_length = swap16 47, lr_packet_type = ch CHR ''L'',
     lr_username = bytes_of_string ''trader'', lr_password = bytes_of_string ''secret    '',
     lr_requested_session = bytes_of_string ''          '',
     lr_requested_seq_num = bytes_of_string ''                  17''\<rparr>"

theorem login_protocol_witness:
  "\<exists>s'. ouch_handle_packet (ouch_LoginRequest_bytes sample_login @ []) 49
      (set_logger (new_ouch_session sample_env)) = Inr (ouch_LoginRequest_bytes sample_login @ [], s') \<and>
    session_state s' = LoggedIn"
proof -
  have "ouch_LoginRequest_ok sample_login" "lr_length sample_login = swap16 47"
    "lr_packet_type sample_login = ch CHR ''L''" "seq_num_ok (lr_requested_seq_num sample_login)"
    by code_simp+
  from login_protocol [OF this, of "set_logger (new_ouch_session sample_env)" "[]"]
  show ?thesis
    by (auto simp: set_logger_def new_ouch_session_def time_NULL_def Let_def bm_allows_sample)
qed

end
