(* ===== verification/OuchTick.thy ===== *)
theory OuchTick
  imports OuchPackets
begin

text \<open>
  Properties of the OUCH session's timer tick: heartbeats, cancels, modifications and
  replacements, and of the console's cancel-all.
\<close>

section \<open>Behaviours are not changed by the session\<close>

lemma behavior_draws [simp]:
  "behavior (snd (uninit n e)) = behavior e" "behavior (snd (clock_now e)) = behavior e"
  "behavior (snd (time_NULL e)) = behavior e" "behavior (snd (rand_int e)) = behavior e"
  "behavior (snd (next_rank e)) = behavior e" "behavior (snd (clock_ticks e)) = behavior e"
  "behavior (snd (rand_times_rand e)) = behavior e"
  by (simp_all add: draw_defs rand_times_rand_def split_def Let_def)

lemma behavior_construct [simp]:
  "behavior (s_env (ouch_construct_cancel_rejected t s)) = behavior (s_env s)"
  "behavior (s_env (ouch_construct_order_canceled q r t s)) = behavior (s_env s)"
  "behavior (s_env (ouch_construct_order_modified q mo s)) = behavior (s_env s)"
  "behavior (s_env (ouch_construct_order_replaced ro o1 s)) = behavior (s_env s)"
  "behavior (s_env (ouch_construct_order_accepted o1 s)) = behavior (s_env s)"
  "behavior (s_env (ouch_construct_order_rejected rr t s)) = behavior (s_env s)"
  "behavior (s_env (ouch_post_heartbeat s)) = behavior (s_env s)"
  by (simp_all add: ouch_construct_cancel_rejected_def ouch_construct_order_canceled_def
      ouch_construct_order_modified_def ouch_construct_order_replaced_def
      ouch_construct_order_accepted_def ouch_construct_order_rejected_def ouch_post_heartbeat_def
      construct_defs)

lemma bm_allows_behavior: "bm_allows a e = (b, e') \<Longrightarrow> behavior e' = behavior e"
  by (auto dest!: bm_allows_frame)

section \<open>Reachable sessions\<close>

text \<open>
  C21: in every state the session can reach, the keys of both order tables are distinct, every
  order is stored under its own 14-byte token, and every packet waiting to be sent declares its
  own length and decodes to a message of the protocol.
\<close>

theorem reachable_sessions_well_formed:
  assumes "ouch_reachable s"
  shows "distinct (keys (active_orders s)) \<and> distinct (keys (finished_orders s)) \<and>
    (\<forall>k o1. map_of (active_orders s) k = Some o1 \<or> map_of (finished_orders s) k = Some o1 \<longrightarrow>
       token o1 = k \<and> length k = 14) \<and>
    (\<forall>m\<in>set (pending_out_messages s). ouch_frame m \<and> ouch_event_of m \<noteq> None)"
  using ouch_reachable_wf [OF assms]
  by (auto simp: ouch_inv_def ouch_framed_def table_ok_def entry_ok_def)

lemma reachable_exchange:
  "ouch_reachable (ouch_construct_order_rejected RR_Other (eo_token sample_eo)
     (set_logger (new_ouch_session sample_env)))"
proof -
  let ?s = "set_logger (new_ouch_session sample_env)"
  have st: "logger_set ?s" "session_state ?s = NotLoggedIn"
    by (simp_all add: set_logger_def new_ouch_session_def time_NULL_def Let_def)
  have "ouch_handle_packet (wire_EnterOrder sample_eo @ []) 52 ?s = Inr (ouch_EnterOrder_bytes sample_eo @ [],
      ouch_construct_order_rejected RR_Other (eo_token sample_eo) ?s)"
    using handle_wire [OF sample_eo_ok(1) st(1) sample_eo_ok(2), of "[]"]
      enter_order_branches(2) [OF sample_eo_ok(4,3), of ?s] st(2) by simp
  from ouch_reachable.step [OF reachable_connected ouch_step.packet [OF this]] show ?thesis .
qed

theorem reachable_sessions_well_formed_witness:
  "list_all (\<lambda>m. ouch_frame m \<and> ouch_event_of m \<noteq> None)
     (pending_out_messages (ouch_construct_order_rejected RR_Other (eo_token sample_eo)
       (set_logger (new_ouch_session sample_env))))"
  unfolding list_all_iff using reachable_sessions_well_formed [OF reachable_exchange] by blast

section \<open>Heartbeats\<close>

text \<open>
  A tick sends a heartbeat exactly when the client is logged in and at least one second has
  passed since the last one; otherwise it sends nothing at this point. The time of the last
  heartbeat is then moved to the clock's next answer.
\<close>

theorem heartbeat_due:
  fixes s :: ouch_session
  defines "now \<equiv> fst (time_NULL (s_env s))"
    and "now' \<equiv> fst (time_NULL (snd (time_NULL (s_env s))))"
  shows "ouch_events (ouch_heartbeat_logic s) = ouch_events s @
      (if session_state s \<noteq> NotLoggedIn \<and> now - last_send_heartbeat s \<ge> 1 then [Some Ev_Heartbeat] else [])
    \<and> last_send_heartbeat (ouch_heartbeat_logic s) =
      (if session_state s \<noteq> NotLoggedIn \<and> now - last_send_heartbeat s \<ge> 1 then now'
       else last_send_heartbeat s)"
  by (simp add: ouch_heartbeat_logic_def heartbeat_with_def on_env_result Let_def sent_events
      now_def now'_def)

section \<open>Cancels\<close>

lemma cancel_one_known:
  assumes "map_of (active_orders s) (cxl_token co) = Some o1"
    and "bm_allows Cancel_order (s_env s) = (True, e)"
    and "0 \<le> remaining_qty o1" "remaining_qty o1 < 2 ^ 32"
  defines "t \<equiv> cxl_token co" and "q \<equiv> uint (cxl_qty co)" and "s1 \<equiv> s\<lparr>s_env := e\<rparr>"
  shows "ouch_cancel_one co s =
    (if q = 0 then ([t], ouch_construct_order_canceled (to_uint32 (remaining_qty o1)) CR_UserRequested t s1)
     else if q \<ge> remaining_qty o1 then ([], s1)
     else ([], ouch_construct_order_canceled (to_uint32 (remaining_qty o1 - q)) CR_UserRequested t
                 (put_active t (o1\<lparr>remaining_qty := q\<rparr>) s1)))"
proof -
  have u: "uint (to_uint32 (remaining_qty o1)) = remaining_qty o1"
    by (rule uint_to_uint32) (use assms in simp_all)
  have le: "to_uint32 (remaining_qty o1) \<le> cxl_qty co \<longleftrightarrow> q \<ge> remaining_qty o1"
    by (simp add: word_le_def u q_def)
  have z: "cxl_qty co = 0 \<longleftrightarrow> q = 0" by (simp add: q_def uint_0_iff)
  have sub: "to_uint32 (remaining_qty o1) - cxl_qty co = to_uint32 (remaining_qty o1 - q)"
    by (simp add: to_uint32_def q_def)
  show ?thesis
    using assms(1,2)
    by (simp add: ouch_cancel_one_def on_env_result Let_def le z sub t_def s1_def q_def
        del: uint_0_iff)
qed

text \<open>The quantities of the queued cancel requests for a token, in order.\<close>

definition cancel_qtys :: "byte list \<Rightarrow> Ouch_CancelOrderReq list \<Rightarrow> int list" where
  "cancel_qtys t reqs = List.map (\<lambda>co. uint (cxl_qty co)) (filter (\<lambda>co. cxl_token co = t) reqs)"

definition lowered :: "int list \<Rightarrow> Ouch_Order \<Rightarrow> Ouch_Order" where
  "lowered qs o1 = o1\<lparr>remaining_qty :=
     foldl (\<lambda>r q. if q = 0 then r else min r q) (remaining_qty o1) qs\<rparr>"

definition qty_ok :: "(byte list \<times> Ouch_Order) list \<Rightarrow> bool" where
  "qty_ok m \<longleftrightarrow> (\<forall>k o1. map_of m k = Some o1 \<longrightarrow> 0 \<le> remaining_qty o1 \<and> remaining_qty o1 < 2 ^ 32)"

lemma lowered_Cons [simp]:
  "lowered (q # qs) o1 =
     lowered qs (if q = 0 \<or> q \<ge> remaining_qty o1 then o1 else o1\<lparr>remaining_qty := q\<rparr>)"
  by (auto simp: lowered_def min_def)

lemma lowered_Nil [simp]: "lowered [] = id"
  by (rule ext) (simp add: lowered_def)

lemma cancel_qtys_simps [simp]:
  "cancel_qtys t [] = []"
  "cancel_qtys t (co # reqs) =
     (if cxl_token co = t then uint (cxl_qty co) # cancel_qtys t reqs else cancel_qtys t reqs)"
  by (simp_all add: cancel_qtys_def)

lemma lowered_min: "0 \<notin> set qs \<Longrightarrow> lowered qs o1 = o1\<lparr>remaining_qty := Min (insert (remaining_qty o1) (set qs))\<rparr>"
proof (induction qs arbitrary: o1)
  case (Cons q qs)
  have "Min (insert (min (remaining_qty o1) q) (set qs)) = Min (insert (remaining_qty o1) (insert q (set qs)))"
    by (cases "qs = []") (simp_all add: ac_simps)
  with Cons show ?case by (auto simp: min_def split: if_splits)
qed simp

text \<open>One request under the default behaviour.\<close>

lemma cancel_one_step:
  assumes ok: "qty_ok (active_orders s)" and b: "behavior (s_env s) Cancel_order = DefaultBehavior"
    and one: "ouch_cancel_one co s = (d, s1)"
  shows "behavior (s_env s1) = behavior (s_env s)"
    and "set d = (if map_of (active_orders s) (cxl_token co) \<noteq> None \<and> cxl_qty co = 0
                  then {cxl_token co} else {})"
    and "map_of (active_orders s1) t = map_option (lowered (cancel_qtys t [co])) (map_of (active_orders s) t)"
    and "qty_ok (active_orders s1)" and "finished_orders s1 = finished_orders s"
proof -
  have bm: "bm_allows Cancel_order (s_env s) = (True, s_env s)" using b by (rule bm_allows_sample)
  have all: "behavior (s_env s1) = behavior (s_env s) \<and>
    set d = (if map_of (active_orders s) (cxl_token co) \<noteq> None \<and> cxl_qty co = 0
             then {cxl_token co} else {}) \<and>
    map_of (active_orders s1) t = map_option (lowered (cancel_qtys t [co])) (map_of (active_orders s) t) \<and>
    finished_orders s1 = finished_orders s" for t
  proof (cases "map_of (active_orders s) (cxl_token co)")
    case None
    then show ?thesis using one by (auto simp: ouch_cancel_one_def Let_def option.map_id)
  next
    case (Some o1)
    then have r: "0 \<le> remaining_qty o1" "remaining_qty o1 < 2 ^ 32" using ok by (auto simp: qty_ok_def)
    show ?thesis
      using one Some
      unfolding cancel_one_known [OF Some bm r]
      by (auto simp: option.map_id uint_0_iff put_active_def split: if_splits)
  qed
  then show "behavior (s_env s1) = behavior (s_env s)"
    and "set d = (if map_of (active_orders s) (cxl_token co) \<noteq> None \<and> cxl_qty co = 0
                  then {cxl_token co} else {})"
    and m: "map_of (active_orders s1) t = map_option (lowered (cancel_qtys t [co])) (map_of (active_orders s) t)"
    and "finished_orders s1 = finished_orders s" for t
    by blast+
  show "qty_ok (active_orders s1)"
    using ok uint_u32_bounds [of "cxl_qty co"] unfolding qty_ok_def m by (auto split: if_splits)
qed

lemma cancel_loop_effect:
  assumes "qty_ok (active_orders s)" and "behavior (s_env s) Cancel_order = DefaultBehavior"
  shows "set (fst (ouch_cancel_loop reqs s)) =
      {t. map_of (active_orders s) t \<noteq> None \<and> 0 \<in> set (cancel_qtys t reqs)}"
    and "map_of (active_orders (snd (ouch_cancel_loop reqs s))) t =
      map_option (lowered (cancel_qtys t reqs)) (map_of (active_orders s) t)"
    and "finished_orders (snd (ouch_cancel_loop reqs s)) = finished_orders s"
  using assms
proof (induction reqs arbitrary: s)
  case Nil
  { case 1 then show ?case by simp
  next case 2 then show ?case by (simp add: option.map_ident)
  next case 3 then show ?case by simp }
next
  case (Cons co reqs)
  { case 1
    obtain d s1 where one: "ouch_cancel_one co s = (d, s1)" by fastforce
    from cancel_one_step [OF 1 one] Cons.IH(1) [of s1] one 1 show ?case
      by (auto simp: split_def Let_def uint_0_iff)
  next
    case 2
    obtain d s1 where one: "ouch_cancel_one co s = (d, s1)" by fastforce
    from cancel_one_step [OF 2 one] Cons.IH(2) [of s1] one 2 show ?case
      by (simp add: split_def Let_def option.map_comp o_def)
  next
    case 3
    obtain d s1 where one: "ouch_cancel_one co s = (d, s1)" by fastforce
    from cancel_one_step [OF 3 one] Cons.IH(3) [of s1] one 3 show ?case
      by (simp add: split_def Let_def) }
qed

lemma cancel_logic_outcome_parts:
  assumes "qty_ok (active_orders s)" and "behavior (s_env s) Cancel_order = DefaultBehavior"
  defines "qs \<equiv> \<lambda>t. set (cancel_qtys t (pending_cancel s))"
  shows "map_of (active_orders (ouch_cancel_logic s)) t =
      (case map_of (active_orders s) t of None \<Rightarrow> None
       | Some o1 \<Rightarrow> if 0 \<in> qs t then None
                    else Some (o1\<lparr>remaining_qty := Min (insert (remaining_qty o1) (qs t))\<rparr>))"
    and "pending_cancel (ouch_cancel_logic s) = []"
    and "finished_orders (ouch_cancel_logic s) = finished_orders s"
  using cancel_loop_effect [OF assms(1,2), of "pending_cancel s"]
  by (auto simp: ouch_cancel_logic_def split_def Let_def map_of_erase_all qs_def lowered_min
      split: option.splits)


definition sample_order :: Ouch_Order where
  "sample_order = fst (Ouch_Order_of sample_eo sample_env)"

definition trading_session :: "Ouch_Order \<Rightarrow> ouch_session" where
  "trading_session o1 = sample_session\<lparr>active_orders := [(token o1, o1)]\<rparr>"

lemma trading_session_sel [simp]:
  "active_orders (trading_session o1) = [(token o1, o1)]"
  "finished_orders (trading_session o1) = []" "pending_out_messages (trading_session o1) = []"
  "session_state (trading_session o1) = LoggedIn"
  "behavior (s_env (trading_session o1)) a = DefaultBehavior"
  by (simp_all add: trading_session_def)

lemma sample_order_sel [simp]:
  "token sample_order = sample_token" "remaining_qty sample_order = 500"
  "executed_qty sample_order = 0" "side sample_order = ch CHR ''B''" "price sample_order = 2345600"
  "time_in_force sample_order = 99998" "remain_time_in_force sample_order = 99998"
  "min_qty sample_order = 0" "order_state sample_order = OrderState_code OS_Live"
  by (simp_all add: sample_order_def Ouch_Order_of_def Ouch_Order_parse_order_def sample_eo_def
      split_def Let_def to_int32_id)

lemma sample_token_length [simp]: "length sample_token = 14"
  by code_simp


text \<open>
  What a client is told about one cancel: a request for an unknown token, or one the behaviour
  manager refuses (it is asked a second time here), is answered by a cancel reject; quantity 0 by
  the cancel of all remaining shares; a smaller quantity by the cancel of the difference; a
  quantity that is not below the remaining one by nothing at all.
\<close>

theorem cancel_answers:
  assumes "length (cxl_token co) = 14" and "qty_ok (active_orders s)"
  defines "t \<equiv> cxl_token co" and "q \<equiv> uint (cxl_qty co)"
  shows "ouch_events (snd (ouch_cancel_one co s)) = ouch_events s @
    (case map_of (active_orders s) t of
       None \<Rightarrow> [Some (Ev_CancelRejected t)]
     | Some o1 \<Rightarrow>
         if \<not> fst (bm_allows Cancel_order (s_env s)) then [Some (Ev_CancelRejected t)]
         else if q = 0 then [Some (Ev_Canceled t (to_uint32 (remaining_qty o1)) (ch CHR ''U''))]
         else if q \<ge> remaining_qty o1 then []
         else [Some (Ev_Canceled t (to_uint32 (remaining_qty o1 - q)) (ch CHR ''U''))])"
proof (cases "map_of (active_orders s) t")
  case None
  then show ?thesis using assms(1) by (simp add: ouch_cancel_one_def Let_def sent_events t_def)
next
  case (Some o1)
  then have r: "0 \<le> remaining_qty o1" "remaining_qty o1 < 2 ^ 32"
    using assms(2) by (auto simp: qty_ok_def)
  obtain b e where b: "bm_allows Cancel_order (s_env s) = (b, e)" by fastforce
  show ?thesis
  proof (cases b)
    case True
    with b have b': "bm_allows Cancel_order (s_env s) = (True, e)" by simp
    show ?thesis
      unfolding cancel_one_known [OF Some [unfolded t_def] b' r]
      using Some assms(1) b' by (simp add: sent_events t_def q_def)
  next
    case False
    then show ?thesis using Some assms(1) b
      by (simp add: ouch_cancel_one_def on_env_result Let_def sent_events t_def)
  qed
qed

theorem cancel_answers_witness:
  "ouch_events (snd (ouch_cancel_one \<lparr>cxl_token = sample_token, cxl_qty = 200\<rparr>
     (trading_session sample_order))) = [Some (Ev_Canceled sample_token 300 (ch CHR ''U''))]"
  using cancel_answers [of "\<lparr>cxl_token = sample_token, cxl_qty = 200\<rparr>" "trading_session sample_order"]
  by (simp add: qty_ok_def bm_allows_sample to_uint32_def ouch_events_def)

section \<open>Modifications\<close>

text \<open>
  Which changes of side a modification can make: because the cases of the switch fall through,
  a sell order can never be modified, a sell-short-exempt order only into a sell, a sell-short
  order into a sell or a sell-short-exempt order; a buy order is not restricted at all. (The
  cases as written would let a sell become either kind of short sale.)
\<close>

theorem modify_side_rules:
  "modify_skipped old new \<longleftrightarrow>
     old = ch CHR ''S'' \<or> old = ch CHR ''E'' \<and> new \<noteq> ch CHR ''S'' \<or>
     old = ch CHR ''T'' \<and> new \<noteq> ch CHR ''S'' \<and> new \<noteq> ch CHR ''E''"
  by (auto simp: modify_skipped_def Let_def ch_def)

lemma modify_one_known:
  assumes "map_of (active_orders s) (mod_token mo) = Some o1"
    and "\<not> modify_skipped (side o1) (new_side mo)" and "executed_qty o1 < uint (req_qty mo)"
  shows "ouch_modify_one mo s =
    ([], ouch_construct_order_modified (to_uint32 (uint (req_qty mo) - executed_qty o1)) mo
       (put_active (mod_token mo)
         (o1\<lparr>side := new_side mo, remaining_qty := uint (req_qty mo) - executed_qty o1\<rparr>) s))"
  using assms by (simp add: ouch_modify_one_def Let_def)

lemma modify_logic_single:
  assumes "pending_modify s = [mo]" and "map_of (active_orders s) (mod_token mo) = Some o1"
    and "side o1 = ch CHR ''B''" and "new_side mo = ch CHR ''B''"
    and "executed_qty o1 < uint (req_qty mo)"
  shows "ouch_modify_logic s =
    ouch_construct_order_modified (to_uint32 (uint (req_qty mo) - executed_qty o1)) mo
       (put_active (mod_token mo)
         (o1\<lparr>remaining_qty := uint (req_qty mo) - executed_qty o1\<rparr>) s)"
proof -
  have "\<not> modify_skipped (side o1) (new_side mo)"
    using assms(3,4) by (simp add: modify_skipped_def Let_def ch_def)
  moreover have "o1\<lparr>side := new_side mo\<rparr> = o1" using assms(3,4) by simp
  ultimately show ?thesis
    using modify_one_known [OF assms(2) _ assms(5)] assms(1)
    by (simp add: ouch_modify_logic_def erase_active_def)
qed

text \<open>
  The queue of modifications is never emptied, so a modification that was carried out is
  carried out and confirmed again on every later tick: after n ticks the client has n
  confirmations of one request.
\<close>

theorem modify_replayed:
  assumes "pending_modify s = [mo]" and "length (mod_token mo) = 14"
    and "map_of (active_orders s) (mod_token mo) = Some o1"
    and "side o1 = ch CHR ''B''" and "new_side mo = ch CHR ''B''"
    and "executed_qty o1 < uint (req_qty mo)"
  shows "ouch_events ((ouch_modify_logic ^^ n) s) = ouch_events s @
      replicate n (Some (Ev_Modified (mod_token mo) (ch CHR ''B'')
        (to_uint32 (uint (req_qty mo) - executed_qty o1))))"
  using assms
proof (induction n arbitrary: s o1)
  case (Suc n)
  let ?s = "ouch_modify_logic s"
  let ?o = "o1\<lparr>remaining_qty := uint (req_qty mo) - executed_qty o1\<rparr>"
  note one = modify_logic_single [OF Suc.prems(1,3,4,5,6)]
  have "ouch_events ((ouch_modify_logic ^^ n) ?s) = ouch_events ?s @
      replicate n (Some (Ev_Modified (mod_token mo) (ch CHR ''B'')
        (to_uint32 (uint (req_qty mo) - executed_qty ?o))))"
    by (rule Suc.IH) (use Suc.prems in \<open>simp_all add: one\<close>)
  moreover have "ouch_events ?s = ouch_events s @ [Some (Ev_Modified (mod_token mo) (ch CHR ''B'')
        (to_uint32 (uint (req_qty mo) - executed_qty o1)))]"
    using Suc.prems by (simp add: one sent_events)
  ultimately show ?case by (simp add: funpow_Suc_right del: funpow.simps)
qed simp

theorem modify_replayed_witness:
  "ouch_events ((ouch_modify_logic ^^ 3) (trading_session sample_order
     \<lparr>pending_modify := [\<lparr>mod_token = sample_token, req_qty = 300, new_side = ch CHR ''B''\<rparr>]\<rparr>)) =
   replicate 3 (Some (Ev_Modified sample_token (ch CHR ''B'') 300))"
  using modify_replayed [of "trading_session sample_order
     \<lparr>pending_modify := [\<lparr>mod_token = sample_token, req_qty = 300, new_side = ch CHR ''B''\<rparr>]\<rparr>"
     "\<lparr>mod_token = sample_token, req_qty = 300, new_side = ch CHR ''B''\<rparr>" sample_order 3]
  by (simp add: to_uint32_def ouch_events_def)

text \<open>
  A partial cancel does not survive an older modification: the client is told that the order
  was lowered to the quantity it asked for, and the replayed modification of the same tick puts
  the order back to the modified quantity.
\<close>

theorem modify_undoes_cancel:
  assumes "pending_modify s = [mo]" and "pending_cancel s = [co]"
    and "cxl_token co = mod_token mo" and "length (mod_token mo) = 14"
    and "qty_ok (active_orders s)" and "behavior (s_env s) Cancel_order = DefaultBehavior"
    and "map_of (active_orders s) (mod_token mo) = Some o1"
    and "side o1 = ch CHR ''B''" and "new_side mo = ch CHR ''B''"
    and "executed_qty o1 < uint (req_qty mo)"
    and "0 < uint (cxl_qty co)" and "uint (cxl_qty co) < remaining_qty o1"
  shows "ouch_events (ouch_modify_logic (ouch_cancel_logic s)) = ouch_events s @
      [Some (Ev_Canceled (mod_token mo) (to_uint32 (remaining_qty o1 - uint (cxl_qty co))) (ch CHR ''U'')),
       Some (Ev_Modified (mod_token mo) (ch CHR ''B'') (to_uint32 (uint (req_qty mo) - executed_qty o1)))] \<and>
    map_of (active_orders (ouch_modify_logic (ouch_cancel_logic s))) (mod_token mo) =
      Some (o1\<lparr>remaining_qty := uint (req_qty mo) - executed_qty o1\<rparr>)"
proof -
  have k: "map_of (active_orders s) (cxl_token co) = Some o1" using assms(3,7) by simp
  have r: "0 \<le> remaining_qty o1" "remaining_qty o1 < 2 ^ 32"
    using assms(5,7) by (auto simp: qty_ok_def)
  have z: "cxl_qty co \<noteq> 0" using assms(11) by auto
  let ?s = "(ouch_construct_order_canceled (to_uint32 (remaining_qty o1 - uint (cxl_qty co)))
        CR_UserRequested (mod_token mo)
        (put_active (mod_token mo) (o1\<lparr>remaining_qty := uint (cxl_qty co)\<rparr>) s))\<lparr>pending_cancel := []\<rparr>"
  have c: "ouch_cancel_logic s = ?s"
    using cancel_one_known [OF k bm_allows_sample [OF assms(6)] r] assms(2,3,11,12) z
    by (simp add: ouch_cancel_logic_def erase_active_def)
  have "ouch_modify_logic ?s = ouch_construct_order_modified (to_uint32 (uint (req_qty mo) - executed_qty o1)) mo
       (put_active (mod_token mo) (o1\<lparr>remaining_qty := uint (req_qty mo) - executed_qty o1\<rparr>) ?s)"
    using modify_logic_single [where s = ?s and mo = mo and ?o1.0 = "o1\<lparr>remaining_qty := uint (cxl_qty co)\<rparr>"]
      assms by simp
  then show ?thesis using assms(4,9) by (simp add: c sent_events)
qed

theorem modify_undoes_cancel_witness:
  "map_of (active_orders (ouch_modify_logic (ouch_cancel_logic (trading_session sample_order
     \<lparr>pending_modify := [\<lparr>mod_token = sample_token, req_qty = 400, new_side = ch CHR ''B''\<rparr>],
      pending_cancel := [\<lparr>cxl_token = sample_token, cxl_qty = 100\<rparr>]\<rparr>)))) sample_token =
   Some (sample_order\<lparr>remaining_qty := 400\<rparr>)"
  using modify_undoes_cancel [of "trading_session sample_order
     \<lparr>pending_modify := [\<lparr>mod_token = sample_token, req_qty = 400, new_side = ch CHR ''B''\<rparr>],
      pending_cancel := [\<lparr>cxl_token = sample_token, cxl_qty = 100\<rparr>]\<rparr>"
     "\<lparr>mod_token = sample_token, req_qty = 400, new_side = ch CHR ''B''\<rparr>"
     "\<lparr>cxl_token = sample_token, cxl_qty = 100\<rparr>" sample_order]
  by (simp add: qty_ok_def)

section \<open>Replacements\<close>

text \<open>The order a replace request finds, or makes up, under the token it names.\<close>

definition replace_target :: "Ouch_ReplaceOrderReq \<Rightarrow> ouch_session \<Rightarrow> Ouch_Order" where
  "replace_target ro s = (case map_of (active_orders s) (existing_token ro) of
     Some o1 \<Rightarrow> o1 | None \<Rightarrow> fst (new_Ouch_Order (s_env s)))"

lemma active_index_target:
  "map_of (active_orders (active_index (existing_token ro) s)) =
     (map_of (active_orders s))(existing_token ro \<mapsto> replace_target ro s)"
  by (cases "map_of (active_orders s) (existing_token ro)")
    (auto simp: active_index_present active_index_absent replace_target_def)

lemma replace_one_refused:
  assumes "uint (rpl_qty ro) > MAX_SHARES \<or> uint (rpl_qty ro) \<le> executed_qty (replace_target ro s)"
  shows "ouch_replace_one ro s = ([existing_token ro],
    ouch_construct_order_canceled (to_uint32 (remaining_qty (replace_target ro s))) CR_SystemCancel
      (existing_token ro) (active_index (existing_token ro) s))"
  using assms by (simp add: ouch_replace_one_def Let_def active_index_target)

lemma replace_one_done:
  assumes "uint (rpl_qty ro) \<le> MAX_SHARES" and "executed_qty (replace_target ro s) < uint (rpl_qty ro)"
    and len: "length (existing_token ro) = 14" "length (new_token ro) = 14"
  defines "t \<equiv> existing_token ro" and "n \<equiv> new_token ro"
    and "o2 \<equiv> replaced_order ro (replace_target ro s)"
  obtains g ts s' where "ouch_replace_one ro s = ([], s')"
    and "map_of (active_orders s') =
      (if n = t then (map_of (active_orders s))(t := None)
       else (map_of (active_orders s))(t := None, n \<mapsto> o2))"
    and "ouch_events s' = ouch_events s @ [Some (Ev_Replaced (order_replaced_msg g ts ro o2))]"
proof -
  let ?s1 = "active_index t s"
  let ?s2 = "ouch_construct_order_replaced ro o2 (put_active t o2 ?s1)"
  let ?s3 = "active_index n ?s2"
  let ?s4 = "?s3\<lparr>active_orders := AList.delete t (swap_entries t n (active_orders ?s3))\<rparr>"
  have one: "ouch_replace_one ro s = ([], ?s4)"
    using assms(1,2)
    by (simp add: ouch_replace_one_def Let_def active_index_target t_def n_def o2_def)
  have m2: "map_of (active_orders ?s2) = (map_of (active_orders s))(t \<mapsto> o2)"
    by (simp add: t_def active_index_target)
  have t3: "map_of (active_orders ?s3) t = Some o2"
    by (cases "t = n") (simp_all add: m2 map_of_active_index_other active_index_present)
  obtain o3 where n3: "map_of (active_orders ?s3) n = Some o3"
    using map_of_active_index [where k = n and s = ?s2] by blast
  have "map_of (active_orders ?s4) =
      (if n = t then (map_of (active_orders s))(t := None)
       else (map_of (active_orders s))(t := None, n \<mapsto> o2))"
  proof (rule ext)
    fix k
    show "map_of (active_orders ?s4) k =
      (if n = t then (map_of (active_orders s))(t := None)
       else (map_of (active_orders s))(t := None, n \<mapsto> o2)) k"
      using t3 n3 m2 map_of_active_index_other [of k n ?s2]
      by (simp add: map_of_swap_entries)
  qed
  moreover have "length (token o2) = 14" using len(2) by (simp add: o2_def replaced_order_ok)
  then have "ouch_events ?s4 = ouch_events s @
      [Some (Ev_Replaced (order_replaced_msg (fst (uninit 83 (s_env ?s1))) (ouch_stamp (put_active t o2 ?s1)) ro o2))]"
    using len(1) by (simp add: sent_events)
  ultimately show thesis using that [OF one] by blast
qed

lemma replace_logic_single:
  assumes "pending_replace s = [ro]" and "ouch_replace_one ro s = (d, s1)"
  shows "ouch_replace_logic s = (erase_active d s1)\<lparr>pending_replace := []\<rparr>"
  using assms by (simp add: ouch_replace_logic_def)

lemma replace_outcome_parts:
  assumes "pending_replace s = [ro]" and "length (existing_token ro) = 14"
    and "length (new_token ro) = 14" and "new_token ro \<noteq> existing_token ro"
    and "map_of (active_orders s) (existing_token ro) = Some o1"
  defines "refused \<equiv> uint (rpl_qty ro) > 999999 \<or> uint (rpl_qty ro) \<le> executed_qty o1"
  shows "map_of (active_orders (ouch_replace_logic s)) =
      (if refused then (map_of (active_orders s))(existing_token ro := None)
       else (map_of (active_orders s))(existing_token ro := None, new_token ro \<mapsto> replaced_order ro o1))"
    and "\<exists>g ts. ouch_events (ouch_replace_logic s) = ouch_events s @
      [Some (if refused then Ev_Canceled (existing_token ro) (to_uint32 (remaining_qty o1)) (ch CHR ''Z'')
             else Ev_Replaced (order_replaced_msg g ts ro (replaced_order ro o1)))]"
    and "pending_replace (ouch_replace_logic s) = []"
proof -
  have tgt: "replace_target ro s = o1" using assms(5) by (simp add: replace_target_def)
  have "map_of (active_orders (ouch_replace_logic s)) =
      (if refused then (map_of (active_orders s))(existing_token ro := None)
       else (map_of (active_orders s))(existing_token ro := None, new_token ro \<mapsto> replaced_order ro o1)) \<and>
    (\<exists>g ts. ouch_events (ouch_replace_logic s) = ouch_events s @
      [Some (if refused then Ev_Canceled (existing_token ro) (to_uint32 (remaining_qty o1)) (ch CHR ''Z'')
             else Ev_Replaced (order_replaced_msg g ts ro (replaced_order ro o1)))])"
  proof (cases refused)
    case True
    then have r: "uint (rpl_qty ro) > MAX_SHARES \<or> uint (rpl_qty ro) \<le> executed_qty (replace_target ro s)"
      by (simp add: refused_def MAX_SHARES_def tgt)
    show ?thesis
      using True assms(2)
      by (simp add: replace_logic_single [OF assms(1) replace_one_refused [OF r]] sent_events tgt
          active_index_target fun_upd_def fun_eq_iff)
  next
    case False
    then have r: "uint (rpl_qty ro) \<le> MAX_SHARES" "executed_qty (replace_target ro s) < uint (rpl_qty ro)"
      by (simp_all add: refused_def MAX_SHARES_def tgt)
    obtain g ts s' where one: "ouch_replace_one ro s = ([], s')"
      and m: "map_of (active_orders s') = (if new_token ro = existing_token ro
         then (map_of (active_orders s))(existing_token ro := None)
         else (map_of (active_orders s))(existing_token ro := None,
                new_token ro \<mapsto> replaced_order ro (replace_target ro s)))"
      and e: "ouch_events s' = ouch_events s @
        [Some (Ev_Replaced (order_replaced_msg g ts ro (replaced_order ro (replace_target ro s))))]"
      by (rule replace_one_done [OF r assms(2,3)])
    from m assms(4) e False show ?thesis
      by (auto simp: replace_logic_single [OF assms(1) one] tgt)
  qed
  then show "map_of (active_orders (ouch_replace_logic s)) =
      (if refused then (map_of (active_orders s))(existing_token ro := None)
       else (map_of (active_orders s))(existing_token ro := None, new_token ro \<mapsto> replaced_order ro o1))"
    "\<exists>g ts. ouch_events (ouch_replace_logic s) = ouch_events s @
      [Some (if refused then Ev_Canceled (existing_token ro) (to_uint32 (remaining_qty o1)) (ch CHR ''Z'')
             else Ev_Replaced (order_replaced_msg g ts ro (replaced_order ro o1)))]"
    by blast+
  show "pending_replace (ouch_replace_logic s) = []"
    by (simp add: ouch_replace_logic_def split_def Let_def)
qed


definition sample_replace :: "byte list \<Rightarrow> byte list \<Rightarrow> Ouch_ReplaceOrderReq" where
  "sample_replace t n = \<lparr>existing_token = t, new_token = n, rpl_qty = 800, rpl_price = 2000000,
     rpl_time_in_force = 99998, rpl_display = ch CHR ''Y'',
     rpl_intermarket_sweep_eligibility = ch CHR ''N'', rpl_min_qty = 0\<rparr>"

definition other_token :: "byte list" where
  "other_token = bytes_of_string ''TOKEN000000002''"

lemma other_token_facts [simp]:
  "length other_token = 14" "other_token \<noteq> sample_token" "sample_token \<noteq> other_token"
  by code_simp+

lemma sample_replace_sel [simp]:
  "existing_token (sample_replace t n) = t" "new_token (sample_replace t n) = n"
  "rpl_qty (sample_replace t n) = 800"
  by (simp_all add: sample_replace_def)


lemma replace_same_token_loses_order_parts:
  assumes "pending_replace s = [ro]" and "length (existing_token ro) = 14"
    and "new_token ro = existing_token ro"
    and "map_of (active_orders s) (existing_token ro) = Some o1"
    and "uint (rpl_qty ro) \<le> 999999" and "executed_qty o1 < uint (rpl_qty ro)"
  shows "map_of (active_orders (ouch_replace_logic s)) = (map_of (active_orders s))(existing_token ro := None)"
    and "\<exists>g ts. ouch_events (ouch_replace_logic s) = ouch_events s @
      [Some (Ev_Replaced (order_replaced_msg g ts ro (replaced_order ro o1)))]"
proof -
  have tgt: "replace_target ro s = o1" using assms(4) by (simp add: replace_target_def)
  have r: "uint (rpl_qty ro) \<le> MAX_SHARES" "executed_qty (replace_target ro s) < uint (rpl_qty ro)"
    using assms(5,6) by (simp_all add: MAX_SHARES_def tgt)
  have len: "length (new_token ro) = 14" using assms(2,3) by simp
  obtain g ts s' where one: "ouch_replace_one ro s = ([], s')"
    and m: "map_of (active_orders s') = (if new_token ro = existing_token ro
         then (map_of (active_orders s))(existing_token ro := None)
         else (map_of (active_orders s))(existing_token ro := None,
                new_token ro \<mapsto> replaced_order ro (replace_target ro s)))"
    and e: "ouch_events s' = ouch_events s @
        [Some (Ev_Replaced (order_replaced_msg g ts ro (replaced_order ro (replace_target ro s))))]"
    by (rule replace_one_done [OF r assms(2) len])
  from m assms(3) show "map_of (active_orders (ouch_replace_logic s)) =
      (map_of (active_orders s))(existing_token ro := None)"
    by (simp add: replace_logic_single [OF assms(1) one])
  from e show "\<exists>g ts. ouch_events (ouch_replace_logic s) = ouch_events s @
      [Some (Ev_Replaced (order_replaced_msg g ts ro (replaced_order ro o1)))]"
    by (auto simp: replace_logic_single [OF assms(1) one] tgt)
qed

text \<open>
  A replacement that keeps its token loses the order: it is confirmed as replaced and live, and
  is then gone from the table, because the entry is swapped with itself and its key erased.
\<close>

theorem replace_same_token_loses_order:
  assumes "pending_replace s = [ro]" and "length (existing_token ro) = 14"
    and "new_token ro = existing_token ro"
    and "map_of (active_orders s) (existing_token ro) = Some o1"
    and "uint (rpl_qty ro) \<le> 999999" and "executed_qty o1 < uint (rpl_qty ro)"
  shows "(map_of (active_orders (ouch_replace_logic s)) = (map_of (active_orders s))(existing_token ro := None)) \<and>
    (\<exists>g ts. ouch_events (ouch_replace_logic s) = ouch_events s @
      [Some (Ev_Replaced (order_replaced_msg g ts ro (replaced_order ro o1)))])"
  by (intro conjI replace_same_token_loses_order_parts [OF assms(1,2,3,4,5,6)])

theorem replace_same_token_loses_order_witness:
  "map_of (active_orders (ouch_replace_logic (trading_session sample_order
     \<lparr>pending_replace := [sample_replace sample_token sample_token]\<rparr>))) = Map.empty"
  using replace_same_token_loses_order [of "trading_session sample_order
     \<lparr>pending_replace := [sample_replace sample_token sample_token]\<rparr>"
     "sample_replace sample_token sample_token" sample_order]
  by simp

lemma replace_unknown_token_invents_order_parts:
  assumes "pending_replace s = [ro]" and "length (existing_token ro) = 14"
    and "length (new_token ro) = 14" and "new_token ro \<noteq> existing_token ro"
    and "map_of (active_orders s) (existing_token ro) = None"
    and "uint (rpl_qty ro) \<le> 999999"
    and "executed_qty (fst (new_Ouch_Order (s_env s))) < uint (rpl_qty ro)"
  shows "map_of (active_orders (ouch_replace_logic s)) =
      (map_of (active_orders s))(new_token ro \<mapsto> replaced_order ro (fst (new_Ouch_Order (s_env s))))"
    and "\<exists>x. ouch_events (ouch_replace_logic s) = ouch_events s @ [Some (Ev_Replaced x)] \<and>
      orp_token x = new_token ro \<and> orp_order_state x = OrderState_code OS_Live"
proof -
  let ?o = "fst (new_Ouch_Order (s_env s))"
  have tgt: "replace_target ro s = ?o" using assms(5) by (simp add: replace_target_def)
  have r: "uint (rpl_qty ro) \<le> MAX_SHARES" "executed_qty (replace_target ro s) < uint (rpl_qty ro)"
    using assms(6,7) by (simp_all add: MAX_SHARES_def tgt)
  obtain g ts s' where one: "ouch_replace_one ro s = ([], s')"
    and m: "map_of (active_orders s') = (if new_token ro = existing_token ro
         then (map_of (active_orders s))(existing_token ro := None)
         else (map_of (active_orders s))(existing_token ro := None,
                new_token ro \<mapsto> replaced_order ro (replace_target ro s)))"
    and e: "ouch_events s' = ouch_events s @
        [Some (Ev_Replaced (order_replaced_msg g ts ro (replaced_order ro (replace_target ro s))))]"
    by (rule replace_one_done [OF r assms(2,3)])
  have "(map_of (active_orders s))(existing_token ro := None) = map_of (active_orders s)"
    using assms(5) by (simp add: fun_upd_idem)
  with m assms(4) show "map_of (active_orders (ouch_replace_logic s)) =
      (map_of (active_orders s))(new_token ro \<mapsto> replaced_order ro ?o)"
    by (simp add: replace_logic_single [OF assms(1) one] tgt)
  from e show "\<exists>x. ouch_events (ouch_replace_logic s) = ouch_events s @ [Some (Ev_Replaced x)] \<and>
      orp_token x = new_token ro \<and> orp_order_state x = OrderState_code OS_Live"
    by (auto simp: replace_logic_single [OF assms(1) one] tgt order_replaced_msg_def replaced_order_def)
qed


lemma sample_memory: "executed_qty (fst (new_Ouch_Order sample_env)) = 0"
  by (simp add: new_Ouch_Order_def raw_Ouch_Order_def uninit_def split_def Let_def at_defs
      upt_conv_Cons)


section \<open>Cancel all\<close>

definition always_alive :: "Ouch_Order \<Rightarrow> bool" where
  "always_alive o1 \<longleftrightarrow> 0 < remaining_qty o1 \<and> special_time_in_force (time_in_force o1) \<and>
     0 < remain_time_in_force o1 \<and> order_state o1 \<noteq> OrderState_code OS_Dead"

lemma always_alive_still_active:
  "always_alive o1 \<Longrightarrow> Ouch_Order_still_active o1 w = (True, o1, w)"
  by (simp add: always_alive_def Ouch_Order_still_active_def Ouch_Order_expired_special)

lemma cancel_all_loop_effect:
  assumes "\<forall>p\<in>set ps. entry_ok {} (fst p) (snd p)" and "distinct (List.map fst ps)"
  obtains qs where "set qs \<subseteq> set ps" and "distinct (List.map fst qs)"
    and "fst (ouch_cancel_all_loop ps s) = int (length qs)"
    and "ouch_events (snd (ouch_cancel_all_loop ps s)) = ouch_events s @ List.map (\<lambda>p.
      Some (Ev_Canceled (fst p) (to_uint32 (remaining_qty (snd p))) (ch CHR ''Z''))) qs"
    and "\<forall>p\<in>set ps. always_alive (snd p) \<longrightarrow> p \<in> set qs" and "\<forall>p\<in>set qs. 0 < remaining_qty (snd p)"
    and "finished_orders (snd (ouch_cancel_all_loop ps s)) = finished_orders s"
  using assms
proof (induction ps arbitrary: s thesis)
  case Nil
  show ?case by (rule Nil.prems(1) [of "[]"]) simp_all
next
  case (Cons p ps)
  obtain k o1 where p: "p = (k, o1)" by fastforce
  obtain a o2 e where st: "Ouch_Order_still_active o1 (s_env s) = (a, o2, e)" by (metis prod_cases3)
  obtain r z where o2: "o2 = o1\<lparr>remain_time_in_force := r, order_state := z\<rparr>"
    using Ouch_Order_still_active_frame(1) [OF st] by blast
  have tok: "token o2 = k" "length k = 14" using Cons.prems(2) p o2 by (auto simp: entry_ok_def)
  let ?s2 = "put_active k o2 (s\<lparr>s_env := e\<rparr>)"
  let ?s3 = "if a then ouch_construct_order_canceled (to_uint32 (remaining_qty o1)) CR_SystemCancel k ?s2
             else ?s2"
  have loop: "ouch_cancel_all_loop (p # ps) s =
      ((if a then 1 else 0) + fst (ouch_cancel_all_loop ps ?s3), snd (ouch_cancel_all_loop ps ?s3))"
    using st tok o2 by (simp add: p on_env_def Let_def split_def)
  obtain qs where qs: "set qs \<subseteq> set ps" "distinct (List.map fst qs)"
    "fst (ouch_cancel_all_loop ps ?s3) = int (length qs)"
    "ouch_events (snd (ouch_cancel_all_loop ps ?s3)) = ouch_events ?s3 @ List.map (\<lambda>p.
      Some (Ev_Canceled (fst p) (to_uint32 (remaining_qty (snd p))) (ch CHR ''Z''))) qs"
    "\<forall>p\<in>set ps. always_alive (snd p) \<longrightarrow> p \<in> set qs" "\<forall>p\<in>set qs. 0 < remaining_qty (snd p)"
    "finished_orders (snd (ouch_cancel_all_loop ps ?s3)) = finished_orders ?s3"
    by (rule Cons.IH [where s = ?s3]) (use Cons.prems in auto)
  have notin: "k \<notin> fst ` set qs" using qs(1) Cons.prems(3) p by force
  show ?case
  proof (cases a)
    case True
    show ?thesis
      by (rule Cons.prems(1) [of "p # qs"])
        (use qs True notin tok loop Ouch_Order_still_active_frame(3) [OF st] in
          \<open>auto simp: p sent_events\<close>)
  next
    case False
    have "\<not> always_alive o1" using False st always_alive_still_active [of o1 "s_env s"] by auto
    then show ?thesis
      by (intro Cons.prems(1) [of qs]) (use qs False loop in \<open>auto simp: p\<close>)
  qed
qed

lemma cancel_all_outcome_parts:
  assumes "ouch_wf s"
  shows "\<exists>qs. fst (ouch_cancel_all s) = int (length qs) \<and> distinct (List.map fst qs) \<and>
      ouch_events (snd (ouch_cancel_all s)) = ouch_events s @ List.map (\<lambda>p.
        Some (Ev_Canceled (fst p) (to_uint32 (remaining_qty (snd p))) (ch CHR ''Z''))) qs \<and>
      (\<forall>p\<in>set qs. map_of (active_orders s) (fst p) = Some (snd p) \<and> 0 < remaining_qty (snd p)) \<and>
      (\<forall>k o1. map_of (active_orders s) k = Some o1 \<and> always_alive o1 \<longrightarrow> (k, o1) \<in> set qs)"
    and "active_orders (snd (ouch_cancel_all s)) = []"
    and "finished_orders (snd (ouch_cancel_all s)) = finished_orders s"
proof -
  let ?ps = "visit (fst (next_rank (s_env s))) (active_orders s)"
  let ?s1 = "s\<lparr>s_env := snd (next_rank (s_env s))\<rparr>"
  have tab: "table_ok {} (active_orders s)" by (rule ouch_inv_active [OF assms])
  then have d: "distinct (List.map fst ?ps)"
    using distinct_keys_visit [of "fst (next_rank (s_env s))" "active_orders s"]
    by (simp add: table_ok_def keys_def)
  obtain qs where qs: "set qs \<subseteq> set ?ps" "distinct (List.map fst qs)"
    "fst (ouch_cancel_all_loop ?ps ?s1) = int (length qs)"
    "ouch_events (snd (ouch_cancel_all_loop ?ps ?s1)) = ouch_events ?s1 @ List.map (\<lambda>p.
      Some (Ev_Canceled (fst p) (to_uint32 (remaining_qty (snd p))) (ch CHR ''Z''))) qs"
    "\<forall>p\<in>set ?ps. always_alive (snd p) \<longrightarrow> p \<in> set qs" "\<forall>p\<in>set qs. 0 < remaining_qty (snd p)"
    "finished_orders (snd (ouch_cancel_all_loop ?ps ?s1)) = finished_orders ?s1"
    by (rule cancel_all_loop_effect [OF visit_entries [OF tab] d, of ?s1])
  have eq: "fst (ouch_cancel_all s) = fst (ouch_cancel_all_loop ?ps ?s1)"
    "snd (ouch_cancel_all s) = (snd (ouch_cancel_all_loop ?ps ?s1))\<lparr>active_orders := []\<rparr>"
    by (simp_all add: ouch_cancel_all_def on_env_result Let_def split_def)
  have mem: "(k, o1) \<in> set ?ps \<longleftrightarrow> map_of (active_orders s) k = Some o1" for k o1
    by (simp add: map_of_in_set [OF table_ok_distinct [OF tab]])
  have "\<forall>p\<in>set qs. map_of (active_orders s) (fst p) = Some (snd p) \<and> 0 < remaining_qty (snd p)"
  proof
    fix p assume "p \<in> set qs"
    then have "(fst p, snd p) \<in> set ?ps" and "0 < remaining_qty (snd p)" using qs(1,6) by auto
    then show "map_of (active_orders s) (fst p) = Some (snd p) \<and> 0 < remaining_qty (snd p)"
      using mem by blast
  qed
  moreover have "\<forall>k o1. map_of (active_orders s) k = Some o1 \<and> always_alive o1 \<longrightarrow> (k, o1) \<in> set qs"
    using qs(5) mem by fastforce
  ultimately show "\<exists>qs. fst (ouch_cancel_all s) = int (length qs) \<and> distinct (List.map fst qs) \<and>
      ouch_events (snd (ouch_cancel_all s)) = ouch_events s @ List.map (\<lambda>p.
        Some (Ev_Canceled (fst p) (to_uint32 (remaining_qty (snd p))) (ch CHR ''Z''))) qs \<and>
      (\<forall>p\<in>set qs. map_of (active_orders s) (fst p) = Some (snd p) \<and> 0 < remaining_qty (snd p)) \<and>
      (\<forall>k o1. map_of (active_orders s) k = Some o1 \<and> always_alive o1 \<longrightarrow> (k, o1) \<in> set qs)"
    using qs(2,3,4) by (intro exI [of _ qs]) (simp add: eq)
  show "active_orders (snd (ouch_cancel_all s)) = []" by (simp add: eq)
  show "finished_orders (snd (ouch_cancel_all s)) = finished_orders s" using qs(7) by (simp add: eq)
qed

text \<open>
  Cancel-all empties the table and sends one system cancel, for all remaining shares, to each
  order it counts, at most one per order, none for a finished order; no order is left out that is
  live and of a time in force that does not run out. The number returned is the number of cancels
  sent.
\<close>

theorem cancel_all_outcome:
  assumes "ouch_wf s"
  shows "(\<exists>qs. fst (ouch_cancel_all s) = int (length qs) \<and> distinct (List.map fst qs) \<and>
      ouch_events (snd (ouch_cancel_all s)) = ouch_events s @ List.map (\<lambda>p.
        Some (Ev_Canceled (fst p) (to_uint32 (remaining_qty (snd p))) (ch CHR ''Z''))) qs \<and>
      (\<forall>p\<in>set qs. map_of (active_orders s) (fst p) = Some (snd p) \<and> 0 < remaining_qty (snd p)) \<and>
      (\<forall>k o1. map_of (active_orders s) k = Some o1 \<and> always_alive o1 \<longrightarrow> (k, o1) \<in> set qs)) \<and>
    (active_orders (snd (ouch_cancel_all s)) = []) \<and>
    (finished_orders (snd (ouch_cancel_all s)) = finished_orders s)"
  by (intro conjI cancel_all_outcome_parts [OF assms(1)])

lemma trading_session_wf: "order_ok o1 \<Longrightarrow> ouch_wf (trading_session o1)"
  by (simp add: trading_session_def sample_session_def new_ouch_session_def ouch_inv_def
      ouch_framed_def table_ok_def entry_ok_def keys_def order_ok_def split_def Let_def)

lemma sample_order_ok: "order_ok sample_order"
  using Ouch_Order_of_ok(1) [OF sample_eo_ok(4)] by (simp add: sample_order_def)

theorem cancel_all_outcome_witness:
  "active_orders (snd (ouch_cancel_all (trading_session sample_order))) = [] \<and>
   finished_orders (snd (ouch_cancel_all (trading_session sample_order))) = []"
  using cancel_all_outcome [OF trading_session_wf [OF sample_order_ok]] by simp

end
