(* ===== verification/ExecutionRounds.thy ===== *)
theory ExecutionRounds
  imports Prelude
begin

text \<open>
  What the execution logics of both sessions have in common: a loop over the table of orders that
  runs one round for each entry and collects the keys to erase. The first locale has what a loop
  owes to rounds that keep to their own entry; the second adds what the rounds report and accounts
  for it. \<open>OuchExecution\<close> and \<open>BoeExecution\<close> interpret them on the loops of the code.
\<close>

section \<open>The entries a loop visits\<close>

lemma distinct_visit: "distinct (keys m) \<Longrightarrow> distinct (List.map fst (visit rank m))"
  using distinct_keys_visit [of rank m] by (simp add: keys_def)

lemma in_visit_iff: "distinct (keys m) \<Longrightarrow> (k, v) \<in> set (visit rank m) \<longleftrightarrow> map_of m k = Some v"
  by (simp add: keys_def)

section \<open>Rounds that keep to their entry\<close>

text \<open>
  \<open>one\<close> runs a round and returns the keys to erase, \<open>live\<close> and \<open>past\<close> look into the two tables, and
  \<open>fit\<close> is what a round may rely on for its key and order.
\<close>

locale round_loop =
  fixes one :: "'k \<Rightarrow> 'o \<Rightarrow> 's \<Rightarrow> 'k list \<times> 's"
    and loop :: "('k \<times> 'o) list \<Rightarrow> 's \<Rightarrow> 'k list \<times> 's"
    and live past :: "'s \<Rightarrow> 'k \<Rightarrow> 'o option"
    and fit :: "'k \<Rightarrow> 'o \<Rightarrow> bool"
  assumes loop_Nil: "loop [] s = ([], s)"
    and loop_Cons: "loop ((k, o1) # ps) s =
      (fst (one k o1 s) @ fst (loop ps (snd (one k o1 s))), snd (loop ps (snd (one k o1 s))))"
    and one_other: "fit k o1 \<Longrightarrow> one k o1 s = (d, s') \<Longrightarrow> k' \<noteq> k \<Longrightarrow>
      live s' k' = live s k' \<and> past s' k' = past s k'"
    and one_erases: "fit k o1 \<Longrightarrow> one k o1 s = (d, s') \<Longrightarrow> d = [] \<or> d = [k]"
begin

lemma loop_append:
  "loop (ps @ qs) s =
     (fst (loop ps s) @ fst (loop qs (snd (loop ps s))), snd (loop qs (snd (loop ps s))))"
  by (induction ps arbitrary: s) (auto simp: loop_Nil loop_Cons)

lemma loop_other:
  assumes "\<And>k o1. (k, o1) \<in> set ps \<Longrightarrow> fit k o1" and "k \<notin> fst ` set ps"
  shows "live (snd (loop ps s)) k = live s k \<and> past (snd (loop ps s)) k = past s k \<and> k \<notin> set (fst (loop ps s))"
  using assms
proof (induction ps arbitrary: s)
  case (Cons p ps)
  obtain j o1 where p: "p = (j, o1)" by (cases p)
  obtain d s1 where one: "one j o1 s = (d, s1)" by (cases "one j o1 s")
  have fit: "fit j o1" and neq: "k \<noteq> j" using Cons.prems by (auto simp: p)
  show ?case
    using Cons.IH [of s1] Cons.prems one_other [OF fit one neq] one_erases [OF fit one] neq
    by (auto simp: p loop_Cons one)
qed (simp add: loop_Nil)

text \<open>The same loop under a stronger requirement.\<close>

lemma narrow: "(\<And>k o1. fit' k o1 \<Longrightarrow> fit k o1) \<Longrightarrow> round_loop one loop live past fit'"
  by unfold_locales (auto simp: loop_Nil loop_Cons dest: one_other one_erases)

text \<open>Every entry has its round, and what the round leaves is what the loop leaves of it.\<close>

lemma loop_entry:
  assumes "distinct (List.map fst ps)" and "\<And>k o1. (k, o1) \<in> set ps \<Longrightarrow> fit k o1" and "(k, o1) \<in> set ps"
  obtains pre post d s2 where "ps = pre @ (k, o1) # post" and "k \<notin> fst ` set pre \<union> fst ` set post"
    and "one k o1 (snd (loop pre s)) = (d, s2)" and "live (snd (loop pre s)) k = live s k"
    and "loop ps s = (fst (loop pre s) @ d @ fst (loop post s2), snd (loop post s2))"
    and "live (snd (loop ps s)) k = live s2 k" and "past (snd (loop ps s)) k = past s2 k"
    and "k \<in> set (fst (loop ps s)) \<longleftrightarrow> d = [k]"
proof -
  obtain pre post where ps: "ps = pre @ (k, o1) # post" using assms(3) by (auto dest: split_list)
  have fresh: "k \<notin> fst ` set pre" "k \<notin> fst ` set post" using assms(1) by (auto simp: ps)
  have fit: "fit k o1" "\<And>k o1. (k, o1) \<in> set pre \<Longrightarrow> fit k o1" "\<And>k o1. (k, o1) \<in> set post \<Longrightarrow> fit k o1"
    using assms(2) by (simp_all add: ps)
  obtain d s2 where one: "one k o1 (snd (loop pre s)) = (d, s2)" by (cases "one k o1 (snd (loop pre s))")
  note before = loop_other [OF fit(2) fresh(1), of s] and after = loop_other [OF fit(3) fresh(2), of s2]
  have all: "loop ps s = (fst (loop pre s) @ d @ fst (loop post s2), snd (loop post s2))"
    by (simp add: ps loop_append loop_Cons one)
  show thesis
    by (rule that [OF ps _ one _ all]) (use fresh before after one_erases [OF fit(1) one] in \<open>auto simp: all\<close>)
qed

end

section \<open>Rounds that report what they do\<close>

text \<open>
  \<open>count\<close> is what a list of events reports for a key, \<open>account\<close> relates the order before and after its
  round to that number, \<open>dropped\<close> is what holds in addition of an order that is erased, where the last
  argument is the entry its key then has among the finished orders.
\<close>

locale accounted_loop = round_loop one loop live past fit
  for one :: "'k \<Rightarrow> 'o \<Rightarrow> 's \<Rightarrow> 'k list \<times> 's"
    and loop :: "('k \<times> 'o) list \<Rightarrow> 's \<Rightarrow> 'k list \<times> 's"
    and live past :: "'s \<Rightarrow> 'k \<Rightarrow> 'o option" and fit :: "'k \<Rightarrow> 'o \<Rightarrow> bool" +
  fixes events :: "'s \<Rightarrow> 'e list"
    and count :: "'k \<Rightarrow> 'e list \<Rightarrow> int"
    and account :: "'o \<Rightarrow> 'o \<Rightarrow> int \<Rightarrow> bool"
    and dropped :: "'o \<Rightarrow> 'o \<Rightarrow> int \<Rightarrow> 'o option \<Rightarrow> bool"
  assumes count_Nil: "count k [] = 0"
    and count_append: "count k (evs @ evs') = count k evs + count k evs'"
    and one_effect: "fit k o1 \<Longrightarrow> live s k = Some o1 \<Longrightarrow> one k o1 s = (d, s') \<Longrightarrow>
      \<exists>o2 evs. live s' k = Some o2 \<and> events s' = events s @ evs \<and> account o1 o2 (count k evs) \<and>
        (d \<noteq> [] \<longrightarrow> dropped o1 o2 (count k evs) (past s' k)) \<and> (\<forall>k'. k' \<noteq> k \<longrightarrow> count k' evs = 0)"
begin

lemma loop_events:
  assumes "distinct (List.map fst ps)" and "\<And>k o1. (k, o1) \<in> set ps \<Longrightarrow> fit k o1 \<and> live s k = Some o1"
  shows "\<exists>evs. events (snd (loop ps s)) = events s @ evs \<and> (\<forall>k. k \<notin> fst ` set ps \<longrightarrow> count k evs = 0)"
  using assms
proof (induction ps arbitrary: s)
  case (Cons p ps)
  obtain k o1 where p: "p = (k, o1)" by (cases p)
  obtain d s1 where one: "one k o1 s = (d, s1)" by (cases "one k o1 s")
  have fit: "fit k o1" and here: "live s k = Some o1" and fresh: "k \<notin> fst ` set ps"
    using Cons.prems by (auto simp: p)
  have ready: "fit j o2 \<and> live s1 j = Some o2" if "(j, o2) \<in> set ps" for j o2
    using Cons.prems(2) [of j o2] one_other [OF fit one, of j] that fresh by (force simp: p)
  from Cons.prems(1) have "distinct (List.map fst ps)" by (simp add: p)
  from Cons.IH [OF this ready] obtain evs2 where evs2: "events (snd (loop ps s1)) = events s1 @ evs2"
    "\<forall>k. k \<notin> fst ` set ps \<longrightarrow> count k evs2 = 0" by blast
  obtain evs1 where "events s1 = events s @ evs1" "\<forall>k'. k' \<noteq> k \<longrightarrow> count k' evs1 = 0"
    using one_effect [OF fit here one] by blast
  with evs2 show ?case by (intro exI [of _ "evs1 @ evs2"]) (auto simp: p loop_Cons one count_append)
qed (simp add: loop_Nil count_Nil)

lemma loop_effect:
  assumes dist: "distinct (List.map fst ps)" and ready: "\<And>k o1. (k, o1) \<in> set ps \<Longrightarrow> fit k o1 \<and> live s k = Some o1"
    and entry: "(k, o1) \<in> set ps" and evs: "events (snd (loop ps s)) = events s @ evs"
  shows "\<exists>o2. live (snd (loop ps s)) k = Some o2 \<and> account o1 o2 (count k evs) \<and>
    (k \<in> set (fst (loop ps s)) \<longrightarrow> dropped o1 o2 (count k evs) (past (snd (loop ps s)) k))"
proof -
  have fit: "fit j o2" if "(j, o2) \<in> set ps" for j o2 using ready [OF that] ..
  obtain pre post d s2 where ps: "ps = pre @ (k, o1) # post" and fresh: "k \<notin> fst ` set pre \<union> fst ` set post"
    and one: "one k o1 (snd (loop pre s)) = (d, s2)" and here: "live (snd (loop pre s)) k = live s k"
    and all: "loop ps s = (fst (loop pre s) @ d @ fst (loop post s2), snd (loop post s2))"
    and after: "live (snd (loop ps s)) k = live s2 k" "past (snd (loop ps s)) k = past s2 k"
    and erased: "k \<in> set (fst (loop ps s)) \<longleftrightarrow> d = [k]"
    using loop_entry [OF dist fit entry, of s] by metis
  obtain o2 evs1 where o2: "live s2 k = Some o2" "events s2 = events (snd (loop pre s)) @ evs1"
    "account o1 o2 (count k evs1)" "d \<noteq> [] \<longrightarrow> dropped o1 o2 (count k evs1) (past s2 k)"
    using one_effect [OF _ _ one] ready [OF entry] here by auto
  have dists: "distinct (List.map fst pre)" "distinct (List.map fst post)" using dist by (auto simp: ps)
  obtain evs0 where evs0: "events (snd (loop pre s)) = events s @ evs0" "count k evs0 = 0"
    using loop_events [OF dists(1), of s] ready fresh by (auto simp: ps)
  have "fit j o3 \<and> live s2 j = Some o3" if "(j, o3) \<in> set post" for j o3
  proof -
    have in_ps: "(j, o3) \<in> set ps" and "j \<noteq> k" and "j \<notin> fst ` set pre"
      using that fresh dist by (force simp: ps)+
    moreover have "live (snd (loop pre s)) j = live s j"
      using loop_other [of pre j s] fit \<open>j \<notin> fst ` set pre\<close> by (auto simp: ps)
    ultimately show ?thesis using one_other [OF _ one, of j] fit [OF entry] ready [OF in_ps] by auto
  qed
  from loop_events [OF dists(2) this] obtain evs2 where
    "events (snd (loop post s2)) = events s2 @ evs2" "count k evs2 = 0" using fresh by auto
  with evs o2(2) evs0 have "evs = evs0 @ evs1 @ evs2" "count k evs2 = 0" by (simp_all add: all)
  then have "count k evs = count k evs1" using evs0(2) by (simp add: count_append)
  with o2 after erased show ?thesis by auto
qed

text \<open>A loop over the whole table.\<close>

lemma tick_effect:
  assumes "distinct (List.map fst ps)" and mem: "\<And>k o1. (k, o1) \<in> set ps \<longleftrightarrow> live s k = Some o1"
    and fit: "\<And>k o1. live s k = Some o1 \<Longrightarrow> fit k o1"
  obtains evs where "events (snd (loop ps s)) = events s @ evs"
    and "\<forall>k. live s k = None \<longrightarrow> live (snd (loop ps s)) k = None \<and> count k evs = 0"
    and "\<forall>k o1. live s k = Some o1 \<longrightarrow> (\<exists>o2. live (snd (loop ps s)) k = Some o2 \<and> account o1 o2 (count k evs) \<and>
      (k \<in> set (fst (loop ps s)) \<longrightarrow> dropped o1 o2 (count k evs) (past (snd (loop ps s)) k)))"
proof -
  have ready: "fit k o1 \<and> live s k = Some o1" if "(k, o1) \<in> set ps" for k o1
    using that mem fit by blast
  from loop_events [OF assms(1) ready] obtain evs where evs: "events (snd (loop ps s)) = events s @ evs"
    "\<forall>k. k \<notin> fst ` set ps \<longrightarrow> count k evs = 0" by blast
  have absent: "k \<notin> fst ` set ps" if "live s k = None" for k
    using that mem by (metis imageE option.distinct(1) prod.collapse)
  have "live (snd (loop ps s)) k = None \<and> count k evs = 0" if "live s k = None" for k
    using loop_other [of ps k s] absent [OF that] ready evs(2) that by auto
  moreover have "\<exists>o2. live (snd (loop ps s)) k = Some o2 \<and> account o1 o2 (count k evs) \<and>
      (k \<in> set (fst (loop ps s)) \<longrightarrow> dropped o1 o2 (count k evs) (past (snd (loop ps s)) k))"
    if "live s k = Some o1" for k o1
    using loop_effect [OF assms(1) ready _ evs(1)] mem that by blast
  ultimately show thesis using that [OF evs(1)] by blast
qed

end

end
