(* ===== verification/OuchExecution.thy ===== *)
theory OuchExecution
  imports OuchTick ExecutionRounds
begin

text \<open>
  Properties of the OUCH execution logic: what one round does to one order, the accounting of
  shares over a whole tick, orders that can never trade, and the progress of live orders.
\<close>

section \<open>One round\<close>

text \<open>The shares a list of events reports as executed for a token.\<close>

definition filled :: "byte list \<Rightarrow> ouch_event option list \<Rightarrow> int" where
  "filled k evs = sum_list (List.map (\<lambda>e. case e of
     Some (Ev_Executed t q p) \<Rightarrow> if t = k then uint q else 0 | _ \<Rightarrow> 0) evs)"

lemma filled_simps [simp]:
  "filled k [] = 0"
  "filled k (evs @ evs') = filled k evs + filled k evs'"
  "filled k [Some (Ev_Canceled t q r)] = 0"
  "filled k [Some (Ev_Executed t q p)] = (if t = k then uint q else 0)"
  by (simp_all add: filled_def)

lemma filled_nonneg: "0 \<le> filled k evs"
  by (induction evs) (auto simp: filled_def split: option.splits ouch_event.splits)

lemma behavior_expired: "behavior (snd (snd (Ouch_Order_expired o1 e))) = behavior e"
  by (simp add: Ouch_Order_expired_def split_def Let_def)

lemma behavior_still_active: "behavior (snd (snd (Ouch_Order_still_active o1 e))) = behavior e"
  by (simp add: Ouch_Order_still_active_def split_def Let_def behavior_expired)

lemma behavior_executed:
  "behavior (s_env (snd (ouch_construct_order_executed o1 x s))) = behavior (s_env s)"
  by (simp add: ouch_construct_order_executed_def construct_defs)

lemma behavior_finished_index [simp]:
  "behavior (s_env (finished_index k s)) = behavior (s_env s)"
  by (simp add: finished_index_def new_Ouch_Order_def construct_defs split: option.splits)

lemma behavior_put_finished [simp]: "s_env (put_finished k o1 s) = s_env s"
  by (simp add: put_finished_def)

lemma execute_one_behavior:
  "behavior (s_env (snd (ouch_execute_one k o1 s))) = behavior (s_env s)"
proof -
  obtain b e where b: "bm_allows Execution (s_env s) = (b, e)" by fastforce
  then show ?thesis
    by (simp add: ouch_execute_one_def on_env_result Let_def split_def bm_allows_behavior [OF b]
        behavior_expired behavior_still_active behavior_executed)
qed

text \<open>One round touches the entry it works on and nothing else.\<close>

lemma execute_one_other:
  assumes "ouch_execute_one k o1 s = (d, s')" and "k' \<noteq> k"
  shows "map_of (active_orders s') k' = map_of (active_orders s) k'"
    and "map_of (finished_orders s') k' = map_of (finished_orders s) k'"
    and "d = [] \<or> d = [k]"
proof -
  have "map_of (active_orders s') k' = map_of (active_orders s) k' \<and>
    map_of (finished_orders s') k' = map_of (finished_orders s) k' \<and> (d = [] \<or> d = [k])"
    using assms(1)
  proof (cases rule: ouch_execute_one_cases)
    case (refused e)
    then show ?thesis by simp
  next
    case (late e r)
    with assms(2) show ?thesis by simp
  next
    case (ioc e r)
    with assms(2) show ?thesis by (simp add: Let_def)
  next
    case (fill e r st o4 s6)
    then have s6: "s6 = snd (ouch_construct_order_executed (o1\<lparr>remain_time_in_force := r, order_state := st\<rparr>)
        (- 1) (put_active k (o1\<lparr>remain_time_in_force := r, order_state := st\<rparr>) (s\<lparr>s_env := e\<rparr>)))"
      by simp
    with fill assms(2) show ?thesis by simp
  next
    case (finish e r st)
    with assms(2) show ?thesis by (simp add: finished_index_def on_env_result Let_def split: option.splits)
  qed
  then show "map_of (active_orders s') k' = map_of (active_orders s) k'"
    "map_of (finished_orders s') k' = map_of (finished_orders s) k'" "d = [] \<or> d = [k]" by blast+
qed

lemma ouch_execute_one_effect:
  assumes step: "ouch_execute_one k o1 s = (d, s')" and here: "map_of (active_orders s) k = Some o1"
    and tok: "token o1 = k" "length k = 14" and q: "0 \<le> remaining_qty o1" "remaining_qty o1 < 2 ^ 32"
  obtains o2 evs where "map_of (active_orders s') k = Some o2" and "ouch_events s' = ouch_events s @ evs"
    and "remaining_qty o2 + executed_qty o2 = remaining_qty o1 + executed_qty o1"
    and "executed_qty o2 = executed_qty o1 + filled k evs" and "0 \<le> remaining_qty o2"
    and "d \<noteq> [] \<Longrightarrow> filled k evs = 0" and "\<And>k'. k' \<noteq> k \<Longrightarrow> filled k' evs = 0"
proof -
  have len: "length (token o1) = 14" using tok by simp
  from step show thesis
  proof (cases rule: ouch_execute_one_cases)
    case (refused e)
    then show thesis using here q by (intro that [of o1 "[]"]) simp_all
  next
    case (late e r)
    then show thesis using q tok
      by (intro that [of "o1\<lparr>remain_time_in_force := r\<rparr>"
            "[Some (Ev_Canceled k (to_uint32 (remaining_qty o1)) (ch CHR ''T''))]"])
        (simp_all add: sent_events)
  next
    case (ioc e r)
    then show thesis using q tok
      by (intro that [of "o1\<lparr>remain_time_in_force := r\<rparr>"
            "if remaining_qty o1 \<noteq> 0 then [Some (Ev_Canceled k (to_uint32 (remaining_qty o1)) (ch CHR ''I''))]
             else []"])
        (simp_all add: sent_events Let_def)
  next
    case (fill e r st o4 s6)
    let ?o3 = "o1\<lparr>remain_time_in_force := r, order_state := st\<rparr>"
      and ?s5 = "put_active k (o1\<lparr>remain_time_in_force := r, order_state := st\<rparr>) (s\<lparr>s_env := e\<rparr>)"
    let ?q = "fill_qty ?o3 (s_env ?s5)"
    have b: "0 \<le> ?q" "?q \<le> remaining_qty o1"
      using random_lot_bounds [of "s_env ?s5"] fill(2) by (simp_all add: fill_qty_def)
    note ex = ouch_order_executed_random [OF _ fill(4)]
    show thesis
    proof (cases "min_qty ?o3 \<noteq> 0 \<and> ?q > uint (min_qty ?o3)")
      case True
      with ex(1) len have "o4 = ?o3" "ouch_events s6 = ouch_events s" by simp_all
      then show thesis using fill q by (intro that [of ?o3 "[]"]) simp_all
    next
      case False
      with ex(2) len have o4: "o4 = ?o3\<lparr>remaining_qty := remaining_qty o1 - ?q, executed_qty := executed_qty o1 + ?q\<rparr>"
        and ev: "ouch_events s6 = ouch_events s @ [Some (Ev_Executed k (to_uint32 ?q) (price o1))]"
        using tok by simp_all
      have u: "uint (to_uint32 ?q) = ?q" by (rule uint_to_uint32) (use b q in simp_all)
      show thesis
        by (rule that [of o4 "[Some (Ev_Executed k (to_uint32 ?q) (price o1))]"])
          (use fill(1,5) ev o4 u b q in simp_all)
    qed
  next
    case (finish e r st)
    then show thesis using q
      by (intro that [of "o1\<lparr>remain_time_in_force := r, order_state := st\<rparr>" "[]"]) simp_all
  qed
qed

section \<open>The whole loop\<close>

text \<open>What a round relies on, and what it accounts for: \<open>n\<close> is the number of shares reported.\<close>

definition ouch_fit :: "byte list \<Rightarrow> Ouch_Order \<Rightarrow> bool" where
  "ouch_fit k o1 \<longleftrightarrow> token o1 = k \<and> length k = 14 \<and> 0 \<le> remaining_qty o1 \<and> remaining_qty o1 < 2 ^ 32"

definition accounted :: "Ouch_Order \<Rightarrow> Ouch_Order \<Rightarrow> int \<Rightarrow> bool" where
  "accounted o1 o2 n \<longleftrightarrow>
     remaining_qty o2 + executed_qty o2 = remaining_qty o1 + executed_qty o1 \<and>
     executed_qty o2 = executed_qty o1 + n \<and> 0 \<le> remaining_qty o2"

lemma execute_one_accounted:
  assumes "ouch_fit k o1" and "map_of (active_orders s) k = Some o1" and "ouch_execute_one k o1 s = (d, s')"
  shows "\<exists>o2 evs. map_of (active_orders s') k = Some o2 \<and> ouch_events s' = ouch_events s @ evs \<and>
    accounted o1 o2 (filled k evs) \<and> (d \<noteq> [] \<longrightarrow> filled k evs = 0) \<and> (\<forall>k'. k' \<noteq> k \<longrightarrow> filled k' evs = 0)"
proof -
  have "token o1 = k" "length k = 14" "0 \<le> remaining_qty o1" "remaining_qty o1 < 2 ^ 32"
    using assms(1) by (simp_all add: ouch_fit_def)
  from ouch_execute_one_effect [OF assms(3,2) this] show ?thesis
    unfolding accounted_def by metis
qed

interpretation ouch_rounds: round_loop ouch_execute_one ouch_execute_loop
  "\<lambda>s. map_of (active_orders s)" "\<lambda>s. map_of (finished_orders s)" "\<lambda>_ _. True"
proof unfold_locales
  fix k k' and o1 :: Ouch_Order and s d s'
  assume one: "ouch_execute_one k o1 s = (d, s')"
  show "d = [] \<or> d = [k]" by (rule execute_one_other(3) [OF one, of "k @ [0]"]) simp
  show "map_of (active_orders s') k' = map_of (active_orders s) k' \<and>
    map_of (finished_orders s') k' = map_of (finished_orders s) k'" if "k' \<noteq> k"
    using execute_one_other(1,2) [OF one that] by blast
qed (simp_all add: split_def Let_def)

interpretation ouch_accounts: accounted_loop ouch_execute_one ouch_execute_loop
  "\<lambda>s. map_of (active_orders s)" "\<lambda>s. map_of (finished_orders s)" ouch_fit ouch_events filled accounted
  "\<lambda>_ _ n _. n = 0"
proof (rule accounted_loop.intro [OF ouch_rounds.narrow [OF TrueI] accounted_loop_axioms.intro])
  show "\<exists>o2 evs. map_of (active_orders s') k = Some o2 \<and> ouch_events s' = ouch_events s @ evs \<and>
      accounted o1 o2 (filled k evs) \<and> (d \<noteq> [] \<longrightarrow> filled k evs = 0) \<and> (\<forall>k'. k' \<noteq> k \<longrightarrow> filled k' evs = 0)"
    if "ouch_fit k o1" "map_of (active_orders s) k = Some o1" "ouch_execute_one k o1 s = (d, s')" for k o1 s d s'
    by (rule execute_one_accounted [OF that])
qed simp_all

lemma execution_logic_eq:
  fixes s :: ouch_session
  defines "ps \<equiv> visit (fst (next_rank (s_env s))) (active_orders s)"
    and "s1 \<equiv> s\<lparr>s_env := snd (next_rank (s_env s))\<rparr>"
  shows "ouch_execution_logic s =
    erase_active (fst (ouch_execute_loop ps s1)) (snd (ouch_execute_loop ps s1))"
  by (simp add: ouch_execution_logic_def on_env_result Let_def split_def ps_def s1_def)

lemma execution_logic_tick:
  assumes "ouch_wf s" and "qty_ok (active_orders s)"
  obtains evs where "ouch_events (ouch_execution_logic s) = ouch_events s @ evs"
    and "\<And>k. map_of (active_orders s) k = None \<Longrightarrow>
      map_of (active_orders (ouch_execution_logic s)) k = None \<and> filled k evs = 0"
    and "\<And>k o1. map_of (active_orders s) k = Some o1 \<Longrightarrow>
      (\<exists>o2. map_of (active_orders (ouch_execution_logic s)) k = Some o2 \<and> accounted o1 o2 (filled k evs)) \<or>
      map_of (active_orders (ouch_execution_logic s)) k = None \<and> filled k evs = 0"
proof -
  let ?ps = "visit (fst (next_rank (s_env s))) (active_orders s)"
  let ?s1 = "s\<lparr>s_env := snd (next_rank (s_env s))\<rparr>"
  note dist = table_ok_distinct [OF ouch_inv_active [OF assms(1)]]
  have fit: "ouch_fit k o1" if "map_of (active_orders ?s1) k = Some o1" for k o1
    using that assms(2) table_okD [OF ouch_inv_active [OF assms(1)]]
    by (auto simp: ouch_fit_def entry_ok_def qty_ok_def map_of_in_set [OF dist])
  have mem: "(k, o1) \<in> set ?ps \<longleftrightarrow> map_of (active_orders ?s1) k = Some o1" for k o1
    using in_visit_iff [OF dist] by simp
  obtain evs where "ouch_events (snd (ouch_execute_loop ?ps ?s1)) = ouch_events ?s1 @ evs"
    "\<forall>k. map_of (active_orders ?s1) k = None \<longrightarrow>
      map_of (active_orders (snd (ouch_execute_loop ?ps ?s1))) k = None \<and> filled k evs = 0"
    "\<forall>k o1. map_of (active_orders ?s1) k = Some o1 \<longrightarrow>
      (\<exists>o2. map_of (active_orders (snd (ouch_execute_loop ?ps ?s1))) k = Some o2 \<and> accounted o1 o2 (filled k evs) \<and>
        (k \<in> set (fst (ouch_execute_loop ?ps ?s1)) \<longrightarrow> filled k evs = 0))"
    by (rule ouch_accounts.tick_effect [OF distinct_visit [OF dist] mem fit])
  then show thesis
    by (intro that [of evs]) (auto simp: execution_logic_eq map_of_erase_all split: if_splits)
qed

text \<open>
  C3: no share is invented or lost by the executions of a tick, whatever the behaviour manager,
  the clock and the random numbers do: for every order, executed plus remaining shares stay the
  same, the executed shares grow by exactly what the execution messages of the tick report under
  its token, and the remaining shares never go negative; an order that leaves the table does so in
  a round that reports nothing as executed, and no order appears.
\<close>

theorem execution_accounting:
  assumes "ouch_wf s" and "qty_ok (active_orders s)"
  shows "\<exists>evs. ouch_events (ouch_execution_logic s) = ouch_events s @ evs \<and>
    (\<forall>k. case (map_of (active_orders s) k, map_of (active_orders (ouch_execution_logic s)) k) of
       (None, None) \<Rightarrow> filled k evs = 0
     | (Some o1, None) \<Rightarrow> filled k evs = 0
     | (Some o1, Some o2) \<Rightarrow>
         remaining_qty o2 + executed_qty o2 = remaining_qty o1 + executed_qty o1 \<and>
         executed_qty o2 = executed_qty o1 + filled k evs \<and> 0 \<le> remaining_qty o2
     | (None, Some o2) \<Rightarrow> False)"
proof -
  obtain evs where evs: "ouch_events (ouch_execution_logic s) = ouch_events s @ evs"
    and none: "\<And>k. map_of (active_orders s) k = None \<Longrightarrow>
      map_of (active_orders (ouch_execution_logic s)) k = None \<and> filled k evs = 0"
    and some: "\<And>k o1. map_of (active_orders s) k = Some o1 \<Longrightarrow>
      (\<exists>o2. map_of (active_orders (ouch_execution_logic s)) k = Some o2 \<and> accounted o1 o2 (filled k evs)) \<or>
      map_of (active_orders (ouch_execution_logic s)) k = None \<and> filled k evs = 0"
    by (rule execution_logic_tick [OF assms]) blast
  show ?thesis
    using evs none some unfolding accounted_def
    by (intro exI [of _ evs]) (fastforce split: option.split)
qed

theorem execution_accounting_witness:
  "\<exists>evs. ouch_events (ouch_execution_logic (trading_session sample_order)) = [] @ evs \<and>
    (case map_of (active_orders (ouch_execution_logic (trading_session sample_order))) sample_token of
       None \<Rightarrow> filled sample_token evs = 0
     | Some o2 \<Rightarrow> remaining_qty o2 + executed_qty o2 = 500 \<and> executed_qty o2 = filled sample_token evs)"
proof -
  have "qty_ok (active_orders (trading_session sample_order))" by (simp add: qty_ok_def)
  from execution_accounting [OF trading_session_wf [OF sample_order_ok] this]
  obtain evs where "ouch_events (ouch_execution_logic (trading_session sample_order)) =
      ouch_events (trading_session sample_order) @ evs"
    and "case (map_of (active_orders (trading_session sample_order)) sample_token,
        map_of (active_orders (ouch_execution_logic (trading_session sample_order))) sample_token) of
       (None, None) \<Rightarrow> filled sample_token evs = 0
     | (Some o1, None) \<Rightarrow> filled sample_token evs = 0
     | (Some o1, Some o2) \<Rightarrow>
         remaining_qty o2 + executed_qty o2 = remaining_qty o1 + executed_qty o1 \<and>
         executed_qty o2 = executed_qty o1 + filled sample_token evs \<and> 0 \<le> remaining_qty o2
     | (None, Some o2) \<Rightarrow> False" by blast
  then show ?thesis
    by (intro exI [of _ evs]) (auto simp: ouch_events_def split: option.splits)
qed

section \<open>Orders that never trade\<close>

lemma to_int32_wrap: "to_int32 (x - 2 ^ 32) = to_int32 x"
proof -
  have "(word_of_int (x - 2 ^ 32) :: u32) = word_of_int x"
    by (simp add: word_of_int_eq_iff take_bit_eq_mod)
  then show ?thesis by (simp only: to_int32_def)
qed

lemma execute_one_expired:
  assumes "bm_allows Execution (s_env s) = (True, e)"
    and "Ouch_Order_expired o1 e = (True, o1\<lparr>remain_time_in_force := r\<rparr>, e2)"
  shows "ouch_execute_one k o1 s = ([k],
    ouch_construct_order_canceled (to_uint32 (remaining_qty o1)) CR_TimeOut (token o1)
      (put_active k (o1\<lparr>remain_time_in_force := r\<rparr>) (s\<lparr>s_env := e2\<rparr>)))"
  using assms by (simp add: ouch_execute_one_def on_env_result Let_def)

lemma ioc_order_times_out_parts:
  assumes "time_in_force o1 = 0" and "remain_time_in_force o1 = 0" and "length (token o1) = 14"
    and "bm_allows Execution (s_env s) = (True, e)"
  shows "fst (ouch_execute_one k o1 s) = [k]"
    and "ouch_events (snd (ouch_execute_one k o1 s)) =
      ouch_events s @ [Some (Ev_Canceled (token o1) (to_uint32 (remaining_qty o1)) (ch CHR ''T''))]"
proof -
  have "Ouch_Order_expired o1 e = (True, o1\<lparr>remain_time_in_force := 0\<rparr>, e)"
    using assms(1,2) by (simp add: Ouch_Order_expired_special special_time_in_force_iff)
  note one = execute_one_expired [OF assms(4) this]
  show "fst (ouch_execute_one k o1 s) = [k]" by (simp add: one)
  show "ouch_events (snd (ouch_execute_one k o1 s)) =
      ouch_events s @ [Some (Ev_Canceled (token o1) (to_uint32 (remaining_qty o1)) (ch CHR ''T''))]"
    using assms(3) by (simp add: one sent_events)
qed

text \<open>
  An immediate-or-cancel order (time in force 0, which sets its remaining seconds to 0 when it
  is entered) is never executed: in its first round it counts as expired and its shares are
  cancelled with reason T; the branch that would cancel it with reason I is out of its reach.
\<close>

theorem ioc_order_times_out:
  assumes "time_in_force o1 = 0" and "remain_time_in_force o1 = 0" and "length (token o1) = 14"
    and "bm_allows Execution (s_env s) = (True, e)"
  shows "(fst (ouch_execute_one k o1 s) = [k]) \<and>
    (ouch_events (snd (ouch_execute_one k o1 s)) =
      ouch_events s @ [Some (Ev_Canceled (token o1) (to_uint32 (remaining_qty o1)) (ch CHR ''T''))])"
  by (intro conjI ioc_order_times_out_parts [OF assms(1,2,3,4)])

definition sample_ioc :: Ouch_Order where
  "sample_ioc = fst (Ouch_Order_of (sample_eo\<lparr>eo_time_in_force := 0\<rparr>) sample_env)"

lemma sample_ioc_sel [simp]:
  "token sample_ioc = sample_token" "remaining_qty sample_ioc = 500"
  "time_in_force sample_ioc = 0" "remain_time_in_force sample_ioc = 0"
  by (simp_all add: sample_ioc_def Ouch_Order_of_def Ouch_Order_parse_order_def sample_eo_def
      split_def Let_def to_int32_id)

theorem ioc_order_times_out_witness:
  "ouch_events (snd (ouch_execute_one sample_token sample_ioc (trading_session sample_ioc))) =
     [Some (Ev_Canceled sample_token 500 (ch CHR ''T''))]"
  using ioc_order_times_out [of sample_ioc "trading_session sample_ioc" _ sample_token]
  by (simp add: bm_allows_sample ouch_events_def to_uint32_def)

lemma long_time_in_force_expires_parts:
  assumes "bm_allows Execution (s_env s) = (True, e)"
    and "length (token o1) = 14"
    and "2 ^ 31 \<le> uint (time_in_force o1) - (fst (time_NULL e) - recv_order_time o1)"
    and "uint (time_in_force o1) - (fst (time_NULL e) - recv_order_time o1) < 2 ^ 32"
    and "uint (time_in_force o1) \<ge> 2 ^ 31"
  shows "fst (ouch_execute_one k o1 s) = [k]"
    and "ouch_events (snd (ouch_execute_one k o1 s)) =
      ouch_events s @ [Some (Ev_Canceled (token o1) (to_uint32 (remaining_qty o1)) (ch CHR ''T''))]"
proof -
  let ?left = "uint (time_in_force o1) - (fst (time_NULL e) - recv_order_time o1)"
  have "\<not> special_time_in_force (time_in_force o1)"
    using assms(5) by (auto simp: special_time_in_force_iff)
  moreover have "to_int32 ?left = ?left - 2 ^ 32"
  proof -
    have "to_int32 ?left = to_int32 (?left - 2 ^ 32)"
      by (rule to_int32_wrap [symmetric])
    also have "\<dots> = ?left - 2 ^ 32" by (rule to_int32_id) (use assms(3,4) in simp_all)
    finally show ?thesis .
  qed
  ultimately have "Ouch_Order_expired o1 e =
      (True, o1\<lparr>remain_time_in_force := ?left - 2 ^ 32\<rparr>, snd (time_NULL e))"
    using assms(4) by (simp add: Ouch_Order_expired_def split_def Let_def)
  note one = execute_one_expired [OF assms(1) this]
  show "fst (ouch_execute_one k o1 s) = [k]" by (simp add: one)
  show "ouch_events (snd (ouch_execute_one k o1 s)) =
      ouch_events s @ [Some (Ev_Canceled (token o1) (to_uint32 (remaining_qty o1)) (ch CHR ''T''))]"
    using assms(2) by (simp add: one sent_events)
qed

text \<open>
  The remaining seconds are narrowed to 32 signed bits: an order whose time in force is 2^31
  seconds or more beyond the time it has been held is cancelled as timed out in its first round,
  although its time has hardly begun.
\<close>

theorem long_time_in_force_expires:
  assumes "bm_allows Execution (s_env s) = (True, e)"
    and "length (token o1) = 14"
    and "2 ^ 31 \<le> uint (time_in_force o1) - (fst (time_NULL e) - recv_order_time o1)"
    and "uint (time_in_force o1) - (fst (time_NULL e) - recv_order_time o1) < 2 ^ 32"
    and "uint (time_in_force o1) \<ge> 2 ^ 31"
  shows "(fst (ouch_execute_one k o1 s) = [k]) \<and>
    (ouch_events (snd (ouch_execute_one k o1 s)) =
      ouch_events s @ [Some (Ev_Canceled (token o1) (to_uint32 (remaining_qty o1)) (ch CHR ''T''))])"
  by (intro conjI long_time_in_force_expires_parts [OF assms(1,2,3,4,5)])

theorem long_time_in_force_expires_witness:
  "ouch_events (snd (ouch_execute_one sample_token (sample_order\<lparr>time_in_force := 2147483648,
     recv_order_time := 0\<rparr>) (sample_session\<lparr>s_env := sample_env\<rparr>))) =
   [Some (Ev_Canceled sample_token 500 (ch CHR ''T''))]"
proof -
  let ?o = "sample_order\<lparr>time_in_force := 2147483648, recv_order_time := 0\<rparr>"
  have "bm_allows Execution (s_env (sample_session\<lparr>s_env := sample_env\<rparr>)) = (True, sample_env)"
    by (simp add: bm_allows_sample)
  from long_time_in_force_expires [OF this, of ?o sample_token] show ?thesis
    by (simp add: time_NULL_def to_uint32_def ouch_events_def)
qed

section \<open>Progress\<close>

text \<open>An order that can wait for ever: no expiry, no minimum quantity.\<close>

definition steady :: "Ouch_Order \<Rightarrow> bool" where
  "steady o1 \<longleftrightarrow> time_in_force o1 \<noteq> 0 \<and> special_time_in_force (time_in_force o1) \<and>
     0 < remain_time_in_force o1 \<and> order_state o1 \<noteq> OrderState_code OS_Dead \<and> min_qty o1 = 0 \<and>
     0 \<le> remaining_qty o1"

lemma execute_one_steady:
  assumes "steady o1" and "behavior (s_env s) Execution = DefaultBehavior"
    and "ouch_execute_one k o1 s = (d, s')"
  shows "0 < remaining_qty o1 \<Longrightarrow> d = [] \<and> (\<exists>q. min 100 (remaining_qty o1) \<le> q \<and> q \<le> remaining_qty o1 \<and>
      map_of (active_orders s') k =
        Some (o1\<lparr>remaining_qty := remaining_qty o1 - q, executed_qty := executed_qty o1 + q\<rparr>))"
    and "remaining_qty o1 = 0 \<Longrightarrow> d = [k] \<and> map_of (finished_orders s') k =
      Some (o1\<lparr>order_state := OrderState_code OS_Dead\<rparr>)"
proof -
  note st = assms(1) [unfolded steady_def]
  note bm = bm_allows_sample [OF assms(2)]
  have late: "Ouch_Order_expired o1 e = (False, o1, e)" for e :: env
    using st by (simp add: Ouch_Order_expired_special)
  { assume r: "0 < remaining_qty o1"
    have alive: "Ouch_Order_still_active o1 e = (True, o1, e)" for e :: env
      using st r by (intro always_alive_still_active) (simp add: always_alive_def)
    let ?q = "min (random_lot (s_env s)) (remaining_qty o1)"
    have "d = [] \<and> map_of (active_orders s') k =
        Some (o1\<lparr>remaining_qty := remaining_qty o1 - ?q, executed_qty := executed_qty o1 + ?q\<rparr>)"
      using assms(3) st
      by (auto simp: ouch_execute_one_def on_env_def bm late alive Let_def
          ouch_construct_order_executed_def construct_defs random_lot_def put_active_def)
    moreover have "min 100 (remaining_qty o1) \<le> ?q" "?q \<le> remaining_qty o1"
      using random_lot_bounds [of "s_env s"] by auto
    ultimately show "d = [] \<and> (\<exists>q. min 100 (remaining_qty o1) \<le> q \<and> q \<le> remaining_qty o1 \<and>
      map_of (active_orders s') k =
        Some (o1\<lparr>remaining_qty := remaining_qty o1 - q, executed_qty := executed_qty o1 + q\<rparr>))"
      by blast }
  { assume r: "remaining_qty o1 = 0"
    have "Ouch_Order_still_active o1 e = (False, o1\<lparr>order_state := OrderState_code OS_Dead\<rparr>, e)"
      for e :: env using r by (simp add: Ouch_Order_still_active_def)
    then show "d = [k] \<and> map_of (finished_orders s') k =
      Some (o1\<lparr>order_state := OrderState_code OS_Dead\<rparr>)"
      using assms(3) st by (auto simp: ouch_execute_one_def on_env_def bm late Let_def) }
qed

lemma execute_loop_behavior: "behavior (s_env (snd (ouch_execute_loop ps s))) = behavior (s_env s)"
  by (induction ps arbitrary: s) (simp_all add: split_def Let_def execute_one_behavior)

lemma execution_logic_behavior:
  "behavior (s_env (ouch_execution_logic s)) = behavior (s_env s)"
  by (simp add: execution_logic_eq erase_active_def execute_loop_behavior)

lemma execution_logic_steady:
  assumes wf: "ouch_wf s" and o1: "map_of (active_orders s) k = Some o1" and st: "steady o1"
    and b: "behavior (s_env s) Execution = DefaultBehavior"
  shows "0 < remaining_qty o1 \<Longrightarrow> \<exists>q. min 100 (remaining_qty o1) \<le> q \<and> q \<le> remaining_qty o1 \<and>
      map_of (active_orders (ouch_execution_logic s)) k =
        Some (o1\<lparr>remaining_qty := remaining_qty o1 - q, executed_qty := executed_qty o1 + q\<rparr>)"
    and "remaining_qty o1 = 0 \<Longrightarrow> map_of (active_orders (ouch_execution_logic s)) k = None \<and>
      map_of (finished_orders (ouch_execution_logic s)) k = Some (o1\<lparr>order_state := OrderState_code OS_Dead\<rparr>)"
proof -
  let ?ps = "visit (fst (next_rank (s_env s))) (active_orders s)"
  let ?u = "s\<lparr>s_env := snd (next_rank (s_env s))\<rparr>"
  note dist = table_ok_distinct [OF ouch_inv_active [OF wf]]
  have k: "(k, o1) \<in> set ?ps" using o1 by (rule in_visit_iff [OF dist, THEN iffD2])
  obtain pre s2 d where e: "ouch_execute_one k o1 (snd (ouch_execute_loop pre ?u)) = (d, s2)"
    "map_of (active_orders (snd (ouch_execute_loop ?ps ?u))) k = map_of (active_orders s2) k"
    "map_of (finished_orders (snd (ouch_execute_loop ?ps ?u))) k = map_of (finished_orders s2) k"
    "k \<in> set (fst (ouch_execute_loop ?ps ?u)) \<longleftrightarrow> d = [k]"
    using ouch_rounds.loop_entry [OF distinct_visit [OF dist] TrueI k, of ?u] by metis
  have b1: "behavior (s_env (snd (ouch_execute_loop pre ?u))) Execution = DefaultBehavior"
    using b by (simp add: execute_loop_behavior)
  note one = execute_one_steady [OF st b1 e(1)]
  show "0 < remaining_qty o1 \<Longrightarrow> \<exists>q. min 100 (remaining_qty o1) \<le> q \<and> q \<le> remaining_qty o1 \<and>
      map_of (active_orders (ouch_execution_logic s)) k =
        Some (o1\<lparr>remaining_qty := remaining_qty o1 - q, executed_qty := executed_qty o1 + q\<rparr>)"
    using one(1) e(2,4) by (simp add: execution_logic_eq map_of_erase_all)
  show "remaining_qty o1 = 0 \<Longrightarrow> map_of (active_orders (ouch_execution_logic s)) k = None \<and>
      map_of (finished_orders (ouch_execution_logic s)) k = Some (o1\<lparr>order_state := OrderState_code OS_Dead\<rparr>)"
    using one(2) e(3,4) by (simp add: execution_logic_eq map_of_erase_all)
qed

lemma steady_filled:
  "steady o1 \<Longrightarrow> q \<le> remaining_qty o1 \<Longrightarrow>
   steady (o1\<lparr>remaining_qty := remaining_qty o1 - q, executed_qty := executed_qty o1 + q\<rparr>)"
  by (simp add: steady_def)

lemma steady_round:
  assumes "ouch_wf s" and "map_of (active_orders s) k = Some o1" and "steady o1"
    and "behavior (s_env s) Execution = DefaultBehavior" and "0 < remaining_qty o1"
  obtains o2 where "map_of (active_orders (ouch_execution_logic s)) k = Some o2" "steady o2"
    "ouch_wf (ouch_execution_logic s)" "behavior (s_env (ouch_execution_logic s)) Execution = DefaultBehavior"
    "executed_qty o2 + remaining_qty o2 = executed_qty o1 + remaining_qty o1"
    "0 \<le> remaining_qty o2" "remaining_qty o2 \<le> remaining_qty o1 - min 100 (remaining_qty o1)"
proof -
  obtain q where q: "min 100 (remaining_qty o1) \<le> q" "q \<le> remaining_qty o1"
    and m: "map_of (active_orders (ouch_execution_logic s)) k =
      Some (o1\<lparr>remaining_qty := remaining_qty o1 - q, executed_qty := executed_qty o1 + q\<rparr>)"
    using execution_logic_steady(1) [OF assms(1-4) assms(5)] by blast
  show thesis
    by (rule that [OF m steady_filled [OF assms(3) q(2)] ouch_inv_execution_logic [OF assms(1)]])
      (use q assms(4) in \<open>simp_all add: execution_logic_behavior\<close>)
qed

lemma live_order_rounds:
  assumes "ouch_wf s" and "map_of (active_orders s) k = Some o1" and "steady o1"
    and "behavior (s_env s) Execution = DefaultBehavior"
  shows "\<exists>n\<le>nat ((remaining_qty o1 + 99) div 100) + 1.
    map_of (active_orders ((ouch_execution_logic ^^ n) s)) k = None \<and>
    (\<exists>o2. map_of (finished_orders ((ouch_execution_logic ^^ n) s)) k = Some o2 \<and>
      remaining_qty o2 = 0 \<and> executed_qty o2 = executed_qty o1 + remaining_qty o1)"
  using assms
proof (induction "nat (remaining_qty o1)" arbitrary: s o1 rule: less_induct)
  case less
  show ?case
  proof (cases "remaining_qty o1 = 0")
    case True
    from execution_logic_steady(2) [OF less.prems True] True show ?thesis
      by (intro exI [of _ 1] conjI) simp_all
  next
    case False
    then have r: "0 < remaining_qty o1" using less.prems(3) by (simp add: steady_def)
    obtain o2 where o2: "map_of (active_orders (ouch_execution_logic s)) k = Some o2" "steady o2"
      "ouch_wf (ouch_execution_logic s)" "behavior (s_env (ouch_execution_logic s)) Execution = DefaultBehavior"
      "executed_qty o2 + remaining_qty o2 = executed_qty o1 + remaining_qty o1"
      "0 \<le> remaining_qty o2" "remaining_qty o2 \<le> remaining_qty o1 - min 100 (remaining_qty o1)"
      by (rule steady_round [OF less.prems r])
    have "nat (remaining_qty o2) < nat (remaining_qty o1)" using o2(7) r by simp
    from less.hyps [OF this o2(3,1,2,4)] obtain n where
      n: "n \<le> nat ((remaining_qty o2 + 99) div 100) + 1"
      "map_of (active_orders ((ouch_execution_logic ^^ Suc n) s)) k = None \<and>
      (\<exists>o3. map_of (finished_orders ((ouch_execution_logic ^^ Suc n) s)) k = Some o3 \<and>
        remaining_qty o3 = 0 \<and> executed_qty o3 = executed_qty o1 + remaining_qty o1)"
      unfolding o2(5) by (auto simp: funpow_Suc_right simp del: funpow.simps)
    have "(remaining_qty o2 + 99) div 100 + 1 \<le> (remaining_qty o1 + 99) div 100"
      using o2(6,7) r by (cases "100 \<le> remaining_qty o1") (auto simp: min_def)
    then have "Suc n \<le> nat ((remaining_qty o1 + 99) div 100) + 1" using n(1) o2(6) by linarith
    with n(2) show ?thesis by blast
  qed
qed



end
