(* ===== verification/BehaviorFacts.thy ===== *)
theory BehaviorFacts
  imports Samples
begin

text \<open>
  Properties of the behaviour manager: what the three kinds of behaviour answer over a run, what
  the administrator commands change and what they leave alone.
\<close>

section \<open>Runs\<close>

text \<open>The answers the manager gives to a sequence of questions.\<close>

fun ask :: "action list \<Rightarrow> env \<Rightarrow> bool list" where
  "ask [] e = []"
| "ask (a # acts) e = (let (b, e1) = bm_allows a e in b # ask acts e1)"

definition answers_for :: "action \<Rightarrow> action list \<Rightarrow> env \<Rightarrow> bool list" where
  "answers_for a acts e = List.map snd (filter (\<lambda>p. fst p = a) (zip acts (ask acts e)))"

lemma answers_for_simps [simp]:
  "answers_for a [] e = []"
  "answers_for a (b # acts) e =
     (if b = a then [fst (bm_allows b e)] else []) @ answers_for a acts (snd (bm_allows b e))"
  by (simp_all add: answers_for_def split_def Let_def)

text \<open>A question about one action changes the counter of that action only, and no behaviour.\<close>

lemma bm_allows_other:
  "behavior (snd (bm_allows a e)) = behavior e" "rb_prob (snd (bm_allows a e)) = rb_prob e"
  "b \<noteq> a \<Longrightarrow> cb_times (snd (bm_allows a e)) b = cb_times e b"
  by (simp_all add: bm_allows_def default_behavior_def random_behavior_def count_behavior_def
      rand_int_def Let_def split: behavior_object.splits)

lemma bm_allows_count:
  assumes "behavior e a = CountBehavior"
  shows "fst (bm_allows a e) \<longleftrightarrow> 0 < cb_times e a"
    and "cb_times (snd (bm_allows a e)) a = (if 0 < cb_times e a then cb_times e a - 1 else cb_times e a)"
  using assms by (simp_all add: bm_allows_def count_behavior_def)

lemma answers_for_count:
  "behavior e a = CountBehavior \<Longrightarrow> answers_for a acts e =
     replicate (min (count_list acts a) (nat (cb_times e a))) True @
     replicate (count_list acts a - nat (cb_times e a)) False"
proof (induction acts arbitrary: e)
  case (Cons b acts)
  have beh: "behavior (snd (bm_allows b e)) a = CountBehavior"
    using Cons.prems by (simp add: bm_allows_other)
  show ?case
  proof (cases "b = a")
    case True
    note c = bm_allows_count [OF Cons.prems]
    show ?thesis
    proof (cases "0 < cb_times e a")
      case True
      then obtain m where "nat (cb_times e a) = Suc m" "nat (cb_times e a - 1) = m"
        by (cases "nat (cb_times e a)") auto
      with True \<open>b = a\<close> c show ?thesis using Cons.IH [OF beh] by simp
    next
      case False
      with \<open>b = a\<close> c show ?thesis using Cons.IH [OF beh] by simp
    qed
  next
    case False
    with Cons.IH [OF beh] show ?thesis by (simp add: bm_allows_other)
  qed
qed simp

section \<open>The count behaviour\<close>

text \<open>
  C30: after the command \<open>count action x\<close> exactly the next x questions about that action are
  answered yes and all later ones no, however they are interleaved with questions about other
  actions, under any behaviour of those.
\<close>

theorem count_command_allows_exactly:
  assumes "args c = [''count'', name, num]" and "action_of name = Some a" and "stoi num = Some x"
    and "0 \<le> x"
  shows "answers_for a acts (snd (set_action stod c e)) =
    replicate (min (count_list acts a) (nat x)) True @ replicate (count_list acts a - nat x) False"
proof -
  let ?e = "snd (set_action stod c e)"
  have "?e = point_to CountBehavior a (e\<lparr>cb_times := (cb_times e)(a := x)\<rparr>)"
    using assms by (simp add: set_action_def set_count_def)
  then have "behavior ?e a = CountBehavior" "cb_times ?e a = x"
    by (simp_all add: point_to_def Let_def)
  then show ?thesis by (simp add: answers_for_count)
qed

theorem count_command_allows_exactly_witness:
  "answers_for Login [Login, New_order, Login, Login]
     (snd (set_action (\<lambda>_. None) \<lparr>args = [''count'', ''login'', ''2''], response = []\<rparr> sample_env)) =
   [True, True, False]"
proof -
  have "stoi ''2'' = Some 2" "action_of ''login'' = Some Login" by code_simp+
  then show ?thesis
    using count_command_allows_exactly [where c = "\<lparr>args = [''count'', ''login'', ''2''], response = []\<rparr>"
        and name = "''login''" and num = "''2''" and a = Login and x = 2
        and acts = "[Login, New_order, Login, Login]" and stod = "\<lambda>_. None" and e = sample_env]
    by (simp add: numeral_eq_Suc)
qed

section \<open>The random behaviour\<close>

lemma random_gate:
  assumes "behavior e a = RandomBehavior"
  shows "fst (bm_allows a e) \<longleftrightarrow>
    int_less_dbl (uint (w_rand e (n_rand e)) mod 100) (dbl_times_100 (rb_prob e a))"
  using assms by (simp add: bm_allows_def random_behavior_def rand_int_def)

lemma mod_100_bounds: "0 \<le> x mod 100" "x mod 100 < (100 :: int)"
  by simp_all

lemma residues_below_8: "int_less_dbl r (Finite 7881299347898369 (- 50)) \<longleftrightarrow> r < 8"
proof -
  have "r * 1125899906842624 < 7881299347898369 \<longleftrightarrow> r < 8" by linarith
  moreover have "(2 :: int) ^ nat 50 = 1125899906842624" by simp
  ultimately show ?thesis by simp
qed

lemma random_gate_limits_parts:
  assumes "behavior e a = RandomBehavior"
  defines "r \<equiv> uint (w_rand e (n_rand e)) mod 100"
  shows "rb_prob e a = Finite 0 0 \<Longrightarrow> \<not> fst (bm_allows a e)"
    and "rb_prob e a = NaN \<Longrightarrow> \<not> fst (bm_allows a e)"
    and "rb_prob e a = Finite 1 0 \<Longrightarrow> fst (bm_allows a e)"
    and "rb_prob e a = Finite 5044031582654956 (- 56) \<Longrightarrow> fst (bm_allows a e) \<longleftrightarrow> r < 8"
proof -
  have z: "dbl_times_100 (Finite 0 0) = Finite 0 0" by code_simp
  show "rb_prob e a = Finite 0 0 \<Longrightarrow> \<not> fst (bm_allows a e)"
    using mod_100_bounds [of "uint (w_rand e (n_rand e))"] by (simp add: random_gate [OF assms(1)] z del: dbl_times_100.simps)
  show "rb_prob e a = NaN \<Longrightarrow> \<not> fst (bm_allows a e)"
    by (simp add: random_gate [OF assms(1)])
  have o: "dbl_times_100 (Finite 1 0) = Finite 100 0" by code_simp
  show "rb_prob e a = Finite 1 0 \<Longrightarrow> fst (bm_allows a e)"
    by (simp add: random_gate [OF assms(1)] o del: dbl_times_100.simps)
  have p: "dbl_times_100 (Finite 5044031582654956 (- 56)) = Finite 7881299347898369 (- 50)"
    by (simp add: round53_def bit_length.simps Let_def)
  show "rb_prob e a = Finite 5044031582654956 (- 56) \<Longrightarrow> fst (bm_allows a e) \<longleftrightarrow> r < 8"
    unfolding random_gate [OF assms(1)] r_def by (simp only: p residues_below_8)
qed

text \<open>
  The random behaviour at its limits: probability 0 and NaN (which the administrator command
  accepts as a probability) never allow the action, probability 1 always does; and a probability
  is only as exact as its product with 100: for the double nearest to 0.07 the product exceeds 7,
  so 8 of the 100 residues of \<^verbatim>\<open>rand() % 100\<close> allow the action, not 7.
\<close>

theorem random_gate_limits:
  assumes "behavior e a = RandomBehavior"
  defines "r \<equiv> uint (w_rand e (n_rand e)) mod 100"
  shows "(rb_prob e a = Finite 0 0 \<longrightarrow> \<not> fst (bm_allows a e)) \<and>
    (rb_prob e a = NaN \<longrightarrow> \<not> fst (bm_allows a e)) \<and>
    (rb_prob e a = Finite 1 0 \<longrightarrow> fst (bm_allows a e)) \<and>
    (rb_prob e a = Finite 5044031582654956 (- 56) \<longrightarrow> (fst (bm_allows a e) \<longleftrightarrow> r < 8))"
  unfolding r_def by (intro conjI impI random_gate_limits_parts [OF assms(1)])

theorem random_gate_limits_witness:
  "fst (bm_allows Login (point_to RandomBehavior Login
     (sample_env\<lparr>rb_prob := (\<lambda>_. Finite 5044031582654956 (- 56)), w_rand := (\<lambda>_. 7)\<rparr>)))"
  using random_gate_limits [where a = Login and e = "point_to RandomBehavior Login
     (sample_env\<lparr>rb_prob := (\<lambda>_. Finite 5044031582654956 (- 56)), w_rand := (\<lambda>_. 7)\<rparr>)"]
  by (simp add: point_to_def Let_def)

section \<open>The forced execution quantity\<close>

fun execution_qtys :: "nat \<Rightarrow> env \<Rightarrow> int list" where
  "execution_qtys 0 e = []"
| "execution_qtys (Suc n) e = (let (q, e1) = execution_qty e in q # execution_qtys n e1)"

lemma execution_qtys_zero: "exe_qty e = 0 \<Longrightarrow> execution_qtys n e = replicate n 0"
  by (induction n arbitrary: e) (simp_all add: execution_qty_def)

lemma forced_quantity_once_parts:
  assumes "args c = [num]" and "stoi num = Some q" and "0 < q"
  shows "execution_qtys (Suc n) (snd (set_execution_qty c e)) = q # replicate n 0"
    and "execution_qtys n (snd (bm_reset c' (snd (execution_qty (snd (set_execution_qty c e)))))) =
      replicate n 0"
proof -
  let ?e = "snd (set_execution_qty c e)"
  have q: "exe_qty ?e = q" using assms by (simp add: set_execution_qty_def)
  with assms(3) have e1: "execution_qty ?e = (q, ?e\<lparr>exe_qty := 0\<rparr>)"
    by (simp add: execution_qty_def)
  show "execution_qtys (Suc n) ?e = q # replicate n 0"
    by (simp add: e1 execution_qtys_zero)
  show "execution_qtys n (snd (bm_reset c' (snd (execution_qty ?e)))) = replicate n 0"
    by (simp add: e1 bm_reset_def reset_to_default_def execution_qtys_zero)
qed

text \<open>
  A forced execution quantity is used once: the next execution asks and gets it, every later
  one gets 0, which executes nothing, so no order trades any more until the execution action is
  set anew. The general reset does not do that: it sets every action to the default behaviour but
  keeps the quantity.
\<close>

theorem forced_quantity_once:
  assumes "args c = [num]" and "stoi num = Some q" and "0 < q"
  shows "(execution_qtys (Suc n) (snd (set_execution_qty c e)) = q # replicate n 0) \<and>
    (execution_qtys n (snd (bm_reset c' (snd (execution_qty (snd (set_execution_qty c e)))))) =
      replicate n 0)"
  by (intro conjI forced_quantity_once_parts [OF assms(1,2,3)])

theorem forced_quantity_once_witness:
  "execution_qtys 3 (snd (set_execution_qty \<lparr>args = [''300''], response = []\<rparr> sample_env)) = [300, 0, 0]"
proof -
  have "stoi ''300'' = Some 300" by code_simp
  then show ?thesis
    using forced_quantity_once [where c = "\<lparr>args = [''300''], response = []\<rparr>" and num = "''300''"
        and q = 300 and n = 2 and e = sample_env] by (simp add: numeral_eq_Suc)
qed

section \<open>What commands leave alone\<close>

definition same_for :: "action \<Rightarrow> env \<Rightarrow> env \<Rightarrow> bool" where
  "same_for a e e' \<longleftrightarrow> behavior e' a = behavior e a \<and> cb_times e' a = cb_times e a \<and>
     rb_prob e' a = rb_prob e a"

lemma same_for_simps [simp]:
  "same_for a e e" "same_for a e (log_warning txt p e)"
  "a \<noteq> b \<Longrightarrow> same_for a e (point_to o1 b e)"
  "a \<noteq> b \<Longrightarrow> same_for a e (point_to o1 b (e\<lparr>cb_times := (cb_times e)(b := x)\<rparr>))"
  "a \<noteq> b \<Longrightarrow> same_for a e (point_to o1 b (e\<lparr>rb_prob := (rb_prob e)(b := y)\<rparr>))"
  by (auto simp: same_for_def log_warning_def point_to_def Let_def)

text \<open>
  An administrator command other than reset, well-formed or not, changes at most the settings
  of the one action it names; one that names no known action changes no action's settings at all.
\<close>

theorem commands_local:
  assumes "args c = w # ws" and "w \<noteq> ''reset''"
    and "\<forall>b. ws \<noteq> [] \<and> action_of (hd ws) = Some b \<longrightarrow> b \<noteq> a"
  shows "same_for a e (snd (set_action stod c e))"
proof -
  have "same_for a e (snd (set_to_default c e))" "same_for a e (snd (set_count c e))"
    "same_for a e (snd (set_random stod c e))"
    using assms
    by (cases ws; auto simp: set_to_default_def set_count_def set_random_def split: option.splits)+
  then show ?thesis using assms(1,2) by (simp add: set_action_def)
qed

theorem commands_local_witness:
  "same_for Logout sample_env (snd (set_action (\<lambda>_. None)
     \<lparr>args = [''count'', ''login'', ''2''], response = []\<rparr> sample_env))"
proof -
  have "action_of ''login'' = Some Login" by code_simp
  then show ?thesis by (intro commands_local [where w = "''count''" and ws = "[''login'', ''2'']"]) simp_all
qed

end

