(* ===== verification/BoeMessages.thy ===== *)
theory BoeMessages
  imports Prelude
begin

text \<open>
  The messages of \<^verbatim>\<open>boe_messages.h\<close> that the BOE session reads or sends, laid out as in
  the theory of the OUCH messages: record, memory image, reading from memory, constructor on
  uninitialised memory. All fields are little-endian on the wire, so nothing is swapped. A nested
  parameter group is flattened into the record of the message that holds it; the array
  \<^verbatim>\<open>unit[0]\<close> at the end of a login response takes no space.
\<close>

section \<open>Enumerations\<close>

datatype MsgType =
    MT_CancelOrder
  | MT_ClientHeartbeat
  | MT_LoginRequest
  | MT_LogoutRequest
  | MT_ModifyOrder
  | MT_NewOrder
  | MT_CancelRejected
  | MT_LoginResponse
  | MT_LogoutResponse
  | MT_ModifyRejected
  | MT_OrderAck
  | MT_OrderCanceled
  | MT_OrderExecution
  | MT_OrderModified
  | MT_OrderRejected
  | MT_OrderRestated
  | MT_ReplayComplete
  | MT_ServerHeartbeat
  | MT_TradeCancelOrCorrect

primrec MsgType_code :: "MsgType \<Rightarrow> byte" where
    "MsgType_code MT_CancelOrder = 0x39"
  | "MsgType_code MT_ClientHeartbeat = 0x03"
  | "MsgType_code MT_LoginRequest = 0x37"
  | "MsgType_code MT_LogoutRequest = 0x02"
  | "MsgType_code MT_ModifyOrder = 0x3a"
  | "MsgType_code MT_NewOrder = 0x38"
  | "MsgType_code MT_CancelRejected = 0x2b"
  | "MsgType_code MT_LoginResponse = 0x24"
  | "MsgType_code MT_LogoutResponse = 0x08"
  | "MsgType_code MT_ModifyRejected = 0x29"
  | "MsgType_code MT_OrderAck = 0x25"
  | "MsgType_code MT_OrderCanceled = 0x2a"
  | "MsgType_code MT_OrderExecution = 0x2c"
  | "MsgType_code MT_OrderModified = 0x27"
  | "MsgType_code MT_OrderRejected = 0x26"
  | "MsgType_code MT_OrderRestated = 0x28"
  | "MsgType_code MT_ReplayComplete = 0x13"
  | "MsgType_code MT_ServerHeartbeat = 0x09"
  | "MsgType_code MT_TradeCancelOrCorrect = 0x2d"

primrec MsgType_to_string :: "MsgType \<Rightarrow> string" where
    "MsgType_to_string MT_CancelOrder = ''CancelOrder''"
  | "MsgType_to_string MT_ClientHeartbeat = ''ClientHeartbeat''"
  | "MsgType_to_string MT_LoginRequest = ''LoginRequest''"
  | "MsgType_to_string MT_LogoutRequest = ''LogoutRequest''"
  | "MsgType_to_string MT_ModifyOrder = ''ModifyOrder''"
  | "MsgType_to_string MT_NewOrder = ''NewOrder''"
  | "MsgType_to_string MT_CancelRejected = ''CancelRejected''"
  | "MsgType_to_string MT_LoginResponse = ''LoginResponse''"
  | "MsgType_to_string MT_LogoutResponse = ''LogoutResponse''"
  | "MsgType_to_string MT_ModifyRejected = ''ModifyRejected''"
  | "MsgType_to_string MT_OrderAck = ''OrderAck''"
  | "MsgType_to_string MT_OrderCanceled = ''OrderCanceled''"
  | "MsgType_to_string MT_OrderExecution = ''OrderExecution''"
  | "MsgType_to_string MT_OrderModified = ''OrderModified''"
  | "MsgType_to_string MT_OrderRejected = ''OrderRejected''"
  | "MsgType_to_string MT_OrderRestated = ''OrderRestated''"
  | "MsgType_to_string MT_ReplayComplete = ''ReplayComplete''"
  | "MsgType_to_string MT_ServerHeartbeat = ''ServerHeartbeat''"
  | "MsgType_to_string MT_TradeCancelOrCorrect = ''TradeCancelOrCorrect''"

datatype LoginResponseStatus =
    LRS_Accepted
  | LRS_NotAuthorized
  | LRS_SessionDisabled
  | LRS_SessionInUse
  | LRS_InvalidSession
  | LRS_SequenceAhead
  | LRS_InvalidUnitGiven
  | LRS_InvalidReturnBitfield
  | LRS_InvalidRequestStructure

primrec LoginResponseStatus_code :: "LoginResponseStatus \<Rightarrow> byte" where
    "LoginResponseStatus_code LRS_Accepted = ch CHR ''A''"
  | "LoginResponseStatus_code LRS_NotAuthorized = ch CHR ''N''"
  | "LoginResponseStatus_code LRS_SessionDisabled = ch CHR ''D''"
  | "LoginResponseStatus_code LRS_SessionInUse = ch CHR ''B''"
  | "LoginResponseStatus_code LRS_InvalidSession = ch CHR ''S''"
  | "LoginResponseStatus_code LRS_SequenceAhead = ch CHR ''Q''"
  | "LoginResponseStatus_code LRS_InvalidUnitGiven = ch CHR ''I''"
  | "LoginResponseStatus_code LRS_InvalidReturnBitfield = ch CHR ''F''"
  | "LoginResponseStatus_code LRS_InvalidRequestStructure = ch CHR ''M''"

primrec LoginResponseStatus_to_string :: "LoginResponseStatus \<Rightarrow> string" where
    "LoginResponseStatus_to_string LRS_Accepted = ''Login accepted''"
  | "LoginResponseStatus_to_string LRS_NotAuthorized = ''Not authorized (invalid username/password)''"
  | "LoginResponseStatus_to_string LRS_SessionDisabled = ''Session is disable''"
  | "LoginResponseStatus_to_string LRS_SessionInUse = ''Session in use''"
  | "LoginResponseStatus_to_string LRS_InvalidSession = ''Invalid session''"
  | "LoginResponseStatus_to_string LRS_SequenceAhead = ''Sequence ahead in login message''"
  | "LoginResponseStatus_to_string LRS_InvalidUnitGiven = ''Invalid unit given in login message''"
  | "LoginResponseStatus_to_string LRS_InvalidReturnBitfield = ''Invalid return bitfield in login message''"
  | "LoginResponseStatus_to_string LRS_InvalidRequestStructure = ''Invalid login request message structure''"

datatype Reason =
    Rsn_Administrative
  | Rsn_CapacityUndefined
  | Rsn_DuplicateIdentifier
  | Rsn_SizeReductionDueToSwpRestatement
  | Rsn_Halted
  | Rsn_IncorrectDataCenter
  | Rsn_TooLateToCancel
  | Rsn_OrderRateThresholdExceeded
  | Rsn_OrderWouldLockOrCrossNbbo
  | Rsn_LiquidityAvailableExceedsOrderSize
  | Rsn_RanOutOfLiquidityToExecuteAgainst
  | Rsn_ClordidDoesntMatchAKnownOrder
  | Rsn_CantModifyAnOrderThatIsPendingFill
  | Rsn_WaitingForFirstTrade
  | Rsn_RoutingUnavailable
  | Rsn_ShortSalePriceViolation
  | Rsn_FillWouldTradeThroughTheNbbo
  | Rsn_UserRequested
  | Rsn_WouldWash
  | Rsn_AddLiquidityOnlyOrderWouldRemove
  | Rsn_OrderExpired
  | Rsn_SymbolNotSupported
  | Rsn_UnforeseenReason
  | Rsn_MarketAccessRiskLimitExceeded
  | Rsn_MaxOpenOrdersCountExceeded
  | Rsn_ReserveReload
  | Rsn_RiskManagementSymbolLevel
  | Rsn_LimitUpDown
  | Rsn_WouldRemoveOnUnslide
  | Rsn_CrossedMarket
  | Rsn_OrderReceivedByBatsDuringReplay
  | Rsn_ProtocolViolation

primrec Reason_code :: "Reason \<Rightarrow> byte" where
    "Reason_code Rsn_Administrative = ch CHR ''A''"
  | "Reason_code Rsn_CapacityUndefined = ch CHR ''C''"
  | "Reason_code Rsn_DuplicateIdentifier = ch CHR ''D''"
  | "Reason_code Rsn_SizeReductionDueToSwpRestatement = ch CHR ''E''"
  | "Reason_code Rsn_Halted = ch CHR ''H''"
  | "Reason_code Rsn_IncorrectDataCenter = ch CHR ''I''"
  | "Reason_code Rsn_TooLateToCancel = ch CHR ''J''"
  | "Reason_code Rsn_OrderRateThresholdExceeded = ch CHR ''K''"
  | "Reason_code Rsn_OrderWouldLockOrCrossNbbo = ch CHR ''L''"
  | "Reason_code Rsn_LiquidityAvailableExceedsOrderSize = ch CHR ''M''"
  | "Reason_code Rsn_RanOutOfLiquidityToExecuteAgainst = ch CHR ''N''"
  | "Reason_code Rsn_ClordidDoesntMatchAKnownOrder = ch CHR ''O''"
  | "Reason_code Rsn_CantModifyAnOrderThatIsPendingFill = ch CHR ''P''"
  | "Reason_code Rsn_WaitingForFirstTrade = ch CHR ''Q''"
  | "Reason_code Rsn_RoutingUnavailable = ch CHR ''R''"
  | "Reason_code Rsn_ShortSalePriceViolation = ch CHR ''S''"
  | "Reason_code Rsn_FillWouldTradeThroughTheNbbo = ch CHR ''T''"
  | "Reason_code Rsn_UserRequested = ch CHR ''U''"
  | "Reason_code Rsn_WouldWash = ch CHR ''V''"
  | "Reason_code Rsn_AddLiquidityOnlyOrderWouldRemove = ch CHR ''W''"
  | "Reason_code Rsn_OrderExpired = ch CHR ''X''"
  | "Reason_code Rsn_SymbolNotSupported = ch CHR ''Y''"
  | "Reason_code Rsn_UnforeseenReason = ch CHR ''Z''"
  | "Reason_code Rsn_MarketAccessRiskLimitExceeded = ch CHR ''m''"
  | "Reason_code Rsn_MaxOpenOrdersCountExceeded = ch CHR ''o''"
  | "Reason_code Rsn_ReserveReload = ch CHR ''r''"
  | "Reason_code Rsn_RiskManagementSymbolLevel = ch CHR ''s''"
  | "Reason_code Rsn_LimitUpDown = ch CHR ''u''"
  | "Reason_code Rsn_WouldRemoveOnUnslide = ch CHR ''w''"
  | "Reason_code Rsn_CrossedMarket = ch CHR ''x''"
  | "Reason_code Rsn_OrderReceivedByBatsDuringReplay = ch CHR ''y''"
  | "Reason_code Rsn_ProtocolViolation = ch CHR ''!''"

primrec Reason_to_string :: "Reason \<Rightarrow> string" where
    "Reason_to_string Rsn_Administrative = ''Administrative''"
  | "Reason_to_string Rsn_CapacityUndefined = ''Capacity undefined''"
  | "Reason_to_string Rsn_DuplicateIdentifier = ''Duplicate identifier''"
  | "Reason_to_string Rsn_SizeReductionDueToSwpRestatement = ''Size reduction due to swp restatement''"
  | "Reason_to_string Rsn_Halted = ''Halted''"
  | "Reason_to_string Rsn_IncorrectDataCenter = ''Incorrect data center''"
  | "Reason_to_string Rsn_TooLateToCancel = ''Too late to cancel''"
  | "Reason_to_string Rsn_OrderRateThresholdExceeded = ''Order rate threshold exceeded''"
  | "Reason_to_string Rsn_OrderWouldLockOrCrossNbbo = ''Order would lock or cross nbbo''"
  | "Reason_to_string Rsn_LiquidityAvailableExceedsOrderSize = ''Liquidity available exceeds order size''"
  | "Reason_to_string Rsn_RanOutOfLiquidityToExecuteAgainst = ''Ran out of liquidity to execute against''"
  | "Reason_to_string Rsn_ClordidDoesntMatchAKnownOrder = ''Clordid doesn't match a known order''"
  | "Reason_to_string Rsn_CantModifyAnOrderThatIsPendingFill = ''Can't modify an order that is pending fill''"
  | "Reason_to_string Rsn_WaitingForFirstTrade = ''Waiting for first trade''"
  | "Reason_to_string Rsn_RoutingUnavailable = ''Routing unavailable''"
  | "Reason_to_string Rsn_ShortSalePriceViolation = ''Short sale price violation''"
  | "Reason_to_string Rsn_FillWouldTradeThroughTheNbbo = ''Fill would trade through the nbbo''"
  | "Reason_to_string Rsn_UserRequested = ''User requested''"
  | "Reason_to_string Rsn_WouldWash = ''Would wash''"
  | "Reason_to_string Rsn_AddLiquidityOnlyOrderWouldRemove = ''Add liquidity only order would remove''"
  | "Reason_to_string Rsn_OrderExpired = ''Order expired''"
  | "Reason_to_string Rsn_SymbolNotSupported = ''Symbol not supported''"
  | "Reason_to_string Rsn_UnforeseenReason = ''Unforeseen reason''"
  | "Reason_to_string Rsn_MarketAccessRiskLimitExceeded = ''Market access risk limit exceeded''"
  | "Reason_to_string Rsn_MaxOpenOrdersCountExceeded = ''Max open orders count exceeded''"
  | "Reason_to_string Rsn_ReserveReload = ''Reserve reload''"
  | "Reason_to_string Rsn_RiskManagementSymbolLevel = ''Risk management symbol level''"
  | "Reason_to_string Rsn_LimitUpDown = ''Limit up down''"
  | "Reason_to_string Rsn_WouldRemoveOnUnslide = ''Would remove on unslide''"
  | "Reason_to_string Rsn_CrossedMarket = ''Crossed market''"
  | "Reason_to_string Rsn_OrderReceivedByBatsDuringReplay = ''Order received by bats during replay''"
  | "Reason_to_string Rsn_ProtocolViolation = ''Protocol Violation''"

section \<open>Packed structs\<close>

subsection \<open>Header and parts\<close>

record boe_MsgHeader =
  bh_start_of_msg :: "byte list"
  bh_length :: u16
  bh_type :: byte
  bh_matching_unit :: byte
  bh_seq_num :: u32

definition boe_MsgHeader_size :: nat where
  "boe_MsgHeader_size = 10"

definition boe_MsgHeader_bytes :: "boe_MsgHeader \<Rightarrow> byte list" where
  "boe_MsgHeader_bytes x =
     bh_start_of_msg x @
     le_bytes 2 (bh_length x) @
     byte1 (bh_type x) @
     byte1 (bh_matching_unit x) @
     le_bytes 4 (bh_seq_num x)"

definition boe_MsgHeader_at :: "byte list \<Rightarrow> boe_MsgHeader" where
  "boe_MsgHeader_at m =
     \<lparr>bh_start_of_msg = arr_at 0 2 m,
      bh_length = u16_at 2 m,
      bh_type = u8_at 4 m,
      bh_matching_unit = u8_at 5 m,
      bh_seq_num = u32_at 6 m\<rparr>"

definition boe_MsgHeader_ok :: "boe_MsgHeader \<Rightarrow> bool" where
  "boe_MsgHeader_ok x \<longleftrightarrow> length (bh_start_of_msg x) = 2"

lemmas boe_MsgHeader_defs [struct_simps] = boe_MsgHeader_size_def boe_MsgHeader_bytes_def boe_MsgHeader_at_def boe_MsgHeader_ok_def

interpretation boe_MsgHeader: packed_struct boe_MsgHeader_size boe_MsgHeader_bytes boe_MsgHeader_at boe_MsgHeader_ok
  by unfold_locales (auto simp: boe_MsgHeader_defs struct_proof)


record boe_UnitSequence =
  us_number :: byte
  us_seq_num :: u32

definition boe_UnitSequence_size :: nat where
  "boe_UnitSequence_size = 5"

definition boe_UnitSequence_bytes :: "boe_UnitSequence \<Rightarrow> byte list" where
  "boe_UnitSequence_bytes x =
     byte1 (us_number x) @
     le_bytes 4 (us_seq_num x)"

definition boe_UnitSequence_at :: "byte list \<Rightarrow> boe_UnitSequence" where
  "boe_UnitSequence_at m =
     \<lparr>us_number = u8_at 0 m,
      us_seq_num = u32_at 1 m\<rparr>"

definition boe_UnitSequence_ok :: "boe_UnitSequence \<Rightarrow> bool" where
  "boe_UnitSequence_ok x \<longleftrightarrow> True"

lemmas boe_UnitSequence_defs [struct_simps] = boe_UnitSequence_size_def boe_UnitSequence_bytes_def boe_UnitSequence_at_def boe_UnitSequence_ok_def

interpretation boe_UnitSequence: packed_struct boe_UnitSequence_size boe_UnitSequence_bytes boe_UnitSequence_at boe_UnitSequence_ok
  by unfold_locales (auto simp: boe_UnitSequence_defs struct_proof)

subsection \<open>Session-level messages\<close>

record boe_LoginRequest =
  blr_start_of_msg :: "byte list"
  blr_length :: u16
  blr_type :: byte
  blr_matching_unit :: byte
  blr_seq_num :: u32
  blr_session_sub_id :: "byte list"
  blr_username :: "byte list"
  blr_password :: "byte list"
  blr_number_of_param_groups :: byte
  blr_replay_length :: u16
  blr_replay_type :: byte
  blr_replay_no_unspecified_unit_replay :: byte
  blr_replay_number_of_units :: byte
  blr_order_ack_length :: u16
  blr_order_ack_type :: byte
  blr_order_ack_msg_type :: byte
  blr_order_ack_num_bitfields :: byte
  blr_order_ack_bitfield :: "byte list"
  blr_order_modified_length :: u16
  blr_order_modified_type :: byte
  blr_order_modified_msg_type :: byte
  blr_order_modified_num_bitfields :: byte
  blr_order_modified_bitfield :: "byte list"
  blr_order_restated_length :: u16
  blr_order_restated_type :: byte
  blr_order_restated_msg_type :: byte
  blr_order_restated_num_bitfields :: byte
  blr_order_restated_bitfield :: "byte list"
  blr_order_canceled_length :: u16
  blr_order_canceled_type :: byte
  blr_order_canceled_msg_type :: byte
  blr_order_canceled_num_bitfields :: byte
  blr_order_canceled_bitfield :: "byte list"

definition boe_LoginRequest_size :: nat where
  "boe_LoginRequest_size = 74"

definition boe_LoginRequest_bytes :: "boe_LoginRequest \<Rightarrow> byte list" where
  "boe_LoginRequest_bytes x =
     blr_start_of_msg x @
     le_bytes 2 (blr_length x) @
     byte1 (blr_type x) @
     byte1 (blr_matching_unit x) @
     le_bytes 4 (blr_seq_num x) @
     blr_session_sub_id x @
     blr_username x @
     blr_password x @
     byte1 (blr_number_of_param_groups x) @
     le_bytes 2 (blr_replay_length x) @
     byte1 (blr_replay_type x) @
     byte1 (blr_replay_no_unspecified_unit_replay x) @
     byte1 (blr_replay_number_of_units x) @
     le_bytes 2 (blr_order_ack_length x) @
     byte1 (blr_order_ack_type x) @
     byte1 (blr_order_ack_msg_type x) @
     byte1 (blr_order_ack_num_bitfields x) @
     blr_order_ack_bitfield x @
     le_bytes 2 (blr_order_modified_length x) @
     byte1 (blr_order_modified_type x) @
     byte1 (blr_order_modified_msg_type x) @
     byte1 (blr_order_modified_num_bitfields x) @
     blr_order_modified_bitfield x @
     le_bytes 2 (blr_order_restated_length x) @
     byte1 (blr_order_restated_type x) @
     byte1 (blr_order_restated_msg_type x) @
     byte1 (blr_order_restated_num_bitfields x) @
     blr_order_restated_bitfield x @
     le_bytes 2 (blr_order_canceled_length x) @
     byte1 (blr_order_canceled_type x) @
     byte1 (blr_order_canceled_msg_type x) @
     byte1 (blr_order_canceled_num_bitfields x) @
     blr_order_canceled_bitfield x"

definition boe_LoginRequest_at :: "byte list \<Rightarrow> boe_LoginRequest" where
  "boe_LoginRequest_at m =
     \<lparr>blr_start_of_msg = arr_at 0 2 m,
      blr_length = u16_at 2 m,
      blr_type = u8_at 4 m,
      blr_matching_unit = u8_at 5 m,
      blr_seq_num = u32_at 6 m,
      blr_session_sub_id = arr_at 10 4 m,
      blr_username = arr_at 14 4 m,
      blr_password = arr_at 18 10 m,
      blr_number_of_param_groups = u8_at 28 m,
      blr_replay_length = u16_at 29 m,
      blr_replay_type = u8_at 31 m,
      blr_replay_no_unspecified_unit_replay = u8_at 32 m,
      blr_replay_number_of_units = u8_at 33 m,
      blr_order_ack_length = u16_at 34 m,
      blr_order_ack_type = u8_at 36 m,
      blr_order_ack_msg_type = u8_at 37 m,
      blr_order_ack_num_bitfields = u8_at 38 m,
      blr_order_ack_bitfield = arr_at 39 5 m,
      blr_order_modified_length = u16_at 44 m,
      blr_order_modified_type = u8_at 46 m,
      blr_order_modified_msg_type = u8_at 47 m,
      blr_order_modified_num_bitfields = u8_at 48 m,
      blr_order_modified_bitfield = arr_at 49 5 m,
      blr_order_restated_length = u16_at 54 m,
      blr_order_restated_type = u8_at 56 m,
      blr_order_restated_msg_type = u8_at 57 m,
      blr_order_restated_num_bitfields = u8_at 58 m,
      blr_order_restated_bitfield = arr_at 59 5 m,
      blr_order_canceled_length = u16_at 64 m,
      blr_order_canceled_type = u8_at 66 m,
      blr_order_canceled_msg_type = u8_at 67 m,
      blr_order_canceled_num_bitfields = u8_at 68 m,
      blr_order_canceled_bitfield = arr_at 69 5 m\<rparr>"

definition boe_LoginRequest_ok :: "boe_LoginRequest \<Rightarrow> bool" where
  "boe_LoginRequest_ok x \<longleftrightarrow> length (blr_start_of_msg x) = 2 \<and> length (blr_session_sub_id x) = 4 \<and> length (blr_username x) = 4 \<and> length (blr_password x) = 10 \<and> length (blr_order_ack_bitfield x) = 5 \<and> length (blr_order_modified_bitfield x) = 5 \<and> length (blr_order_restated_bitfield x) = 5 \<and> length (blr_order_canceled_bitfield x) = 5"

lemmas boe_LoginRequest_defs [struct_simps] = boe_LoginRequest_size_def boe_LoginRequest_bytes_def boe_LoginRequest_at_def boe_LoginRequest_ok_def

interpretation boe_LoginRequest: packed_struct boe_LoginRequest_size boe_LoginRequest_bytes boe_LoginRequest_at boe_LoginRequest_ok
  by unfold_locales (auto simp: boe_LoginRequest_defs struct_proof)


record boe_LoginResponse =
  blp_start_of_msg :: "byte list"
  blp_length :: u16
  blp_type :: byte
  blp_matching_unit :: byte
  blp_seq_num :: u32
  blp_status :: byte
  blp_text :: "byte list"
  blp_no_unspecified_unit_replay :: byte
  blp_last_received_seq_num :: u32
  blp_number_of_units :: byte

definition boe_LoginResponse_size :: nat where
  "boe_LoginResponse_size = 77"

definition boe_LoginResponse_bytes :: "boe_LoginResponse \<Rightarrow> byte list" where
  "boe_LoginResponse_bytes x =
     blp_start_of_msg x @
     le_bytes 2 (blp_length x) @
     byte1 (blp_type x) @
     byte1 (blp_matching_unit x) @
     le_bytes 4 (blp_seq_num x) @
     byte1 (blp_status x) @
     blp_text x @
     byte1 (blp_no_unspecified_unit_replay x) @
     le_bytes 4 (blp_last_received_seq_num x) @
     byte1 (blp_number_of_units x)"

definition boe_LoginResponse_at :: "byte list \<Rightarrow> boe_LoginResponse" where
  "boe_LoginResponse_at m =
     \<lparr>blp_start_of_msg = arr_at 0 2 m,
      blp_length = u16_at 2 m,
      blp_type = u8_at 4 m,
      blp_matching_unit = u8_at 5 m,
      blp_seq_num = u32_at 6 m,
      blp_status = u8_at 10 m,
      blp_text = arr_at 11 60 m,
      blp_no_unspecified_unit_replay = u8_at 71 m,
      blp_last_received_seq_num = u32_at 72 m,
      blp_number_of_units = u8_at 76 m\<rparr>"

definition boe_LoginResponse_ok :: "boe_LoginResponse \<Rightarrow> bool" where
  "boe_LoginResponse_ok x \<longleftrightarrow> length (blp_start_of_msg x) = 2 \<and> length (blp_text x) = 60"

lemmas boe_LoginResponse_defs [struct_simps] = boe_LoginResponse_size_def boe_LoginResponse_bytes_def boe_LoginResponse_at_def boe_LoginResponse_ok_def

interpretation boe_LoginResponse: packed_struct boe_LoginResponse_size boe_LoginResponse_bytes boe_LoginResponse_at boe_LoginResponse_ok
  by unfold_locales (auto simp: boe_LoginResponse_defs struct_proof)

definition new_boe_LoginResponse :: "byte list \<Rightarrow> boe_LoginResponse" where
  "new_boe_LoginResponse g = (boe_LoginResponse_at g)\<lparr>blp_start_of_msg := [0xBA, 0xBA], blp_length := 77 - 2, blp_type := MsgType_code MT_LoginResponse, blp_matching_unit := 0, blp_seq_num := 0\<rparr>"

record boe_ServerHeartbeat =
  bsh_start_of_msg :: "byte list"
  bsh_length :: u16
  bsh_type :: byte
  bsh_matching_unit :: byte
  bsh_seq_num :: u32

definition boe_ServerHeartbeat_size :: nat where
  "boe_ServerHeartbeat_size = 10"

definition boe_ServerHeartbeat_bytes :: "boe_ServerHeartbeat \<Rightarrow> byte list" where
  "boe_ServerHeartbeat_bytes x =
     bsh_start_of_msg x @
     le_bytes 2 (bsh_length x) @
     byte1 (bsh_type x) @
     byte1 (bsh_matching_unit x) @
     le_bytes 4 (bsh_seq_num x)"

definition boe_ServerHeartbeat_at :: "byte list \<Rightarrow> boe_ServerHeartbeat" where
  "boe_ServerHeartbeat_at m =
     \<lparr>bsh_start_of_msg = arr_at 0 2 m,
      bsh_length = u16_at 2 m,
      bsh_type = u8_at 4 m,
      bsh_matching_unit = u8_at 5 m,
      bsh_seq_num = u32_at 6 m\<rparr>"

definition boe_ServerHeartbeat_ok :: "boe_ServerHeartbeat \<Rightarrow> bool" where
  "boe_ServerHeartbeat_ok x \<longleftrightarrow> length (bsh_start_of_msg x) = 2"

lemmas boe_ServerHeartbeat_defs [struct_simps] = boe_ServerHeartbeat_size_def boe_ServerHeartbeat_bytes_def boe_ServerHeartbeat_at_def boe_ServerHeartbeat_ok_def

interpretation boe_ServerHeartbeat: packed_struct boe_ServerHeartbeat_size boe_ServerHeartbeat_bytes boe_ServerHeartbeat_at boe_ServerHeartbeat_ok
  by unfold_locales (auto simp: boe_ServerHeartbeat_defs struct_proof)

definition new_boe_ServerHeartbeat :: "byte list \<Rightarrow> boe_ServerHeartbeat" where
  "new_boe_ServerHeartbeat g = (boe_ServerHeartbeat_at g)\<lparr>bsh_start_of_msg := [0xBA, 0xBA], bsh_length := 10 - 2, bsh_type := MsgType_code MT_ServerHeartbeat, bsh_matching_unit := 0, bsh_seq_num := 0\<rparr>"

subsection \<open>Member to exchange\<close>

record boe_NewOrder =
  no_start_of_msg :: "byte list"
  no_length :: u16
  no_type :: byte
  no_matching_unit :: byte
  no_seq_num :: u32
  no_token :: "byte list"
  no_side :: byte
  no_qty :: u32
  no_num_bitfields :: byte
  no_bitfield :: "byte list"
  no_clearing_firm :: "byte list"
  no_clearing_acct :: "byte list"
  no_price :: u64
  no_exec_inst :: byte
  no_order_type :: byte
  no_time_in_force :: byte
  no_min_qty :: u32
  no_max_floor :: u32
  no_symbol :: "byte list"
  no_capacity :: byte
  no_routing_inst :: "byte list"
  no_acct :: "byte list"
  no_display_indicator :: byte
  no_max_remove_pct :: byte
  no_discretion_amt :: u16
  no_peg_difference :: u64
  no_attributed_quote :: byte
  no_ext_exec_inst :: byte

definition boe_NewOrder_size :: nat where
  "boe_NewOrder_size = 112"

definition boe_NewOrder_bytes :: "boe_NewOrder \<Rightarrow> byte list" where
  "boe_NewOrder_bytes x =
     no_start_of_msg x @
     le_bytes 2 (no_length x) @
     byte1 (no_type x) @
     byte1 (no_matching_unit x) @
     le_bytes 4 (no_seq_num x) @
     no_token x @
     byte1 (no_side x) @
     le_bytes 4 (no_qty x) @
     byte1 (no_num_bitfields x) @
     no_bitfield x @
     no_clearing_firm x @
     no_clearing_acct x @
     le_bytes 8 (no_price x) @
     byte1 (no_exec_inst x) @
     byte1 (no_order_type x) @
     byte1 (no_time_in_force x) @
     le_bytes 4 (no_min_qty x) @
     le_bytes 4 (no_max_floor x) @
     no_symbol x @
     byte1 (no_capacity x) @
     no_routing_inst x @
     no_acct x @
     byte1 (no_display_indicator x) @
     byte1 (no_max_remove_pct x) @
     le_bytes 2 (no_discretion_amt x) @
     le_bytes 8 (no_peg_difference x) @
     byte1 (no_attributed_quote x) @
     byte1 (no_ext_exec_inst x)"

definition boe_NewOrder_at :: "byte list \<Rightarrow> boe_NewOrder" where
  "boe_NewOrder_at m =
     \<lparr>no_start_of_msg = arr_at 0 2 m,
      no_length = u16_at 2 m,
      no_type = u8_at 4 m,
      no_matching_unit = u8_at 5 m,
      no_seq_num = u32_at 6 m,
      no_token = arr_at 10 20 m,
      no_side = u8_at 30 m,
      no_qty = u32_at 31 m,
      no_num_bitfields = u8_at 35 m,
      no_bitfield = arr_at 36 6 m,
      no_clearing_firm = arr_at 42 4 m,
      no_clearing_acct = arr_at 46 4 m,
      no_price = u64_at 50 m,
      no_exec_inst = u8_at 58 m,
      no_order_type = u8_at 59 m,
      no_time_in_force = u8_at 60 m,
      no_min_qty = u32_at 61 m,
      no_max_floor = u32_at 65 m,
      no_symbol = arr_at 69 8 m,
      no_capacity = u8_at 77 m,
      no_routing_inst = arr_at 78 4 m,
      no_acct = arr_at 82 16 m,
      no_display_indicator = u8_at 98 m,
      no_max_remove_pct = u8_at 99 m,
      no_discretion_amt = u16_at 100 m,
      no_peg_difference = u64_at 102 m,
      no_attributed_quote = u8_at 110 m,
      no_ext_exec_inst = u8_at 111 m\<rparr>"

definition boe_NewOrder_ok :: "boe_NewOrder \<Rightarrow> bool" where
  "boe_NewOrder_ok x \<longleftrightarrow> length (no_start_of_msg x) = 2 \<and> length (no_token x) = 20 \<and> length (no_bitfield x) = 6 \<and> length (no_clearing_firm x) = 4 \<and> length (no_clearing_acct x) = 4 \<and> length (no_symbol x) = 8 \<and> length (no_routing_inst x) = 4 \<and> length (no_acct x) = 16"

lemmas boe_NewOrder_defs [struct_simps] = boe_NewOrder_size_def boe_NewOrder_bytes_def boe_NewOrder_at_def boe_NewOrder_ok_def

interpretation boe_NewOrder: packed_struct boe_NewOrder_size boe_NewOrder_bytes boe_NewOrder_at boe_NewOrder_ok
  by unfold_locales (auto simp: boe_NewOrder_defs struct_proof)


record boe_CancelOrder =
  bco_start_of_msg :: "byte list"
  bco_length :: u16
  bco_type :: byte
  bco_matching_unit :: byte
  bco_seq_num :: u32
  bco_orig_token :: "byte list"
  bco_num_bitfields :: byte
  bco_bitfield :: "byte list"
  bco_clearing_firm :: "byte list"

definition boe_CancelOrder_size :: nat where
  "boe_CancelOrder_size = 36"

definition boe_CancelOrder_bytes :: "boe_CancelOrder \<Rightarrow> byte list" where
  "boe_CancelOrder_bytes x =
     bco_start_of_msg x @
     le_bytes 2 (bco_length x) @
     byte1 (bco_type x) @
     byte1 (bco_matching_unit x) @
     le_bytes 4 (bco_seq_num x) @
     bco_orig_token x @
     byte1 (bco_num_bitfields x) @
     bco_bitfield x @
     bco_clearing_firm x"

definition boe_CancelOrder_at :: "byte list \<Rightarrow> boe_CancelOrder" where
  "boe_CancelOrder_at m =
     \<lparr>bco_start_of_msg = arr_at 0 2 m,
      bco_length = u16_at 2 m,
      bco_type = u8_at 4 m,
      bco_matching_unit = u8_at 5 m,
      bco_seq_num = u32_at 6 m,
      bco_orig_token = arr_at 10 20 m,
      bco_num_bitfields = u8_at 30 m,
      bco_bitfield = arr_at 31 1 m,
      bco_clearing_firm = arr_at 32 4 m\<rparr>"

definition boe_CancelOrder_ok :: "boe_CancelOrder \<Rightarrow> bool" where
  "boe_CancelOrder_ok x \<longleftrightarrow> length (bco_start_of_msg x) = 2 \<and> length (bco_orig_token x) = 20 \<and> length (bco_bitfield x) = 1 \<and> length (bco_clearing_firm x) = 4"

lemmas boe_CancelOrder_defs [struct_simps] = boe_CancelOrder_size_def boe_CancelOrder_bytes_def boe_CancelOrder_at_def boe_CancelOrder_ok_def

interpretation boe_CancelOrder: packed_struct boe_CancelOrder_size boe_CancelOrder_bytes boe_CancelOrder_at boe_CancelOrder_ok
  by unfold_locales (auto simp: boe_CancelOrder_defs struct_proof)


record boe_ModifyOrder =
  bmo_start_of_msg :: "byte list"
  bmo_length :: u16
  bmo_type :: byte
  bmo_matching_unit :: byte
  bmo_seq_num :: u32
  bmo_token :: "byte list"
  bmo_orig_token :: "byte list"
  bmo_num_bitfields :: byte
  bmo_bitfield :: "byte list"
  bmo_clearing_firm :: "byte list"
  bmo_qty :: u32
  bmo_price :: u64
  bmo_order_type :: byte
  bmo_cancel_orig_on_reject :: byte
  bmo_exec_inst :: byte
  bmo_side :: byte

definition boe_ModifyOrder_size :: nat where
  "boe_ModifyOrder_size = 73"

definition boe_ModifyOrder_bytes :: "boe_ModifyOrder \<Rightarrow> byte list" where
  "boe_ModifyOrder_bytes x =
     bmo_start_of_msg x @
     le_bytes 2 (bmo_length x) @
     byte1 (bmo_type x) @
     byte1 (bmo_matching_unit x) @
     le_bytes 4 (bmo_seq_num x) @
     bmo_token x @
     bmo_orig_token x @
     byte1 (bmo_num_bitfields x) @
     bmo_bitfield x @
     bmo_clearing_firm x @
     le_bytes 4 (bmo_qty x) @
     le_bytes 8 (bmo_price x) @
     byte1 (bmo_order_type x) @
     byte1 (bmo_cancel_orig_on_reject x) @
     byte1 (bmo_exec_inst x) @
     byte1 (bmo_side x)"

definition boe_ModifyOrder_at :: "byte list \<Rightarrow> boe_ModifyOrder" where
  "boe_ModifyOrder_at m =
     \<lparr>bmo_start_of_msg = arr_at 0 2 m,
      bmo_length = u16_at 2 m,
      bmo_type = u8_at 4 m,
      bmo_matching_unit = u8_at 5 m,
      bmo_seq_num = u32_at 6 m,
      bmo_token = arr_at 10 20 m,
      bmo_orig_token = arr_at 30 20 m,
      bmo_num_bitfields = u8_at 50 m,
      bmo_bitfield = arr_at 51 2 m,
      bmo_clearing_firm = arr_at 53 4 m,
      bmo_qty = u32_at 57 m,
      bmo_price = u64_at 61 m,
      bmo_order_type = u8_at 69 m,
      bmo_cancel_orig_on_reject = u8_at 70 m,
      bmo_exec_inst = u8_at 71 m,
      bmo_side = u8_at 72 m\<rparr>"

definition boe_ModifyOrder_ok :: "boe_ModifyOrder \<Rightarrow> bool" where
  "boe_ModifyOrder_ok x \<longleftrightarrow> length (bmo_start_of_msg x) = 2 \<and> length (bmo_token x) = 20 \<and> length (bmo_orig_token x) = 20 \<and> length (bmo_bitfield x) = 2 \<and> length (bmo_clearing_firm x) = 4"

lemmas boe_ModifyOrder_defs [struct_simps] = boe_ModifyOrder_size_def boe_ModifyOrder_bytes_def boe_ModifyOrder_at_def boe_ModifyOrder_ok_def

interpretation boe_ModifyOrder: packed_struct boe_ModifyOrder_size boe_ModifyOrder_bytes boe_ModifyOrder_at boe_ModifyOrder_ok
  by unfold_locales (auto simp: boe_ModifyOrder_defs struct_proof)


subsection \<open>Exchange to member\<close>

record boe_OrderAck =
  ack_start_of_msg :: "byte list"
  ack_length :: u16
  ack_type :: byte
  ack_matching_unit :: byte
  ack_seq_num :: u32
  ack_transaction_time :: u64
  ack_token :: "byte list"
  ack_order_id :: u64
  ack_reserved :: byte
  ack_num_bitfields :: byte
  ack_bitfield :: "byte list"
  ack_leaves_qty :: u32

definition boe_OrderAck_size :: nat where
  "boe_OrderAck_size = 57"

definition boe_OrderAck_bytes :: "boe_OrderAck \<Rightarrow> byte list" where
  "boe_OrderAck_bytes x =
     ack_start_of_msg x @
     le_bytes 2 (ack_length x) @
     byte1 (ack_type x) @
     byte1 (ack_matching_unit x) @
     le_bytes 4 (ack_seq_num x) @
     le_bytes 8 (ack_transaction_time x) @
     ack_token x @
     le_bytes 8 (ack_order_id x) @
     byte1 (ack_reserved x) @
     byte1 (ack_num_bitfields x) @
     ack_bitfield x @
     le_bytes 4 (ack_leaves_qty x)"

definition boe_OrderAck_at :: "byte list \<Rightarrow> boe_OrderAck" where
  "boe_OrderAck_at m =
     \<lparr>ack_start_of_msg = arr_at 0 2 m,
      ack_length = u16_at 2 m,
      ack_type = u8_at 4 m,
      ack_matching_unit = u8_at 5 m,
      ack_seq_num = u32_at 6 m,
      ack_transaction_time = u64_at 10 m,
      ack_token = arr_at 18 20 m,
      ack_order_id = u64_at 38 m,
      ack_reserved = u8_at 46 m,
      ack_num_bitfields = u8_at 47 m,
      ack_bitfield = arr_at 48 5 m,
      ack_leaves_qty = u32_at 53 m\<rparr>"

definition boe_OrderAck_ok :: "boe_OrderAck \<Rightarrow> bool" where
  "boe_OrderAck_ok x \<longleftrightarrow> length (ack_start_of_msg x) = 2 \<and> length (ack_token x) = 20 \<and> length (ack_bitfield x) = 5"

lemmas boe_OrderAck_defs [struct_simps] = boe_OrderAck_size_def boe_OrderAck_bytes_def boe_OrderAck_at_def boe_OrderAck_ok_def

interpretation boe_OrderAck: packed_struct boe_OrderAck_size boe_OrderAck_bytes boe_OrderAck_at boe_OrderAck_ok
  by unfold_locales (auto simp: boe_OrderAck_defs struct_proof)

definition new_boe_OrderAck :: "byte list \<Rightarrow> boe_OrderAck" where
  "new_boe_OrderAck g = (boe_OrderAck_at g)\<lparr>ack_start_of_msg := [0xBA, 0xBA], ack_length := 57 - 2, ack_type := MsgType_code MT_OrderAck, ack_matching_unit := 3\<rparr>"

record boe_OrderRejected =
  boj_start_of_msg :: "byte list"
  boj_length :: u16
  boj_type :: byte
  boj_matching_unit :: byte
  boj_seq_num :: u32
  boj_transaction_time :: u64
  boj_token :: "byte list"
  boj_reason :: byte
  boj_text :: "byte list"
  boj_reserved :: byte
  boj_num_bitfields :: byte

definition boe_OrderRejected_size :: nat where
  "boe_OrderRejected_size = 101"

definition boe_OrderRejected_bytes :: "boe_OrderRejected \<Rightarrow> byte list" where
  "boe_OrderRejected_bytes x =
     boj_start_of_msg x @
     le_bytes 2 (boj_length x) @
     byte1 (boj_type x) @
     byte1 (boj_matching_unit x) @
     le_bytes 4 (boj_seq_num x) @
     le_bytes 8 (boj_transaction_time x) @
     boj_token x @
     byte1 (boj_reason x) @
     boj_text x @
     byte1 (boj_reserved x) @
     byte1 (boj_num_bitfields x)"

definition boe_OrderRejected_at :: "byte list \<Rightarrow> boe_OrderRejected" where
  "boe_OrderRejected_at m =
     \<lparr>boj_start_of_msg = arr_at 0 2 m,
      boj_length = u16_at 2 m,
      boj_type = u8_at 4 m,
      boj_matching_unit = u8_at 5 m,
      boj_seq_num = u32_at 6 m,
      boj_transaction_time = u64_at 10 m,
      boj_token = arr_at 18 20 m,
      boj_reason = u8_at 38 m,
      boj_text = arr_at 39 60 m,
      boj_reserved = u8_at 99 m,
      boj_num_bitfields = u8_at 100 m\<rparr>"

definition boe_OrderRejected_ok :: "boe_OrderRejected \<Rightarrow> bool" where
  "boe_OrderRejected_ok x \<longleftrightarrow> length (boj_start_of_msg x) = 2 \<and> length (boj_token x) = 20 \<and> length (boj_text x) = 60"

lemmas boe_OrderRejected_defs [struct_simps] = boe_OrderRejected_size_def boe_OrderRejected_bytes_def boe_OrderRejected_at_def boe_OrderRejected_ok_def

interpretation boe_OrderRejected: packed_struct boe_OrderRejected_size boe_OrderRejected_bytes boe_OrderRejected_at boe_OrderRejected_ok
  by unfold_locales (auto simp: boe_OrderRejected_defs struct_proof)

definition new_boe_OrderRejected :: "byte list \<Rightarrow> boe_OrderRejected" where
  "new_boe_OrderRejected g = (boe_OrderRejected_at g)\<lparr>boj_start_of_msg := [0xBA, 0xBA], boj_length := 101 - 2, boj_type := MsgType_code MT_OrderRejected, boj_matching_unit := 0, boj_seq_num := 0, boj_num_bitfields := 0\<rparr>"

record boe_OrderModified =
  bom_start_of_msg :: "byte list"
  bom_length :: u16
  bom_type :: byte
  bom_matching_unit :: byte
  bom_seq_num :: u32
  bom_transaction_time :: u64
  bom_token :: "byte list"
  bom_order_id :: u64
  bom_reserved :: byte
  bom_num_bitfields :: byte
  bom_bitfield :: "byte list"
  bom_price :: u64
  bom_qty :: u32
  bom_leaves_qty :: u32

definition boe_OrderModified_size :: nat where
  "boe_OrderModified_size = 69"

definition boe_OrderModified_bytes :: "boe_OrderModified \<Rightarrow> byte list" where
  "boe_OrderModified_bytes x =
     bom_start_of_msg x @
     le_bytes 2 (bom_length x) @
     byte1 (bom_type x) @
     byte1 (bom_matching_unit x) @
     le_bytes 4 (bom_seq_num x) @
     le_bytes 8 (bom_transaction_time x) @
     bom_token x @
     le_bytes 8 (bom_order_id x) @
     byte1 (bom_reserved x) @
     byte1 (bom_num_bitfields x) @
     bom_bitfield x @
     le_bytes 8 (bom_price x) @
     le_bytes 4 (bom_qty x) @
     le_bytes 4 (bom_leaves_qty x)"

definition boe_OrderModified_at :: "byte list \<Rightarrow> boe_OrderModified" where
  "boe_OrderModified_at m =
     \<lparr>bom_start_of_msg = arr_at 0 2 m,
      bom_length = u16_at 2 m,
      bom_type = u8_at 4 m,
      bom_matching_unit = u8_at 5 m,
      bom_seq_num = u32_at 6 m,
      bom_transaction_time = u64_at 10 m,
      bom_token = arr_at 18 20 m,
      bom_order_id = u64_at 38 m,
      bom_reserved = u8_at 46 m,
      bom_num_bitfields = u8_at 47 m,
      bom_bitfield = arr_at 48 5 m,
      bom_price = u64_at 53 m,
      bom_qty = u32_at 61 m,
      bom_leaves_qty = u32_at 65 m\<rparr>"

definition boe_OrderModified_ok :: "boe_OrderModified \<Rightarrow> bool" where
  "boe_OrderModified_ok x \<longleftrightarrow> length (bom_start_of_msg x) = 2 \<and> length (bom_token x) = 20 \<and> length (bom_bitfield x) = 5"

lemmas boe_OrderModified_defs [struct_simps] = boe_OrderModified_size_def boe_OrderModified_bytes_def boe_OrderModified_at_def boe_OrderModified_ok_def

interpretation boe_OrderModified: packed_struct boe_OrderModified_size boe_OrderModified_bytes boe_OrderModified_at boe_OrderModified_ok
  by unfold_locales (auto simp: boe_OrderModified_defs struct_proof)

definition new_boe_OrderModified :: "byte list \<Rightarrow> boe_OrderModified" where
  "new_boe_OrderModified g = (boe_OrderModified_at g)\<lparr>bom_start_of_msg := [0xBA, 0xBA], bom_length := 69 - 2, bom_type := MsgType_code MT_OrderModified, bom_matching_unit := 3, bom_num_bitfields := 5\<rparr>"

record boe_ModifyRejected =
  mr_start_of_msg :: "byte list"
  mr_length :: u16
  mr_type :: byte
  mr_matching_unit :: byte
  mr_seq_num :: u32
  mr_transaction_time :: u64
  mr_token :: "byte list"
  mr_reason :: byte
  mr_text :: "byte list"
  mr_reserved :: byte
  mr_num_bitfields :: byte

definition boe_ModifyRejected_size :: nat where
  "boe_ModifyRejected_size = 101"

definition boe_ModifyRejected_bytes :: "boe_ModifyRejected \<Rightarrow> byte list" where
  "boe_ModifyRejected_bytes x =
     mr_start_of_msg x @
     le_bytes 2 (mr_length x) @
     byte1 (mr_type x) @
     byte1 (mr_matching_unit x) @
     le_bytes 4 (mr_seq_num x) @
     le_bytes 8 (mr_transaction_time x) @
     mr_token x @
     byte1 (mr_reason x) @
     mr_text x @
     byte1 (mr_reserved x) @
     byte1 (mr_num_bitfields x)"

definition boe_ModifyRejected_at :: "byte list \<Rightarrow> boe_ModifyRejected" where
  "boe_ModifyRejected_at m =
     \<lparr>mr_start_of_msg = arr_at 0 2 m,
      mr_length = u16_at 2 m,
      mr_type = u8_at 4 m,
      mr_matching_unit = u8_at 5 m,
      mr_seq_num = u32_at 6 m,
      mr_transaction_time = u64_at 10 m,
      mr_token = arr_at 18 20 m,
      mr_reason = u8_at 38 m,
      mr_text = arr_at 39 60 m,
      mr_reserved = u8_at 99 m,
      mr_num_bitfields = u8_at 100 m\<rparr>"

definition boe_ModifyRejected_ok :: "boe_ModifyRejected \<Rightarrow> bool" where
  "boe_ModifyRejected_ok x \<longleftrightarrow> length (mr_start_of_msg x) = 2 \<and> length (mr_token x) = 20 \<and> length (mr_text x) = 60"

lemmas boe_ModifyRejected_defs [struct_simps] = boe_ModifyRejected_size_def boe_ModifyRejected_bytes_def boe_ModifyRejected_at_def boe_ModifyRejected_ok_def

interpretation boe_ModifyRejected: packed_struct boe_ModifyRejected_size boe_ModifyRejected_bytes boe_ModifyRejected_at boe_ModifyRejected_ok
  by unfold_locales (auto simp: boe_ModifyRejected_defs struct_proof)

definition new_boe_ModifyRejected :: "byte list \<Rightarrow> boe_ModifyRejected" where
  "new_boe_ModifyRejected g = (boe_ModifyRejected_at g)\<lparr>mr_start_of_msg := [0xBA, 0xBA], mr_length := 101 - 2, mr_type := MsgType_code MT_ModifyRejected, mr_matching_unit := 3, mr_seq_num := 0\<rparr>"

record boe_OrderCanceled =
  boc_start_of_msg :: "byte list"
  boc_length :: u16
  boc_type :: byte
  boc_matching_unit :: byte
  boc_seq_num :: u32
  boc_transaction_time :: u64
  boc_token :: "byte list"
  boc_reason :: byte
  boc_reserved :: byte
  boc_num_bitfields :: byte
  boc_bitfield :: "byte list"
  boc_leaves_qty :: u32

definition boe_OrderCanceled_size :: nat where
  "boe_OrderCanceled_size = 50"

definition boe_OrderCanceled_bytes :: "boe_OrderCanceled \<Rightarrow> byte list" where
  "boe_OrderCanceled_bytes x =
     boc_start_of_msg x @
     le_bytes 2 (boc_length x) @
     byte1 (boc_type x) @
     byte1 (boc_matching_unit x) @
     le_bytes 4 (boc_seq_num x) @
     le_bytes 8 (boc_transaction_time x) @
     boc_token x @
     byte1 (boc_reason x) @
     byte1 (boc_reserved x) @
     byte1 (boc_num_bitfields x) @
     boc_bitfield x @
     le_bytes 4 (boc_leaves_qty x)"

definition boe_OrderCanceled_at :: "byte list \<Rightarrow> boe_OrderCanceled" where
  "boe_OrderCanceled_at m =
     \<lparr>boc_start_of_msg = arr_at 0 2 m,
      boc_length = u16_at 2 m,
      boc_type = u8_at 4 m,
      boc_matching_unit = u8_at 5 m,
      boc_seq_num = u32_at 6 m,
      boc_transaction_time = u64_at 10 m,
      boc_token = arr_at 18 20 m,
      boc_reason = u8_at 38 m,
      boc_reserved = u8_at 39 m,
      boc_num_bitfields = u8_at 40 m,
      boc_bitfield = arr_at 41 5 m,
      boc_leaves_qty = u32_at 46 m\<rparr>"

definition boe_OrderCanceled_ok :: "boe_OrderCanceled \<Rightarrow> bool" where
  "boe_OrderCanceled_ok x \<longleftrightarrow> length (boc_start_of_msg x) = 2 \<and> length (boc_token x) = 20 \<and> length (boc_bitfield x) = 5"

lemmas boe_OrderCanceled_defs [struct_simps] = boe_OrderCanceled_size_def boe_OrderCanceled_bytes_def boe_OrderCanceled_at_def boe_OrderCanceled_ok_def

interpretation boe_OrderCanceled: packed_struct boe_OrderCanceled_size boe_OrderCanceled_bytes boe_OrderCanceled_at boe_OrderCanceled_ok
  by unfold_locales (auto simp: boe_OrderCanceled_defs struct_proof)

definition new_boe_OrderCanceled :: "byte list \<Rightarrow> boe_OrderCanceled" where
  "new_boe_OrderCanceled g = (boe_OrderCanceled_at g)\<lparr>boc_start_of_msg := [0xBA, 0xBA], boc_length := 50 - 2, boc_type := MsgType_code MT_OrderCanceled, boc_matching_unit := 3, boc_num_bitfields := 5\<rparr>"

record boe_CancelRejected =
  bcr_start_of_msg :: "byte list"
  bcr_length :: u16
  bcr_type :: byte
  bcr_matching_unit :: byte
  bcr_seq_num :: u32
  bcr_transaction_time :: u64
  bcr_token :: "byte list"
  bcr_reason :: byte
  bcr_text :: "byte list"
  bcr_reserved :: byte
  bcr_num_bitfields :: byte

definition boe_CancelRejected_size :: nat where
  "boe_CancelRejected_size = 101"

definition boe_CancelRejected_bytes :: "boe_CancelRejected \<Rightarrow> byte list" where
  "boe_CancelRejected_bytes x =
     bcr_start_of_msg x @
     le_bytes 2 (bcr_length x) @
     byte1 (bcr_type x) @
     byte1 (bcr_matching_unit x) @
     le_bytes 4 (bcr_seq_num x) @
     le_bytes 8 (bcr_transaction_time x) @
     bcr_token x @
     byte1 (bcr_reason x) @
     bcr_text x @
     byte1 (bcr_reserved x) @
     byte1 (bcr_num_bitfields x)"

definition boe_CancelRejected_at :: "byte list \<Rightarrow> boe_CancelRejected" where
  "boe_CancelRejected_at m =
     \<lparr>bcr_start_of_msg = arr_at 0 2 m,
      bcr_length = u16_at 2 m,
      bcr_type = u8_at 4 m,
      bcr_matching_unit = u8_at 5 m,
      bcr_seq_num = u32_at 6 m,
      bcr_transaction_time = u64_at 10 m,
      bcr_token = arr_at 18 20 m,
      bcr_reason = u8_at 38 m,
      bcr_text = arr_at 39 60 m,
      bcr_reserved = u8_at 99 m,
      bcr_num_bitfields = u8_at 100 m\<rparr>"

definition boe_CancelRejected_ok :: "boe_CancelRejected \<Rightarrow> bool" where
  "boe_CancelRejected_ok x \<longleftrightarrow> length (bcr_start_of_msg x) = 2 \<and> length (bcr_token x) = 20 \<and> length (bcr_text x) = 60"

lemmas boe_CancelRejected_defs [struct_simps] = boe_CancelRejected_size_def boe_CancelRejected_bytes_def boe_CancelRejected_at_def boe_CancelRejected_ok_def

interpretation boe_CancelRejected: packed_struct boe_CancelRejected_size boe_CancelRejected_bytes boe_CancelRejected_at boe_CancelRejected_ok
  by unfold_locales (auto simp: boe_CancelRejected_defs struct_proof)

definition new_boe_CancelRejected :: "byte list \<Rightarrow> boe_CancelRejected" where
  "new_boe_CancelRejected g = (boe_CancelRejected_at g)\<lparr>bcr_start_of_msg := [0xBA, 0xBA], bcr_length := 101 - 2, bcr_type := MsgType_code MT_CancelRejected, bcr_matching_unit := 3\<rparr>"

record boe_OrderExecution =
  oe_start_of_msg :: "byte list"
  oe_length :: u16
  oe_type :: byte
  oe_matching_unit :: byte
  oe_seq_num :: u32
  oe_transaction_time :: u64
  oe_token :: "byte list"
  oe_exec_id :: u64
  oe_last_shares :: u32
  oe_last_price :: u64
  oe_leaves_qty :: u32
  oe_base_liquidity_indicator :: byte
  oe_sub_liquidity_indicator :: byte
  oe_contra_broker :: "byte list"
  oe_reserved :: byte
  oe_num_bitfields :: byte

definition boe_OrderExecution_size :: nat where
  "boe_OrderExecution_size = 70"

definition boe_OrderExecution_bytes :: "boe_OrderExecution \<Rightarrow> byte list" where
  "boe_OrderExecution_bytes x =
     oe_start_of_msg x @
     le_bytes 2 (oe_length x) @
     byte1 (oe_type x) @
     byte1 (oe_matching_unit x) @
     le_bytes 4 (oe_seq_num x) @
     le_bytes 8 (oe_transaction_time x) @
     oe_token x @
     le_bytes 8 (oe_exec_id x) @
     le_bytes 4 (oe_last_shares x) @
     le_bytes 8 (oe_last_price x) @
     le_bytes 4 (oe_leaves_qty x) @
     byte1 (oe_base_liquidity_indicator x) @
     byte1 (oe_sub_liquidity_indicator x) @
     oe_contra_broker x @
     byte1 (oe_reserved x) @
     byte1 (oe_num_bitfields x)"

definition boe_OrderExecution_at :: "byte list \<Rightarrow> boe_OrderExecution" where
  "boe_OrderExecution_at m =
     \<lparr>oe_start_of_msg = arr_at 0 2 m,
      oe_length = u16_at 2 m,
      oe_type = u8_at 4 m,
      oe_matching_unit = u8_at 5 m,
      oe_seq_num = u32_at 6 m,
      oe_transaction_time = u64_at 10 m,
      oe_token = arr_at 18 20 m,
      oe_exec_id = u64_at 38 m,
      oe_last_shares = u32_at 46 m,
      oe_last_price = u64_at 50 m,
      oe_leaves_qty = u32_at 58 m,
      oe_base_liquidity_indicator = u8_at 62 m,
      oe_sub_liquidity_indicator = u8_at 63 m,
      oe_contra_broker = arr_at 64 4 m,
      oe_reserved = u8_at 68 m,
      oe_num_bitfields = u8_at 69 m\<rparr>"

definition boe_OrderExecution_ok :: "boe_OrderExecution \<Rightarrow> bool" where
  "boe_OrderExecution_ok x \<longleftrightarrow> length (oe_start_of_msg x) = 2 \<and> length (oe_token x) = 20 \<and> length (oe_contra_broker x) = 4"

lemmas boe_OrderExecution_defs [struct_simps] = boe_OrderExecution_size_def boe_OrderExecution_bytes_def boe_OrderExecution_at_def boe_OrderExecution_ok_def

interpretation boe_OrderExecution: packed_struct boe_OrderExecution_size boe_OrderExecution_bytes boe_OrderExecution_at boe_OrderExecution_ok
  by unfold_locales (auto simp: boe_OrderExecution_defs struct_proof)

definition new_boe_OrderExecution :: "byte list \<Rightarrow> boe_OrderExecution" where
  "new_boe_OrderExecution g = (boe_OrderExecution_at g)\<lparr>oe_start_of_msg := [0xBA, 0xBA], oe_length := 70 - 2, oe_type := MsgType_code MT_OrderExecution, oe_num_bitfields := 0\<rparr>"

end
