(* ===== verification/BoeOrders.thy ===== *)
theory BoeOrders
  imports Orders BoeMessages
begin

text \<open>
  The order class and the queued requests of the BOE session, from \<^verbatim>\<open>order.h\<close> and
  \<^verbatim>\<open>boe_order.cpp\<close>. The base class is the one OUCH orders extend.
\<close>

record Boe_Order = order_base +
  boe_token :: "byte list"
  boe_price :: u64

text \<open>
  A default-constructed order: receive time and identifier from \<^verbatim>\<open>order::order()\<close>, the rest
  whatever the memory \<open>g\<close> held.
\<close>

definition raw_Boe_Order :: "byte list \<Rightarrow> int \<Rightarrow> u64 \<Rightarrow> Boe_Order" where
  "raw_Boe_Order g t ident =
     \<lparr>recv_order_time = t, char_time_in_force = u8_at 0 g, remaining_qty = sint (u64_at 1 g),
      orderID = ident, executed_qty = sint (u64_at 9 g), symbol = arr_at 17 8 g,
      side = u8_at 25 g, firm = arr_at 26 4 g, capacity = u8_at 30 g, display = u8_at 31 g,
      remain_time_in_force = sint (u32_at 32 g), min_qty = u32_at 36 g,
      boe_token = arr_at 40 20 g, boe_price = u64_at 60 g\<rparr>"

definition new_Boe_Order :: "'w world_scheme \<Rightarrow> Boe_Order \<times> 'w world_scheme" where
  "new_Boe_Order w =
     (let (g, w1) = uninit 68 w; (t, w2) = time_NULL w1; (ident, w3) = rand_times_rand w2
      in (raw_Boe_Order g t ident, w3))"

definition Boe_Order_parse_order :: "Boe_Order \<Rightarrow> boe_NewOrder \<Rightarrow> Boe_Order" where
  "Boe_Order_parse_order o1 no = o1\<lparr>
     boe_token := no_token no,
     char_time_in_force := no_time_in_force no,
     remain_time_in_force := 0xFFFFFF,
     remaining_qty := uint (no_qty no),
     executed_qty := 0,
     symbol := strncpy 8 (no_symbol no),
     side := no_side no,
     firm := strncpy 4 (no_clearing_firm no),
     capacity := no_capacity no,
     min_qty := no_min_qty no,
     boe_price := no_price no,
     display := no_display_indicator no\<rparr>"

definition Boe_Order_of :: "boe_NewOrder \<Rightarrow> 'w world_scheme \<Rightarrow> Boe_Order \<times> 'w world_scheme" where
  "Boe_Order_of no w = (let (o1, w1) = new_Boe_Order w in (Boe_Order_parse_order o1 no, w1))"

definition Boe_Order_still_active :: "Boe_Order \<Rightarrow> bool" where
  "Boe_Order_still_active o1 \<longleftrightarrow> remaining_qty o1 > 0 \<and> remaining_qty o1 \<le> 1000000"

section \<open>Queued requests\<close>

record Boe_CancelOrderReq =
  bcxl_token :: "byte list"

record Boe_ModifyOrderReq =
  bmod_token :: "byte list"
  bmod_orig_token :: "byte list"
  bmod_clearing_firm :: "byte list"
  bmod_qty :: u32
  bmod_price :: u64
  bmod_order_type :: byte
  bmod_cancel_orig_on_reject :: byte
  bmod_exec_inst :: byte
  bmod_side :: byte

definition boe_parse_cancel_order :: "boe_CancelOrder \<Rightarrow> Boe_CancelOrderReq" where
  "boe_parse_cancel_order co = \<lparr>bcxl_token = bco_orig_token co\<rparr>"

definition boe_parse_modify_order :: "boe_ModifyOrder \<Rightarrow> Boe_ModifyOrderReq" where
  "boe_parse_modify_order mo =
     \<lparr>bmod_token = bmo_token mo, bmod_orig_token = bmo_orig_token mo,
      bmod_clearing_firm = strncpy 4 (bmo_clearing_firm mo), bmod_qty = bmo_qty mo,
      bmod_price = bmo_price mo, bmod_order_type = bmo_order_type mo,
      bmod_cancel_orig_on_reject = bmo_cancel_orig_on_reject mo,
      bmod_exec_inst = bmo_exec_inst mo, bmod_side = bmo_side mo\<rparr>"

section \<open>Facts\<close>

definition boe_order_ok :: "Boe_Order \<Rightarrow> bool" where
  "boe_order_ok o1 \<longleftrightarrow> length (boe_token o1) = 20 \<and> length (symbol o1) = 8 \<and> length (firm o1) = 4"

lemma new_Boe_Order_ok: "boe_order_ok (fst (new_Boe_Order w))"
  by (simp add: new_Boe_Order_def raw_Boe_Order_def boe_order_ok_def uninit_def length_arr_at
      split_def Let_def)

lemma Boe_Order_of_ok:
  "length (no_token no) = 20 \<Longrightarrow> boe_order_ok (fst (Boe_Order_of no w))"
  "boe_token (fst (Boe_Order_of no w)) = no_token no"
  by (simp_all add: Boe_Order_of_def Boe_Order_parse_order_def boe_order_ok_def split_def Let_def)

end
