(* ===== verification/BoeSession.thy ===== *)
theory BoeSession
  imports Session BoeOrders
begin

text \<open>
  The BOE session of \<^verbatim>\<open>boe_session.cpp\<close>: state, outgoing messages, packet handlers and market
  logic, in the order of the code. Packets are only read, so the receive buffer comes back as it
  was. Every cast of the buffer to a struct asks for the whole struct to be inside the buffer.
\<close>

section \<open>State\<close>

record boe_session = session +
  boe_active :: "(byte list \<times> Boe_Order) list"
  boe_finished :: "(byte list \<times> Boe_Order) list"
  boe_pending_modify :: "Boe_ModifyOrderReq list"
  boe_pending_cancel :: "Boe_CancelOrderReq list"
  boe_pending_replace :: "Boe_Order list"
  boe_seq_num :: u32

definition new_boe_session :: "env \<Rightarrow> boe_session" where
  "new_boe_session e =
     (let (curr_time, e1) = time_NULL e
      in \<lparr>s_env = e1, pending_out_messages = [], last_send_heartbeat = curr_time,
          last_recv_heartbeat = curr_time, session_state = NotLoggedIn, logger_set = False,
          boe_active = [], boe_finished = [], boe_pending_modify = [], boe_pending_cancel = [],
          boe_pending_replace = [], boe_seq_num = 0\<rparr>)"

text \<open>Nanoseconds since the epoch.\<close>

definition boe_get_timestamp :: "boe_session \<Rightarrow> u64 \<times> boe_session" where
  "boe_get_timestamp s = (let (t, s1) = on_env clock_now s in (to_uint64 t, s1))"

definition boe_next_seq :: "boe_session \<Rightarrow> u32 \<times> boe_session" where
  "boe_next_seq s = (let n = boe_seq_num s + 1 in (n, s\<lparr>boe_seq_num := n\<rparr>))"

text \<open>\<^verbatim>\<open>active_orders[k]\<close> as an lvalue, and plain updates of the tables.\<close>

definition boe_index :: "byte list \<Rightarrow> boe_session \<Rightarrow> boe_session" where
  "boe_index k s =
     (case map_of (boe_active s) k of
        Some _ \<Rightarrow> s
      | None \<Rightarrow> let (o1, s1) = on_env new_Boe_Order s
                in s1\<lparr>boe_active := AList.update k o1 (boe_active s1)\<rparr>)"

definition boe_finished_index :: "byte list \<Rightarrow> boe_session \<Rightarrow> boe_session" where
  "boe_finished_index k s =
     (case map_of (boe_finished s) k of
        Some _ \<Rightarrow> s
      | None \<Rightarrow> let (o1, s1) = on_env new_Boe_Order s
                in s1\<lparr>boe_finished := AList.update k o1 (boe_finished s1)\<rparr>)"

definition boe_put :: "byte list \<Rightarrow> Boe_Order \<Rightarrow> boe_session \<Rightarrow> boe_session" where
  "boe_put k o1 s = s\<lparr>boe_active := AList.update k o1 (boe_active s)\<rparr>"

definition boe_put_finished :: "byte list \<Rightarrow> Boe_Order \<Rightarrow> boe_session \<Rightarrow> boe_session" where
  "boe_put_finished k o1 s = s\<lparr>boe_finished := AList.update k o1 (boe_finished s)\<rparr>"

definition boe_erase :: "byte list list \<Rightarrow> boe_session \<Rightarrow> boe_session" where
  "boe_erase ks s = s\<lparr>boe_active := erase_all ks (boe_active s)\<rparr>"

section \<open>Outgoing messages\<close>

definition boe_construct_modify_rejected :: "byte list \<Rightarrow> Reason \<Rightarrow> boe_session \<Rightarrow> boe_session" where
  "boe_construct_modify_rejected t r s =
     (let (g, s1) = on_env (uninit boe_ModifyRejected_size) s;
          (ts, s2) = boe_get_timestamp s1;
          m0 = new_boe_ModifyRejected g;
          m = m0\<lparr>mr_transaction_time := ts, mr_token := t, mr_reason := Reason_code r,
                 mr_text := strcpy_into (mr_text m0) (Reason_to_string r), mr_num_bitfields := 0\<rparr>
      in post (boe_ModifyRejected_bytes m) s2)"

definition boe_construct_order_modified :: "Boe_Order \<Rightarrow> boe_session \<Rightarrow> boe_session" where
  "boe_construct_order_modified bo s =
     (let (g, s1) = on_env (uninit boe_OrderModified_size) s;
          (ts, s2) = boe_get_timestamp s1;
          om = (new_boe_OrderModified g)\<lparr>
            bom_bitfield := [4, 0, 64, 0, 2],
            bom_price := boe_price bo,
            bom_leaves_qty := to_uint32 (remaining_qty bo),
            bom_qty := to_uint32 (remaining_qty bo + executed_qty bo),
            bom_transaction_time := ts,
            bom_order_id := orderID bo,
            bom_token := boe_token bo\<rparr>
      in post (boe_OrderModified_bytes om) s2)"

definition boe_construct_order_canceled :: "byte list \<Rightarrow> boe_session \<Rightarrow> boe_session" where
  "boe_construct_order_canceled t s =
     (let (g, s1) = on_env (uninit boe_OrderCanceled_size) s;
          (ts, s2) = boe_get_timestamp s1;
          oc = (new_boe_OrderCanceled g)\<lparr>
            boc_transaction_time := ts, boc_token := t, boc_reason := Reason_code Rsn_UserRequested,
            boc_bitfield := [0, 0, 0, 0, 2]\<rparr>
      in post (boe_OrderCanceled_bytes oc) s2)"

definition boe_construct_cancel_rejected :: "byte list \<Rightarrow> Reason \<Rightarrow> boe_session \<Rightarrow> boe_session" where
  "boe_construct_cancel_rejected t r s =
     (let (g, s1) = on_env (uninit boe_CancelRejected_size) s;
          (ts, s2) = boe_get_timestamp s1;
          c0 = new_boe_CancelRejected g;
          cr = c0\<lparr>bcr_transaction_time := ts, bcr_token := t, bcr_reason := Reason_code r,
                  bcr_num_bitfields := 0,
                  bcr_text := strcpy_into (bcr_text c0) (Reason_to_string r)\<rparr>
      in post (boe_CancelRejected_bytes cr) s2)"

definition boe_construct_order_rejected :: "boe_NewOrder \<Rightarrow> boe_session \<Rightarrow> boe_session" where
  "boe_construct_order_rejected no s =
     (let (g, s1) = on_env (uninit boe_OrderRejected_size) s;
          j0 = new_boe_OrderRejected g;
          oj = j0\<lparr>boj_token := no_token no, boj_reason := ch CHR ''D'',
                  boj_text := strcpy_into (boj_text j0) ''Duplicate CIOrdID''\<rparr>
      in post (boe_OrderRejected_bytes oj) s1)"

definition boe_construct_order_accepted :: "Boe_Order \<Rightarrow> boe_session \<Rightarrow> boe_session" where
  "boe_construct_order_accepted new_order s =
     (let (g, s1) = on_env (uninit boe_OrderAck_size) s;
          (n, s2) = boe_next_seq s1;
          (ts, s3) = boe_get_timestamp s2;
          ack = (new_boe_OrderAck g)\<lparr>
            ack_seq_num := n, ack_transaction_time := ts, ack_order_id := orderID new_order,
            ack_token := boe_token new_order, ack_num_bitfields := 5,
            ack_bitfield := [0, 0, 0, 0, 2], ack_leaves_qty := to_uint32 (remaining_qty new_order)\<rparr>
      in post (boe_OrderAck_bytes ack) s3)"

text \<open>
  The login response: the struct, one unit sequence and the 40 bytes of the request that start at
  its \<^verbatim>\<open>order_ack\<close> group, with the length set to the size of the whole.
\<close>

definition boe_construct_login_response ::
    "LoginResponseStatus \<Rightarrow> byte list \<Rightarrow> boe_session \<Rightarrow> boe_session" where
  "boe_construct_login_response status mem s =
     (let (g, s1) = on_env (uninit boe_LoginResponse_size) s;
          req = boe_LoginRequest_at mem;
          lr = (new_boe_LoginResponse g)\<lparr>
            blp_status := LoginResponseStatus_code status,
            blp_text := replicate 60 0,
            blp_last_received_seq_num := 0,
            blp_no_unspecified_unit_replay := blr_replay_no_unspecified_unit_replay req,
            blp_number_of_units := 1,
            blp_length := 122 - 2\<rparr>
      in post (boe_LoginResponse_bytes lr @ boe_UnitSequence_bytes \<lparr>us_number = 1, us_seq_num = 0\<rparr> @
               take 40 (drop 34 mem)) s1)"

text \<open>\<^verbatim>\<open>construct_order_executed\<close>: the order is a reference, the changed one is returned.\<close>

definition boe_construct_order_executed ::
    "Boe_Order \<Rightarrow> int \<Rightarrow> boe_session \<Rightarrow> Boe_Order \<times> boe_session" where
  "boe_construct_order_executed o1 exe s =
     (if exe = 0 then (o1, s)
      else
        let (g, s1) = on_env (uninit boe_OrderExecution_size) s;
            (n, s2) = boe_next_seq s1;
            (ts, s3) = boe_get_timestamp s2;
            (ident, s4) = on_env rand_times_rand s3;
            (exe1, s5) =
              (if exe < 0 then let (r, s5) = on_env rand_int s4 in ((1 + r mod 10) * 100, s5)
               else (exe, s4));
            q = min exe1 (remaining_qty o1);
            o2 = o1\<lparr>remaining_qty := remaining_qty o1 - q, executed_qty := executed_qty o1 + q\<rparr>;
            oe = (new_boe_OrderExecution g)\<lparr>
              oe_seq_num := n, oe_transaction_time := ts, oe_token := boe_token o1,
              oe_exec_id := ident, oe_last_shares := to_uint32 q, oe_last_price := boe_price o1,
              oe_leaves_qty := to_uint32 (remaining_qty o2),
              oe_base_liquidity_indicator := ch CHR ''A'',
              oe_sub_liquidity_indicator := ch CHR ''E'',
              oe_contra_broker := bytes_of_string ''BATS''\<rparr>
        in (o2, post (boe_OrderExecution_bytes oe) s5))"

section \<open>Packet handlers\<close>

definition boe_handle_client_heartbeat :: "boe_session \<Rightarrow> boe_session" where
  "boe_handle_client_heartbeat s =
     (let (t, s1) = on_env clock_ticks s in s1\<lparr>last_recv_heartbeat := t\<rparr>)"

definition boe_handle_login_request :: "byte list \<Rightarrow> boe_session \<Rightarrow> boe_session" where
  "boe_handle_login_request mem s =
     (let (allowed, s1) = on_env (bm_allows Login) s
      in if \<not> allowed then boe_construct_login_response LRS_SessionDisabled mem s1
         else if session_state s1 \<noteq> NotLoggedIn
         then boe_construct_login_response LRS_SessionInUse mem s1
         else (boe_construct_login_response LRS_Accepted mem s1)\<lparr>session_state := LoggedIn\<rparr>)"

definition boe_modify_order :: "boe_ModifyOrder \<Rightarrow> boe_session \<Rightarrow> boe_session" where
  "boe_modify_order mo s =
     (let t = bmo_orig_token mo in
      if map_of (boe_active s) t = None \<and> map_of (boe_finished s) t = None
      then boe_construct_modify_rejected t Rsn_ClordidDoesntMatchAKnownOrder s
      else let (allowed, s1) = on_env (bm_allows Modify_order) s
           in if \<not> allowed then boe_construct_modify_rejected t Rsn_UnforeseenReason s1
              else s1\<lparr>boe_pending_modify := boe_pending_modify s1 @ [boe_parse_modify_order mo]\<rparr>)"

text \<open>
  The second condition of the code uses \<^verbatim>\<open>active_orders[t]\<close>, which inserts an order under an
  unknown token; the third is then never true.
\<close>

definition boe_cancel_order :: "boe_CancelOrder \<Rightarrow> boe_session \<Rightarrow> boe_session" where
  "boe_cancel_order co s =
     (let t = bco_orig_token co in
      if (case map_of (boe_active s) t of None \<Rightarrow> False | Some o1 \<Rightarrow> remaining_qty o1 > 0)
      then s\<lparr>boe_pending_cancel := boe_pending_cancel s @ [boe_parse_cancel_order co]\<rparr>
      else
        let s1 = boe_index t s in
        if (case map_of (boe_active s1) t of None \<Rightarrow> False | Some o1 \<Rightarrow> remaining_qty o1 \<le> 0) \<or>
           map_of (boe_finished s1) t \<noteq> None
        then boe_construct_cancel_rejected t Rsn_TooLateToCancel s1
        else if map_of (boe_active s1) t = None
        then boe_construct_cancel_rejected t Rsn_ClordidDoesntMatchAKnownOrder s1
        else let (allowed, s2) = on_env (bm_allows Cancel_order) s1
             in if \<not> allowed then boe_construct_cancel_rejected t Rsn_UnforeseenReason s2 else s2)"

definition boe_enter_order :: "boe_NewOrder \<Rightarrow> boe_session \<Rightarrow> boe_session" where
  "boe_enter_order no s =
     (let t = no_token no;
          (refused, s1) =
            (if map_of (boe_active s) t \<noteq> None then (True, s)
             else let (allowed, s1) = on_env (bm_allows New_order) s in (\<not> allowed, s1))
      in if refused then boe_construct_order_rejected no s1
         else let (new_order, s2) = on_env (Boe_Order_of no) s1
              in boe_construct_order_accepted new_order (boe_put t new_order (boe_index t s2)))"

definition boe_handle_packet ::
    "byte list \<Rightarrow> nat \<Rightarrow> boe_session \<Rightarrow> (byte list \<times> boe_session) result" where
  "boe_handle_packet mem len s =
     bind_result (read_struct boe_MsgHeader_size boe_MsgHeader_at mem) (\<lambda>h.
       let t = bh_type h in
       if t = MsgType_code MT_LoginRequest then
         bind_result (read_struct boe_LoginRequest_size boe_LoginRequest_at mem) (\<lambda>_.
           Inr (mem, boe_handle_login_request mem s))
       else if t = MsgType_code MT_ClientHeartbeat then Inr (mem, boe_handle_client_heartbeat s)
       else if t = MsgType_code MT_NewOrder then
         bind_result (read_struct boe_NewOrder_size boe_NewOrder_at mem) (\<lambda>no.
           Inr (mem, boe_enter_order no s))
       else if t = MsgType_code MT_CancelOrder then
         bind_result (read_struct boe_CancelOrder_size boe_CancelOrder_at mem) (\<lambda>co.
           Inr (mem, boe_cancel_order co s))
       else if t = MsgType_code MT_ModifyOrder then
         bind_result (read_struct boe_ModifyOrder_size boe_ModifyOrder_at mem) (\<lambda>mo.
           Inr (mem, boe_modify_order mo s))
       else Inr (mem, s))"

section \<open>Market logic\<close>

definition boe_post_heartbeat :: "boe_session \<Rightarrow> boe_session" where
  "boe_post_heartbeat s =
     (let (g, s1) = on_env (uninit boe_ServerHeartbeat_size) s
      in post (boe_ServerHeartbeat_bytes (new_boe_ServerHeartbeat g)) s1)"

definition boe_heartbeat_logic :: "boe_session \<Rightarrow> boe_session" where
  "boe_heartbeat_logic s = heartbeat_with boe_post_heartbeat s"

definition boe_cancel_one :: "Boe_CancelOrderReq \<Rightarrow> boe_session \<Rightarrow> byte list list \<times> boe_session" where
  "boe_cancel_one co s =
     (let t = bcxl_token co in
      if map_of (boe_active s) t = None
      then ([], boe_construct_cancel_rejected t Rsn_TooLateToCancel s)
      else let (allowed, s1) = on_env (bm_allows Cancel_order) s
           in if \<not> allowed then ([], boe_construct_cancel_rejected t Rsn_UnforeseenReason s1)
              else ([t], boe_construct_order_canceled t s1))"

fun boe_cancel_loop ::
    "Boe_CancelOrderReq list \<Rightarrow> boe_session \<Rightarrow> byte list list \<times> boe_session" where
  "boe_cancel_loop [] s = ([], s)"
| "boe_cancel_loop (co # reqs) s =
     (let (d, s1) = boe_cancel_one co s; (ds, s2) = boe_cancel_loop reqs s1 in (d @ ds, s2))"

definition boe_cancel_logic :: "boe_session \<Rightarrow> boe_session" where
  "boe_cancel_logic s =
     (let (done_tokens, s1) = boe_cancel_loop (boe_pending_cancel s) s
      in boe_erase done_tokens (s1\<lparr>boe_pending_cancel := []\<rparr>))"

text \<open>The order a modification leaves; a quantity already executed ends it.\<close>

definition boe_modified_order :: "Boe_ModifyOrderReq \<Rightarrow> Boe_Order \<Rightarrow> Boe_Order" where
  "boe_modified_order mo o1 = o1\<lparr>
     remaining_qty := (if executed_qty o1 \<ge> uint (bmod_qty mo) then 0
                       else uint (bmod_qty mo) - executed_qty o1),
     side := bmod_side mo,
     boe_price := bmod_price mo,
     boe_token := bmod_token mo,
     firm := strncpy 4 (bmod_clearing_firm mo)\<rparr>"

text \<open>
  After the swap and the erasure the order is fetched again under its new token with
  \<^verbatim>\<open>operator[]\<close>: when the tokens are equal it has just been erased, and a default order is
  made up and reported.
\<close>

definition boe_modify_one :: "Boe_ModifyOrderReq \<Rightarrow> boe_session \<Rightarrow> byte list list \<times> boe_session" where
  "boe_modify_one mo s =
     (let t = bmod_orig_token mo; n = bmod_token mo in
      case map_of (boe_active s) t of
        None \<Rightarrow> ([], s)
      | Some o1 \<Rightarrow>
          let d = (if executed_qty o1 \<ge> uint (bmod_qty mo) then [boe_token o1] else []);
              s1 = boe_index n (boe_put t (boe_modified_order mo o1) s);
              s2 = boe_index n (s1\<lparr>boe_active :=
                     AList.delete t (swap_entries n t (boe_active s1))\<rparr>)
          in (d, case map_of (boe_active s2) n of
                   None \<Rightarrow> s2
                 | Some o3 \<Rightarrow> boe_construct_order_modified o3 s2))"

fun boe_modify_loop ::
    "Boe_ModifyOrderReq list \<Rightarrow> boe_session \<Rightarrow> byte list list \<times> boe_session" where
  "boe_modify_loop [] s = ([], s)"
| "boe_modify_loop (mo # reqs) s =
     (let (d, s1) = boe_modify_one mo s; (ds, s2) = boe_modify_loop reqs s1 in (d @ ds, s2))"

text \<open>The queue of modifications is not cleared.\<close>

definition boe_modify_logic :: "boe_session \<Rightarrow> boe_session" where
  "boe_modify_logic s =
     (let (done_tokens, s1) = boe_modify_loop (boe_pending_modify s) s
      in boe_erase done_tokens s1)"

definition boe_execute_one ::
    "byte list \<Rightarrow> Boe_Order \<Rightarrow> boe_session \<Rightarrow> byte list list \<times> boe_session" where
  "boe_execute_one k o1 s =
     (let (allowed, s1) = on_env (bm_allows Execution) s in
      if \<not> allowed then ([], s1)
      else if Boe_Order_still_active o1
      then let (q, s2) = on_env execution_qty s1;
               (o2, s3) = boe_construct_order_executed o1 q s2
           in ([], boe_put k o2 s3)
      else ([k], boe_put_finished k o1 (boe_finished_index k s1)))"

fun boe_execute_loop ::
    "(byte list \<times> Boe_Order) list \<Rightarrow> boe_session \<Rightarrow> byte list list \<times> boe_session" where
  "boe_execute_loop [] s = ([], s)"
| "boe_execute_loop (p # ps) s =
     (let (d, s1) = boe_execute_one (fst p) (snd p) s; (ds, s2) = boe_execute_loop ps s1
      in (d @ ds, s2))"

definition boe_execution_logic :: "boe_session \<Rightarrow> boe_session" where
  "boe_execution_logic s =
     (let (rank, s1) = on_env next_rank s;
          (done_tokens, s2) = boe_execute_loop (visit rank (boe_active s1)) s1
      in boe_erase done_tokens s2)"

definition boe_market_logic :: "boe_session \<Rightarrow> boe_session" where
  "boe_market_logic s =
     boe_execution_logic (boe_modify_logic (boe_cancel_logic (boe_heartbeat_logic s)))"

section \<open>Console callbacks\<close>

fun boe_cancel_all_loop ::
    "(byte list \<times> Boe_Order) list \<Rightarrow> boe_session \<Rightarrow> int \<times> boe_session" where
  "boe_cancel_all_loop [] s = (0, s)"
| "boe_cancel_all_loop (p # ps) s =
     (let alive = Boe_Order_still_active (snd p);
          s1 = (if alive then boe_construct_order_canceled (boe_token (snd p)) s else s);
          (n, s2) = boe_cancel_all_loop ps s1
      in (if alive then n + 1 else n, s2))"

definition boe_cancel_all :: "boe_session \<Rightarrow> int \<times> boe_session" where
  "boe_cancel_all s =
     (let (rank, s1) = on_env next_rank s;
          (num_canceled, s2) = boe_cancel_all_loop (visit rank (boe_active s1)) s1
      in (num_canceled, s2\<lparr>boe_active := []\<rparr>))"

definition boe_order_status :: "Boe_Order \<Rightarrow> out_item list" where
  "boe_order_status o1 =
     [Str ''[OrderID: '', IntV (uint (orderID o1)), Str '']'', Endl,
      Str ''Symbol: '', Str (List.map (\<lambda>b. char_of (unat b)) (symbol o1)), Endl,
      Str ''Side: '', Str [char_of (unat (side o1))], Str '' Price: '', IntV (uint (boe_price o1)), Endl,
      Str ''Executed qty: '', IntV (executed_qty o1), Endl,
      Str ''Remaining qty: '', IntV (remaining_qty o1), Endl]"

definition boe_curr_status :: "boe_session \<Rightarrow> out_item list \<times> boe_session" where
  "boe_curr_status s =
     (if boe_active s = [] then ([Str ''[BOE]No active order''], s)
      else let (rank, s1) = on_env next_rank s
           in ([Str ''[BOE]Active Order(s):'', Endl] @
               concat (List.map (\<lambda>p. boe_order_status (snd p)) (visit rank (boe_active s1))), s1))"

end
