(* ===== verification/BoeFacts.thy ===== *)
theory BoeFacts
  imports BoeSession
begin

text \<open>
  Shared lemmas on the BOE session: how a member reads a packet, the event each outgoing message
  is, and the fields each operation leaves alone.
\<close>

section \<open>What a member reads\<close>

datatype boe_event =
    Bv_LoginResponse byte
  | Bv_Heartbeat
  | Bv_Ack u32 "byte list" u32
  | Bv_Rejected "byte list" byte
  | Bv_Modified "byte list" u64 u32 u32
  | Bv_ModifyRejected "byte list" byte
  | Bv_Canceled "byte list" byte
  | Bv_CancelRejected "byte list" byte
  | Bv_Executed u32 "byte list" u32 u64 u32

definition boe_event_of :: "byte list \<Rightarrow> boe_event option" where
  "boe_event_of m =
     (let t = u8_at 4 m in
      if t = MsgType_code MT_LoginResponse then Some (Bv_LoginResponse (blp_status (boe_LoginResponse_at m)))
      else if t = MsgType_code MT_ServerHeartbeat then Some Bv_Heartbeat
      else if t = MsgType_code MT_OrderAck
        then let x = boe_OrderAck_at m in Some (Bv_Ack (ack_seq_num x) (ack_token x) (ack_leaves_qty x))
      else if t = MsgType_code MT_OrderRejected
        then let x = boe_OrderRejected_at m in Some (Bv_Rejected (boj_token x) (boj_reason x))
      else if t = MsgType_code MT_OrderModified
        then let x = boe_OrderModified_at m
             in Some (Bv_Modified (bom_token x) (bom_price x) (bom_qty x) (bom_leaves_qty x))
      else if t = MsgType_code MT_ModifyRejected
        then let x = boe_ModifyRejected_at m in Some (Bv_ModifyRejected (mr_token x) (mr_reason x))
      else if t = MsgType_code MT_OrderCanceled
        then let x = boe_OrderCanceled_at m in Some (Bv_Canceled (boc_token x) (boc_reason x))
      else if t = MsgType_code MT_CancelRejected
        then let x = boe_CancelRejected_at m in Some (Bv_CancelRejected (bcr_token x) (bcr_reason x))
      else if t = MsgType_code MT_OrderExecution
        then let x = boe_OrderExecution_at m
             in Some (Bv_Executed (oe_seq_num x) (oe_token x) (oe_last_shares x) (oe_last_price x)
                       (oe_leaves_qty x))
      else None)"

definition boe_events :: "boe_session \<Rightarrow> boe_event option list" where
  "boe_events s = List.map boe_event_of (pending_out_messages s)"

text \<open>The start-of-message mark, and a length field that counts the bytes after its first two.\<close>

definition boe_frame :: "byte list \<Rightarrow> bool" where
  "boe_frame m \<longleftrightarrow> 10 \<le> length m \<and> take 2 m = [0xBA, 0xBA] \<and> uint (u16_at 2 m) = int (length m) - 2"

text \<open>
  The types of the messages a server sends: each message type has one size, and a login response
  announces the one unit that is in it.
\<close>

definition boe_sent_size :: "byte \<Rightarrow> nat" where
  "boe_sent_size t =
     (if t = MsgType_code MT_LoginResponse then boe_LoginResponse_size + boe_UnitSequence_size + 40
      else if t = MsgType_code MT_ServerHeartbeat then boe_ServerHeartbeat_size
      else if t = MsgType_code MT_OrderAck then boe_OrderAck_size
      else if t = MsgType_code MT_OrderRejected then boe_OrderRejected_size
      else if t = MsgType_code MT_OrderModified then boe_OrderModified_size
      else if t = MsgType_code MT_ModifyRejected then boe_ModifyRejected_size
      else if t = MsgType_code MT_OrderCanceled then boe_OrderCanceled_size
      else if t = MsgType_code MT_CancelRejected then boe_CancelRejected_size
      else if t = MsgType_code MT_OrderExecution then boe_OrderExecution_size
      else 0)"

definition boe_typed :: "byte list \<Rightarrow> bool" where
  "boe_typed m \<longleftrightarrow> 0 < length m \<and> length m = boe_sent_size (u8_at 4 m) \<and>
     (u8_at 4 m = MsgType_code MT_LoginResponse \<longrightarrow> blp_number_of_units (boe_LoginResponse_at m) = 1)"

definition boe_framed :: "boe_session \<Rightarrow> bool" where
  "boe_framed s \<longleftrightarrow>
     (\<forall>m\<in>set (pending_out_messages s). boe_frame m \<and> boe_event_of m \<noteq> None \<and> boe_typed m)"

lemma boe_events_post [simp]: "boe_events (post m s) = boe_events s @ [boe_event_of m]"
  by (simp add: boe_events_def)

lemma boe_framed_post [simp]:
  "boe_framed (post m s) \<longleftrightarrow> boe_framed s \<and> boe_frame m \<and> boe_event_of m \<noteq> None \<and> boe_typed m"
  by (auto simp: boe_framed_def)

lemma post_boe_sel [simp]:
  "boe_active (post m s) = boe_active s" "boe_finished (post m s) = boe_finished s"
  "boe_pending_cancel (post m s) = boe_pending_cancel s"
  "boe_pending_modify (post m s) = boe_pending_modify s"
  "boe_seq_num (post m s) = boe_seq_num s"
  by (simp_all add: post_def)

lemma boe_events_upd [simp]:
  "boe_events (s\<lparr>s_env := e\<rparr>) = boe_events s" "boe_events (s\<lparr>boe_active := m\<rparr>) = boe_events s"
  "boe_events (s\<lparr>boe_finished := m\<rparr>) = boe_events s"
  "boe_events (s\<lparr>boe_pending_cancel := c\<rparr>) = boe_events s"
  "boe_events (s\<lparr>boe_pending_modify := d\<rparr>) = boe_events s"
  "boe_events (s\<lparr>session_state := st\<rparr>) = boe_events s"
  "boe_events (s\<lparr>boe_seq_num := n\<rparr>) = boe_events s"
  "boe_events (s\<lparr>last_send_heartbeat := h\<rparr>) = boe_events s"
  "boe_events (s\<lparr>last_recv_heartbeat := h\<rparr>) = boe_events s"
  by (simp_all add: boe_events_def)

lemma boe_framed_upd [simp]:
  "boe_framed (s\<lparr>s_env := e\<rparr>) = boe_framed s" "boe_framed (s\<lparr>boe_active := m\<rparr>) = boe_framed s"
  "boe_framed (s\<lparr>boe_finished := m\<rparr>) = boe_framed s"
  "boe_framed (s\<lparr>boe_pending_cancel := c\<rparr>) = boe_framed s"
  "boe_framed (s\<lparr>boe_pending_modify := d\<rparr>) = boe_framed s"
  "boe_framed (s\<lparr>session_state := st\<rparr>) = boe_framed s"
  "boe_framed (s\<lparr>boe_seq_num := n\<rparr>) = boe_framed s"
  "boe_framed (s\<lparr>last_send_heartbeat := h\<rparr>) = boe_framed s"
  "boe_framed (s\<lparr>last_recv_heartbeat := h\<rparr>) = boe_framed s"
  by (simp_all add: boe_framed_def)

section \<open>Fields a message constructor leaves alone\<close>

lemmas boe_construct_defs = on_env_result boe_get_timestamp_def boe_next_seq_def Let_def split_def

lemma boe_modify_rejected_sel [simp]:
  "boe_active (boe_construct_modify_rejected t r s) = boe_active s"
  "boe_finished (boe_construct_modify_rejected t r s) = boe_finished s"
  "boe_pending_cancel (boe_construct_modify_rejected t r s) = boe_pending_cancel s"
  "boe_pending_modify (boe_construct_modify_rejected t r s) = boe_pending_modify s"
  "session_state (boe_construct_modify_rejected t r s) = session_state s"
  "logger_set (boe_construct_modify_rejected t r s) = logger_set s"
  "last_send_heartbeat (boe_construct_modify_rejected t r s) = last_send_heartbeat s"
  "behavior (s_env (boe_construct_modify_rejected t r s)) = behavior (s_env s)"
  "boe_seq_num (boe_construct_modify_rejected t r s) = boe_seq_num s"
  by (simp_all add: boe_construct_modify_rejected_def boe_construct_defs draw_defs)

lemma boe_order_modified_sel [simp]:
  "boe_active (boe_construct_order_modified bo s) = boe_active s"
  "boe_finished (boe_construct_order_modified bo s) = boe_finished s"
  "boe_pending_cancel (boe_construct_order_modified bo s) = boe_pending_cancel s"
  "boe_pending_modify (boe_construct_order_modified bo s) = boe_pending_modify s"
  "session_state (boe_construct_order_modified bo s) = session_state s"
  "logger_set (boe_construct_order_modified bo s) = logger_set s"
  "last_send_heartbeat (boe_construct_order_modified bo s) = last_send_heartbeat s"
  "behavior (s_env (boe_construct_order_modified bo s)) = behavior (s_env s)"
  "boe_seq_num (boe_construct_order_modified bo s) = boe_seq_num s"
  by (simp_all add: boe_construct_order_modified_def boe_construct_defs draw_defs)

lemma boe_order_canceled_sel [simp]:
  "boe_active (boe_construct_order_canceled t s) = boe_active s"
  "boe_finished (boe_construct_order_canceled t s) = boe_finished s"
  "boe_pending_cancel (boe_construct_order_canceled t s) = boe_pending_cancel s"
  "boe_pending_modify (boe_construct_order_canceled t s) = boe_pending_modify s"
  "session_state (boe_construct_order_canceled t s) = session_state s"
  "logger_set (boe_construct_order_canceled t s) = logger_set s"
  "last_send_heartbeat (boe_construct_order_canceled t s) = last_send_heartbeat s"
  "behavior (s_env (boe_construct_order_canceled t s)) = behavior (s_env s)"
  "boe_seq_num (boe_construct_order_canceled t s) = boe_seq_num s"
  by (simp_all add: boe_construct_order_canceled_def boe_construct_defs draw_defs)

lemma boe_cancel_rejected_sel [simp]:
  "boe_active (boe_construct_cancel_rejected t r s) = boe_active s"
  "boe_finished (boe_construct_cancel_rejected t r s) = boe_finished s"
  "boe_pending_cancel (boe_construct_cancel_rejected t r s) = boe_pending_cancel s"
  "boe_pending_modify (boe_construct_cancel_rejected t r s) = boe_pending_modify s"
  "session_state (boe_construct_cancel_rejected t r s) = session_state s"
  "logger_set (boe_construct_cancel_rejected t r s) = logger_set s"
  "last_send_heartbeat (boe_construct_cancel_rejected t r s) = last_send_heartbeat s"
  "behavior (s_env (boe_construct_cancel_rejected t r s)) = behavior (s_env s)"
  "boe_seq_num (boe_construct_cancel_rejected t r s) = boe_seq_num s"
  by (simp_all add: boe_construct_cancel_rejected_def boe_construct_defs draw_defs)

lemma boe_order_rejected_sel [simp]:
  "boe_active (boe_construct_order_rejected no s) = boe_active s"
  "boe_finished (boe_construct_order_rejected no s) = boe_finished s"
  "boe_pending_cancel (boe_construct_order_rejected no s) = boe_pending_cancel s"
  "boe_pending_modify (boe_construct_order_rejected no s) = boe_pending_modify s"
  "session_state (boe_construct_order_rejected no s) = session_state s"
  "logger_set (boe_construct_order_rejected no s) = logger_set s"
  "last_send_heartbeat (boe_construct_order_rejected no s) = last_send_heartbeat s"
  "behavior (s_env (boe_construct_order_rejected no s)) = behavior (s_env s)"
  "boe_seq_num (boe_construct_order_rejected no s) = boe_seq_num s"
  by (simp_all add: boe_construct_order_rejected_def boe_construct_defs draw_defs)

lemma boe_order_accepted_sel [simp]:
  "boe_active (boe_construct_order_accepted bo s) = boe_active s"
  "boe_finished (boe_construct_order_accepted bo s) = boe_finished s"
  "boe_pending_cancel (boe_construct_order_accepted bo s) = boe_pending_cancel s"
  "boe_pending_modify (boe_construct_order_accepted bo s) = boe_pending_modify s"
  "session_state (boe_construct_order_accepted bo s) = session_state s"
  "logger_set (boe_construct_order_accepted bo s) = logger_set s"
  "last_send_heartbeat (boe_construct_order_accepted bo s) = last_send_heartbeat s"
  "behavior (s_env (boe_construct_order_accepted bo s)) = behavior (s_env s)"
  "boe_seq_num (boe_construct_order_accepted bo s) = boe_seq_num s + 1"
  by (simp_all add: boe_construct_order_accepted_def boe_construct_defs draw_defs)

lemma boe_login_response_sel [simp]:
  "boe_active (boe_construct_login_response st mem s) = boe_active s"
  "boe_finished (boe_construct_login_response st mem s) = boe_finished s"
  "boe_pending_cancel (boe_construct_login_response st mem s) = boe_pending_cancel s"
  "boe_pending_modify (boe_construct_login_response st mem s) = boe_pending_modify s"
  "session_state (boe_construct_login_response st mem s) = session_state s"
  "logger_set (boe_construct_login_response st mem s) = logger_set s"
  "last_send_heartbeat (boe_construct_login_response st mem s) = last_send_heartbeat s"
  "behavior (s_env (boe_construct_login_response st mem s)) = behavior (s_env s)"
  "boe_seq_num (boe_construct_login_response st mem s) = boe_seq_num s"
  by (simp_all add: boe_construct_login_response_def boe_construct_defs draw_defs)

lemma boe_post_heartbeat_sel [simp]:
  "boe_active (boe_post_heartbeat s) = boe_active s"
  "boe_finished (boe_post_heartbeat s) = boe_finished s"
  "boe_pending_cancel (boe_post_heartbeat s) = boe_pending_cancel s"
  "boe_pending_modify (boe_post_heartbeat s) = boe_pending_modify s"
  "session_state (boe_post_heartbeat s) = session_state s"
  "logger_set (boe_post_heartbeat s) = logger_set s"
  "last_send_heartbeat (boe_post_heartbeat s) = last_send_heartbeat s"
  "behavior (s_env (boe_post_heartbeat s)) = behavior (s_env s)"
  "boe_seq_num (boe_post_heartbeat s) = boe_seq_num s"
  by (simp_all add: boe_post_heartbeat_def boe_construct_defs draw_defs)

section \<open>The event each message constructor sends\<close>

lemma boe_LoginResponse_header:
  "boe_LoginResponse_ok x \<Longrightarrow> take 2 (boe_LoginResponse_bytes x @ r) = blp_start_of_msg x"
  "boe_LoginResponse_ok x \<Longrightarrow> u16_at 2 (boe_LoginResponse_bytes x @ r) = blp_length x"
  "boe_LoginResponse_ok x \<Longrightarrow> u8_at 4 (boe_LoginResponse_bytes x @ r) = blp_type x"
  by (simp_all add: boe_LoginResponse_bytes_def boe_LoginResponse_ok_def at_skip at_here)

lemma boe_ServerHeartbeat_header:
  "boe_ServerHeartbeat_ok x \<Longrightarrow> take 2 (boe_ServerHeartbeat_bytes x @ r) = bsh_start_of_msg x"
  "boe_ServerHeartbeat_ok x \<Longrightarrow> u16_at 2 (boe_ServerHeartbeat_bytes x @ r) = bsh_length x"
  "boe_ServerHeartbeat_ok x \<Longrightarrow> u8_at 4 (boe_ServerHeartbeat_bytes x @ r) = bsh_type x"
  by (simp_all add: boe_ServerHeartbeat_bytes_def boe_ServerHeartbeat_ok_def at_skip at_here)

lemma boe_OrderAck_header:
  "boe_OrderAck_ok x \<Longrightarrow> take 2 (boe_OrderAck_bytes x @ r) = ack_start_of_msg x"
  "boe_OrderAck_ok x \<Longrightarrow> u16_at 2 (boe_OrderAck_bytes x @ r) = ack_length x"
  "boe_OrderAck_ok x \<Longrightarrow> u8_at 4 (boe_OrderAck_bytes x @ r) = ack_type x"
  by (simp_all add: boe_OrderAck_bytes_def boe_OrderAck_ok_def at_skip at_here)

lemma boe_OrderRejected_header:
  "boe_OrderRejected_ok x \<Longrightarrow> take 2 (boe_OrderRejected_bytes x @ r) = boj_start_of_msg x"
  "boe_OrderRejected_ok x \<Longrightarrow> u16_at 2 (boe_OrderRejected_bytes x @ r) = boj_length x"
  "boe_OrderRejected_ok x \<Longrightarrow> u8_at 4 (boe_OrderRejected_bytes x @ r) = boj_type x"
  by (simp_all add: boe_OrderRejected_bytes_def boe_OrderRejected_ok_def at_skip at_here)

lemma boe_OrderModified_header:
  "boe_OrderModified_ok x \<Longrightarrow> take 2 (boe_OrderModified_bytes x @ r) = bom_start_of_msg x"
  "boe_OrderModified_ok x \<Longrightarrow> u16_at 2 (boe_OrderModified_bytes x @ r) = bom_length x"
  "boe_OrderModified_ok x \<Longrightarrow> u8_at 4 (boe_OrderModified_bytes x @ r) = bom_type x"
  by (simp_all add: boe_OrderModified_bytes_def boe_OrderModified_ok_def at_skip at_here)

lemma boe_ModifyRejected_header:
  "boe_ModifyRejected_ok x \<Longrightarrow> take 2 (boe_ModifyRejected_bytes x @ r) = mr_start_of_msg x"
  "boe_ModifyRejected_ok x \<Longrightarrow> u16_at 2 (boe_ModifyRejected_bytes x @ r) = mr_length x"
  "boe_ModifyRejected_ok x \<Longrightarrow> u8_at 4 (boe_ModifyRejected_bytes x @ r) = mr_type x"
  by (simp_all add: boe_ModifyRejected_bytes_def boe_ModifyRejected_ok_def at_skip at_here)

lemma boe_OrderCanceled_header:
  "boe_OrderCanceled_ok x \<Longrightarrow> take 2 (boe_OrderCanceled_bytes x @ r) = boc_start_of_msg x"
  "boe_OrderCanceled_ok x \<Longrightarrow> u16_at 2 (boe_OrderCanceled_bytes x @ r) = boc_length x"
  "boe_OrderCanceled_ok x \<Longrightarrow> u8_at 4 (boe_OrderCanceled_bytes x @ r) = boc_type x"
  by (simp_all add: boe_OrderCanceled_bytes_def boe_OrderCanceled_ok_def at_skip at_here)

lemma boe_CancelRejected_header:
  "boe_CancelRejected_ok x \<Longrightarrow> take 2 (boe_CancelRejected_bytes x @ r) = bcr_start_of_msg x"
  "boe_CancelRejected_ok x \<Longrightarrow> u16_at 2 (boe_CancelRejected_bytes x @ r) = bcr_length x"
  "boe_CancelRejected_ok x \<Longrightarrow> u8_at 4 (boe_CancelRejected_bytes x @ r) = bcr_type x"
  by (simp_all add: boe_CancelRejected_bytes_def boe_CancelRejected_ok_def at_skip at_here)

lemma boe_OrderExecution_header:
  "boe_OrderExecution_ok x \<Longrightarrow> take 2 (boe_OrderExecution_bytes x @ r) = oe_start_of_msg x"
  "boe_OrderExecution_ok x \<Longrightarrow> u16_at 2 (boe_OrderExecution_bytes x @ r) = oe_length x"
  "boe_OrderExecution_ok x \<Longrightarrow> u8_at 4 (boe_OrderExecution_bytes x @ r) = oe_type x"
  by (simp_all add: boe_OrderExecution_bytes_def boe_OrderExecution_ok_def at_skip at_here)

lemmas boe_headers =
  boe_LoginResponse_header boe_LoginResponse_header [where r = "[]", simplified]
  boe_ServerHeartbeat_header boe_ServerHeartbeat_header [where r = "[]", simplified]
  boe_OrderAck_header boe_OrderAck_header [where r = "[]", simplified]
  boe_OrderRejected_header boe_OrderRejected_header [where r = "[]", simplified]
  boe_OrderModified_header boe_OrderModified_header [where r = "[]", simplified]
  boe_ModifyRejected_header boe_ModifyRejected_header [where r = "[]", simplified]
  boe_OrderCanceled_header boe_OrderCanceled_header [where r = "[]", simplified]
  boe_CancelRejected_header boe_CancelRejected_header [where r = "[]", simplified]
  boe_OrderExecution_header boe_OrderExecution_header [where r = "[]", simplified]

lemmas boe_oks =
  boe_LoginResponse_ok_def
  boe_ServerHeartbeat_ok_def
  boe_OrderAck_ok_def
  boe_OrderRejected_ok_def
  boe_OrderModified_ok_def
  boe_ModifyRejected_ok_def
  boe_OrderCanceled_ok_def
  boe_CancelRejected_ok_def
  boe_OrderExecution_ok_def

lemmas boe_news =
  new_boe_LoginResponse_def boe_LoginResponse_size_def
  new_boe_ServerHeartbeat_def boe_ServerHeartbeat_size_def
  new_boe_OrderAck_def boe_OrderAck_size_def
  new_boe_OrderRejected_def boe_OrderRejected_size_def
  new_boe_OrderModified_def boe_OrderModified_size_def
  new_boe_ModifyRejected_def boe_ModifyRejected_size_def
  new_boe_OrderCanceled_def boe_OrderCanceled_size_def
  new_boe_CancelRejected_def boe_CancelRejected_size_def
  new_boe_OrderExecution_def boe_OrderExecution_size_def

lemmas boe_at_exact =
  boe_LoginResponse.at_bytes_exact boe_LoginResponse.at_bytes boe_LoginResponse.length_bytes
  boe_ServerHeartbeat.at_bytes_exact boe_ServerHeartbeat.at_bytes boe_ServerHeartbeat.length_bytes
  boe_OrderAck.at_bytes_exact boe_OrderAck.at_bytes boe_OrderAck.length_bytes
  boe_OrderRejected.at_bytes_exact boe_OrderRejected.at_bytes boe_OrderRejected.length_bytes
  boe_OrderModified.at_bytes_exact boe_OrderModified.at_bytes boe_OrderModified.length_bytes
  boe_ModifyRejected.at_bytes_exact boe_ModifyRejected.at_bytes boe_ModifyRejected.length_bytes
  boe_OrderCanceled.at_bytes_exact boe_OrderCanceled.at_bytes boe_OrderCanceled.length_bytes
  boe_CancelRejected.at_bytes_exact boe_CancelRejected.at_bytes boe_CancelRejected.length_bytes
  boe_OrderExecution.at_bytes_exact boe_OrderExecution.at_bytes boe_OrderExecution.length_bytes

lemma length_Reason_to_string: "length (Reason_to_string r) < 60"
  by (cases r) simp_all

lemma length_text [simp]:
  "length old = 60 \<Longrightarrow> length (strcpy_into old (Reason_to_string r)) = 60"
  "length old = 60 \<Longrightarrow> length (strcpy_into old ''Duplicate CIOrdID'') = 60"
  using length_Reason_to_string [of r] by (simp_all add: length_strcpy_into)

lemma length_text_at [simp]:
  "101 \<le> length g \<Longrightarrow> length (mr_text (boe_ModifyRejected_at g)) = 60"
  "101 \<le> length g \<Longrightarrow> length (bcr_text (boe_CancelRejected_at g)) = 60"
  "101 \<le> length g \<Longrightarrow> length (boj_text (boe_OrderRejected_at g)) = 60"
  by (simp_all add: boe_ModifyRejected_at_def boe_CancelRejected_at_def boe_OrderRejected_at_def
      length_arr_at)

lemmas boe_event_proof = boe_construct_defs boe_event_of_def boe_headers boe_at_exact boe_oks
  boe_news boe_frame_def boe_typed_def boe_sent_size_def

lemma boe_modify_rejected_event:
  "length t = 20 \<Longrightarrow> boe_events (boe_construct_modify_rejected t r s) = boe_events s @ [Some (Bv_ModifyRejected t (Reason_code r))]"
  "length t = 20 \<Longrightarrow> boe_framed (boe_construct_modify_rejected t r s) = boe_framed s"
  by (simp_all add: boe_construct_modify_rejected_def boe_event_proof)

lemma boe_order_modified_event:
  "length (boe_token bo) = 20 \<Longrightarrow> boe_events (boe_construct_order_modified bo s) = boe_events s @ [Some (Bv_Modified (boe_token bo) (boe_price bo) (to_uint32 (remaining_qty bo + executed_qty bo)) (to_uint32 (remaining_qty bo)))]"
  "length (boe_token bo) = 20 \<Longrightarrow> boe_framed (boe_construct_order_modified bo s) = boe_framed s"
  by (simp_all add: boe_construct_order_modified_def boe_event_proof)

lemma boe_order_canceled_event:
  "length t = 20 \<Longrightarrow> boe_events (boe_construct_order_canceled t s) = boe_events s @ [Some (Bv_Canceled t (ch CHR ''U''))]"
  "length t = 20 \<Longrightarrow> boe_framed (boe_construct_order_canceled t s) = boe_framed s"
  by (simp_all add: boe_construct_order_canceled_def boe_event_proof)

lemma boe_cancel_rejected_event:
  "length t = 20 \<Longrightarrow> boe_events (boe_construct_cancel_rejected t r s) = boe_events s @ [Some (Bv_CancelRejected t (Reason_code r))]"
  "length t = 20 \<Longrightarrow> boe_framed (boe_construct_cancel_rejected t r s) = boe_framed s"
  by (simp_all add: boe_construct_cancel_rejected_def boe_event_proof)

lemma boe_order_rejected_event:
  "length (no_token no) = 20 \<Longrightarrow> boe_events (boe_construct_order_rejected no s) = boe_events s @ [Some (Bv_Rejected (no_token no) (ch CHR ''D''))]"
  "length (no_token no) = 20 \<Longrightarrow> boe_framed (boe_construct_order_rejected no s) = boe_framed s"
  by (simp_all add: boe_construct_order_rejected_def boe_event_proof)

lemma boe_order_accepted_event:
  "length (boe_token bo) = 20 \<Longrightarrow> boe_events (boe_construct_order_accepted bo s) = boe_events s @ [Some (Bv_Ack (boe_seq_num s + 1) (boe_token bo) (to_uint32 (remaining_qty bo)))]"
  "length (boe_token bo) = 20 \<Longrightarrow> boe_framed (boe_construct_order_accepted bo s) = boe_framed s"
  by (simp_all add: boe_construct_order_accepted_def boe_event_proof)

lemma boe_login_response_event:
  "74 \<le> length mem \<Longrightarrow> boe_events (boe_construct_login_response st mem s) = boe_events s @ [Some (Bv_LoginResponse (LoginResponseStatus_code st))]"
  "74 \<le> length mem \<Longrightarrow> boe_framed (boe_construct_login_response st mem s) = boe_framed s"
  by (simp_all add: boe_construct_login_response_def boe_event_proof boe_UnitSequence_bytes_def boe_UnitSequence_size_def)

lemma boe_heartbeat_event:
  "boe_events (boe_post_heartbeat s) = boe_events s @ [Some Bv_Heartbeat]"
  "boe_framed (boe_post_heartbeat s) = boe_framed s"
  by (simp_all add: boe_post_heartbeat_def boe_event_proof)

end
