(* ===== verification/BoeInv.thy ===== *)
theory BoeInv
  imports BoeFacts Samples
begin

text \<open>
  The invariant of the BOE session and its preservation, the session as a state machine, and the
  numbering of sequenced messages. The invariant does not say that an order is stored under its
  own token: a cancel of an unknown token breaks that.
\<close>

section \<open>Tables\<close>

definition boe_table_ok :: "(byte list \<times> Boe_Order) list \<Rightarrow> bool" where
  "boe_table_ok m \<longleftrightarrow> distinct (keys m) \<and>
     (\<forall>k o1. map_of m k = Some o1 \<longrightarrow> length k = 20 \<and> boe_order_ok o1)"

lemma boe_table_ok_Nil [simp]: "boe_table_ok []"
  by (simp add: boe_table_ok_def keys_def)

lemma boe_table_okD:
  "boe_table_ok m \<Longrightarrow> map_of m k = Some o1 \<Longrightarrow> length k = 20 \<and> boe_order_ok o1"
  by (simp add: boe_table_ok_def)

lemma boe_table_ok_update:
  "boe_table_ok m \<Longrightarrow> length k = 20 \<Longrightarrow> boe_order_ok o1 \<Longrightarrow> boe_table_ok (AList.update k o1 m)"
  by (simp add: boe_table_ok_def)

lemma boe_table_ok_delete: "boe_table_ok m \<Longrightarrow> boe_table_ok (AList.delete k m)"
  by (auto simp: boe_table_ok_def distinct_keys_delete split: if_splits)

lemma boe_table_ok_erase_all: "boe_table_ok m \<Longrightarrow> boe_table_ok (erase_all ks m)"
  by (induction ks arbitrary: m) (simp_all add: boe_table_ok_delete)

lemma boe_table_ok_swap:
  assumes "boe_table_ok m"
  shows "boe_table_ok (swap_entries k1 k2 m)"
proof (cases "map_of m k1"; cases "map_of m k2")
  fix v1 v2 assume v: "map_of m k1 = Some v1" "map_of m k2 = Some v2"
  with boe_table_okD [OF assms] show ?thesis
    by (simp add: swap_entries_def boe_table_ok_update assms)
qed (use assms in \<open>simp_all add: swap_entries_def\<close>)

definition boe_inv :: "boe_session \<Rightarrow> bool" where
  "boe_inv s \<longleftrightarrow> boe_table_ok (boe_active s) \<and> boe_table_ok (boe_finished s) \<and>
     (\<forall>co\<in>set (boe_pending_cancel s). length (bcxl_token co) = 20) \<and>
     (\<forall>mo\<in>set (boe_pending_modify s). length (bmod_orig_token mo) = 20 \<and> length (bmod_token mo) = 20) \<and>
     boe_framed s"

lemma boe_inv_frame [simp]:
  "boe_inv (s\<lparr>s_env := e\<rparr>) = boe_inv s" "boe_inv (s\<lparr>session_state := st\<rparr>) = boe_inv s"
  "boe_inv (s\<lparr>last_send_heartbeat := h\<rparr>) = boe_inv s"
  "boe_inv (s\<lparr>last_recv_heartbeat := h\<rparr>) = boe_inv s"
  "boe_inv (s\<lparr>boe_seq_num := n\<rparr>) = boe_inv s"
  by (simp_all add: boe_inv_def)

lemma boe_inv_set_logger [simp]: "boe_inv (s\<lparr>logger_set := b\<rparr>) = boe_inv s"
  by (simp add: boe_inv_def boe_framed_def)

lemma boe_inv_messages [simp]:
  "length t = 20 \<Longrightarrow> boe_inv (boe_construct_modify_rejected t r s) = boe_inv s"
  "length t = 20 \<Longrightarrow> boe_inv (boe_construct_cancel_rejected t r s) = boe_inv s"
  "length t = 20 \<Longrightarrow> boe_inv (boe_construct_order_canceled t s) = boe_inv s"
  "length (boe_token bo) = 20 \<Longrightarrow> boe_inv (boe_construct_order_modified bo s) = boe_inv s"
  "length (boe_token bo) = 20 \<Longrightarrow> boe_inv (boe_construct_order_accepted bo s) = boe_inv s"
  "length (no_token no) = 20 \<Longrightarrow> boe_inv (boe_construct_order_rejected no s) = boe_inv s"
  "74 \<le> length mem \<Longrightarrow> boe_inv (boe_construct_login_response st mem s) = boe_inv s"
  "boe_inv (boe_post_heartbeat s) = boe_inv s"
  by (simp_all add: boe_inv_def boe_modify_rejected_event boe_cancel_rejected_event
      boe_order_canceled_event boe_order_modified_event boe_order_accepted_event
      boe_order_rejected_event boe_login_response_event boe_heartbeat_event)

lemma boe_put_sel [simp]:
  "boe_active (boe_put k o1 s) = AList.update k o1 (boe_active s)"
  "boe_finished (boe_put k o1 s) = boe_finished s"
  "boe_pending_cancel (boe_put k o1 s) = boe_pending_cancel s"
  "boe_pending_modify (boe_put k o1 s) = boe_pending_modify s"
  "boe_events (boe_put k o1 s) = boe_events s" "boe_framed (boe_put k o1 s) = boe_framed s"
  "boe_seq_num (boe_put k o1 s) = boe_seq_num s" "s_env (boe_put k o1 s) = s_env s"
  "session_state (boe_put k o1 s) = session_state s"
  by (simp_all add: boe_put_def)

lemma boe_put_finished_sel [simp]:
  "boe_active (boe_put_finished k o1 s) = boe_active s"
  "boe_finished (boe_put_finished k o1 s) = AList.update k o1 (boe_finished s)"
  "boe_pending_cancel (boe_put_finished k o1 s) = boe_pending_cancel s"
  "boe_pending_modify (boe_put_finished k o1 s) = boe_pending_modify s"
  "boe_events (boe_put_finished k o1 s) = boe_events s"
  "boe_framed (boe_put_finished k o1 s) = boe_framed s"
  "boe_seq_num (boe_put_finished k o1 s) = boe_seq_num s"
  "s_env (boe_put_finished k o1 s) = s_env s"
  by (simp_all add: boe_put_finished_def)

lemma boe_erase_sel [simp]:
  "boe_active (boe_erase ks s) = erase_all ks (boe_active s)"
  "boe_finished (boe_erase ks s) = boe_finished s"
  "boe_pending_cancel (boe_erase ks s) = boe_pending_cancel s"
  "boe_pending_modify (boe_erase ks s) = boe_pending_modify s"
  "boe_events (boe_erase ks s) = boe_events s" "boe_framed (boe_erase ks s) = boe_framed s"
  "boe_seq_num (boe_erase ks s) = boe_seq_num s" "s_env (boe_erase ks s) = s_env s"
  by (simp_all add: boe_erase_def)

lemma boe_index_sel [simp]:
  "boe_finished (boe_index k s) = boe_finished s"
  "boe_pending_cancel (boe_index k s) = boe_pending_cancel s"
  "boe_pending_modify (boe_index k s) = boe_pending_modify s"
  "boe_events (boe_index k s) = boe_events s" "boe_framed (boe_index k s) = boe_framed s"
  "boe_seq_num (boe_index k s) = boe_seq_num s"
  "session_state (boe_index k s) = session_state s"
  by (simp_all add: boe_index_def on_env_result Let_def split: option.splits)

lemma boe_index_present: "map_of (boe_active s) k = Some o1 \<Longrightarrow> boe_index k s = s"
  by (simp add: boe_index_def)

lemma boe_index_absent:
  "map_of (boe_active s) k = None \<Longrightarrow> boe_active (boe_index k s) =
     AList.update k (fst (new_Boe_Order (s_env s))) (boe_active s)"
  by (simp add: boe_index_def on_env_result Let_def)

lemma map_of_boe_index_other:
  "k' \<noteq> k \<Longrightarrow> map_of (boe_active (boe_index k s)) k' = map_of (boe_active s) k'"
  by (cases "map_of (boe_active s) k") (simp_all add: boe_index_present boe_index_absent)

lemma map_of_boe_index: "map_of (boe_active (boe_index k s)) k \<noteq> None"
  by (cases "map_of (boe_active s) k") (simp_all add: boe_index_present boe_index_absent)

lemma boe_finished_index_sel [simp]:
  "boe_active (boe_finished_index k s) = boe_active s"
  "boe_pending_cancel (boe_finished_index k s) = boe_pending_cancel s"
  "boe_pending_modify (boe_finished_index k s) = boe_pending_modify s"
  "boe_events (boe_finished_index k s) = boe_events s"
  "boe_framed (boe_finished_index k s) = boe_framed s"
  "boe_seq_num (boe_finished_index k s) = boe_seq_num s"
  by (simp_all add: boe_finished_index_def on_env_result Let_def split: option.splits)

lemma update_update_idem: "AList.update k v (AList.update k v' m) = AList.update k v m"
  by (induction m) auto

lemma boe_put_finished_index [simp]:
  "AList.update k o1 (boe_finished (boe_finished_index k s)) = AList.update k o1 (boe_finished s)"
  by (cases "map_of (boe_finished s) k")
    (simp_all add: boe_finished_index_def on_env_result Let_def update_update_idem)

lemma boe_inv_put: "boe_inv s \<Longrightarrow> length k = 20 \<Longrightarrow> boe_order_ok o1 \<Longrightarrow> boe_inv (boe_put k o1 s)"
  by (simp add: boe_inv_def boe_table_ok_update)

lemma boe_inv_finish:
  "boe_inv s \<Longrightarrow> length k = 20 \<Longrightarrow> boe_order_ok o1 \<Longrightarrow>
   boe_inv (boe_put_finished k o1 (boe_finished_index k s))"
  by (simp add: boe_inv_def boe_table_ok_update)

lemma boe_inv_index: "boe_inv s \<Longrightarrow> length k = 20 \<Longrightarrow> boe_inv (boe_index k s)"
  by (cases "map_of (boe_active s) k")
    (simp_all add: boe_index_present boe_inv_def boe_index_absent boe_table_ok_update new_Boe_Order_ok)

lemma boe_inv_erase: "boe_inv s \<Longrightarrow> boe_inv (boe_erase ks s)"
  by (simp add: boe_inv_def boe_table_ok_erase_all)

section \<open>Executions\<close>

lemma boe_order_executed_effect:
  assumes "length (boe_token o1) = 20" and "exe \<noteq> 0"
  obtains q lot where "100 \<le> lot" "lot \<le> 1000"
    and "q = min (if exe < 0 then lot else exe) (remaining_qty o1)"
    and "fst (boe_construct_order_executed o1 exe s) =
      o1\<lparr>remaining_qty := remaining_qty o1 - q, executed_qty := executed_qty o1 + q\<rparr>"
    and "boe_events (snd (boe_construct_order_executed o1 exe s)) = boe_events s @
      [Some (Bv_Executed (boe_seq_num s + 1) (boe_token o1) (to_uint32 q) (boe_price o1)
         (to_uint32 (remaining_qty o1 - q)))]"
    and "boe_framed (snd (boe_construct_order_executed o1 exe s)) = boe_framed s"
proof -
  let ?e4 = "snd (rand_times_rand (snd (clock_now (snd (uninit boe_OrderExecution_size (s_env s))))))"
  let ?lot = "(1 + fst (rand_int ?e4) mod 10) * 100"
  let ?q = "min (if exe < 0 then ?lot else exe) (remaining_qty o1)"
  have lot: "100 \<le> ?lot" "?lot \<le> 1000"
    using pos_mod_bound [of 10 "fst (rand_int ?e4)"] pos_mod_sign [of 10 "fst (rand_int ?e4)"] by simp_all
  have "fst (boe_construct_order_executed o1 exe s) =
      o1\<lparr>remaining_qty := remaining_qty o1 - ?q, executed_qty := executed_qty o1 + ?q\<rparr>"
    using assms(2) by (simp add: boe_construct_order_executed_def boe_construct_defs)
  moreover have "boe_events (snd (boe_construct_order_executed o1 exe s)) = boe_events s @
      [Some (Bv_Executed (boe_seq_num s + 1) (boe_token o1) (to_uint32 ?q) (boe_price o1)
         (to_uint32 (remaining_qty o1 - ?q)))]"
    and "boe_framed (snd (boe_construct_order_executed o1 exe s)) = boe_framed s"
    using assms by (simp_all add: boe_construct_order_executed_def boe_event_proof bytes_of_string_def)
  ultimately show thesis using that [OF lot refl] by blast
qed

lemma boe_order_executed_sel [simp]:
  "boe_active (snd (boe_construct_order_executed o1 x s)) = boe_active s"
  "boe_finished (snd (boe_construct_order_executed o1 x s)) = boe_finished s"
  "boe_pending_cancel (snd (boe_construct_order_executed o1 x s)) = boe_pending_cancel s"
  "boe_pending_modify (snd (boe_construct_order_executed o1 x s)) = boe_pending_modify s"
  "boe_seq_num (snd (boe_construct_order_executed o1 x s)) =
     (if x = 0 then boe_seq_num s else boe_seq_num s + 1)"
  by (simp_all add: boe_construct_order_executed_def boe_construct_defs)

lemma boe_order_executed_zero: "boe_construct_order_executed o1 0 s = (o1, s)"
  by (simp add: boe_construct_order_executed_def)

lemma boe_order_executed_ok:
  "boe_order_ok o1 \<Longrightarrow> boe_order_ok (fst (boe_construct_order_executed o1 x s))"
  by (simp add: boe_construct_order_executed_def boe_construct_defs boe_order_ok_def)

lemma boe_inv_order_executed:
  assumes "boe_inv s" and "boe_order_ok o1"
  shows "boe_inv (snd (boe_construct_order_executed o1 x s))"
proof (cases "x = 0")
  case True
  with assms show ?thesis by (simp add: boe_order_executed_zero)
next
  case False
  have "boe_framed (snd (boe_construct_order_executed o1 x s)) = boe_framed s"
    using boe_order_executed_effect [OF _ False, of o1 s] assms(2) by (auto simp: boe_order_ok_def)
  with assms(1) show ?thesis by (simp add: boe_inv_def)
qed

section \<open>Preservation by the market logic\<close>

lemma boe_inv_cancel_one:
  assumes "boe_inv s" and "length (bcxl_token co) = 20"
  shows "boe_inv (snd (boe_cancel_one co s))"
  using assms by (simp add: boe_cancel_one_def boe_construct_defs)

lemma boe_cancel_one_frame:
  "boe_pending_cancel (snd (boe_cancel_one co s)) = boe_pending_cancel s"
  "boe_active (snd (boe_cancel_one co s)) = boe_active s"
  "boe_finished (snd (boe_cancel_one co s)) = boe_finished s"
  by (simp_all add: boe_cancel_one_def boe_construct_defs)

lemma boe_inv_cancel_loop:
  "boe_inv s \<Longrightarrow> \<forall>co\<in>set reqs. length (bcxl_token co) = 20 \<Longrightarrow>
   boe_inv (snd (boe_cancel_loop reqs s))"
  by (induction reqs arbitrary: s) (auto simp: split_def Let_def boe_inv_cancel_one)

lemma boe_inv_cancel_logic: "boe_inv s \<Longrightarrow> boe_inv (boe_cancel_logic s)"
proof -
  assume inv: "boe_inv s"
  then have "boe_inv (snd (boe_cancel_loop (boe_pending_cancel s) s))"
    by (intro boe_inv_cancel_loop) (auto simp: boe_inv_def)
  then have "boe_inv ((snd (boe_cancel_loop (boe_pending_cancel s) s))\<lparr>boe_pending_cancel := []\<rparr>)"
    by (simp add: boe_inv_def)
  then show ?thesis by (simp add: boe_cancel_logic_def split_def Let_def boe_inv_erase)
qed

lemma boe_modified_order_ok:
  "boe_order_ok o1 \<Longrightarrow> length (bmod_token mo) = 20 \<Longrightarrow> boe_order_ok (boe_modified_order mo o1)"
  by (simp add: boe_modified_order_def boe_order_ok_def)

lemma boe_inv_active_upd:
  "boe_inv s \<Longrightarrow> boe_table_ok m \<Longrightarrow> boe_inv (s\<lparr>boe_active := m\<rparr>)"
  by (simp add: boe_inv_def)

lemma boe_inv_modify_one:
  assumes inv: "boe_inv s" and len: "length (bmod_orig_token mo) = 20" "length (bmod_token mo) = 20"
  shows "boe_inv (snd (boe_modify_one mo s))"
proof (cases "map_of (boe_active s) (bmod_orig_token mo)")
  case None
  then show ?thesis using inv by (simp add: boe_modify_one_def Let_def)
next
  case (Some o1)
  let ?s1 = "boe_index (bmod_token mo) (boe_put (bmod_orig_token mo) (boe_modified_order mo o1) s)"
  let ?s2 = "boe_index (bmod_token mo) (?s1\<lparr>boe_active :=
    AList.delete (bmod_orig_token mo) (swap_entries (bmod_token mo) (bmod_orig_token mo) (boe_active ?s1))\<rparr>)"
  have "boe_order_ok o1" using boe_table_okD [OF _ Some] inv by (simp add: boe_inv_def)
  then have i1: "boe_inv ?s1"
    using inv len by (intro boe_inv_index boe_inv_put boe_modified_order_ok)
  have "boe_table_ok (boe_active ?s1)" using i1 unfolding boe_inv_def by blast
  then have i2: "boe_inv ?s2"
    by (intro boe_inv_index [OF boe_inv_active_upd [OF i1]] boe_table_ok_delete boe_table_ok_swap len)
  have "boe_order_ok o3" if "map_of (boe_active ?s2) (bmod_token mo) = Some o3" for o3
    using boe_table_okD [OF _ that] i2 by (simp add: boe_inv_def)
  then show ?thesis
    using i2 Some by (auto simp: boe_modify_one_def Let_def boe_order_ok_def split: option.splits)
qed

lemma boe_modify_one_frame:
  "boe_pending_modify (snd (boe_modify_one mo s)) = boe_pending_modify s"
  "boe_pending_cancel (snd (boe_modify_one mo s)) = boe_pending_cancel s"
  "boe_finished (snd (boe_modify_one mo s)) = boe_finished s"
  by (simp_all add: boe_modify_one_def Let_def split: option.splits)

lemma boe_inv_modify_loop:
  "boe_inv s \<Longrightarrow> \<forall>mo\<in>set reqs. length (bmod_orig_token mo) = 20 \<and> length (bmod_token mo) = 20 \<Longrightarrow>
   boe_inv (snd (boe_modify_loop reqs s))"
  by (induction reqs arbitrary: s) (auto simp: split_def Let_def boe_inv_modify_one)

lemma boe_inv_modify_logic: "boe_inv s \<Longrightarrow> boe_inv (boe_modify_logic s)"
proof -
  assume inv: "boe_inv s"
  then have "boe_inv (snd (boe_modify_loop (boe_pending_modify s) s))"
    by (intro boe_inv_modify_loop) (auto simp: boe_inv_def)
  then show ?thesis by (simp add: boe_modify_logic_def split_def Let_def boe_inv_erase)
qed

lemma boe_inv_execute_one:
  assumes "boe_inv s" and "length k = 20" and "boe_order_ok o1"
  shows "boe_inv (snd (boe_execute_one k o1 s))"
  using assms
  by (simp add: boe_execute_one_def on_env_result Let_def split_def boe_inv_finish boe_inv_put
      boe_inv_order_executed boe_order_executed_ok)

lemma boe_inv_execute_loop:
  "boe_inv s \<Longrightarrow> \<forall>p\<in>set ps. length (fst p) = 20 \<and> boe_order_ok (snd p) \<Longrightarrow>
   boe_inv (snd (boe_execute_loop ps s))"
  by (induction ps arbitrary: s) (auto simp: split_def Let_def boe_inv_execute_one)

lemma boe_visit_entries:
  assumes "boe_table_ok m"
  shows "\<forall>p\<in>set (visit rank m). length (fst p) = 20 \<and> boe_order_ok (snd p)"
proof
  fix p assume "p \<in> set (visit rank m)"
  then have "(fst p, snd p) \<in> set m" by simp
  then have "map_of m (fst p) = Some (snd p)"
    using assms map_of_in_set [of m "fst p" "snd p"] unfolding boe_table_ok_def by blast
  then show "length (fst p) = 20 \<and> boe_order_ok (snd p)" by (rule boe_table_okD [OF assms])
qed

lemma boe_execution_logic_eq:
  fixes s :: boe_session
  defines "ps \<equiv> visit (fst (next_rank (s_env s))) (boe_active s)"
    and "s1 \<equiv> s\<lparr>s_env := snd (next_rank (s_env s))\<rparr>"
  shows "boe_execution_logic s = boe_erase (fst (boe_execute_loop ps s1)) (snd (boe_execute_loop ps s1))"
  by (simp add: boe_execution_logic_def on_env_result Let_def split_def ps_def s1_def)

lemma boe_inv_execution_logic: "boe_inv s \<Longrightarrow> boe_inv (boe_execution_logic s)"
  unfolding boe_execution_logic_eq
  by (intro boe_inv_erase boe_inv_execute_loop boe_visit_entries) (simp_all add: boe_inv_def)

lemma boe_inv_market_logic: "boe_inv s \<Longrightarrow> boe_inv (boe_market_logic s)"
  by (simp add: boe_market_logic_def boe_inv_execution_logic boe_inv_modify_logic boe_inv_cancel_logic
      boe_heartbeat_logic_def heartbeat_with_def on_env_result Let_def)

lemma boe_inv_cancel_all: "boe_inv s \<Longrightarrow> boe_inv (snd (boe_cancel_all s))"
proof -
  assume inv: "boe_inv s"
  have loop: "boe_inv u \<Longrightarrow> \<forall>p\<in>set ps. length (fst p) = 20 \<and> boe_order_ok (snd p) \<Longrightarrow>
      boe_inv (snd (boe_cancel_all_loop ps u))" for ps u
    by (induction ps arbitrary: u) (auto simp: split_def Let_def boe_order_ok_def)
  have "boe_inv (snd (boe_cancel_all_loop (visit (fst (next_rank (s_env s))) (boe_active s))
      (s\<lparr>s_env := snd (next_rank (s_env s))\<rparr>)))"
    by (rule loop) (use inv boe_visit_entries in \<open>auto simp: boe_inv_def\<close>)
  then show ?thesis
    by (simp add: boe_cancel_all_def on_env_result Let_def split_def) (simp add: boe_inv_def)
qed

section \<open>Preservation by the packet handlers\<close>

lemma boe_inv_enter_order:
  assumes "boe_inv s" and "length (no_token no) = 20"
  shows "boe_inv (boe_enter_order no s)"
proof -
  have "boe_order_ok (fst (Boe_Order_of no e))" for e :: env using assms(2) by (rule Boe_Order_of_ok)
  then show ?thesis
    using assms by (simp add: boe_enter_order_def on_env_result Let_def boe_inv_put boe_inv_index
        boe_order_ok_def)
qed

lemma boe_inv_cancel_order:
  assumes "boe_inv s" and "length (bco_orig_token co) = 20"
  shows "boe_inv (boe_cancel_order co s)"
proof -
  have "boe_inv (s\<lparr>boe_pending_cancel := boe_pending_cancel s @ [boe_parse_cancel_order co]\<rparr>)"
    using assms by (auto simp: boe_inv_def boe_parse_cancel_order_def)
  then show ?thesis
    using assms by (simp add: boe_cancel_order_def on_env_result Let_def boe_inv_index)
qed

lemma boe_inv_modify_order:
  assumes "boe_inv s" and "length (bmo_orig_token mo) = 20" and "length (bmo_token mo) = 20"
  shows "boe_inv (boe_modify_order mo s)"
proof -
  have "boe_inv (s\<lparr>s_env := e, boe_pending_modify := boe_pending_modify s @ [boe_parse_modify_order mo]\<rparr>)"
    for e using assms by (auto simp: boe_inv_def boe_parse_modify_order_def)
  then show ?thesis using assms by (simp add: boe_modify_order_def on_env_result Let_def)
qed

lemma boe_tokens:
  "boe_NewOrder_size \<le> length mem \<Longrightarrow> length (no_token (boe_NewOrder_at mem)) = 20"
  "boe_CancelOrder_size \<le> length mem \<Longrightarrow> length (bco_orig_token (boe_CancelOrder_at mem)) = 20"
  "boe_ModifyOrder_size \<le> length mem \<Longrightarrow> length (bmo_orig_token (boe_ModifyOrder_at mem)) = 20"
  "boe_ModifyOrder_size \<le> length mem \<Longrightarrow> length (bmo_token (boe_ModifyOrder_at mem)) = 20"
  using boe_NewOrder.ok_at [of mem] boe_CancelOrder.ok_at [of mem] boe_ModifyOrder.ok_at [of mem]
  by (simp_all add: boe_NewOrder_ok_def boe_CancelOrder_ok_def boe_ModifyOrder_ok_def)

text \<open>What handling a packet comes to.\<close>

lemma boe_handle_packet_cases [consumes 1, case_names login beat enter cancel modify other]:
  assumes "boe_handle_packet mem len s = Inr (mem', s')"
  obtains (login) "boe_LoginRequest_size \<le> length mem" "s' = boe_handle_login_request mem s"
  | (beat) "s' = boe_handle_client_heartbeat s"
  | (enter) "boe_NewOrder_size \<le> length mem" "s' = boe_enter_order (boe_NewOrder_at mem) s"
  | (cancel) "boe_CancelOrder_size \<le> length mem" "s' = boe_cancel_order (boe_CancelOrder_at mem) s"
  | (modify) "boe_ModifyOrder_size \<le> length mem" "s' = boe_modify_order (boe_ModifyOrder_at mem) s"
  | (other) "s' = s"
  using assms
  by (auto simp: boe_handle_packet_def bind_result_Inr_iff read_struct_Inr Let_def split: if_splits)

lemma boe_inv_handle_packet:
  assumes "boe_inv s" and "boe_handle_packet mem len s = Inr (mem', s')"
  shows "boe_inv s'"
  using assms(2)
proof (cases rule: boe_handle_packet_cases)
  case login
  then show ?thesis using assms(1)
    by (simp add: boe_handle_login_request_def on_env_result Let_def boe_LoginRequest_size_def)
next
  case beat
  then show ?thesis using assms(1)
    by (simp add: boe_handle_client_heartbeat_def on_env_result Let_def)
next
  case enter
  then show ?thesis using assms(1) boe_tokens by (simp add: boe_inv_enter_order)
next
  case cancel
  then show ?thesis using assms(1) boe_tokens by (simp add: boe_inv_cancel_order)
next
  case modify
  then show ?thesis using assms(1) boe_tokens by (simp add: boe_inv_modify_order)
next
  case other
  then show ?thesis using assms(1) by simp
qed

section \<open>The session as a state machine\<close>

inductive boe_step :: "boe_session \<Rightarrow> boe_session \<Rightarrow> bool" where
  boe_packet: "boe_handle_packet mem len s = Inr (mem', s') \<Longrightarrow> boe_step s s'"
| boe_tick: "boe_step s (boe_market_logic s)"
| boe_console_cancel: "boe_step s (snd (boe_cancel_all s))"
| boe_console_status: "boe_step s (snd (boe_curr_status s))"
| boe_accepted_connection: "boe_step s (set_logger s)"
| boe_lost_connection: "boe_step s (disconnect s)"
| boe_sent: "boe_step s (s\<lparr>pending_out_messages := []\<rparr>)"
| boe_environment: "boe_step s (s\<lparr>s_env := e\<rparr>)"

inductive boe_reachable :: "boe_session \<Rightarrow> bool" where
  boe_start: "boe_reachable (new_boe_session e)"
| boe_next: "boe_reachable s \<Longrightarrow> boe_step s s' \<Longrightarrow> boe_reachable s'"

inductive_cases boe_stepE: "boe_step s s'"

lemma boe_step_inv: "boe_step s s' \<Longrightarrow> boe_inv s \<Longrightarrow> boe_inv s'"
proof (induction rule: boe_step.induct)
  case (boe_packet mem len s mem' s')
  then show ?case using boe_inv_handle_packet by blast
next
  case (boe_tick s)
  then show ?case by (rule boe_inv_market_logic)
next
  case (boe_console_cancel s)
  then show ?case by (rule boe_inv_cancel_all)
next
  case (boe_console_status s)
  then show ?case by (simp add: boe_curr_status_def on_env_result Let_def)
next
  case (boe_accepted_connection s)
  then show ?case by (simp add: set_logger_def)
next
  case (boe_lost_connection s)
  then show ?case by (simp add: disconnect_def)
next
  case (boe_sent s)
  then show ?case by (simp add: boe_inv_def boe_framed_def)
next
  case (boe_environment s e)
  then show ?case by simp
qed

lemma boe_reachable_inv: "boe_reachable s \<Longrightarrow> boe_inv s"
proof (induction rule: boe_reachable.induct)
  case (boe_start e)
  then show ?case by (simp add: new_boe_session_def boe_inv_def boe_framed_def split_def Let_def)
qed (rule boe_step_inv)

end
