(* ===== verification/BoeNumbering.thy ===== *)
theory BoeNumbering
  imports BoeInv
begin

text \<open>
  The numbering of sequenced BOE messages: every operation sends the numbers that follow the last
  one sent, without gaps.
\<close>

section \<open>Numbering\<close>

fun boe_seqs :: "boe_event option list \<Rightarrow> u32 list" where
  "boe_seqs [] = []"
| "boe_seqs (Some (Bv_Ack n t q) # evs) = n # boe_seqs evs"
| "boe_seqs (Some (Bv_Executed n t q p l) # evs) = n # boe_seqs evs"
| "boe_seqs (_ # evs) = boe_seqs evs"

lemma boe_seqs_append [simp]: "boe_seqs (evs @ evs') = boe_seqs evs @ boe_seqs evs'"
  by (induction evs rule: boe_seqs.induct) simp_all

text \<open>The messages sent from \<open>s\<close> to \<open>s'\<close> carry the next numbers, without gaps.\<close>

definition boe_numbered :: "boe_session \<Rightarrow> boe_session \<Rightarrow> bool" where
  "boe_numbered s s' \<longleftrightarrow> (\<exists>evs. boe_events s' = boe_events s @ evs \<and>
     boe_seqs evs = List.map (\<lambda>i. boe_seq_num s + of_nat (Suc i)) [0..<length (boe_seqs evs)] \<and>
     boe_seq_num s' = boe_seq_num s + of_nat (length (boe_seqs evs)))"

lemma boe_numbered_same:
  "boe_events s' = boe_events s \<Longrightarrow> boe_seq_num s' = boe_seq_num s \<Longrightarrow> boe_numbered s s'"
  unfolding boe_numbered_def by (rule exI [of _ "[]"]) simp

lemma boe_numbered_plain:
  "boe_events s' = boe_events s @ [e] \<Longrightarrow> boe_seqs [e] = [] \<Longrightarrow> boe_seq_num s' = boe_seq_num s \<Longrightarrow>
   boe_numbered s s'"
  unfolding boe_numbered_def by (rule exI [of _ "[e]"]) simp

lemma boe_numbered_one:
  "boe_events s' = boe_events s @ [e] \<Longrightarrow> boe_seqs [e] = [boe_seq_num s + 1] \<Longrightarrow>
   boe_seq_num s' = boe_seq_num s + 1 \<Longrightarrow> boe_numbered s s'"
  unfolding boe_numbered_def by (rule exI [of _ "[e]"]) simp

lemma map_upt_shift: "List.map f [m..<m + n] = List.map (\<lambda>i. f (m + i)) [0..<n]"
  by (induction n) simp_all

lemma boe_numbered_trans [trans]:
  assumes "boe_numbered s s1" and "boe_numbered s1 s2"
  shows "boe_numbered s s2"
proof -
  obtain e1 where e1: "boe_events s1 = boe_events s @ e1"
    "boe_seqs e1 = List.map (\<lambda>i. boe_seq_num s + of_nat (Suc i)) [0..<length (boe_seqs e1)]"
    "boe_seq_num s1 = boe_seq_num s + of_nat (length (boe_seqs e1))"
    using assms(1) unfolding boe_numbered_def by blast
  obtain e2 where e2: "boe_events s2 = boe_events s1 @ e2"
    "boe_seqs e2 = List.map (\<lambda>i. boe_seq_num s1 + of_nat (Suc i)) [0..<length (boe_seqs e2)]"
    "boe_seq_num s2 = boe_seq_num s1 + of_nat (length (boe_seqs e2))"
    using assms(2) unfolding boe_numbered_def by blast
  let ?m = "length (boe_seqs e1)" and ?n = "length (boe_seqs e2)"
  have "List.map (\<lambda>i. boe_seq_num s + of_nat (Suc i)) [?m..<?m + ?n] =
      List.map (\<lambda>i. boe_seq_num s1 + of_nat (Suc i)) [0..<?n]"
    by (simp add: e1(3) map_upt_shift ac_simps)
  with e2(2) have "boe_seqs e2 = List.map (\<lambda>i. boe_seq_num s + of_nat (Suc i)) [?m..<?m + ?n]"
    by (rule trans [OF _ sym])
  with e1(2) have "boe_seqs e1 @ boe_seqs e2 =
      List.map (\<lambda>i. boe_seq_num s + of_nat (Suc i)) ([0..<?m] @ [?m..<?m + ?n])"
    unfolding map_append by (rule arg_cong2 [where f = append])
  then have "boe_seqs (e1 @ e2) =
      List.map (\<lambda>i. boe_seq_num s + of_nat (Suc i)) [0..<length (boe_seqs (e1 @ e2))]"
    unfolding boe_seqs_append length_append upt_add_eq_append [OF le0] .
  moreover have "boe_events s2 = boe_events s @ (e1 @ e2)"
    unfolding e2(1) e1(1) by simp
  moreover have "boe_seq_num s2 = boe_seq_num s + of_nat (length (boe_seqs (e1 @ e2)))"
    unfolding e2(3) e1(3) by simp
  ultimately show ?thesis unfolding boe_numbered_def by blast
qed

lemma boe_numbered_frame [simp]:
  "boe_numbered s (s\<lparr>s_env := e\<rparr>)" "boe_numbered s (boe_put k o1 s)" "boe_numbered s (boe_index k s)"
  "boe_numbered s (boe_erase ks s)" "boe_numbered s (s\<lparr>boe_active := m\<rparr>)"
  "boe_numbered s (boe_put_finished k o1 s)" "boe_numbered s (boe_finished_index k s)" "boe_numbered s s"
  by (simp_all add: boe_numbered_same)

lemma boe_numbered_messages:
  "length t = 20 \<Longrightarrow> boe_numbered s (boe_construct_modify_rejected t r s)"
  "length t = 20 \<Longrightarrow> boe_numbered s (boe_construct_cancel_rejected t r s)"
  "length t = 20 \<Longrightarrow> boe_numbered s (boe_construct_order_canceled t s)"
  "length (boe_token bo) = 20 \<Longrightarrow> boe_numbered s (boe_construct_order_modified bo s)"
  "length (no_token no) = 20 \<Longrightarrow> boe_numbered s (boe_construct_order_rejected no s)"
  "74 \<le> length mem \<Longrightarrow> boe_numbered s (boe_construct_login_response st mem s)"
  "boe_numbered s (boe_post_heartbeat s)"
  by (rule boe_numbered_plain, simp add: boe_modify_rejected_event boe_cancel_rejected_event
      boe_order_canceled_event boe_order_modified_event boe_order_rejected_event
      boe_login_response_event boe_heartbeat_event, simp, simp)+

lemma boe_numbered_accepted:
  "length (boe_token bo) = 20 \<Longrightarrow> boe_numbered s (boe_construct_order_accepted bo s)"
  by (rule boe_numbered_one [OF boe_order_accepted_event(1)]) simp_all

lemma boe_numbered_executed:
  assumes "length (boe_token o1) = 20"
  shows "boe_numbered s (snd (boe_construct_order_executed o1 x s))"
proof (cases "x = 0")
  case True
  then show ?thesis by (simp add: boe_order_executed_zero)
next
  case False
  obtain q where "boe_events (snd (boe_construct_order_executed o1 x s)) = boe_events s @
      [Some (Bv_Executed (boe_seq_num s + 1) (boe_token o1) (to_uint32 q) (boe_price o1)
         (to_uint32 (remaining_qty o1 - q)))]"
    using boe_order_executed_effect [OF assms False] by metis
  then show ?thesis by (rule boe_numbered_one) (simp_all add: False)
qed

lemma boe_numbered_handle_login:
  assumes "74 \<le> length mem"
  shows "boe_numbered s (boe_handle_login_request mem s)"
proof -
  have "boe_numbered s (boe_construct_login_response st mem (s\<lparr>s_env := e\<rparr>))" for st e
    by (rule boe_numbered_trans [OF boe_numbered_frame(1) boe_numbered_messages(6) [OF assms]])
  moreover have "boe_numbered u (u\<lparr>session_state := LoggedIn\<rparr>)" for u
    by (rule boe_numbered_same) simp_all
  ultimately show ?thesis
    by (auto simp: boe_handle_login_request_def on_env_result Let_def intro: boe_numbered_trans)
qed

lemma boe_numbered_enter:
  assumes "length (no_token no) = 20"
  shows "boe_numbered s (boe_enter_order no s)"
proof -
  have rej: "boe_numbered s (boe_construct_order_rejected no (s\<lparr>s_env := e\<rparr>))" for e
    by (rule boe_numbered_trans [OF boe_numbered_frame(1) boe_numbered_messages(5) [OF assms]])
  have rej': "boe_numbered s (boe_construct_order_rejected no s)"
    by (rule boe_numbered_messages(5) [OF assms])
  have acc: "boe_numbered s (boe_construct_order_accepted (fst (Boe_Order_of no e'))
      (boe_put (no_token no) o1 (boe_index (no_token no) (s\<lparr>s_env := e\<rparr>))))" for e e' :: env and o1
  proof -
    have "boe_numbered s (boe_put (no_token no) o1 (boe_index (no_token no) (s\<lparr>s_env := e\<rparr>)))"
      by (rule boe_numbered_same) simp_all
    then show ?thesis
      by (rule boe_numbered_trans)
        (rule boe_numbered_accepted, simp add: Boe_Order_of_ok assms)
  qed
  show ?thesis
    by (auto simp: boe_enter_order_def on_env_result Let_def rej rej' acc)
qed

lemma boe_numbered_cancel:
  assumes "length (bco_orig_token co) = 20"
  shows "boe_numbered s (boe_cancel_order co s)"
proof -
  have r: "boe_numbered s (boe_construct_cancel_rejected (bco_orig_token co) rs u)"
    if "boe_numbered s u" for rs u
    by (rule boe_numbered_trans [OF that boe_numbered_messages(2) [OF assms]])
  have "boe_numbered s ((boe_index t s)\<lparr>s_env := e\<rparr>)" for t e
    by (rule boe_numbered_same) simp_all
  moreover have "boe_numbered s (s\<lparr>boe_pending_cancel := c\<rparr>)" for c
    by (rule boe_numbered_same) simp_all
  ultimately show ?thesis
    by (auto simp: boe_cancel_order_def on_env_result Let_def intro: r split: option.splits)
qed

lemma boe_numbered_modify:
  assumes "length (bmo_orig_token mo) = 20"
  shows "boe_numbered s (boe_modify_order mo s)"
proof -
  have r: "boe_numbered s (boe_construct_modify_rejected (bmo_orig_token mo) rs u)"
    if "boe_numbered s u" for rs u
    by (rule boe_numbered_trans [OF that boe_numbered_messages(1) [OF assms]])
  have "boe_numbered s (s\<lparr>s_env := e, boe_pending_modify := c\<rparr>)" for e c
    by (rule boe_numbered_same) simp_all
  then show ?thesis
    by (auto simp: boe_modify_order_def on_env_result Let_def intro: r)
qed

lemma boe_numbered_handle_packet:
  assumes "boe_handle_packet mem len s = Inr (mem', s')"
  shows "boe_numbered s s'"
  using assms
proof (cases rule: boe_handle_packet_cases)
  case login
  then show ?thesis by (simp add: boe_LoginRequest_size_def boe_numbered_handle_login)
next
  case beat
  then show ?thesis
    by (simp add: boe_handle_client_heartbeat_def on_env_result Let_def boe_numbered_same)
qed (simp_all add: boe_tokens boe_numbered_enter boe_numbered_cancel boe_numbered_modify)

lemma boe_numbered_cancel_one:
  assumes "length (bcxl_token co) = 20"
  shows "boe_numbered s (snd (boe_cancel_one co s))"
proof -
  have "boe_numbered s (boe_construct_cancel_rejected (bcxl_token co) r (s\<lparr>s_env := e\<rparr>))"
    "boe_numbered s (boe_construct_order_canceled (bcxl_token co) (s\<lparr>s_env := e\<rparr>))" for r e
    by (rule boe_numbered_trans [OF boe_numbered_frame(1) boe_numbered_messages(2) [OF assms]],
        rule boe_numbered_trans [OF boe_numbered_frame(1) boe_numbered_messages(3) [OF assms]])
  then show ?thesis
    using boe_numbered_messages(2) [OF assms]
    by (simp add: boe_cancel_one_def on_env_result Let_def)
qed

lemma boe_numbered_cancel_logic:
  assumes "boe_inv s"
  shows "boe_numbered s (boe_cancel_logic s)"
proof -
  have loop: "\<forall>co\<in>set reqs. length (bcxl_token co) = 20 \<Longrightarrow>
      boe_numbered u (snd (boe_cancel_loop reqs u))" for reqs u
  proof (induction reqs arbitrary: u)
    case (Cons co reqs)
    then have "boe_numbered u (snd (boe_cancel_one co u))" by (intro boe_numbered_cancel_one) simp
    from boe_numbered_trans [OF this Cons.IH] Cons.prems show ?case by (simp add: split_def Let_def)
  qed simp
  let ?s1 = "snd (boe_cancel_loop (boe_pending_cancel s) s)"
  have "boe_numbered s ?s1" using assms by (intro loop) (auto simp: boe_inv_def)
  also have "boe_numbered ?s1 (boe_erase ds (?s1\<lparr>boe_pending_cancel := []\<rparr>))" for ds
    by (rule boe_numbered_same) simp_all
  finally show ?thesis by (simp add: boe_cancel_logic_def split_def Let_def)
qed

lemma boe_numbered_modify_one:
  assumes inv: "boe_inv s" and len: "length (bmod_orig_token mo) = 20" "length (bmod_token mo) = 20"
  shows "boe_numbered s (snd (boe_modify_one mo s))"
proof (cases "map_of (boe_active s) (bmod_orig_token mo)")
  case None
  then show ?thesis by (simp add: boe_modify_one_def Let_def)
next
  case (Some o1)
  let ?s1 = "boe_index (bmod_token mo) (boe_put (bmod_orig_token mo) (boe_modified_order mo o1) s)"
  let ?s2 = "boe_index (bmod_token mo) (?s1\<lparr>boe_active :=
    AList.delete (bmod_orig_token mo) (swap_entries (bmod_token mo) (bmod_orig_token mo) (boe_active ?s1))\<rparr>)"
  have n2: "boe_numbered s ?s2" by (rule boe_numbered_same) simp_all
  have ok: "boe_order_ok o1" using boe_table_okD [OF _ Some] inv by (simp add: boe_inv_def)
  have i1: "boe_inv ?s1"
    by (intro boe_inv_index boe_inv_put boe_modified_order_ok inv ok len)
  then have t1: "boe_table_ok (boe_active ?s1)" unfolding boe_inv_def by blast
  have i2: "boe_inv ?s2"
    by (intro boe_inv_index [OF boe_inv_active_upd [OF i1]] boe_table_ok_delete boe_table_ok_swap len t1)
  have "boe_numbered s (boe_construct_order_modified o3 ?s2)"
    if "map_of (boe_active ?s2) (bmod_token mo) = Some o3" for o3
  proof -
    have "boe_order_ok o3" using boe_table_okD [OF _ that] i2 unfolding boe_inv_def by blast
    then show ?thesis
      by (intro boe_numbered_trans [OF n2 boe_numbered_messages(4)]) (simp add: boe_order_ok_def)
  qed
  then show ?thesis using n2 Some by (auto simp: boe_modify_one_def Let_def split: option.splits)
qed

lemma boe_numbered_modify_logic:
  assumes "boe_inv s"
  shows "boe_numbered s (boe_modify_logic s)"
proof -
  have loop: "boe_inv u \<Longrightarrow> \<forall>mo\<in>set reqs. length (bmod_orig_token mo) = 20 \<and> length (bmod_token mo) = 20 \<Longrightarrow>
      boe_numbered u (snd (boe_modify_loop reqs u))" for reqs u
  proof (induction reqs arbitrary: u)
    case (Cons mo reqs)
    have "boe_numbered u (snd (boe_modify_one mo u))" "boe_inv (snd (boe_modify_one mo u))"
      using Cons.prems by (simp_all add: boe_numbered_modify_one boe_inv_modify_one)
    with Cons.IH Cons.prems(2) show ?case
      by (auto simp: split_def Let_def intro: boe_numbered_trans)
  qed simp
  let ?s1 = "snd (boe_modify_loop (boe_pending_modify s) s)"
  have "boe_numbered s ?s1" by (rule loop [OF assms]) (use assms in \<open>auto simp: boe_inv_def\<close>)
  also have "boe_numbered ?s1 (boe_erase ds ?s1)" for ds by simp
  finally show ?thesis by (simp add: boe_modify_logic_def split_def Let_def)
qed

lemma boe_numbered_execute_one:
  assumes "boe_order_ok o1"
  shows "boe_numbered s (snd (boe_execute_one k o1 s))"
proof -
  have len: "length (boe_token o1) = 20" using assms by (simp add: boe_order_ok_def)
  have ex: "boe_numbered s (boe_put k o2 (snd (boe_construct_order_executed o1 q (s\<lparr>s_env := e\<rparr>))))"
    for o2 q e
    by (rule boe_numbered_trans [OF boe_numbered_trans [OF boe_numbered_frame(1)
            boe_numbered_executed [OF len]] boe_numbered_frame(2)])
  have "boe_numbered s (boe_put_finished k o1 (boe_finished_index k (s\<lparr>s_env := e\<rparr>)))" for e
    by (rule boe_numbered_same) simp_all
  with ex show ?thesis by (simp add: boe_execute_one_def on_env_result Let_def split_def)
qed

lemma boe_numbered_execution_logic:
  assumes "boe_inv s"
  shows "boe_numbered s (boe_execution_logic s)"
proof -
  have loop: "\<forall>p\<in>set ps. boe_order_ok (snd p) \<Longrightarrow> boe_numbered u (snd (boe_execute_loop ps u))" for ps u
  proof (induction ps arbitrary: u)
    case (Cons p ps)
    then have "boe_numbered u (snd (boe_execute_one (fst p) (snd p) u))"
      by (intro boe_numbered_execute_one) simp
    from boe_numbered_trans [OF this Cons.IH] Cons.prems show ?case by (simp add: split_def Let_def)
  qed simp
  let ?s1 = "s\<lparr>s_env := snd (next_rank (s_env s))\<rparr>"
  let ?s2 = "snd (boe_execute_loop (visit (fst (next_rank (s_env s))) (boe_active s)) ?s1)"
  have "boe_numbered s ?s1" by simp
  also have "boe_numbered ?s1 ?s2"
    by (rule loop) (use assms boe_visit_entries in \<open>auto simp: boe_inv_def\<close>)
  also have "boe_numbered ?s2 (boe_erase ds ?s2)" for ds by simp
  finally show ?thesis by (simp add: boe_execution_logic_eq)
qed

lemma boe_numbered_heartbeat: "boe_numbered s (boe_heartbeat_logic s)"
proof -
  have "boe_numbered s (s\<lparr>s_env := e, last_send_heartbeat := t\<rparr>)" for e t
    by (rule boe_numbered_same) simp_all
  then have "boe_numbered s (boe_post_heartbeat (s\<lparr>s_env := e, last_send_heartbeat := t\<rparr>))" for e t
    using boe_numbered_messages(7) boe_numbered_trans by blast
  then show ?thesis
    by (simp add: boe_heartbeat_logic_def heartbeat_with_def on_env_result Let_def)
qed

lemma boe_numbered_market_logic:
  assumes "boe_inv s"
  shows "boe_numbered s (boe_market_logic s)"
proof -
  have i1: "boe_inv (boe_heartbeat_logic s)"
    using assms by (simp add: boe_heartbeat_logic_def heartbeat_with_def on_env_result Let_def)
  note i2 = boe_inv_cancel_logic [OF i1]
  note i3 = boe_inv_modify_logic [OF i2]
  show ?thesis
    unfolding boe_market_logic_def
    by (rule boe_numbered_trans [OF boe_numbered_heartbeat
          boe_numbered_trans [OF boe_numbered_cancel_logic [OF i1]
            boe_numbered_trans [OF boe_numbered_modify_logic [OF i2]
              boe_numbered_execution_logic [OF i3]]]])
qed

end
