(* ===== verification/BoeProps.thy ===== *)
theory BoeProps
  imports BoeNumbering
begin

text \<open>
  Properties of the BOE session: reachable states, order entry, cancels and modifications, login.
\<close>

section \<open>Samples\<close>

definition boe_sample_token :: "byte list" where
  "boe_sample_token = bytes_of_string ''BOE-ORDER-0000000001''"

definition sample_no :: boe_NewOrder where
  "sample_no = (boe_NewOrder_at (replicate 112 0))\<lparr>no_start_of_msg := [0xBA, 0xBA], no_length := 110,
     no_type := MsgType_code MT_NewOrder, no_token := boe_sample_token, no_side := ch CHR ''1'',
     no_qty := 500, no_price := 123400, no_symbol := bytes_of_string ''IBM     ''\<rparr>"

definition boe_sample :: boe_session where
  "boe_sample = new_boe_session sample_env"

definition boe_sample_order :: Boe_Order where
  "boe_sample_order = fst (Boe_Order_of sample_no sample_env)"

text \<open>A session that holds the given orders under their own tokens.\<close>

definition boe_holding :: "Boe_Order list \<Rightarrow> boe_session" where
  "boe_holding os = boe_sample\<lparr>boe_active := List.map (\<lambda>o1. (boe_token o1, o1)) os\<rparr>"

lemma boe_sample_sel [simp]:
  "boe_active boe_sample = []" "boe_finished boe_sample = []" "pending_out_messages boe_sample = []"
  "session_state boe_sample = NotLoggedIn" "behavior (s_env boe_sample) a = DefaultBehavior"
  "boe_pending_cancel boe_sample = []" "boe_pending_modify boe_sample = []" "boe_seq_num boe_sample = 0"
  "boe_events boe_sample = []"
  by (simp_all add: boe_sample_def new_boe_session_def time_NULL_def Let_def boe_events_def)

lemma boe_holding_sel [simp]:
  "boe_active (boe_holding os) = List.map (\<lambda>o1. (boe_token o1, o1)) os"
  "boe_finished (boe_holding os) = []" "behavior (s_env (boe_holding os)) a = DefaultBehavior"
  "boe_events (boe_holding os) = []" "boe_seq_num (boe_holding os) = 0" "s_env (boe_holding os) = s_env boe_sample"
  by (simp_all add: boe_holding_def)

lemma boe_sample_token_length [simp]: "length boe_sample_token = 20"
  by code_simp

lemma boe_sample_order_sel [simp]:
  "boe_token boe_sample_order = boe_sample_token" "remaining_qty boe_sample_order = 500"
  "executed_qty boe_sample_order = 0" "boe_price boe_sample_order = 123400"
  by (simp_all add: boe_sample_order_def Boe_Order_of_def Boe_Order_parse_order_def sample_no_def
      split_def Let_def)

text \<open>A new order as the member's bytes, followed by whatever else is in the buffer.\<close>

lemma boe_handle_new_order:
  assumes "boe_NewOrder_ok no" and "no_type no = MsgType_code MT_NewOrder"
  shows "boe_handle_packet (boe_NewOrder_bytes no @ rest) len s =
    Inr (boe_NewOrder_bytes no @ rest, boe_enter_order no s)"
proof -
  have "u8_at 4 (boe_NewOrder_bytes no @ rest) = no_type no"
    using assms(1) by (simp add: boe_NewOrder_bytes_def boe_NewOrder_ok_def at_skip at_here)
  moreover have "length (boe_NewOrder_bytes no) = 112"
    using boe_NewOrder.length_bytes [OF assms(1)] by (simp add: boe_NewOrder_size_def)
  ultimately show ?thesis
    using assms by (simp add: boe_handle_packet_def read_struct_def boe_MsgHeader_size_def
        boe_NewOrder_size_def boe_MsgHeader_at_def boe_NewOrder.at_bytes)
qed

lemma sample_no_ok: "boe_NewOrder_ok sample_no" "no_type sample_no = MsgType_code MT_NewOrder"
  by code_simp+

lemma boe_sample_reachable: "boe_reachable (boe_enter_order sample_no boe_sample)"
  using boe_handle_new_order [OF sample_no_ok, of "[]" 112 boe_sample]
  unfolding boe_sample_def by (intro boe_next [OF boe_start] boe_packet)

section \<open>Reachable states\<close>

text \<open>
  C22: whatever packets, timer ticks, console commands and reconnections a BOE session has been
  through, its tables have distinct keys of 20 bytes, every stored order has a token of 20 bytes,
  the queued requests carry such tokens, and every message waiting to be sent starts with the mark
  0xBA 0xBA, carries a length field that counts its bytes after the first two, and is one of the
  messages a member can read.
\<close>

theorem boe_reachable_well_formed:
  assumes "boe_reachable s"
  shows "distinct (keys (boe_active s)) \<and> distinct (keys (boe_finished s)) \<and>
    (\<forall>k o1. map_of (boe_active s) k = Some o1 \<or> map_of (boe_finished s) k = Some o1 \<longrightarrow>
       length k = 20 \<and> boe_order_ok o1) \<and>
    list_all (\<lambda>co. length (bcxl_token co) = 20) (boe_pending_cancel s) \<and>
    list_all (\<lambda>mo. length (bmod_orig_token mo) = 20 \<and> length (bmod_token mo) = 20) (boe_pending_modify s) \<and>
    list_all (\<lambda>m. boe_frame m \<and> boe_event_of m \<noteq> None) (pending_out_messages s)"
  using boe_reachable_inv [OF assms]
  unfolding boe_inv_def boe_table_ok_def boe_framed_def list_all_iff by blast

theorem boe_reachable_well_formed_witness:
  "list_all (\<lambda>m. boe_frame m \<and> boe_event_of m \<noteq> None)
     (pending_out_messages (boe_enter_order sample_no boe_sample))"
  using boe_reachable_well_formed [OF boe_sample_reachable] by (elim conjE)

text \<open>
  C13: sequenced messages are numbered without gaps: whatever a packet or a timer tick makes a
  reachable session send, the acknowledgements and executions among the new messages carry, in
  the order they are sent, the numbers that follow the last one used, and the session's counter
  ends at the last of them.
\<close>

theorem boe_sequence_numbers:
  assumes "boe_reachable s"
    and "boe_handle_packet mem len s = Inr (mem', s') \<or> s' = boe_market_logic s"
  shows "boe_numbered s s'"
  using assms(2) boe_numbered_handle_packet boe_numbered_market_logic [OF boe_reachable_inv [OF assms(1)]]
  by blast

theorem boe_sequence_numbers_witness:
  "boe_numbered (boe_enter_order sample_no boe_sample)
     (boe_market_logic (boe_enter_order sample_no boe_sample))"
  using boe_sequence_numbers [OF boe_sample_reachable disjI2 [OF refl]] .

section \<open>Order entry\<close>

text \<open>The order made of a message, its identifier and receive time aside.\<close>

definition boe_order_answers :: "boe_NewOrder \<Rightarrow> Boe_Order \<Rightarrow> bool" where
  "boe_order_answers no o1 \<longleftrightarrow>
     boe_token o1 = no_token no \<and> remaining_qty o1 = uint (no_qty no) \<and> executed_qty o1 = 0 \<and>
     side o1 = no_side no \<and> boe_price o1 = no_price no \<and> min_qty o1 = no_min_qty no \<and>
     char_time_in_force o1 = no_time_in_force no \<and> symbol o1 = strncpy 8 (no_symbol no) \<and>
     firm o1 = strncpy 4 (no_clearing_firm no) \<and> capacity o1 = no_capacity no"

lemma Boe_Order_of_answers: "boe_order_answers no (fst (Boe_Order_of no w))"
  by (simp add: boe_order_answers_def Boe_Order_of_def Boe_Order_parse_order_def split_def Let_def)

lemma boe_enter_order_refused:
  assumes "map_of (boe_active s) (no_token no) \<noteq> None \<or> \<not> fst (bm_allows New_order (s_env s))"
  shows "boe_enter_order no s = boe_construct_order_rejected no
    (if map_of (boe_active s) (no_token no) \<noteq> None then s
     else s\<lparr>s_env := snd (bm_allows New_order (s_env s))\<rparr>)"
  using assms by (auto simp: boe_enter_order_def on_env_result Let_def)

lemma boe_enter_order_accepted:
  assumes new: "map_of (boe_active s) (no_token no) = None"
    and allowed: "fst (bm_allows New_order (s_env s))" and len: "length (no_token no) = 20"
  obtains o1 where "boe_order_answers no o1"
    and "map_of (boe_active (boe_enter_order no s)) = (map_of (boe_active s))(no_token no \<mapsto> o1)"
    and "boe_finished (boe_enter_order no s) = boe_finished s"
    and "boe_events (boe_enter_order no s) = boe_events s @
           [Some (Bv_Ack (boe_seq_num s + 1) (no_token no) (no_qty no))]"
proof -
  let ?e = "snd (bm_allows New_order (s_env s))"
  let ?o = "fst (Boe_Order_of no ?e)" and ?s2 = "s\<lparr>s_env := snd (Boe_Order_of no ?e)\<rparr>"
  let ?s3 = "boe_put (no_token no) ?o (boe_index (no_token no) ?s2)"
  have eq: "boe_enter_order no s = boe_construct_order_accepted ?o ?s3"
    using new allowed by (simp add: boe_enter_order_def on_env_result Let_def)
  have o1: "boe_token ?o = no_token no" "remaining_qty ?o = uint (no_qty no)"
    using Boe_Order_of_answers [of no ?e] by (simp_all add: boe_order_answers_def)
  have "map_of (boe_active (boe_enter_order no s)) = (map_of (boe_active s))(no_token no \<mapsto> ?o)"
    by (rule ext) (simp add: eq map_of_boe_index_other)
  moreover have "boe_events (boe_enter_order no s) = boe_events s @
      [Some (Bv_Ack (boe_seq_num s + 1) (no_token no) (no_qty no))]"
    using boe_order_accepted_event(1) [of ?o ?s3] len by (simp add: eq o1 to_uint32_def)
  moreover have "boe_finished (boe_enter_order no s) = boe_finished s" by (simp add: eq)
  ultimately show thesis using that [OF Boe_Order_of_answers] by blast
qed

text \<open>
  C26: what a BOE order on the wire leads to, in every case and whatever the login state: with a
  token that no active order uses and the behaviour manager's consent it is stored under its token
  with the values of the message, no other entry changes, and it is acknowledged with the next
  sequence number and its quantity; otherwise the tables stay as they are and the one answer is a
  reject with reason D. The bytes of the buffer are not changed, and neither login nor a limit on
  the quantity nor the finished orders are looked at.
\<close>

theorem boe_new_order_end_to_end:
  assumes "boe_NewOrder_ok no" and "no_type no = MsgType_code MT_NewOrder"
  shows "\<exists>s'. boe_handle_packet (boe_NewOrder_bytes no @ rest) len s =
      Inr (boe_NewOrder_bytes no @ rest, s') \<and> boe_finished s' = boe_finished s \<and>
    (if map_of (boe_active s) (no_token no) = None \<and> fst (bm_allows New_order (s_env s))
     then (\<exists>o1. boe_order_answers no o1 \<and>
             map_of (boe_active s') = (map_of (boe_active s))(no_token no \<mapsto> o1)) \<and>
          boe_events s' = boe_events s @ [Some (Bv_Ack (boe_seq_num s + 1) (no_token no) (no_qty no))]
     else boe_active s' = boe_active s \<and>
          boe_events s' = boe_events s @ [Some (Bv_Rejected (no_token no) (ch CHR ''D''))])"
proof -
  have len: "length (no_token no) = 20" using assms(1) by (simp add: boe_NewOrder_ok_def)
  show ?thesis
  proof (cases "map_of (boe_active s) (no_token no) = None \<and> fst (bm_allows New_order (s_env s))")
    case True
    then obtain o1 where "boe_order_answers no o1"
      "map_of (boe_active (boe_enter_order no s)) = (map_of (boe_active s))(no_token no \<mapsto> o1)"
      "boe_finished (boe_enter_order no s) = boe_finished s"
      "boe_events (boe_enter_order no s) = boe_events s @
         [Some (Bv_Ack (boe_seq_num s + 1) (no_token no) (no_qty no))]"
      using boe_enter_order_accepted [OF _ _ len] by metis
    with True show ?thesis by (simp add: boe_handle_new_order [OF assms]) blast
  next
    case False
    then show ?thesis
      by (auto simp: boe_handle_new_order [OF assms] boe_enter_order_refused
          boe_order_rejected_event(1) [OF len])
  qed
qed

theorem boe_new_order_end_to_end_witness:
  "\<exists>s'. boe_handle_packet (boe_NewOrder_bytes sample_no @ []) 112 boe_sample =
      Inr (boe_NewOrder_bytes sample_no @ [], s') \<and>
    boe_events s' = [Some (Bv_Ack 1 boe_sample_token 500)]"
proof -
  have "no_token sample_no = boe_sample_token" "no_qty sample_no = 500" by (simp_all add: sample_no_def)
  then show ?thesis
    using boe_new_order_end_to_end [OF sample_no_ok, of "[]" 112 boe_sample]
    by (auto simp: bm_allows_sample)
qed

section \<open>Cancel requests\<close>

text \<open>
  C38: what a cancel request does when it arrives. An order with shares left is queued for the next
  tick; one without is refused as too late. A token no active order has gets an order made up on
  the spot, with fields nothing has initialised, whose quantity then decides the answer: too late
  (also when the token is that of a finished order), or unforeseen reason if the behaviour
  manager refuses, or none. The reason meant for unknown tokens is never sent.
\<close>

theorem boe_cancel_request_outcome:
  fixes co :: boe_CancelOrder and s :: boe_session
  assumes "length (bco_orig_token co) = 20"
  defines "t \<equiv> bco_orig_token co" and "s' \<equiv> boe_cancel_order co s"
    and "made_up \<equiv> fst (new_Boe_Order (s_env s))"
  shows "boe_finished s' = boe_finished s \<and>
    (case map_of (boe_active s) t of
       Some o1 \<Rightarrow> boe_active s' = boe_active s \<and>
         (if remaining_qty o1 > 0
          then boe_pending_cancel s' = boe_pending_cancel s @ [\<lparr>bcxl_token = t\<rparr>] \<and> boe_events s' = boe_events s
          else boe_pending_cancel s' = boe_pending_cancel s \<and>
               boe_events s' = boe_events s @ [Some (Bv_CancelRejected t (Reason_code Rsn_TooLateToCancel))])
     | None \<Rightarrow> map_of (boe_active s') = (map_of (boe_active s))(t \<mapsto> made_up) \<and>
         boe_pending_cancel s' = boe_pending_cancel s \<and>
         boe_events s' = boe_events s @
           (if remaining_qty made_up \<le> 0 \<or> map_of (boe_finished s) t \<noteq> None
            then [Some (Bv_CancelRejected t (Reason_code Rsn_TooLateToCancel))]
            else if \<not> fst (bm_allows Cancel_order (snd (new_Boe_Order (s_env s))))
            then [Some (Bv_CancelRejected t (Reason_code Rsn_UnforeseenReason))] else []))"
proof (cases "map_of (boe_active s) t")
  case None
  have ix: "boe_index t s = s\<lparr>s_env := snd (new_Boe_Order (s_env s)),
      boe_active := AList.update t made_up (boe_active s)\<rparr>"
    using None by (simp add: boe_index_def on_env_result Let_def made_up_def)
  show ?thesis
    using None assms(1)
    by (simp add: s'_def t_def boe_cancel_order_def Let_def on_env_result ix [unfolded t_def]
        boe_cancel_rejected_event)
next
  case (Some o1)
  then show ?thesis
    using assms(1)
    by (auto simp: s'_def t_def boe_cancel_order_def Let_def boe_index_present
        boe_parse_cancel_order_def boe_cancel_rejected_event)
qed

definition boe_cancel_of :: "byte list \<Rightarrow> boe_CancelOrder" where
  "boe_cancel_of t = (boe_CancelOrder_at (replicate 44 0))\<lparr>bco_orig_token := t\<rparr>"

theorem boe_cancel_request_outcome_witness:
  "boe_events (boe_cancel_order (boe_cancel_of boe_sample_token) boe_sample) =
     [Some (Bv_CancelRejected boe_sample_token (Reason_code Rsn_TooLateToCancel))] \<and>
   map_of (boe_active (boe_cancel_order (boe_cancel_of boe_sample_token) boe_sample)) boe_sample_token =
     Some (fst (new_Boe_Order (s_env boe_sample)))"
proof -
  have q: "remaining_qty (fst (new_Boe_Order (s_env boe_sample))) \<le> 0" by code_simp
  have t: "bco_orig_token (boe_cancel_of boe_sample_token) = boe_sample_token"
    by (simp add: boe_cancel_of_def)
  show ?thesis
    using boe_cancel_request_outcome [of "boe_cancel_of boe_sample_token" boe_sample] q by (simp add: t)
qed

section \<open>The cancels of a tick\<close>

lemma boe_cancel_loop_default:
  assumes "behavior (s_env s) Cancel_order = DefaultBehavior"
    and "\<forall>co\<in>set reqs. length (bcxl_token co) = 20"
  shows "boe_events (snd (boe_cancel_loop reqs s)) = boe_events s @
      List.map (\<lambda>co. Some (if map_of (boe_active s) (bcxl_token co) = None
         then Bv_CancelRejected (bcxl_token co) (Reason_code Rsn_TooLateToCancel)
         else Bv_Canceled (bcxl_token co) (ch CHR ''U''))) reqs \<and>
    fst (boe_cancel_loop reqs s) =
      List.filter (\<lambda>t. map_of (boe_active s) t \<noteq> None) (List.map bcxl_token reqs) \<and>
    boe_active (snd (boe_cancel_loop reqs s)) = boe_active s \<and>
    boe_finished (snd (boe_cancel_loop reqs s)) = boe_finished s"
  using assms
proof (induction reqs arbitrary: s)
  case (Cons co reqs)
  let ?t = "bcxl_token co"
  let ?s1 = "snd (boe_cancel_one co s)"
  have one: "boe_cancel_one co s =
      (if map_of (boe_active s) ?t = None then ([], boe_construct_cancel_rejected ?t Rsn_TooLateToCancel s)
       else ([?t], boe_construct_order_canceled ?t s))"
    using Cons.prems(1) by (simp add: boe_cancel_one_def Let_def on_env_def bm_allows_sample)
  have ev: "boe_events ?s1 = boe_events s @ [Some (if map_of (boe_active s) ?t = None
         then Bv_CancelRejected ?t (Reason_code Rsn_TooLateToCancel) else Bv_Canceled ?t (ch CHR ''U''))]"
    using Cons.prems(2) by (simp add: one boe_cancel_rejected_event boe_order_canceled_event)
  have "behavior (s_env ?s1) = behavior (s_env s)" by (simp add: one)
  then show ?case
    using Cons.IH [of ?s1] Cons.prems ev boe_cancel_one_frame [of co s]
    by (simp add: split_def Let_def one)
qed simp

text \<open>
  C31: the cancels of a tick, refined to what they promise under the default behaviour: exactly the
  orders whose cancel was queued leave the table of active orders, nothing enters it, the queue is
  empty afterwards, and each request is answered in turn: confirmed when its order was there at the
  start of the tick, too late when not. Two requests for one order are both confirmed.
\<close>

theorem boe_cancel_logic_outcome:
  assumes "boe_inv s" and "behavior (s_env s) Cancel_order = DefaultBehavior"
  shows "map_of (boe_active (boe_cancel_logic s)) t =
      (if t \<in> bcxl_token ` set (boe_pending_cancel s) then None else map_of (boe_active s) t) \<and>
    boe_finished (boe_cancel_logic s) = boe_finished s \<and> boe_pending_cancel (boe_cancel_logic s) = [] \<and>
    boe_events (boe_cancel_logic s) = boe_events s @
      List.map (\<lambda>co. Some (if map_of (boe_active s) (bcxl_token co) = None
         then Bv_CancelRejected (bcxl_token co) (Reason_code Rsn_TooLateToCancel)
         else Bv_Canceled (bcxl_token co) (ch CHR ''U''))) (boe_pending_cancel s)"
proof -
  have len: "\<forall>co\<in>set (boe_pending_cancel s). length (bcxl_token co) = 20"
    using assms(1) by (simp add: boe_inv_def)
  show ?thesis
    using boe_cancel_loop_default [OF assms(2) len]
    by (auto simp: boe_cancel_logic_def split_def Let_def map_of_erase_all)
qed

theorem boe_cancel_logic_outcome_witness:
  "boe_events (boe_cancel_logic (boe_holding [boe_sample_order]
     \<lparr>boe_pending_cancel := [\<lparr>bcxl_token = boe_sample_token\<rparr>, \<lparr>bcxl_token = boe_sample_token\<rparr>]\<rparr>)) =
   [Some (Bv_Canceled boe_sample_token (ch CHR ''U'')), Some (Bv_Canceled boe_sample_token (ch CHR ''U''))]"
proof -
  let ?s = "boe_holding [boe_sample_order]
     \<lparr>boe_pending_cancel := [\<lparr>bcxl_token = boe_sample_token\<rparr>, \<lparr>bcxl_token = boe_sample_token\<rparr>]\<rparr>"
  have "boe_order_ok boe_sample_order"
    unfolding boe_sample_order_def by (rule Boe_Order_of_ok) (simp add: sample_no_def)
  then have "boe_inv ?s"
    by (simp add: boe_inv_def boe_table_ok_def keys_def boe_holding_def boe_framed_def)
  moreover have "boe_events ?s = []" by (simp add: boe_events_def boe_holding_def)
  ultimately show ?thesis using boe_cancel_logic_outcome [of ?s] by simp
qed

section \<open>Modifications\<close>

lemma boe_modify_one_found:
  assumes here: "map_of (boe_active s) (bmod_orig_token mo) = Some o1"
    and len: "length (bmod_token mo) = 20"
  defines "t \<equiv> bmod_orig_token mo" and "n \<equiv> bmod_token mo"
  obtains o3 where "fst (boe_modify_one mo s) =
      (if executed_qty o1 \<ge> uint (bmod_qty mo) then [boe_token o1] else [])"
    and "map_of (boe_active (snd (boe_modify_one mo s))) = (map_of (boe_active s))(t := None, n \<mapsto> o3)"
    and "t \<noteq> n \<Longrightarrow> o3 = boe_modified_order mo o1"
    and "t = n \<Longrightarrow> \<exists>e :: env. o3 = fst (new_Boe_Order e)"
    and "boe_events (snd (boe_modify_one mo s)) = boe_events s @
      [Some (Bv_Modified (boe_token o3) (boe_price o3)
         (to_uint32 (remaining_qty o3 + executed_qty o3)) (to_uint32 (remaining_qty o3)))]"
proof -
  let ?o2 = "boe_modified_order mo o1"
  let ?s1 = "boe_index n (boe_put t ?o2 s)"
  let ?m = "AList.delete t (swap_entries n t (boe_active ?s1))"
  let ?u = "?s1\<lparr>boe_active := ?m\<rparr>"
  let ?s2 = "boe_index n ?u"
  have t1: "map_of (boe_active ?s1) t = Some ?o2"
    by (cases "n = t") (simp_all add: boe_index_present map_of_boe_index_other)
  obtain v where v: "map_of (boe_active ?s1) n = Some v" using map_of_boe_index by blast
  have m: "map_of ?m = (if t = n then (map_of (boe_active s))(t := None)
      else (map_of (boe_active s))(t := None, n \<mapsto> ?o2))"
    using t1 v by (auto simp: map_of_swap_entries [OF v t1] map_of_boe_index_other fun_eq_iff
        boe_index_present)
  define o3 where "o3 = (if t = n then fst (new_Boe_Order (s_env ?u)) else ?o2)"
  have s2: "map_of (boe_active ?s2) = (map_of (boe_active s))(t := None, n \<mapsto> o3)"
  proof (cases "t = n")
    case True
    then have "map_of (boe_active ?u) n = None" using m by simp
    from boe_index_absent [OF this] m True show ?thesis by (simp add: o3_def)
  next
    case False
    then have "map_of (boe_active ?u) n = Some ?o2" using m by simp
    from boe_index_present [OF this] m False show ?thesis by (simp add: o3_def)
  qed
  have len3: "length (boe_token o3) = 20"
    using new_Boe_Order_ok [of "s_env ?u"] len
    by (auto simp: o3_def boe_order_ok_def boe_modified_order_def)
  have n3: "map_of (boe_active ?s2) n = Some o3" by (simp add: s2)
  have eq: "boe_modify_one mo s = ((if executed_qty o1 \<ge> uint (bmod_qty mo) then [boe_token o1] else []),
      boe_construct_order_modified o3 ?s2)"
    using here n3 by (simp add: boe_modify_one_def Let_def t_def n_def)
  show thesis
    by (rule that [of o3]) (use eq s2 len3 in \<open>auto simp: o3_def boe_order_modified_event\<close>)
qed

text \<open>
  C32: one modification of a live order under a new token: the order moves from its old to its new
  token, whatever held the new token before is lost, every other entry stays; price and side are
  the new ones, the open quantity is the new total less what was executed, or 0 when that is not
  positive, and the member is told the new token, price, total and open quantity. An order whose
  new total has been executed already is marked for erasure under its old token only, so it stays
  in the table, with nothing left, under the new one.
\<close>

theorem boe_modify_outcome:
  fixes s :: boe_session
  assumes "map_of (boe_active s) (bmod_orig_token mo) = Some o1"
    and "length (bmod_token mo) = 20" and "bmod_token mo \<noteq> bmod_orig_token mo"
    and "0 \<le> executed_qty o1" and "boe_token o1 = bmod_orig_token mo"
  defines "o2 \<equiv> o1\<lparr>remaining_qty := max 0 (uint (bmod_qty mo) - executed_qty o1), side := bmod_side mo,
      boe_price := bmod_price mo, boe_token := bmod_token mo, firm := strncpy 4 (bmod_clearing_firm mo)\<rparr>"
  shows "map_of (boe_active (boe_modify_logic (s\<lparr>boe_pending_modify := [mo]\<rparr>))) =
      (map_of (boe_active s))(bmod_orig_token mo := None, bmod_token mo \<mapsto> o2) \<and>
    boe_events (boe_modify_logic (s\<lparr>boe_pending_modify := [mo]\<rparr>)) = boe_events s @
      [Some (Bv_Modified (bmod_token mo) (bmod_price mo)
         (to_uint32 (max (uint (bmod_qty mo)) (executed_qty o1))) (to_uint32 (remaining_qty o2)))]"
proof -
  let ?s = "s\<lparr>boe_pending_modify := [mo]\<rparr>"
  have here: "map_of (boe_active ?s) (bmod_orig_token mo) = Some o1" using assms(1) by simp
  have ev: "boe_events ?s = boe_events s" by simp
  have o2: "boe_modified_order mo o1 = o2" by (simp add: boe_modified_order_def o2_def)
  obtain o3 where o3: "fst (boe_modify_one mo ?s) =
      (if executed_qty o1 \<ge> uint (bmod_qty mo) then [boe_token o1] else [])"
    "map_of (boe_active (snd (boe_modify_one mo ?s))) =
      (map_of (boe_active ?s))(bmod_orig_token mo := None, bmod_token mo \<mapsto> o3)"
    "bmod_orig_token mo \<noteq> bmod_token mo \<Longrightarrow> o3 = boe_modified_order mo o1"
    "boe_events (snd (boe_modify_one mo ?s)) = boe_events ?s @
      [Some (Bv_Modified (boe_token o3) (boe_price o3)
         (to_uint32 (remaining_qty o3 + executed_qty o3)) (to_uint32 (remaining_qty o3)))]"
    using boe_modify_one_found [OF here assms(2)] by metis
  have "o3 = o2" using o3(3) assms(3) o2 by simp
  moreover have "remaining_qty o2 + executed_qty o2 = max (uint (bmod_qty mo)) (executed_qty o1)"
    "boe_token o2 = bmod_token mo" "boe_price o2 = bmod_price mo"
    by (simp_all add: o2_def)
  ultimately show ?thesis
    using o3(1,2,4) assms(3,5)
    by (auto simp: boe_modify_logic_def split_def Let_def map_of_erase_all fun_eq_iff)
qed

definition sample_modify :: "byte list \<Rightarrow> u32 \<Rightarrow> Boe_ModifyOrderReq" where
  "sample_modify n q = \<lparr>bmod_token = n, bmod_orig_token = boe_sample_token,
     bmod_clearing_firm = bytes_of_string ''FIRM'', bmod_qty = q, bmod_price = 99, bmod_order_type = 0,
     bmod_cancel_orig_on_reject = 0, bmod_exec_inst = 0, bmod_side = ch CHR ''2''\<rparr>"

theorem boe_modify_outcome_witness:
  "boe_events (boe_modify_logic (boe_holding [boe_sample_order]
     \<lparr>boe_pending_modify := [sample_modify (replicate 20 7) 300]\<rparr>)) =
   [Some (Bv_Modified (replicate 20 7) 99 300 300)]"
proof -
  have "boe_sample_token \<noteq> replicate 20 7" by code_simp
  then show ?thesis
    using boe_modify_outcome [of "boe_holding [boe_sample_order]" "sample_modify (replicate 20 7) 300"
        boe_sample_order]
    by (auto simp: sample_modify_def to_uint32_def)
qed

text \<open>
  A modification that keeps its token destroys the order: the entry is erased, the fetch that
  follows makes up an order with uninitialised fields under the same token, and that one stays in
  the table and is what the member is told about.
\<close>

theorem boe_modify_same_token:
  fixes s :: boe_session
  assumes "map_of (boe_active s) (bmod_orig_token mo) = Some o1"
    and "length (bmod_token mo) = 20" and "bmod_token mo = bmod_orig_token mo"
    and "executed_qty o1 < uint (bmod_qty mo)"
  shows "\<exists>o3 (e :: env). o3 = fst (new_Boe_Order e) \<and>
    map_of (boe_active (boe_modify_logic (s\<lparr>boe_pending_modify := [mo]\<rparr>))) =
      (map_of (boe_active s))(bmod_token mo \<mapsto> o3) \<and>
    boe_events (boe_modify_logic (s\<lparr>boe_pending_modify := [mo]\<rparr>)) = boe_events s @
      [Some (Bv_Modified (boe_token o3) (boe_price o3)
         (to_uint32 (remaining_qty o3 + executed_qty o3)) (to_uint32 (remaining_qty o3)))]"
proof -
  let ?s = "s\<lparr>boe_pending_modify := [mo]\<rparr>"
  have here: "map_of (boe_active ?s) (bmod_orig_token mo) = Some o1" using assms(1) by simp
  obtain o3 where o3: "fst (boe_modify_one mo ?s) =
      (if executed_qty o1 \<ge> uint (bmod_qty mo) then [boe_token o1] else [])"
    "map_of (boe_active (snd (boe_modify_one mo ?s))) =
      (map_of (boe_active ?s))(bmod_orig_token mo := None, bmod_token mo \<mapsto> o3)"
    "bmod_orig_token mo = bmod_token mo \<Longrightarrow> \<exists>e :: env. o3 = fst (new_Boe_Order e)"
    "boe_events (snd (boe_modify_one mo ?s)) = boe_events ?s @
      [Some (Bv_Modified (boe_token o3) (boe_price o3)
         (to_uint32 (remaining_qty o3 + executed_qty o3)) (to_uint32 (remaining_qty o3)))]"
    using boe_modify_one_found [OF here assms(2)] by metis
  then show ?thesis
    using assms(3,4) by (intro exI [of _ o3]) (simp add: boe_modify_logic_def split_def Let_def)
qed

theorem boe_modify_same_token_witness:
  "\<exists>e :: env. map_of (boe_active (boe_modify_logic (boe_holding [boe_sample_order]
     \<lparr>boe_pending_modify := [sample_modify boe_sample_token 300]\<rparr>))) boe_sample_token =
   Some (fst (new_Boe_Order e))"
  using boe_modify_same_token [of "boe_holding [boe_sample_order]" "sample_modify boe_sample_token 300"
      boe_sample_order]
  by (auto simp: sample_modify_def)

section \<open>Login\<close>


definition boe_sample_login :: "byte list" where
  "boe_sample_login = [0xBA, 0xBA, 72, 0, 0x37] @ replicate 69 0"


end
