(* ===== verification/BoeExecution.thy ===== *)
theory BoeExecution
  imports BoeProps ExecutionRounds
begin

text \<open>
  Properties of the BOE execution logic: what one round does to one order, the accounting of shares
  over a tick, and the orders that leave the table without trading.
\<close>

section \<open>One round\<close>

text \<open>The shares a list of events reports as executed for a token.\<close>

definition boe_filled :: "byte list \<Rightarrow> boe_event option list \<Rightarrow> int" where
  "boe_filled k evs = sum_list (List.map (\<lambda>e. case e of
     Some (Bv_Executed n t q p l) \<Rightarrow> if t = k then uint q else 0 | _ \<Rightarrow> 0) evs)"

lemma boe_filled_simps [simp]:
  "boe_filled k [] = 0"
  "boe_filled k (evs @ evs') = boe_filled k evs + boe_filled k evs'"
  "boe_filled k [Some (Bv_Executed n t q p l)] = (if t = k then uint q else 0)"
  by (simp_all add: boe_filled_def)

text \<open>A round finds the order dead, is refused, forces no shares, or fills some.\<close>

lemma boe_execute_one_cases [consumes 2, case_names refused none fill finish]:
  assumes "boe_execute_one k o1 s = (d, s')" and "length (boe_token o1) = 20"
  obtains (refused) "d = []" "boe_active s' = boe_active s" "boe_finished s' = boe_finished s"
      "boe_events s' = boe_events s"
  | (none) "d = []" "Boe_Order_still_active o1" "boe_active s' = AList.update k o1 (boe_active s)"
      "boe_finished s' = boe_finished s" "boe_events s' = boe_events s"
  | (fill) q where "d = []" "Boe_Order_still_active o1" "q \<le> remaining_qty o1"
      "boe_active s' = AList.update k (o1\<lparr>remaining_qty := remaining_qty o1 - q,
         executed_qty := executed_qty o1 + q\<rparr>) (boe_active s)"
      "boe_finished s' = boe_finished s"
      "boe_events s' = boe_events s @ [Some (Bv_Executed (boe_seq_num s + 1) (boe_token o1) (to_uint32 q)
         (boe_price o1) (to_uint32 (remaining_qty o1 - q)))]"
      "0 < q"
  | (finish) "d = [k]" "\<not> Boe_Order_still_active o1" "boe_active s' = boe_active s"
      "map_of (boe_finished s') = (map_of (boe_finished s))(k \<mapsto> o1)" "boe_events s' = boe_events s"
proof -
  let ?e = "snd (bm_allows Execution (s_env s))"
  let ?s1 = "s\<lparr>s_env := ?e\<rparr>"
  let ?x = "fst (execution_qty ?e)" and ?s2 = "?s1\<lparr>s_env := snd (execution_qty ?e)\<rparr>"
  consider "\<not> fst (bm_allows Execution (s_env s))"
    | "fst (bm_allows Execution (s_env s))" "Boe_Order_still_active o1"
    | "fst (bm_allows Execution (s_env s))" "\<not> Boe_Order_still_active o1" by blast
  then show thesis
  proof cases
    case 1
    then show thesis using assms(1) by (intro refused) (auto simp: boe_execute_one_def on_env_result Let_def)
  next
    case 2
    then have s': "d = []" "s' = boe_put k (fst (boe_construct_order_executed o1 ?x ?s2))
        (snd (boe_construct_order_executed o1 ?x ?s2))"
      using assms(1) by (auto simp: boe_execute_one_def on_env_result Let_def split_def)
    show thesis
    proof (cases "?x = 0")
      case True
      then show thesis using s' 2 by (intro none) (simp_all add: boe_order_executed_zero)
    next
      case False
      obtain q lot where lot: "100 \<le> lot"
        and q: "q = min (if ?x < 0 then lot else ?x) (remaining_qty o1)"
        and "fst (boe_construct_order_executed o1 ?x ?s2) =
          o1\<lparr>remaining_qty := remaining_qty o1 - q, executed_qty := executed_qty o1 + q\<rparr>"
        and "boe_events (snd (boe_construct_order_executed o1 ?x ?s2)) = boe_events ?s2 @
          [Some (Bv_Executed (boe_seq_num ?s2 + 1) (boe_token o1) (to_uint32 q) (boe_price o1)
             (to_uint32 (remaining_qty o1 - q)))]"
        using boe_order_executed_effect [OF assms(2) False, of ?s2] by metis
      moreover have "0 < q"
        using lot q False 2(2) by (auto simp: Boe_Order_still_active_def)
      ultimately show thesis using s' 2 by (intro fill [of q]) simp_all
    qed
  next
    case 3
    then show thesis using assms(1)
      by (intro finish) (auto simp: boe_execute_one_def on_env_result Let_def split_def)
  qed
qed

text \<open>What a round leaves alone, and what it does to its own entry.\<close>

lemma boe_execute_one_other:
  assumes "boe_execute_one k o1 s = (d, s')" and "length (boe_token o1) = 20" and "k' \<noteq> k"
  shows "map_of (boe_active s') k' = map_of (boe_active s) k' \<and>
    map_of (boe_finished s') k' = map_of (boe_finished s) k' \<and> (d = [] \<or> d = [k])"
  using assms(1,2) by (cases rule: boe_execute_one_cases) (use assms(3) in simp_all)

text \<open>What a round accounts for: \<open>n\<close> is the number of shares reported.\<close>

definition boe_accounted :: "Boe_Order \<Rightarrow> Boe_Order \<Rightarrow> int \<Rightarrow> bool" where
  "boe_accounted o1 o2 n \<longleftrightarrow> o2 = o1\<lparr>remaining_qty := remaining_qty o1 - n,
     executed_qty := executed_qty o1 + n\<rparr> \<and> 0 \<le> n \<and> n \<le> max 0 (remaining_qty o1)"

lemma boe_accounted_none: "boe_accounted o1 o1 n \<Longrightarrow> n = 0"
proof -
  assume "boe_accounted o1 o1 n"
  then have "o1 = o1\<lparr>remaining_qty := remaining_qty o1 - n, executed_qty := executed_qty o1 + n\<rparr>"
    unfolding boe_accounted_def by blast
  from arg_cong [OF this, of executed_qty] show "n = 0" by simp
qed

lemma boe_execute_one_effect:
  assumes step: "boe_execute_one k o1 s = (d, s')" and here: "map_of (boe_active s) k = Some o1"
    and tok: "boe_token o1 = k" "length k = 20"
  obtains o2 evs where "map_of (boe_active s') k = Some o2" and "boe_events s' = boe_events s @ evs"
    and "boe_accounted o1 o2 (boe_filled k evs)" and "d \<noteq> [] \<Longrightarrow> o2 = o1 \<and> map_of (boe_finished s') k = Some o1"
    and "\<And>k'. k' \<noteq> k \<Longrightarrow> boe_filled k' evs = 0"
proof -
  have len: "length (boe_token o1) = 20" using tok by simp
  from step len show thesis
  proof (cases rule: boe_execute_one_cases)
    case refused
    then show thesis using here by (intro that [of o1 "[]"]) (simp_all add: boe_accounted_def)
  next
    case none
    then show thesis by (intro that [of o1 "[]"]) (simp_all add: boe_accounted_def)
  next
    case (fill q)
    have "uint (to_uint32 q) = q"
      using fill(2,3,7) by (intro uint_to_uint32) (simp_all add: Boe_Order_still_active_def)
    then show thesis using fill tok
      by (intro that [of "o1\<lparr>remaining_qty := remaining_qty o1 - q, executed_qty := executed_qty o1 + q\<rparr>"
            "[Some (Bv_Executed (boe_seq_num s + 1) (boe_token o1) (to_uint32 q) (boe_price o1)
              (to_uint32 (remaining_qty o1 - q)))]"])
        (simp_all add: boe_accounted_def)
  next
    case finish
    then show thesis using here by (intro that [of o1 "[]"]) (simp_all add: boe_accounted_def)
  qed
qed

section \<open>The whole loop\<close>

text \<open>Every order is stored under its own token.\<close>

definition boe_keyed :: "boe_session \<Rightarrow> bool" where
  "boe_keyed s \<longleftrightarrow> (\<forall>k o1. map_of (boe_active s) k = Some o1 \<longrightarrow> boe_token o1 = k)"

definition boe_fit :: "byte list \<Rightarrow> Boe_Order \<Rightarrow> bool" where
  "boe_fit k o1 \<longleftrightarrow> boe_token o1 = k \<and> length k = 20"

interpretation boe_accounts: accounted_loop boe_execute_one boe_execute_loop
  "\<lambda>s. map_of (boe_active s)" "\<lambda>s. map_of (boe_finished s)" boe_fit boe_events boe_filled boe_accounted
  "\<lambda>o1 o2 n past. o2 = o1 \<and> past = Some o1"
proof unfold_locales
  fix k k' and o1 :: Boe_Order and s d s'
  assume fit: "boe_fit k o1" and one: "boe_execute_one k o1 s = (d, s')"
  then have len: "length (boe_token o1) = 20" and tok: "boe_token o1 = k" "length k = 20"
    by (simp_all add: boe_fit_def)
  show "d = [] \<or> d = [k]" using boe_execute_one_other [OF one len, of "k @ [0]"] by simp
  show "map_of (boe_active s') k' = map_of (boe_active s) k' \<and>
    map_of (boe_finished s') k' = map_of (boe_finished s) k'" if "k' \<noteq> k"
    using boe_execute_one_other [OF one len that] by blast
  show "\<exists>o2 evs. map_of (boe_active s') k = Some o2 \<and> boe_events s' = boe_events s @ evs \<and>
      boe_accounted o1 o2 (boe_filled k evs) \<and> (d \<noteq> [] \<longrightarrow> o2 = o1 \<and> map_of (boe_finished s') k = Some o1) \<and>
      (\<forall>k'. k' \<noteq> k \<longrightarrow> boe_filled k' evs = 0)" if "map_of (boe_active s) k = Some o1"
    by (rule boe_execute_one_effect [OF one that tok]) blast
qed (simp_all add: split_def Let_def)

lemma boe_execution_logic_tick:
  assumes "boe_inv s" and "boe_keyed s"
  obtains evs where "boe_events (boe_execution_logic s) = boe_events s @ evs"
    and "\<And>k. map_of (boe_active s) k = None \<Longrightarrow>
      map_of (boe_active (boe_execution_logic s)) k = None \<and> boe_filled k evs = 0"
    and "\<And>k o1. map_of (boe_active s) k = Some o1 \<Longrightarrow> (\<exists>o2. boe_accounted o1 o2 (boe_filled k evs) \<and>
      (map_of (boe_active (boe_execution_logic s)) k = Some o2 \<or>
       map_of (boe_active (boe_execution_logic s)) k = None \<and> o2 = o1 \<and>
       map_of (boe_finished (boe_execution_logic s)) k = Some o1))"
proof -
  let ?ps = "visit (fst (next_rank (s_env s))) (boe_active s)"
  let ?u = "s\<lparr>s_env := snd (next_rank (s_env s))\<rparr>"
  let ?run = "boe_execute_loop ?ps ?u"
  have t: "boe_table_ok (boe_active s)" using assms(1) unfolding boe_inv_def by blast
  then have dist: "distinct (keys (boe_active s))" by (simp add: boe_table_ok_def)
  have mem: "(k, o1) \<in> set ?ps \<longleftrightarrow> map_of (boe_active ?u) k = Some o1" for k o1
    using in_visit_iff [OF dist] by simp
  have fit: "boe_fit k o1" if "map_of (boe_active ?u) k = Some o1" for k o1
    using that assms(2) boe_table_okD [OF t] by (auto simp: boe_fit_def boe_keyed_def)
  obtain evs where "boe_events (snd ?run) = boe_events ?u @ evs"
    "\<forall>k. map_of (boe_active ?u) k = None \<longrightarrow> map_of (boe_active (snd ?run)) k = None \<and> boe_filled k evs = 0"
    "\<forall>k o1. map_of (boe_active ?u) k = Some o1 \<longrightarrow>
      (\<exists>o2. map_of (boe_active (snd ?run)) k = Some o2 \<and> boe_accounted o1 o2 (boe_filled k evs) \<and>
         (k \<in> set (fst ?run) \<longrightarrow> o2 = o1 \<and> map_of (boe_finished (snd ?run)) k = Some o1))"
    by (rule boe_accounts.tick_effect [OF distinct_visit [OF dist] mem fit])
  then show thesis
    by (intro that [of evs]) (force simp: boe_execution_logic_eq map_of_erase_all)+
qed



text \<open>
  An order for more than 1,000,000 shares is acknowledged like any other but never trades: the
  first round the behaviour manager permits moves it, untouched, to the finished orders, and the
  member hears nothing of it.
\<close>

theorem boe_large_order_never_trades:
  assumes "remaining_qty o1 > 1000000" and "fst (bm_allows Execution (s_env s))"
  shows "fst (boe_execute_one k o1 s) = [k] \<and>
    map_of (boe_finished (snd (boe_execute_one k o1 s))) = (map_of (boe_finished s))(k \<mapsto> o1) \<and>
    boe_events (snd (boe_execute_one k o1 s)) = boe_events s"
  using assms by (simp add: boe_execute_one_def on_env_result Let_def Boe_Order_still_active_def)

theorem boe_large_order_never_trades_witness:
  "boe_events (snd (boe_execute_one boe_sample_token (boe_sample_order\<lparr>remaining_qty := 1000001\<rparr>)
     boe_sample)) = []"
  using boe_large_order_never_trades [of "boe_sample_order\<lparr>remaining_qty := 1000001\<rparr>" boe_sample
      boe_sample_token]
  by (simp add: bm_allows_sample)

end
