(* ===== verification/Printing.thy ===== *)
theory Printing
  imports Prelude
begin

text \<open>
  \<^verbatim>\<open>snprintf\<close> as the log uses it: a format string with its arguments is a list of pieces,
  one for each conversion, and \<open>render\<close> is the text they make. The functions of
  \<^verbatim>\<open>evtsim_util.cpp\<close> print into a buffer of 4096 bytes and make a string of the length
  \<^verbatim>\<open>snprintf\<close> returned, which is the length of the whole text even when it did not fit.
\<close>

datatype piece =
    P_lit string
  | P_hu u16
  | P_hhu byte
  | P_u u32
  | P_lu u64
  | P_d u32
  | P_ld u64
  | P_x byte
  | P_x2 byte
  | P_c byte
  | P_s "byte list"

definition signed_decimal :: "int \<Rightarrow> byte list" where
  "signed_decimal i = (if i < 0 then 45 # decimal (nat (- i)) else decimal (nat i))"

definition hex_digit :: "nat \<Rightarrow> byte" where
  "hex_digit n = (if n < 10 then 48 + of_nat n else 87 + of_nat n)"

text \<open>Characters of a string argument are written up to its first NUL; \<^verbatim>\<open>%c\<close> writes any byte.\<close>

fun render_piece :: "piece \<Rightarrow> byte list" where
  "render_piece (P_lit s) = bytes_of_string s"
| "render_piece (P_hu w) = decimal (unat w)"
| "render_piece (P_hhu b) = decimal (unat b)"
| "render_piece (P_u w) = decimal (unat w)"
| "render_piece (P_lu w) = decimal (unat w)"
| "render_piece (P_d w) = signed_decimal (sint w)"
| "render_piece (P_ld w) = signed_decimal (sint w)"
| "render_piece (P_x b) =
     (if unat b < 16 then [hex_digit (unat b)] else [hex_digit (unat b div 16), hex_digit (unat b mod 16)])"
| "render_piece (P_x2 b) = [hex_digit (unat b div 16), hex_digit (unat b mod 16)]"
| "render_piece (P_c b) = [b]"
| "render_piece (P_s bs) = takeWhile (\<lambda>b. b \<noteq> 0) bs"

definition render :: "piece list \<Rightarrow> byte list" where
  "render ps = concat (List.map render_piece ps)"

text \<open>A NUL field is shown as the character 0.\<close>

definition zero_shown :: "byte \<Rightarrow> byte" where
  "zero_shown b = (if b = 0 then 48 else b)"

text \<open>A \<^verbatim>\<open>%s\<close> argument that is a bare array: everything up to the next NUL in memory.\<close>

definition c_string :: "byte list \<Rightarrow> byte list result" where
  "c_string mem = (if 0 \<in> set mem then Inr (takeWhile (\<lambda>b. b \<noteq> 0) mem) else Inl OutOfBounds)"

text \<open>
  \<^verbatim>\<open>std::string(buf, n)\<close> after \<^verbatim>\<open>n = snprintf(buf, size, ...)\<close>: a text of exactly the size of
  the buffer loses its last character to the NUL, a longer one makes the string constructor read
  past the buffer.
\<close>

definition string_of_buffer :: "nat \<Rightarrow> byte list \<Rightarrow> byte list result" where
  "string_of_buffer room t =
     (if length t < room then Inr t
      else if length t = room then Inr (take (room - 1) t @ [0])
      else Inl OutOfBounds)"

definition print_size :: nat where
  "print_size = 4096"

text \<open>The pieces printed behind a text that is already in the buffer, as one string.\<close>

definition print_after :: "byte list \<Rightarrow> piece list result \<Rightarrow> byte list result" where
  "print_after head r = bind_result r (\<lambda>ps. string_of_buffer print_size (head @ render ps))"

definition print_text :: "piece list result \<Rightarrow> byte list result" where
  "print_text r = print_after [] r"

section \<open>Bounds\<close>

text \<open>A bound on the length of each piece that does not depend on the values printed.\<close>

fun piece_room :: "piece \<Rightarrow> nat" where
  "piece_room (P_lit s) = length s"
| "piece_room (P_hu w) = 5"
| "piece_room (P_hhu b) = 3"
| "piece_room (P_u w) = 10"
| "piece_room (P_lu w) = 20"
| "piece_room (P_d w) = 11"
| "piece_room (P_ld w) = 20"
| "piece_room (P_x b) = 2"
| "piece_room (P_x2 b) = 2"
| "piece_room (P_c b) = 1"
| "piece_room (P_s bs) = length bs"

lemma length_decimal_word:
  fixes w :: "'a::len word"
  assumes "2 ^ LENGTH('a) \<le> (10::nat) ^ Suc k"
  shows "length (decimal (unat w)) \<le> Suc k"
proof -
  have "unat w < 10 ^ Suc k" using unsigned_less [of w] assms by (rule less_le_trans)
  then show ?thesis by (rule length_decimal)
qed

lemma length_signed_decimal: "\<bar>i\<bar> < 10 ^ Suc k \<Longrightarrow> length (signed_decimal i) \<le> Suc (Suc k)"
  using length_decimal [of "nat (- i)" k] length_decimal [of "nat i" k]
  by (auto simp: signed_decimal_def nat_less_iff)

lemma length_signed_decimal_word:
  fixes w :: "'a::len word"
  assumes "2 ^ (LENGTH('a) - 1) < (10::int) ^ Suc k"
  shows "length (signed_decimal (sint w)) \<le> Suc (Suc k)"
proof (rule length_signed_decimal)
  have "- (2 ^ (LENGTH('a) - 1)) \<le> sint w" "sint w < 2 ^ (LENGTH('a) - 1)"
    using sint_ge [of w] sint_lt [of w] by simp_all
  with assms show "\<bar>sint w\<bar> < 10 ^ Suc k" by (simp add: abs_le_iff)
qed

lemma length_render_piece: "length (render_piece p) \<le> piece_room p"
proof (cases p)
  case (P_hu w)
  then show ?thesis using length_decimal_word [of 4 w] by simp
next
  case (P_hhu w)
  then show ?thesis using length_decimal_word [of 2 w] by simp
next
  case (P_u w)
  then show ?thesis using length_decimal_word [of 9 w] by simp
next
  case (P_lu w)
  then show ?thesis using length_decimal_word [of 19 w] by simp
next
  case (P_d w)
  then show ?thesis using length_signed_decimal_word [of 9 w] by simp
next
  case (P_ld w)
  then show ?thesis using length_signed_decimal_word [of 18 w] by simp
qed (simp_all add: bytes_of_string_def length_takeWhile_le)

lemma length_render: "length (render ps) \<le> sum_list (List.map piece_room ps)"
  by (induction ps) (simp_all add: render_def add_mono length_render_piece)

lemma render_append [simp]: "render (ps @ qs) = render ps @ render qs"
  by (simp add: render_def)

lemma string_of_buffer_fits: "length t < room \<Longrightarrow> string_of_buffer room t = Inr t"
  by (simp add: string_of_buffer_def)

lemma print_after_fits:
  "length head + sum_list (List.map piece_room ps) < print_size \<Longrightarrow>
   print_after head (Inr ps) = Inr (head @ render ps)"
  using length_render [of ps] by (simp add: print_after_def string_of_buffer_fits)

end
