(* ===== verification/OuchNotices.thy ===== *)
theory OuchNotices
  imports OuchMessages
begin

text \<open>
  The structs of \<^verbatim>\<open>ouch_messages.h\<close> that the session neither reads nor sends: notices of an
  exchange to its clients, which the program can only print. Laid out as in the theory of the
  other OUCH messages.
\<close>

record ouch_EndOfSession =
  eos_length :: u16
  eos_packet_type :: byte

definition ouch_EndOfSession_size :: nat where
  "ouch_EndOfSession_size = 3"

definition ouch_EndOfSession_bytes :: "ouch_EndOfSession \<Rightarrow> byte list" where
  "ouch_EndOfSession_bytes x =
     le_bytes 2 (eos_length x) @
     byte1 (eos_packet_type x)"

definition ouch_EndOfSession_at :: "byte list \<Rightarrow> ouch_EndOfSession" where
  "ouch_EndOfSession_at m =
     \<lparr>eos_length = u16_at 0 m,
      eos_packet_type = u8_at 2 m\<rparr>"

definition ouch_EndOfSession_ok :: "ouch_EndOfSession \<Rightarrow> bool" where
  "ouch_EndOfSession_ok x \<longleftrightarrow> True"

lemmas ouch_EndOfSession_defs [struct_simps] = ouch_EndOfSession_size_def ouch_EndOfSession_bytes_def ouch_EndOfSession_at_def ouch_EndOfSession_ok_def

interpretation ouch_EndOfSession: packed_struct ouch_EndOfSession_size ouch_EndOfSession_bytes ouch_EndOfSession_at ouch_EndOfSession_ok
  by unfold_locales (auto simp: ouch_EndOfSession_defs struct_proof)

definition new_ouch_EndOfSession :: "byte list \<Rightarrow> ouch_EndOfSession" where
  "new_ouch_EndOfSession g = (ouch_EndOfSession_at g)\<lparr>eos_length := swap16 (3 - 2), eos_packet_type := PacketType_code PT_EndOfSession\<rparr>"

record ouch_SystemEvent =
  se_length :: u16
  se_packet_type :: byte
  se_msg_type :: byte
  se_timestamp :: u64
  se_event_code :: byte

definition ouch_SystemEvent_size :: nat where
  "ouch_SystemEvent_size = 13"

definition ouch_SystemEvent_bytes :: "ouch_SystemEvent \<Rightarrow> byte list" where
  "ouch_SystemEvent_bytes x =
     le_bytes 2 (se_length x) @
     byte1 (se_packet_type x) @
     byte1 (se_msg_type x) @
     le_bytes 8 (se_timestamp x) @
     byte1 (se_event_code x)"

definition ouch_SystemEvent_at :: "byte list \<Rightarrow> ouch_SystemEvent" where
  "ouch_SystemEvent_at m =
     \<lparr>se_length = u16_at 0 m,
      se_packet_type = u8_at 2 m,
      se_msg_type = u8_at 3 m,
      se_timestamp = u64_at 4 m,
      se_event_code = u8_at 12 m\<rparr>"

definition ouch_SystemEvent_ok :: "ouch_SystemEvent \<Rightarrow> bool" where
  "ouch_SystemEvent_ok x \<longleftrightarrow> True"

lemmas ouch_SystemEvent_defs [struct_simps] = ouch_SystemEvent_size_def ouch_SystemEvent_bytes_def ouch_SystemEvent_at_def ouch_SystemEvent_ok_def

interpretation ouch_SystemEvent: packed_struct ouch_SystemEvent_size ouch_SystemEvent_bytes ouch_SystemEvent_at ouch_SystemEvent_ok
  by unfold_locales (auto simp: ouch_SystemEvent_defs struct_proof)

definition new_ouch_SystemEvent :: "byte list \<Rightarrow> ouch_SystemEvent" where
  "new_ouch_SystemEvent g = (ouch_SystemEvent_at g)\<lparr>se_length := swap16 (13 - 2), se_packet_type := PacketType_code PT_SequencedData, se_msg_type := InboundMsgType_code In_SystemEvent\<rparr>"

definition ouch_SystemEvent_to_network :: "ouch_SystemEvent \<Rightarrow> ouch_SystemEvent" where
  "ouch_SystemEvent_to_network x = x\<lparr>se_timestamp := swap64 (se_timestamp x)\<rparr>"

record ouch_ExecutedWithRefPrice =
  exr_length :: u16
  exr_packet_type :: byte
  exr_msg_type :: byte
  exr_timestamp :: u64
  exr_token :: "byte list"
  exr_executed_qty :: u32
  exr_execution_price :: u32
  exr_liquidity_flag :: byte
  exr_match_number :: u64
  exr_reference_price :: u32
  exr_reference_price_type :: byte

definition ouch_ExecutedWithRefPrice_size :: nat where
  "ouch_ExecutedWithRefPrice_size = 48"

definition ouch_ExecutedWithRefPrice_bytes :: "ouch_ExecutedWithRefPrice \<Rightarrow> byte list" where
  "ouch_ExecutedWithRefPrice_bytes x =
     le_bytes 2 (exr_length x) @
     byte1 (exr_packet_type x) @
     byte1 (exr_msg_type x) @
     le_bytes 8 (exr_timestamp x) @
     exr_token x @
     le_bytes 4 (exr_executed_qty x) @
     le_bytes 4 (exr_execution_price x) @
     byte1 (exr_liquidity_flag x) @
     le_bytes 8 (exr_match_number x) @
     le_bytes 4 (exr_reference_price x) @
     byte1 (exr_reference_price_type x)"

definition ouch_ExecutedWithRefPrice_at :: "byte list \<Rightarrow> ouch_ExecutedWithRefPrice" where
  "ouch_ExecutedWithRefPrice_at m =
     \<lparr>exr_length = u16_at 0 m,
      exr_packet_type = u8_at 2 m,
      exr_msg_type = u8_at 3 m,
      exr_timestamp = u64_at 4 m,
      exr_token = arr_at 12 14 m,
      exr_executed_qty = u32_at 26 m,
      exr_execution_price = u32_at 30 m,
      exr_liquidity_flag = u8_at 34 m,
      exr_match_number = u64_at 35 m,
      exr_reference_price = u32_at 43 m,
      exr_reference_price_type = u8_at 47 m\<rparr>"

definition ouch_ExecutedWithRefPrice_ok :: "ouch_ExecutedWithRefPrice \<Rightarrow> bool" where
  "ouch_ExecutedWithRefPrice_ok x \<longleftrightarrow> length (exr_token x) = 14"

lemmas ouch_ExecutedWithRefPrice_defs [struct_simps] = ouch_ExecutedWithRefPrice_size_def ouch_ExecutedWithRefPrice_bytes_def ouch_ExecutedWithRefPrice_at_def ouch_ExecutedWithRefPrice_ok_def

interpretation ouch_ExecutedWithRefPrice: packed_struct ouch_ExecutedWithRefPrice_size ouch_ExecutedWithRefPrice_bytes ouch_ExecutedWithRefPrice_at ouch_ExecutedWithRefPrice_ok
  by unfold_locales (auto simp: ouch_ExecutedWithRefPrice_defs struct_proof)

definition new_ouch_ExecutedWithRefPrice :: "byte list \<Rightarrow> ouch_ExecutedWithRefPrice" where
  "new_ouch_ExecutedWithRefPrice g = (ouch_ExecutedWithRefPrice_at g)\<lparr>exr_length := swap16 (48 - 2), exr_packet_type := PacketType_code PT_SequencedData, exr_msg_type := InboundMsgType_code In_ExecutedWithRefPrice\<rparr>"

definition ouch_ExecutedWithRefPrice_to_network :: "ouch_ExecutedWithRefPrice \<Rightarrow> ouch_ExecutedWithRefPrice" where
  "ouch_ExecutedWithRefPrice_to_network x = x\<lparr>exr_timestamp := swap64 (exr_timestamp x),
     exr_execution_price := swap32 (exr_execution_price x),
     exr_executed_qty := swap32 (exr_executed_qty x),
     exr_reference_price := swap32 (exr_reference_price x),
     exr_match_number := swap64 (exr_match_number x)\<rparr>"

record ouch_BrokenTrade =
  bt_length :: u16
  bt_packet_type :: byte
  bt_msg_type :: byte
  bt_timestamp :: u64
  bt_token :: "byte list"
  bt_match_number :: u64
  bt_reason :: byte

definition ouch_BrokenTrade_size :: nat where
  "ouch_BrokenTrade_size = 35"

definition ouch_BrokenTrade_bytes :: "ouch_BrokenTrade \<Rightarrow> byte list" where
  "ouch_BrokenTrade_bytes x =
     le_bytes 2 (bt_length x) @
     byte1 (bt_packet_type x) @
     byte1 (bt_msg_type x) @
     le_bytes 8 (bt_timestamp x) @
     bt_token x @
     le_bytes 8 (bt_match_number x) @
     byte1 (bt_reason x)"

definition ouch_BrokenTrade_at :: "byte list \<Rightarrow> ouch_BrokenTrade" where
  "ouch_BrokenTrade_at m =
     \<lparr>bt_length = u16_at 0 m,
      bt_packet_type = u8_at 2 m,
      bt_msg_type = u8_at 3 m,
      bt_timestamp = u64_at 4 m,
      bt_token = arr_at 12 14 m,
      bt_match_number = u64_at 26 m,
      bt_reason = u8_at 34 m\<rparr>"

definition ouch_BrokenTrade_ok :: "ouch_BrokenTrade \<Rightarrow> bool" where
  "ouch_BrokenTrade_ok x \<longleftrightarrow> length (bt_token x) = 14"

lemmas ouch_BrokenTrade_defs [struct_simps] = ouch_BrokenTrade_size_def ouch_BrokenTrade_bytes_def ouch_BrokenTrade_at_def ouch_BrokenTrade_ok_def

interpretation ouch_BrokenTrade: packed_struct ouch_BrokenTrade_size ouch_BrokenTrade_bytes ouch_BrokenTrade_at ouch_BrokenTrade_ok
  by unfold_locales (auto simp: ouch_BrokenTrade_defs struct_proof)

definition new_ouch_BrokenTrade :: "byte list \<Rightarrow> ouch_BrokenTrade" where
  "new_ouch_BrokenTrade g = (ouch_BrokenTrade_at g)\<lparr>bt_length := swap16 (35 - 2), bt_packet_type := PacketType_code PT_SequencedData, bt_msg_type := InboundMsgType_code In_BrokenTrade\<rparr>"

definition ouch_BrokenTrade_to_network :: "ouch_BrokenTrade \<Rightarrow> ouch_BrokenTrade" where
  "ouch_BrokenTrade_to_network x = x\<lparr>bt_timestamp := swap64 (bt_timestamp x),
     bt_match_number := swap64 (bt_match_number x)\<rparr>"

record ouch_CancelPending =
  cpd_length :: u16
  cpd_packet_type :: byte
  cpd_msg_type :: byte
  cpd_timestamp :: u64
  cpd_token :: "byte list"

definition ouch_CancelPending_size :: nat where
  "ouch_CancelPending_size = 26"

definition ouch_CancelPending_bytes :: "ouch_CancelPending \<Rightarrow> byte list" where
  "ouch_CancelPending_bytes x =
     le_bytes 2 (cpd_length x) @
     byte1 (cpd_packet_type x) @
     byte1 (cpd_msg_type x) @
     le_bytes 8 (cpd_timestamp x) @
     cpd_token x"

definition ouch_CancelPending_at :: "byte list \<Rightarrow> ouch_CancelPending" where
  "ouch_CancelPending_at m =
     \<lparr>cpd_length = u16_at 0 m,
      cpd_packet_type = u8_at 2 m,
      cpd_msg_type = u8_at 3 m,
      cpd_timestamp = u64_at 4 m,
      cpd_token = arr_at 12 14 m\<rparr>"

definition ouch_CancelPending_ok :: "ouch_CancelPending \<Rightarrow> bool" where
  "ouch_CancelPending_ok x \<longleftrightarrow> length (cpd_token x) = 14"

lemmas ouch_CancelPending_defs [struct_simps] = ouch_CancelPending_size_def ouch_CancelPending_bytes_def ouch_CancelPending_at_def ouch_CancelPending_ok_def

interpretation ouch_CancelPending: packed_struct ouch_CancelPending_size ouch_CancelPending_bytes ouch_CancelPending_at ouch_CancelPending_ok
  by unfold_locales (auto simp: ouch_CancelPending_defs struct_proof)

definition new_ouch_CancelPending :: "byte list \<Rightarrow> ouch_CancelPending" where
  "new_ouch_CancelPending g = (ouch_CancelPending_at g)\<lparr>cpd_length := swap16 (26 - 2), cpd_packet_type := PacketType_code PT_SequencedData, cpd_msg_type := InboundMsgType_code In_CancelPending\<rparr>"

definition ouch_CancelPending_to_network :: "ouch_CancelPending \<Rightarrow> ouch_CancelPending" where
  "ouch_CancelPending_to_network x = x\<lparr>cpd_timestamp := swap64 (cpd_timestamp x)\<rparr>"

record ouch_AiqCanceled =
  aiq_length :: u16
  aiq_packet_type :: byte
  aiq_msg_type :: byte
  aiq_timestamp :: u64
  aiq_token :: "byte list"
  aiq_decrement_qty :: u32
  aiq_reason :: byte
  aiq_qty_prevented_from_trading :: u32
  aiq_execution_price :: u32
  aiq_liquidity_flag :: byte

definition ouch_AiqCanceled_size :: nat where
  "ouch_AiqCanceled_size = 40"

definition ouch_AiqCanceled_bytes :: "ouch_AiqCanceled \<Rightarrow> byte list" where
  "ouch_AiqCanceled_bytes x =
     le_bytes 2 (aiq_length x) @
     byte1 (aiq_packet_type x) @
     byte1 (aiq_msg_type x) @
     le_bytes 8 (aiq_timestamp x) @
     aiq_token x @
     le_bytes 4 (aiq_decrement_qty x) @
     byte1 (aiq_reason x) @
     le_bytes 4 (aiq_qty_prevented_from_trading x) @
     le_bytes 4 (aiq_execution_price x) @
     byte1 (aiq_liquidity_flag x)"

definition ouch_AiqCanceled_at :: "byte list \<Rightarrow> ouch_AiqCanceled" where
  "ouch_AiqCanceled_at m =
     \<lparr>aiq_length = u16_at 0 m,
      aiq_packet_type = u8_at 2 m,
      aiq_msg_type = u8_at 3 m,
      aiq_timestamp = u64_at 4 m,
      aiq_token = arr_at 12 14 m,
      aiq_decrement_qty = u32_at 26 m,
      aiq_reason = u8_at 30 m,
      aiq_qty_prevented_from_trading = u32_at 31 m,
      aiq_execution_price = u32_at 35 m,
      aiq_liquidity_flag = u8_at 39 m\<rparr>"

definition ouch_AiqCanceled_ok :: "ouch_AiqCanceled \<Rightarrow> bool" where
  "ouch_AiqCanceled_ok x \<longleftrightarrow> length (aiq_token x) = 14"

lemmas ouch_AiqCanceled_defs [struct_simps] = ouch_AiqCanceled_size_def ouch_AiqCanceled_bytes_def ouch_AiqCanceled_at_def ouch_AiqCanceled_ok_def

interpretation ouch_AiqCanceled: packed_struct ouch_AiqCanceled_size ouch_AiqCanceled_bytes ouch_AiqCanceled_at ouch_AiqCanceled_ok
  by unfold_locales (auto simp: ouch_AiqCanceled_defs struct_proof)

definition new_ouch_AiqCanceled :: "byte list \<Rightarrow> ouch_AiqCanceled" where
  "new_ouch_AiqCanceled g = (ouch_AiqCanceled_at g)\<lparr>aiq_length := swap16 (40 - 2), aiq_packet_type := PacketType_code PT_SequencedData, aiq_msg_type := InboundMsgType_code In_AiqCanceled\<rparr>"

definition ouch_AiqCanceled_to_network :: "ouch_AiqCanceled \<Rightarrow> ouch_AiqCanceled" where
  "ouch_AiqCanceled_to_network x = x\<lparr>aiq_timestamp := swap64 (aiq_timestamp x),
     aiq_decrement_qty := swap32 (aiq_decrement_qty x),
     aiq_qty_prevented_from_trading := swap32 (aiq_qty_prevented_from_trading x),
     aiq_execution_price := swap32 (aiq_execution_price x)\<rparr>"

record ouch_PriorityUpdate =
  pu_length :: u16
  pu_packet_type :: byte
  pu_msg_type :: byte
  pu_timestamp :: u64
  pu_token :: "byte list"
  pu_price :: u32
  pu_display :: byte
  pu_order_reference_number :: u64

definition ouch_PriorityUpdate_size :: nat where
  "ouch_PriorityUpdate_size = 39"

definition ouch_PriorityUpdate_bytes :: "ouch_PriorityUpdate \<Rightarrow> byte list" where
  "ouch_PriorityUpdate_bytes x =
     le_bytes 2 (pu_length x) @
     byte1 (pu_packet_type x) @
     byte1 (pu_msg_type x) @
     le_bytes 8 (pu_timestamp x) @
     pu_token x @
     le_bytes 4 (pu_price x) @
     byte1 (pu_display x) @
     le_bytes 8 (pu_order_reference_number x)"

definition ouch_PriorityUpdate_at :: "byte list \<Rightarrow> ouch_PriorityUpdate" where
  "ouch_PriorityUpdate_at m =
     \<lparr>pu_length = u16_at 0 m,
      pu_packet_type = u8_at 2 m,
      pu_msg_type = u8_at 3 m,
      pu_timestamp = u64_at 4 m,
      pu_token = arr_at 12 14 m,
      pu_price = u32_at 26 m,
      pu_display = u8_at 30 m,
      pu_order_reference_number = u64_at 31 m\<rparr>"

definition ouch_PriorityUpdate_ok :: "ouch_PriorityUpdate \<Rightarrow> bool" where
  "ouch_PriorityUpdate_ok x \<longleftrightarrow> length (pu_token x) = 14"

lemmas ouch_PriorityUpdate_defs [struct_simps] = ouch_PriorityUpdate_size_def ouch_PriorityUpdate_bytes_def ouch_PriorityUpdate_at_def ouch_PriorityUpdate_ok_def

interpretation ouch_PriorityUpdate: packed_struct ouch_PriorityUpdate_size ouch_PriorityUpdate_bytes ouch_PriorityUpdate_at ouch_PriorityUpdate_ok
  by unfold_locales (auto simp: ouch_PriorityUpdate_defs struct_proof)

definition new_ouch_PriorityUpdate :: "byte list \<Rightarrow> ouch_PriorityUpdate" where
  "new_ouch_PriorityUpdate g = (ouch_PriorityUpdate_at g)\<lparr>pu_length := swap16 (39 - 2), pu_packet_type := PacketType_code PT_SequencedData, pu_msg_type := InboundMsgType_code In_PriorityUpdate\<rparr>"

definition ouch_PriorityUpdate_to_network :: "ouch_PriorityUpdate \<Rightarrow> ouch_PriorityUpdate" where
  "ouch_PriorityUpdate_to_network x = x\<lparr>pu_timestamp := swap64 (pu_timestamp x),
     pu_order_reference_number := swap64 (pu_order_reference_number x),
     pu_price := swap32 (pu_price x)\<rparr>"

record ouch_TradeCorrection =
  tc_length :: u16
  tc_packet_type :: byte
  tc_msg_type :: byte
  tc_timestamp :: u64
  tc_token :: "byte list"
  tc_executed_shares :: u32
  tc_execution_price :: u32
  tc_liquidity_flag :: byte
  tc_match_number :: u64
  tc_reason :: byte

definition ouch_TradeCorrection_size :: nat where
  "ouch_TradeCorrection_size = 44"

definition ouch_TradeCorrection_bytes :: "ouch_TradeCorrection \<Rightarrow> byte list" where
  "ouch_TradeCorrection_bytes x =
     le_bytes 2 (tc_length x) @
     byte1 (tc_packet_type x) @
     byte1 (tc_msg_type x) @
     le_bytes 8 (tc_timestamp x) @
     tc_token x @
     le_bytes 4 (tc_executed_shares x) @
     le_bytes 4 (tc_execution_price x) @
     byte1 (tc_liquidity_flag x) @
     le_bytes 8 (tc_match_number x) @
     byte1 (tc_reason x)"

definition ouch_TradeCorrection_at :: "byte list \<Rightarrow> ouch_TradeCorrection" where
  "ouch_TradeCorrection_at m =
     \<lparr>tc_length = u16_at 0 m,
      tc_packet_type = u8_at 2 m,
      tc_msg_type = u8_at 3 m,
      tc_timestamp = u64_at 4 m,
      tc_token = arr_at 12 14 m,
      tc_executed_shares = u32_at 26 m,
      tc_execution_price = u32_at 30 m,
      tc_liquidity_flag = u8_at 34 m,
      tc_match_number = u64_at 35 m,
      tc_reason = u8_at 43 m\<rparr>"

definition ouch_TradeCorrection_ok :: "ouch_TradeCorrection \<Rightarrow> bool" where
  "ouch_TradeCorrection_ok x \<longleftrightarrow> length (tc_token x) = 14"

lemmas ouch_TradeCorrection_defs [struct_simps] = ouch_TradeCorrection_size_def ouch_TradeCorrection_bytes_def ouch_TradeCorrection_at_def ouch_TradeCorrection_ok_def

interpretation ouch_TradeCorrection: packed_struct ouch_TradeCorrection_size ouch_TradeCorrection_bytes ouch_TradeCorrection_at ouch_TradeCorrection_ok
  by unfold_locales (auto simp: ouch_TradeCorrection_defs struct_proof)

definition new_ouch_TradeCorrection :: "byte list \<Rightarrow> ouch_TradeCorrection" where
  "new_ouch_TradeCorrection g = (ouch_TradeCorrection_at g)\<lparr>tc_length := swap16 (44 - 2), tc_packet_type := PacketType_code PT_SequencedData, tc_msg_type := InboundMsgType_code In_TradeCorrection\<rparr>"

definition ouch_TradeCorrection_to_network :: "ouch_TradeCorrection \<Rightarrow> ouch_TradeCorrection" where
  "ouch_TradeCorrection_to_network x = x\<lparr>tc_timestamp := swap64 (tc_timestamp x),
     tc_executed_shares := swap32 (tc_executed_shares x),
     tc_execution_price := swap32 (tc_execution_price x),
     tc_match_number := swap64 (tc_match_number x)\<rparr>"

record ouch_TradeNow =
  tn_length :: u16
  tn_packet_type :: byte
  tn_msg_type :: byte
  tn_timestamp :: u64
  tn_token :: "byte list"

definition ouch_TradeNow_size :: nat where
  "ouch_TradeNow_size = 26"

definition ouch_TradeNow_bytes :: "ouch_TradeNow \<Rightarrow> byte list" where
  "ouch_TradeNow_bytes x =
     le_bytes 2 (tn_length x) @
     byte1 (tn_packet_type x) @
     byte1 (tn_msg_type x) @
     le_bytes 8 (tn_timestamp x) @
     tn_token x"

definition ouch_TradeNow_at :: "byte list \<Rightarrow> ouch_TradeNow" where
  "ouch_TradeNow_at m =
     \<lparr>tn_length = u16_at 0 m,
      tn_packet_type = u8_at 2 m,
      tn_msg_type = u8_at 3 m,
      tn_timestamp = u64_at 4 m,
      tn_token = arr_at 12 14 m\<rparr>"

definition ouch_TradeNow_ok :: "ouch_TradeNow \<Rightarrow> bool" where
  "ouch_TradeNow_ok x \<longleftrightarrow> length (tn_token x) = 14"

lemmas ouch_TradeNow_defs [struct_simps] = ouch_TradeNow_size_def ouch_TradeNow_bytes_def ouch_TradeNow_at_def ouch_TradeNow_ok_def

interpretation ouch_TradeNow: packed_struct ouch_TradeNow_size ouch_TradeNow_bytes ouch_TradeNow_at ouch_TradeNow_ok
  by unfold_locales (auto simp: ouch_TradeNow_defs struct_proof)

definition new_ouch_TradeNow :: "byte list \<Rightarrow> ouch_TradeNow" where
  "new_ouch_TradeNow g = (ouch_TradeNow_at g)\<lparr>tn_length := swap16 (26 - 2), tn_packet_type := PacketType_code PT_SequencedData, tn_msg_type := InboundMsgType_code In_TradeNow\<rparr>"

definition ouch_TradeNow_to_network :: "ouch_TradeNow \<Rightarrow> ouch_TradeNow" where
  "ouch_TradeNow_to_network x = x\<lparr>tn_timestamp := swap64 (tn_timestamp x)\<rparr>"

end
