(* ===== verification/OuchPrint.thy ===== *)
theory OuchPrint
  imports Printing OuchNotices
begin

text \<open>
  The log text of OUCH packets, from \<^verbatim>\<open>evtsim_util.cpp\<close>. \<open>ouch_print_X\<close> gives the pieces
  printed for a struct \<open>X\<close> found at the start of a memory block. Two of them print a token as a
  bare array, which runs on to the next NUL in memory. A packet of unknown type puts a short text
  into the buffer and then makes a string of all its 4096 bytes, most of them (\<open>g\<close>) uninitialised.
\<close>

section \<open>Messages\<close>

definition ouch_print_LoginRequest :: "byte list \<Rightarrow> piece list result" where
  "ouch_print_LoginRequest mem = bind_result (read_struct ouch_LoginRequest_size ouch_LoginRequest_at mem) (\<lambda>m. Inr
         [P_lit ''LoginRequest(length='',
          P_hu (swap16 (lr_length m)),
          P_lit '',packet_type='',
          P_c (lr_packet_type m),
          P_lit '',username='',
          P_s (lr_username m),
          P_lit '',password='',
          P_s (lr_password m),
          P_lit '',requested_session='',
          P_s (lr_requested_session m),
          P_lit '',requested_seq_num='',
          P_s (lr_requested_seq_num m),
          P_lit '')''])"

definition ouch_print_ClientHeartbeat :: "byte list \<Rightarrow> piece list result" where
  "ouch_print_ClientHeartbeat mem = bind_result (read_struct ouch_ClientHeartbeat_size ouch_ClientHeartbeat_at mem) (\<lambda>m. Inr
         [P_lit ''ClientHeartbeat(length='',
          P_hu (swap16 (chb_length m)),
          P_lit '',packet_type='',
          P_c (chb_packet_type m),
          P_lit '')''])"

definition ouch_print_EnterOrder :: "byte list \<Rightarrow> piece list result" where
  "ouch_print_EnterOrder mem = bind_result (read_struct ouch_EnterOrder_size ouch_EnterOrder_at mem) (\<lambda>m. Inr
         [P_lit ''EnterOrder(length='',
          P_hu (swap16 (eo_length m)),
          P_lit '',packet_type='',
          P_c (eo_packet_type m),
          P_lit '',msg_type='',
          P_c (eo_msg_type m),
          P_lit '',clordid='',
          P_s (eo_token m),
          P_lit '',side='',
          P_c (eo_side m),
          P_lit '',qty='',
          P_u (swap32 (eo_qty m)),
          P_lit '',symbol='',
          P_s (eo_symbol m),
          P_lit '',price='',
          P_d (swap32 (eo_price m)),
          P_lit '',time_in_force='',
          P_u (swap32 (eo_time_in_force m)),
          P_lit '',firm='',
          P_s (eo_firm m),
          P_lit '',display='',
          P_c (eo_display m),
          P_lit '',capacity='',
          P_c (eo_capacity m),
          P_lit '',intermarket_sweep_eligibility='',
          P_c (eo_intermarket_sweep_eligibility m),
          P_lit '',min_qty='',
          P_u (swap32 (eo_min_qty m)),
          P_lit '',cross_type='',
          P_c (eo_cross_type m),
          P_lit '',customer_type='',
          P_c (eo_customer_type m),
          P_lit '')''])"

definition ouch_print_CancelOrder :: "byte list \<Rightarrow> piece list result" where
  "ouch_print_CancelOrder mem = bind_result (read_struct ouch_CancelOrder_size ouch_CancelOrder_at mem) (\<lambda>m. Inr
         [P_lit ''CancelOrder(length='',
          P_hu (swap16 (co_length m)),
          P_lit '',packet_type='',
          P_c (co_packet_type m),
          P_lit '',msg_type='',
          P_c (co_msg_type m),
          P_lit '',clordid='',
          P_s (co_token m),
          P_lit '',qty='',
          P_u (swap32 (co_qty m)),
          P_lit '')''])"

definition ouch_print_ModifyOrder :: "byte list \<Rightarrow> piece list result" where
  "ouch_print_ModifyOrder mem = bind_result (read_struct ouch_ModifyOrder_size ouch_ModifyOrder_at mem) (\<lambda>m. Inr
         [P_lit ''ModifyOrder(length='',
          P_hu (swap16 (mo_length m)),
          P_lit '',packet_type='',
          P_c (mo_packet_type m),
          P_lit '',msg_type='',
          P_c (mo_msg_type m),
          P_lit '',clordid='',
          P_s (mo_token m),
          P_lit '',side='',
          P_c (mo_side m),
          P_lit '',qty='',
          P_u (swap32 (mo_qty m)),
          P_lit '')''])"

definition ouch_print_ReplaceOrder :: "byte list \<Rightarrow> piece list result" where
  "ouch_print_ReplaceOrder mem = bind_result (read_struct ouch_ReplaceOrder_size ouch_ReplaceOrder_at mem) (\<lambda>m. 
       bind_result (c_string (drop 4 mem)) (\<lambda>s1. Inr
         [P_lit ''ReplaceOrder(length='',
          P_hu (swap16 (ro_length m)),
          P_lit '',packet_type='',
          P_c (ro_packet_type m),
          P_lit '',msg_type='',
          P_c (ro_msg_type m),
          P_lit '',existing_clordid='',
          P_s s1,
          P_lit '',clordid='',
          P_s (ro_token m),
          P_lit '',qty='',
          P_u (swap32 (ro_qty m)),
          P_lit '',price='',
          P_d (swap32 (ro_price m)),
          P_lit '',time_in_force='',
          P_u (swap32 (ro_time_in_force m)),
          P_lit '',display='',
          P_c (ro_display m),
          P_lit '',intermarket_sweep_eligibility='',
          P_c (ro_intermarket_sweep_eligibility m),
          P_lit '',min_qty='',
          P_u (ro_min_qty m),
          P_lit '')'']))"

definition ouch_print_LoginAccepted :: "byte list \<Rightarrow> piece list result" where
  "ouch_print_LoginAccepted mem = bind_result (read_struct ouch_LoginAccepted_size ouch_LoginAccepted_at mem) (\<lambda>m. Inr
         [P_lit ''LoginAccepted(length='',
          P_hu (swap16 (la_length m)),
          P_lit '',packet_type='',
          P_c (la_packet_type m),
          P_lit '',session='',
          P_s (la_session m),
          P_lit '',seq_num='',
          P_s (la_seq_num m),
          P_lit '')''])"

definition ouch_print_LoginRejected :: "byte list \<Rightarrow> piece list result" where
  "ouch_print_LoginRejected mem = bind_result (read_struct ouch_LoginRejected_size ouch_LoginRejected_at mem) (\<lambda>m. Inr
         [P_lit ''LoginRejected(length='',
          P_hu (swap16 (lj_length m)),
          P_lit '',packet_type='',
          P_c (lj_packet_type m),
          P_lit '',reason='',
          P_c (lj_reason m),
          P_lit '')''])"

definition ouch_print_OrderAccepted :: "byte list \<Rightarrow> piece list result" where
  "ouch_print_OrderAccepted mem = bind_result (read_struct ouch_OrderAccepted_size ouch_OrderAccepted_at mem) (\<lambda>m. Inr
         [P_lit ''OrderAccepted(length='',
          P_hu (swap16 (oa_length m)),
          P_lit '',packet_type='',
          P_c (oa_packet_type m),
          P_lit '',msg_type='',
          P_c (oa_msg_type m),
          P_lit '',timestamp='',
          P_lu (swap64 (oa_timestamp m)),
          P_lit '',clordid='',
          P_s (oa_token m),
          P_lit '',side='',
          P_c (oa_side m),
          P_lit '',qty='',
          P_u (swap32 (oa_qty m)),
          P_lit '',symbol='',
          P_s (oa_symbol m),
          P_lit '',price='',
          P_d (swap32 (oa_price m)),
          P_lit '',time_in_force='',
          P_u (swap32 (oa_time_in_force m)),
          P_lit '',firm='',
          P_s (oa_firm m),
          P_lit '',display='',
          P_c (oa_display m),
          P_lit '',order_reference_number='',
          P_lu (swap64 (oa_order_reference_number m)),
          P_lit '',capacity='',
          P_c (oa_capacity m),
          P_lit '',intermarket_sweep_eligibility='',
          P_c (oa_intermarket_sweep_eligibility m),
          P_lit '',min_qty='',
          P_u (swap32 (oa_min_qty m)),
          P_lit '',cross_type='',
          P_c (oa_cross_type m),
          P_lit '',order_state='',
          P_c (oa_order_state m),
          P_lit '',bbo_weight_indicator='',
          P_c (oa_bbo_weight_indicator m),
          P_lit '')''])"

definition ouch_print_OrderRejected :: "byte list \<Rightarrow> piece list result" where
  "ouch_print_OrderRejected mem = bind_result (read_struct ouch_OrderRejected_size ouch_OrderRejected_at mem) (\<lambda>m. Inr
         [P_lit ''OrderRejected(length='',
          P_hu (swap16 (oj_length m)),
          P_lit '',packet_type='',
          P_c (oj_packet_type m),
          P_lit '',msg_type='',
          P_c (oj_msg_type m),
          P_lit '',timestamp='',
          P_lu (swap64 (oj_timestamp m)),
          P_lit '',clordid='',
          P_s (oj_token m),
          P_lit '',reason='',
          P_c (oj_reason m),
          P_lit '')''])"

definition ouch_print_ServerHeartbeat :: "byte list \<Rightarrow> piece list result" where
  "ouch_print_ServerHeartbeat mem = bind_result (read_struct ouch_ServerHeartbeat_size ouch_ServerHeartbeat_at mem) (\<lambda>m. Inr
         [P_lit ''ServertHeartbeat(length='',
          P_hu (swap16 (sh_length m)),
          P_lit '',packet_type='',
          P_c (sh_packet_type m),
          P_lit '')''])"

definition ouch_print_EndOfSession :: "byte list \<Rightarrow> piece list result" where
  "ouch_print_EndOfSession mem = bind_result (read_struct ouch_EndOfSession_size ouch_EndOfSession_at mem) (\<lambda>m. Inr
         [P_lit ''EndOfSession(length='',
          P_hu (swap16 (eos_length m)),
          P_lit '',packet_type='',
          P_c (eos_packet_type m),
          P_lit '')''])"

definition ouch_print_AiqCanceled :: "byte list \<Rightarrow> piece list result" where
  "ouch_print_AiqCanceled mem = bind_result (read_struct ouch_AiqCanceled_size ouch_AiqCanceled_at mem) (\<lambda>m. Inr
         [P_lit ''AiqCanceled(length='',
          P_hu (swap16 (aiq_length m)),
          P_lit '',packet_type='',
          P_c (aiq_packet_type m),
          P_lit '',msg_type='',
          P_c (aiq_msg_type m),
          P_lit '',timestamp='',
          P_lu (swap64 (aiq_timestamp m)),
          P_lit '',clordid='',
          P_s (aiq_token m),
          P_lit '',decrement_qty='',
          P_u (swap32 (aiq_decrement_qty m)),
          P_lit '',reason='',
          P_c (aiq_reason m),
          P_lit '',qty_prevented_from_trading='',
          P_u (swap32 (aiq_qty_prevented_from_trading m)),
          P_lit '',execution_price='',
          P_u (swap32 (aiq_execution_price m)),
          P_lit '',liquidity_flag='',
          P_c (aiq_liquidity_flag m),
          P_lit '')''])"

definition ouch_print_CancelReject :: "byte list \<Rightarrow> piece list result" where
  "ouch_print_CancelReject mem = bind_result (read_struct ouch_CancelReject_size ouch_CancelReject_at mem) (\<lambda>m. Inr
         [P_lit ''CancelReject(length='',
          P_hu (swap16 (cr_length m)),
          P_lit '',packet_type='',
          P_c (cr_packet_type m),
          P_lit '',msg_type='',
          P_c (cr_msg_type m),
          P_lit '',timestamp='',
          P_lu (swap64 (cr_timestamp m)),
          P_lit '',clordid='',
          P_s (cr_token m),
          P_lit '')''])"

definition ouch_print_Executed :: "byte list \<Rightarrow> piece list result" where
  "ouch_print_Executed mem = bind_result (read_struct ouch_Executed_size ouch_Executed_at mem) (\<lambda>m. Inr
         [P_lit ''Executed(length='',
          P_hu (swap16 (ex_length m)),
          P_lit '',packet_type='',
          P_c (ex_packet_type m),
          P_lit '',msg_type='',
          P_c (ex_msg_type m),
          P_lit '',timestamp='',
          P_lu (swap64 (ex_timestamp m)),
          P_lit '',clordid='',
          P_s (ex_token m),
          P_lit '',executed_qty='',
          P_u (swap32 (ex_executed_qty m)),
          P_lit '',execution_price='',
          P_d (swap32 (ex_execution_price m)),
          P_lit '',liquidity_flag='',
          P_c (ex_liquidity_flag m),
          P_lit '',match_number='',
          P_lu (swap64 (ex_match_number m)),
          P_lit '')''])"

definition ouch_print_ExecutedWithRefPrice :: "byte list \<Rightarrow> piece list result" where
  "ouch_print_ExecutedWithRefPrice mem = bind_result (read_struct ouch_ExecutedWithRefPrice_size ouch_ExecutedWithRefPrice_at mem) (\<lambda>m. Inr
         [P_lit ''ExecutedWithRefPrice(length='',
          P_hu (swap16 (exr_length m)),
          P_lit '',packet_type='',
          P_c (exr_packet_type m),
          P_lit '',msg_type='',
          P_c (exr_msg_type m),
          P_lit '',timestamp='',
          P_lu (swap64 (exr_timestamp m)),
          P_lit '',clordid='',
          P_s (exr_token m),
          P_lit '',executed_qty='',
          P_u (swap32 (exr_executed_qty m)),
          P_lit '',execution_price='',
          P_d (swap32 (exr_execution_price m)),
          P_lit '',liquidity_flag='',
          P_c (exr_liquidity_flag m),
          P_lit '',match_number='',
          P_lu (swap64 (exr_match_number m)),
          P_lit '',reference_price='',
          P_u (swap32 (exr_reference_price m)),
          P_lit '',reference_price_type='',
          P_c (exr_reference_price_type m),
          P_lit '')''])"

definition ouch_print_OrderCanceled :: "byte list \<Rightarrow> piece list result" where
  "ouch_print_OrderCanceled mem = bind_result (read_struct ouch_OrderCanceled_size ouch_OrderCanceled_at mem) (\<lambda>m. Inr
         [P_lit ''OrderCanceled(length='',
          P_hu (swap16 (oc_length m)),
          P_lit '',packet_type='',
          P_c (oc_packet_type m),
          P_lit '',msg_type='',
          P_c (oc_msg_type m),
          P_lit '',timestamp='',
          P_lu (swap64 (oc_timestamp m)),
          P_lit '',clordid='',
          P_s (oc_token m),
          P_lit '',decrement_qty='',
          P_u (swap32 (oc_decrement_qty m)),
          P_lit '',reason='',
          P_c (oc_reason m),
          P_lit '')''])"

definition ouch_print_OrderModified :: "byte list \<Rightarrow> piece list result" where
  "ouch_print_OrderModified mem = bind_result (read_struct ouch_OrderModified_size ouch_OrderModified_at mem) (\<lambda>m. Inr
         [P_lit ''OrderModified(length='',
          P_hu (swap16 (om_length m)),
          P_lit '',packet_type='',
          P_c (om_packet_type m),
          P_lit '',msg_type='',
          P_c (om_msg_type m),
          P_lit '',timestamp='',
          P_lu (swap64 (om_timestamp m)),
          P_lit '',clordid='',
          P_s (om_token m),
          P_lit '',side='',
          P_c (om_side m),
          P_lit '',shares='',
          P_u (swap32 (om_shares m)),
          P_lit '')''])"

definition ouch_print_OrderReplaced :: "byte list \<Rightarrow> piece list result" where
  "ouch_print_OrderReplaced mem = bind_result (read_struct ouch_OrderReplaced_size ouch_OrderReplaced_at mem) (\<lambda>m. 
       bind_result (c_string (drop 68 mem)) (\<lambda>s1. Inr
         [P_lit ''OrderModified(length='',
          P_hu (swap16 (orp_length m)),
          P_lit '',packet_type='',
          P_c (orp_packet_type m),
          P_lit '',msg_type='',
          P_c (orp_msg_type m),
          P_lit '',timestamp='',
          P_lu (swap64 (orp_timestamp m)),
          P_lit '',clordid='',
          P_s (orp_token m),
          P_lit '',side='',
          P_c (orp_side m),
          P_lit '',qty='',
          P_u (swap32 (orp_qty m)),
          P_lit '',symbol='',
          P_s (orp_symbol m),
          P_lit '',price='',
          P_d (swap32 (orp_price m)),
          P_lit '',time_in_force='',
          P_u (swap32 (orp_time_in_force m)),
          P_lit '',firm='',
          P_s (orp_firm m),
          P_lit '',display='',
          P_c (orp_display m),
          P_lit '',order_reference_number='',
          P_lu (swap64 (orp_order_reference_number m)),
          P_lit '',capacity='',
          P_c (orp_capacity m),
          P_lit '',intermarket_sweep_eligibility='',
          P_c (orp_intermarket_sweep_eligibility m),
          P_lit '',min_qty='',
          P_u (swap32 (orp_min_qty m)),
          P_lit '',cross_type='',
          P_c (orp_cross_type m),
          P_lit '',order_state='',
          P_c (orp_order_state m),
          P_lit '',orig_clordid='',
          P_s s1,
          P_lit '',bbo_weight_indicator='',
          P_c (orp_bbo_weight_indicator m),
          P_lit '')'']))"

definition ouch_print_SystemEvent :: "byte list \<Rightarrow> piece list result" where
  "ouch_print_SystemEvent mem = bind_result (read_struct ouch_SystemEvent_size ouch_SystemEvent_at mem) (\<lambda>m. Inr
         [P_lit ''SystemEvent(length='',
          P_hu (swap16 (se_length m)),
          P_lit '',packet_type='',
          P_c (se_packet_type m),
          P_lit '',msg_type='',
          P_c (se_msg_type m),
          P_lit '',timestamp='',
          P_lu (swap64 (se_timestamp m)),
          P_lit '',event_code='',
          P_c (se_event_code m),
          P_lit '')''])"

definition ouch_print_BrokenTrade :: "byte list \<Rightarrow> piece list result" where
  "ouch_print_BrokenTrade mem = bind_result (read_struct ouch_BrokenTrade_size ouch_BrokenTrade_at mem) (\<lambda>m. Inr
         [P_lit ''BrokenTrade(length='',
          P_hu (swap16 (bt_length m)),
          P_lit '',packet_type='',
          P_c (bt_packet_type m),
          P_lit '',msg_type='',
          P_c (bt_msg_type m),
          P_lit '',timestamp='',
          P_lu (swap64 (bt_timestamp m)),
          P_lit '',clordid='',
          P_s (bt_token m),
          P_lit '',match_number='',
          P_lu (swap64 (bt_match_number m)),
          P_lit '',reason='',
          P_c (bt_reason m),
          P_lit '')''])"

definition ouch_print_CancelPending :: "byte list \<Rightarrow> piece list result" where
  "ouch_print_CancelPending mem = bind_result (read_struct ouch_CancelPending_size ouch_CancelPending_at mem) (\<lambda>m. Inr
         [P_lit ''BrokenTrade(length='',
          P_hu (swap16 (cpd_length m)),
          P_lit '',packet_type='',
          P_c (cpd_packet_type m),
          P_lit '',msg_type='',
          P_c (cpd_msg_type m),
          P_lit '',timestamp='',
          P_lu (swap64 (cpd_timestamp m)),
          P_lit '',clordid='',
          P_s (cpd_token m),
          P_lit '')''])"

definition ouch_print_PriorityUpdate :: "byte list \<Rightarrow> piece list result" where
  "ouch_print_PriorityUpdate mem = bind_result (read_struct ouch_PriorityUpdate_size ouch_PriorityUpdate_at mem) (\<lambda>m. Inr
         [P_lit ''PriorityUpdate(length='',
          P_hu (swap16 (pu_length m)),
          P_lit '',packet_type='',
          P_c (pu_packet_type m),
          P_lit '',msg_type='',
          P_c (pu_msg_type m),
          P_lit '',timestamp='',
          P_lu (swap64 (pu_timestamp m)),
          P_lit '',clordid='',
          P_s (pu_token m),
          P_lit '')''])"

definition ouch_print_TradeCorrection :: "byte list \<Rightarrow> piece list result" where
  "ouch_print_TradeCorrection mem = bind_result (read_struct ouch_TradeCorrection_size ouch_TradeCorrection_at mem) (\<lambda>m. Inr
         [P_lit ''TradeCorrection(length='',
          P_hu (swap16 (tc_length m)),
          P_lit '',packet_type='',
          P_c (tc_packet_type m),
          P_lit '',msg_type='',
          P_c (tc_msg_type m),
          P_lit '',timestamp='',
          P_lu (swap64 (tc_timestamp m)),
          P_lit '',clordid='',
          P_s (tc_token m),
          P_lit '',executed_shares='',
          P_u (swap32 (tc_executed_shares m)),
          P_lit '',execution_price='',
          P_d (swap32 (tc_execution_price m)),
          P_lit '',liquidity_flag='',
          P_c (tc_liquidity_flag m),
          P_lit '',match_number='',
          P_lu (swap64 (tc_match_number m)),
          P_lit '',reason='',
          P_c (tc_reason m),
          P_lit '')''])"

definition ouch_print_TradeNow :: "byte list \<Rightarrow> piece list result" where
  "ouch_print_TradeNow mem = bind_result (read_struct ouch_TradeNow_size ouch_TradeNow_at mem) (\<lambda>m. Inr
         [P_lit ''TradeNow(length='',
          P_hu (swap16 (tn_length m)),
          P_lit '',packet_type='',
          P_c (tn_packet_type m),
          P_lit '',msg_type='',
          P_c (tn_msg_type m),
          P_lit '',timestamp='',
          P_lu (swap64 (tn_timestamp m)),
          P_lit '',clordid='',
          P_s (tn_token m),
          P_lit '')''])"

section \<open>Packets\<close>

definition ouch_note :: "byte list \<Rightarrow> string \<Rightarrow> byte list result" where
  "ouch_note g s = Inr (strcpy_into g s)"

definition ouch_inbound_message_to_string :: "byte list \<Rightarrow> byte list \<Rightarrow> byte list result" where
  "ouch_inbound_message_to_string g mem =
     bind_result (read_struct 4 (u8_at 3) mem) (\<lambda>t.
       if t = InboundMsgType_code In_OrderAccepted then print_text (ouch_print_OrderAccepted mem)
       else if t = InboundMsgType_code In_OrderRejected then print_text (ouch_print_OrderRejected mem)
       else if t = InboundMsgType_code In_AiqCanceled then print_text (ouch_print_AiqCanceled mem)
       else if t = InboundMsgType_code In_CancelReject then print_text (ouch_print_CancelReject mem)
       else if t = InboundMsgType_code In_Executed then print_text (ouch_print_Executed mem)
       else if t = InboundMsgType_code In_ExecutedWithRefPrice then print_text (ouch_print_ExecutedWithRefPrice mem)
       else if t = InboundMsgType_code In_OrderCanceled then print_text (ouch_print_OrderCanceled mem)
       else if t = InboundMsgType_code In_OrderModified then print_text (ouch_print_OrderModified mem)
       else if t = InboundMsgType_code In_OrderReplaced then print_text (ouch_print_OrderReplaced mem)
       else if t = InboundMsgType_code In_SystemEvent then print_text (ouch_print_SystemEvent mem)
       else if t = InboundMsgType_code In_BrokenTrade then print_text (ouch_print_BrokenTrade mem)
       else if t = InboundMsgType_code In_CancelPending then print_text (ouch_print_CancelPending mem)
       else if t = InboundMsgType_code In_PriorityUpdate then print_text (ouch_print_PriorityUpdate mem)
       else if t = InboundMsgType_code In_TradeCorrection then print_text (ouch_print_TradeCorrection mem)
       else if t = InboundMsgType_code In_TradeNow then print_text (ouch_print_TradeNow mem)
       else ouch_note g ''<unknown InboundMsgType>'')"

definition ouch_inbound_to_string :: "byte list \<Rightarrow> byte list \<Rightarrow> byte list result" where
  "ouch_inbound_to_string g mem =
     bind_result (read_struct ouch_MsgHeader_size ouch_MsgHeader_at mem) (\<lambda>h.
       let t = mh_packet_type h in
       if t = PacketType_code PT_LoginAccepted then print_text (ouch_print_LoginAccepted mem)
       else if t = PacketType_code PT_ServerHeartbeat then print_text (ouch_print_ServerHeartbeat mem)
       else if t = PacketType_code PT_Debug then ouch_note g ''+++ Debug...''
       else if t = PacketType_code PT_EndOfSession then print_text (ouch_print_EndOfSession mem)
       else if t = PacketType_code PT_LoginRejected then print_text (ouch_print_LoginRejected mem)
       else if t = PacketType_code PT_SequencedData then ouch_inbound_message_to_string g mem
       else ouch_note g ''<unknown PacketType>'')"

definition ouch_outbound_message_to_string :: "byte list \<Rightarrow> byte list \<Rightarrow> byte list result" where
  "ouch_outbound_message_to_string g mem =
     bind_result (read_struct 4 (u8_at 3) mem) (\<lambda>t.
       if t = OutboundMsgType_code Out_EnterOrder then print_text (ouch_print_EnterOrder mem)
       else if t = OutboundMsgType_code Out_CancelOrder then print_text (ouch_print_CancelOrder mem)
       else if t = OutboundMsgType_code Out_ModifyOrder then print_text (ouch_print_ModifyOrder mem)
       else if t = OutboundMsgType_code Out_ReplaceOrder then print_text (ouch_print_ReplaceOrder mem)
       else ouch_note g ''<unknown OutboundMsgType>'')"

definition ouch_outbound_to_string :: "byte list \<Rightarrow> byte list \<Rightarrow> byte list result" where
  "ouch_outbound_to_string g mem =
     bind_result (read_struct ouch_MsgHeader_size ouch_MsgHeader_at mem) (\<lambda>h.
       let t = mh_packet_type h in
       if t = PacketType_code PT_LoginRequest then print_text (ouch_print_LoginRequest mem)
       else if t = PacketType_code PT_ClientHeartbeat then print_text (ouch_print_ClientHeartbeat mem)
       else if t = PacketType_code PT_Debug then ouch_note g ''Debug...''
       else if t = PacketType_code PT_LogoutRequest then ouch_note g ''LogoutRequest...''
       else if t = PacketType_code PT_UnsequencedData then ouch_outbound_message_to_string g mem
       else ouch_note g ''<unknown PacketType>'')"

end
