(* ===== verification/BoeNotices.thy ===== *)
theory BoeNotices
  imports BoeMessages
begin

text \<open>
  The structs of \<^verbatim>\<open>boe_messages.h\<close> that the session neither reads nor sends but the program can
  print, laid out as in the theory of the other BOE messages. The 32 units of a logout response are
  kept as the 160 bytes they take.
\<close>

record boe_LogoutRequest =
  blo_start_of_msg :: "byte list"
  blo_length :: u16
  blo_type :: byte
  blo_matching_unit :: byte
  blo_seq_num :: u32

definition boe_LogoutRequest_size :: nat where
  "boe_LogoutRequest_size = 10"

definition boe_LogoutRequest_bytes :: "boe_LogoutRequest \<Rightarrow> byte list" where
  "boe_LogoutRequest_bytes x =
     blo_start_of_msg x @
     le_bytes 2 (blo_length x) @
     byte1 (blo_type x) @
     byte1 (blo_matching_unit x) @
     le_bytes 4 (blo_seq_num x)"

definition boe_LogoutRequest_at :: "byte list \<Rightarrow> boe_LogoutRequest" where
  "boe_LogoutRequest_at m =
     \<lparr>blo_start_of_msg = arr_at 0 2 m,
      blo_length = u16_at 2 m,
      blo_type = u8_at 4 m,
      blo_matching_unit = u8_at 5 m,
      blo_seq_num = u32_at 6 m\<rparr>"

definition boe_LogoutRequest_ok :: "boe_LogoutRequest \<Rightarrow> bool" where
  "boe_LogoutRequest_ok x \<longleftrightarrow> length (blo_start_of_msg x) = 2"

lemmas boe_LogoutRequest_defs [struct_simps] = boe_LogoutRequest_size_def boe_LogoutRequest_bytes_def boe_LogoutRequest_at_def boe_LogoutRequest_ok_def

interpretation boe_LogoutRequest: packed_struct boe_LogoutRequest_size boe_LogoutRequest_bytes boe_LogoutRequest_at boe_LogoutRequest_ok
  by unfold_locales (auto simp: boe_LogoutRequest_defs struct_proof)

definition new_boe_LogoutRequest :: "byte list \<Rightarrow> boe_LogoutRequest" where
  "new_boe_LogoutRequest g = (boe_LogoutRequest_at g)\<lparr>blo_start_of_msg := [0xBA, 0xBA], blo_length := 10 - 2, blo_type := MsgType_code MT_LogoutRequest, blo_matching_unit := 0, blo_seq_num := 0\<rparr>"

record boe_ClientHeartbeat =
  bch_start_of_msg :: "byte list"
  bch_length :: u16
  bch_type :: byte
  bch_matching_unit :: byte
  bch_seq_num :: u32

definition boe_ClientHeartbeat_size :: nat where
  "boe_ClientHeartbeat_size = 10"

definition boe_ClientHeartbeat_bytes :: "boe_ClientHeartbeat \<Rightarrow> byte list" where
  "boe_ClientHeartbeat_bytes x =
     bch_start_of_msg x @
     le_bytes 2 (bch_length x) @
     byte1 (bch_type x) @
     byte1 (bch_matching_unit x) @
     le_bytes 4 (bch_seq_num x)"

definition boe_ClientHeartbeat_at :: "byte list \<Rightarrow> boe_ClientHeartbeat" where
  "boe_ClientHeartbeat_at m =
     \<lparr>bch_start_of_msg = arr_at 0 2 m,
      bch_length = u16_at 2 m,
      bch_type = u8_at 4 m,
      bch_matching_unit = u8_at 5 m,
      bch_seq_num = u32_at 6 m\<rparr>"

definition boe_ClientHeartbeat_ok :: "boe_ClientHeartbeat \<Rightarrow> bool" where
  "boe_ClientHeartbeat_ok x \<longleftrightarrow> length (bch_start_of_msg x) = 2"

lemmas boe_ClientHeartbeat_defs [struct_simps] = boe_ClientHeartbeat_size_def boe_ClientHeartbeat_bytes_def boe_ClientHeartbeat_at_def boe_ClientHeartbeat_ok_def

interpretation boe_ClientHeartbeat: packed_struct boe_ClientHeartbeat_size boe_ClientHeartbeat_bytes boe_ClientHeartbeat_at boe_ClientHeartbeat_ok
  by unfold_locales (auto simp: boe_ClientHeartbeat_defs struct_proof)

definition new_boe_ClientHeartbeat :: "byte list \<Rightarrow> boe_ClientHeartbeat" where
  "new_boe_ClientHeartbeat g = (boe_ClientHeartbeat_at g)\<lparr>bch_start_of_msg := [0xBA, 0xBA], bch_length := 10 - 2, bch_type := MsgType_code MT_ClientHeartbeat, bch_matching_unit := 0, bch_seq_num := 0\<rparr>"

record boe_LogoutResponse =
  blg_start_of_msg :: "byte list"
  blg_length :: u16
  blg_type :: byte
  blg_matching_unit :: byte
  blg_seq_num :: u32
  blg_reason :: byte
  blg_text :: "byte list"
  blg_last_received_seq_num :: u32
  blg_number_of_units :: byte
  blg_unit :: "byte list"

definition boe_LogoutResponse_size :: nat where
  "boe_LogoutResponse_size = 236"

definition boe_LogoutResponse_bytes :: "boe_LogoutResponse \<Rightarrow> byte list" where
  "boe_LogoutResponse_bytes x =
     blg_start_of_msg x @
     le_bytes 2 (blg_length x) @
     byte1 (blg_type x) @
     byte1 (blg_matching_unit x) @
     le_bytes 4 (blg_seq_num x) @
     byte1 (blg_reason x) @
     blg_text x @
     le_bytes 4 (blg_last_received_seq_num x) @
     byte1 (blg_number_of_units x) @
     blg_unit x"

definition boe_LogoutResponse_at :: "byte list \<Rightarrow> boe_LogoutResponse" where
  "boe_LogoutResponse_at m =
     \<lparr>blg_start_of_msg = arr_at 0 2 m,
      blg_length = u16_at 2 m,
      blg_type = u8_at 4 m,
      blg_matching_unit = u8_at 5 m,
      blg_seq_num = u32_at 6 m,
      blg_reason = u8_at 10 m,
      blg_text = arr_at 11 60 m,
      blg_last_received_seq_num = u32_at 71 m,
      blg_number_of_units = u8_at 75 m,
      blg_unit = arr_at 76 160 m\<rparr>"

definition boe_LogoutResponse_ok :: "boe_LogoutResponse \<Rightarrow> bool" where
  "boe_LogoutResponse_ok x \<longleftrightarrow> length (blg_start_of_msg x) = 2 \<and> length (blg_text x) = 60 \<and> length (blg_unit x) = 160"

lemmas boe_LogoutResponse_defs [struct_simps] = boe_LogoutResponse_size_def boe_LogoutResponse_bytes_def boe_LogoutResponse_at_def boe_LogoutResponse_ok_def

interpretation boe_LogoutResponse: packed_struct boe_LogoutResponse_size boe_LogoutResponse_bytes boe_LogoutResponse_at boe_LogoutResponse_ok
  by unfold_locales (auto simp: boe_LogoutResponse_defs struct_proof)

definition new_boe_LogoutResponse :: "byte list \<Rightarrow> boe_LogoutResponse" where
  "new_boe_LogoutResponse g = (boe_LogoutResponse_at g)\<lparr>blg_start_of_msg := [0xBA, 0xBA], blg_length := 236 - 2, blg_type := MsgType_code MT_LogoutResponse, blg_matching_unit := 0, blg_seq_num := 0\<rparr>"

record boe_ReplayComplete =
  brc_start_of_msg :: "byte list"
  brc_length :: u16
  brc_type :: byte
  brc_matching_unit :: byte
  brc_seq_num :: u32

definition boe_ReplayComplete_size :: nat where
  "boe_ReplayComplete_size = 10"

definition boe_ReplayComplete_bytes :: "boe_ReplayComplete \<Rightarrow> byte list" where
  "boe_ReplayComplete_bytes x =
     brc_start_of_msg x @
     le_bytes 2 (brc_length x) @
     byte1 (brc_type x) @
     byte1 (brc_matching_unit x) @
     le_bytes 4 (brc_seq_num x)"

definition boe_ReplayComplete_at :: "byte list \<Rightarrow> boe_ReplayComplete" where
  "boe_ReplayComplete_at m =
     \<lparr>brc_start_of_msg = arr_at 0 2 m,
      brc_length = u16_at 2 m,
      brc_type = u8_at 4 m,
      brc_matching_unit = u8_at 5 m,
      brc_seq_num = u32_at 6 m\<rparr>"

definition boe_ReplayComplete_ok :: "boe_ReplayComplete \<Rightarrow> bool" where
  "boe_ReplayComplete_ok x \<longleftrightarrow> length (brc_start_of_msg x) = 2"

lemmas boe_ReplayComplete_defs [struct_simps] = boe_ReplayComplete_size_def boe_ReplayComplete_bytes_def boe_ReplayComplete_at_def boe_ReplayComplete_ok_def

interpretation boe_ReplayComplete: packed_struct boe_ReplayComplete_size boe_ReplayComplete_bytes boe_ReplayComplete_at boe_ReplayComplete_ok
  by unfold_locales (auto simp: boe_ReplayComplete_defs struct_proof)

definition new_boe_ReplayComplete :: "byte list \<Rightarrow> boe_ReplayComplete" where
  "new_boe_ReplayComplete g = (boe_ReplayComplete_at g)\<lparr>brc_start_of_msg := [0xBA, 0xBA], brc_length := 10 - 2, brc_type := MsgType_code MT_ReplayComplete, brc_matching_unit := 0, brc_seq_num := 0\<rparr>"

record boe_OrderRestated =
  bre_start_of_msg :: "byte list"
  bre_length :: u16
  bre_type :: byte
  bre_matching_unit :: byte
  bre_seq_num :: u32
  bre_transaction_time :: u64
  bre_token :: "byte list"
  bre_order_id :: u64
  bre_reason :: byte
  bre_reserved :: byte
  bre_num_bitfields :: byte
  bre_bitfield :: "byte list"
  bre_qty :: u32
  bre_leaves_qty :: u32

definition boe_OrderRestated_size :: nat where
  "boe_OrderRestated_size = 62"

definition boe_OrderRestated_bytes :: "boe_OrderRestated \<Rightarrow> byte list" where
  "boe_OrderRestated_bytes x =
     bre_start_of_msg x @
     le_bytes 2 (bre_length x) @
     byte1 (bre_type x) @
     byte1 (bre_matching_unit x) @
     le_bytes 4 (bre_seq_num x) @
     le_bytes 8 (bre_transaction_time x) @
     bre_token x @
     le_bytes 8 (bre_order_id x) @
     byte1 (bre_reason x) @
     byte1 (bre_reserved x) @
     byte1 (bre_num_bitfields x) @
     bre_bitfield x @
     le_bytes 4 (bre_qty x) @
     le_bytes 4 (bre_leaves_qty x)"

definition boe_OrderRestated_at :: "byte list \<Rightarrow> boe_OrderRestated" where
  "boe_OrderRestated_at m =
     \<lparr>bre_start_of_msg = arr_at 0 2 m,
      bre_length = u16_at 2 m,
      bre_type = u8_at 4 m,
      bre_matching_unit = u8_at 5 m,
      bre_seq_num = u32_at 6 m,
      bre_transaction_time = u64_at 10 m,
      bre_token = arr_at 18 20 m,
      bre_order_id = u64_at 38 m,
      bre_reason = u8_at 46 m,
      bre_reserved = u8_at 47 m,
      bre_num_bitfields = u8_at 48 m,
      bre_bitfield = arr_at 49 5 m,
      bre_qty = u32_at 54 m,
      bre_leaves_qty = u32_at 58 m\<rparr>"

definition boe_OrderRestated_ok :: "boe_OrderRestated \<Rightarrow> bool" where
  "boe_OrderRestated_ok x \<longleftrightarrow> length (bre_start_of_msg x) = 2 \<and> length (bre_token x) = 20 \<and> length (bre_bitfield x) = 5"

lemmas boe_OrderRestated_defs [struct_simps] = boe_OrderRestated_size_def boe_OrderRestated_bytes_def boe_OrderRestated_at_def boe_OrderRestated_ok_def

interpretation boe_OrderRestated: packed_struct boe_OrderRestated_size boe_OrderRestated_bytes boe_OrderRestated_at boe_OrderRestated_ok
  by unfold_locales (auto simp: boe_OrderRestated_defs struct_proof)


record boe_TradeCancelOrCorrect =
  btc_start_of_msg :: "byte list"
  btc_length :: u16
  btc_type :: byte
  btc_matching_unit :: byte
  btc_seq_num :: u32
  btc_transaction_time :: u64
  btc_token :: "byte list"
  btc_order_id :: u64
  btc_exec_ref_id :: u64
  btc_side :: byte
  btc_base_liquidity_indicator :: byte
  btc_clearing_firm :: "byte list"
  btc_clearing_acct :: "byte list"
  btc_last_shares :: u32
  btc_last_price :: u64
  btc_corrected_price :: u64
  btc_orig_time :: u64
  btc_reserved :: byte
  btc_num_bitfields :: byte
  btc_bitfield :: "byte list"
  btc_symbol :: "byte list"

definition boe_TradeCancelOrCorrect_size :: nat where
  "boe_TradeCancelOrCorrect_size = 104"

definition boe_TradeCancelOrCorrect_bytes :: "boe_TradeCancelOrCorrect \<Rightarrow> byte list" where
  "boe_TradeCancelOrCorrect_bytes x =
     btc_start_of_msg x @
     le_bytes 2 (btc_length x) @
     byte1 (btc_type x) @
     byte1 (btc_matching_unit x) @
     le_bytes 4 (btc_seq_num x) @
     le_bytes 8 (btc_transaction_time x) @
     btc_token x @
     le_bytes 8 (btc_order_id x) @
     le_bytes 8 (btc_exec_ref_id x) @
     byte1 (btc_side x) @
     byte1 (btc_base_liquidity_indicator x) @
     btc_clearing_firm x @
     btc_clearing_acct x @
     le_bytes 4 (btc_last_shares x) @
     le_bytes 8 (btc_last_price x) @
     le_bytes 8 (btc_corrected_price x) @
     le_bytes 8 (btc_orig_time x) @
     byte1 (btc_reserved x) @
     byte1 (btc_num_bitfields x) @
     btc_bitfield x @
     btc_symbol x"

definition boe_TradeCancelOrCorrect_at :: "byte list \<Rightarrow> boe_TradeCancelOrCorrect" where
  "boe_TradeCancelOrCorrect_at m =
     \<lparr>btc_start_of_msg = arr_at 0 2 m,
      btc_length = u16_at 2 m,
      btc_type = u8_at 4 m,
      btc_matching_unit = u8_at 5 m,
      btc_seq_num = u32_at 6 m,
      btc_transaction_time = u64_at 10 m,
      btc_token = arr_at 18 20 m,
      btc_order_id = u64_at 38 m,
      btc_exec_ref_id = u64_at 46 m,
      btc_side = u8_at 54 m,
      btc_base_liquidity_indicator = u8_at 55 m,
      btc_clearing_firm = arr_at 56 4 m,
      btc_clearing_acct = arr_at 60 4 m,
      btc_last_shares = u32_at 64 m,
      btc_last_price = u64_at 68 m,
      btc_corrected_price = u64_at 76 m,
      btc_orig_time = u64_at 84 m,
      btc_reserved = u8_at 92 m,
      btc_num_bitfields = u8_at 93 m,
      btc_bitfield = arr_at 94 2 m,
      btc_symbol = arr_at 96 8 m\<rparr>"

definition boe_TradeCancelOrCorrect_ok :: "boe_TradeCancelOrCorrect \<Rightarrow> bool" where
  "boe_TradeCancelOrCorrect_ok x \<longleftrightarrow> length (btc_start_of_msg x) = 2 \<and> length (btc_token x) = 20 \<and> length (btc_clearing_firm x) = 4 \<and> length (btc_clearing_acct x) = 4 \<and> length (btc_bitfield x) = 2 \<and> length (btc_symbol x) = 8"

lemmas boe_TradeCancelOrCorrect_defs [struct_simps] = boe_TradeCancelOrCorrect_size_def boe_TradeCancelOrCorrect_bytes_def boe_TradeCancelOrCorrect_at_def boe_TradeCancelOrCorrect_ok_def

interpretation boe_TradeCancelOrCorrect: packed_struct boe_TradeCancelOrCorrect_size boe_TradeCancelOrCorrect_bytes boe_TradeCancelOrCorrect_at boe_TradeCancelOrCorrect_ok
  by unfold_locales (auto simp: boe_TradeCancelOrCorrect_defs struct_proof)


end
