(* ===== verification/BoePrint.thy ===== *)
theory BoePrint
  imports Printing BoeNotices
begin

text \<open>
  The log text of BOE packets, from \<^verbatim>\<open>evtsim_util.cpp\<close>: the header is printed first, the
  fields of the message after it into what is left of the buffer. \<^verbatim>\<open>evt::nsec_to_datetime\<close>
  is not part of the repository: it is the parameter \<open>dt\<close>, which turns nanoseconds into the text it
  leaves in a buffer of 32 characters.
\<close>

section \<open>Messages\<close>

definition boe_print_LoginRequest :: "byte list \<Rightarrow> piece list result" where
  "boe_print_LoginRequest mem = bind_result (read_struct boe_LoginRequest_size boe_LoginRequest_at mem) (\<lambda>m. Inr
         [P_lit '',session_sub_id='',
          P_s (blr_session_sub_id m),
          P_lit '',username='',
          P_s (blr_username m),
          P_lit '',password='',
          P_s (blr_password m),
          P_lit '',number_of_param_groups='',
          P_hhu (blr_number_of_param_groups m),
          P_lit '',order_ack.length='',
          P_hu (blr_order_ack_length m),
          P_lit '',order_ack.type=0x'',
          P_x2 (blr_order_ack_type m),
          P_lit '',order_ack.msg_type=0x'',
          P_x2 (blr_order_ack_msg_type m),
          P_lit '',order_ack.num_bitfields='',
          P_hhu (blr_order_ack_num_bitfields m),
          P_lit '',order_ack_bitfield1='',
          P_hhu (blr_order_ack_bitfield m ! 0),
          P_lit '',order_ack_bitfield2='',
          P_hhu (blr_order_ack_bitfield m ! 1),
          P_lit '',order_ack_bitfield3='',
          P_hhu (blr_order_ack_bitfield m ! 2),
          P_lit '',order_ack_bitfield4='',
          P_hhu (blr_order_ack_bitfield m ! 3),
          P_lit '',order_ack_bitfield5='',
          P_hhu (blr_order_ack_bitfield m ! 4),
          P_lit '',order_modified.length='',
          P_hu (blr_order_modified_length m),
          P_lit '',order_modified.type=0x'',
          P_x2 (blr_order_modified_type m),
          P_lit '',order_modified.msg_type=0x'',
          P_x2 (blr_order_modified_msg_type m),
          P_lit '',order_modified.num_bitfields='',
          P_hhu (blr_order_modified_num_bitfields m),
          P_lit '',order_modified_bitfield1='',
          P_hhu (blr_order_modified_bitfield m ! 0),
          P_lit '',order_modified_bitfield2='',
          P_hhu (blr_order_modified_bitfield m ! 1),
          P_lit '',order_modified_bitfield3='',
          P_hhu (blr_order_modified_bitfield m ! 2),
          P_lit '',order_modified_bitfield4='',
          P_hhu (blr_order_modified_bitfield m ! 3),
          P_lit '',order_modified_bitfield5='',
          P_hhu (blr_order_modified_bitfield m ! 4),
          P_lit '',order_restated.length='',
          P_hu (blr_order_restated_length m),
          P_lit '',order_restated.type=0x'',
          P_x2 (blr_order_restated_type m),
          P_lit '',order_restated.msg_type=0x'',
          P_x2 (blr_order_restated_msg_type m),
          P_lit '',order_restated.num_bitfields='',
          P_hhu (blr_order_restated_num_bitfields m),
          P_lit '',order_restated_bitfield1='',
          P_hhu (blr_order_restated_bitfield m ! 0),
          P_lit '',order_restated_bitfield2='',
          P_hhu (blr_order_restated_bitfield m ! 1),
          P_lit '',order_restated_bitfield3='',
          P_hhu (blr_order_restated_bitfield m ! 2),
          P_lit '',order_restated_bitfield4='',
          P_hhu (blr_order_restated_bitfield m ! 3),
          P_lit '',order_restated_bitfield5='',
          P_hhu (blr_order_restated_bitfield m ! 4),
          P_lit '',order_canceled.length='',
          P_hu (blr_order_canceled_length m),
          P_lit '',order_canceled.type=0x'',
          P_x2 (blr_order_canceled_type m),
          P_lit '',order_canceled.msg_type=0x'',
          P_x2 (blr_order_canceled_msg_type m),
          P_lit '',order_canceled.num_bitfields='',
          P_hhu (blr_order_canceled_num_bitfields m),
          P_lit '',order_canceled_bitfield1='',
          P_hhu (blr_order_canceled_bitfield m ! 0),
          P_lit '',order_canceled_bitfield2='',
          P_hhu (blr_order_canceled_bitfield m ! 1),
          P_lit '',order_canceled_bitfield3='',
          P_hhu (blr_order_canceled_bitfield m ! 2),
          P_lit '',order_canceled_bitfield4='',
          P_hhu (blr_order_canceled_bitfield m ! 3),
          P_lit '',order_canceled_bitfield5='',
          P_hhu (blr_order_canceled_bitfield m ! 4),
          P_lit '')''])"

definition boe_print_NewOrder :: "byte list \<Rightarrow> piece list result" where
  "boe_print_NewOrder mem = bind_result (read_struct boe_NewOrder_size boe_NewOrder_at mem) (\<lambda>m. Inr
         [P_lit '',clordid='',
          P_s (no_token m),
          P_lit '',side='',
          P_c (no_side m),
          P_lit '',qty='',
          P_u (no_qty m),
          P_lit '',num_bitfields='',
          P_hhu (no_num_bitfields m),
          P_lit '',bitfield1='',
          P_hhu (no_bitfield m ! 0),
          P_lit '',bitfield2='',
          P_hhu (no_bitfield m ! 1),
          P_lit '',bitfield3='',
          P_hhu (no_bitfield m ! 2),
          P_lit '',bitfield4='',
          P_hhu (no_bitfield m ! 3),
          P_lit '',bitfield5='',
          P_hhu (no_bitfield m ! 4),
          P_lit '',bitfield6='',
          P_hhu (no_bitfield m ! 5),
          P_lit '',clearing_firm='',
          P_s (no_clearing_firm m),
          P_lit '',clearing_acct='',
          P_s (no_clearing_acct m),
          P_lit '',price='',
          P_lu (no_price m),
          P_lit '',exec_inst='',
          P_c (zero_shown (no_exec_inst m)),
          P_lit '',order_type='',
          P_c (no_order_type m),
          P_lit '',time_in_force='',
          P_c (no_time_in_force m),
          P_lit '',min_qty='',
          P_u (no_min_qty m),
          P_lit '',max_floor='',
          P_u (no_max_floor m),
          P_lit '',symbol='',
          P_s (no_symbol m),
          P_lit '',capacity='',
          P_c (no_capacity m),
          P_lit '',routing_inst='',
          P_s (no_routing_inst m),
          P_lit '',acct='',
          P_s (no_acct m),
          P_lit '',display_indicator='',
          P_c (no_display_indicator m),
          P_lit '',max_remove_pct='',
          P_hhu (no_max_remove_pct m),
          P_lit '',discretion_amt='',
          P_hu (no_discretion_amt m),
          P_lit '',peg_difference='',
          P_ld (no_peg_difference m),
          P_lit '',attributed_quote='',
          P_c (no_attributed_quote m),
          P_lit '',ext_exec_inst='',
          P_c (zero_shown (no_ext_exec_inst m)),
          P_lit '')''])"

definition boe_print_CancelOrder :: "byte list \<Rightarrow> piece list result" where
  "boe_print_CancelOrder mem = bind_result (read_struct boe_CancelOrder_size boe_CancelOrder_at mem) (\<lambda>m. Inr
         [P_lit '',orig_clordid='',
          P_s (bco_orig_token m),
          P_lit '',num_bitfields='',
          P_hhu (bco_num_bitfields m),
          P_lit '',bitfield1='',
          P_hhu (bco_bitfield m ! 0),
          P_lit '',clearing_firm='',
          P_s (bco_clearing_firm m),
          P_lit '')''])"

definition boe_print_ModifyOrder :: "byte list \<Rightarrow> piece list result" where
  "boe_print_ModifyOrder mem = bind_result (read_struct boe_ModifyOrder_size boe_ModifyOrder_at mem) (\<lambda>m. Inr
         [P_lit '',clordid='',
          P_s (bmo_token m),
          P_lit '',orig_clordid='',
          P_s (bmo_orig_token m),
          P_lit '',num_bitfields='',
          P_hhu (bmo_num_bitfields m),
          P_lit '',bitfield1='',
          P_hhu (bmo_bitfield m ! 0),
          P_lit '',bitfield2='',
          P_hhu (bmo_bitfield m ! 1),
          P_lit '',clearing_firm='',
          P_s (bmo_clearing_firm m),
          P_lit '',qty='',
          P_u (bmo_qty m),
          P_lit '',price='',
          P_lu (bmo_price m),
          P_lit '',order_type='',
          P_c (bmo_order_type m),
          P_lit '',cancel_orig_on_reject='',
          P_c (bmo_cancel_orig_on_reject m),
          P_lit '',exec_inst='',
          P_c (zero_shown (bmo_exec_inst m)),
          P_lit '',side='',
          P_c (bmo_side m),
          P_lit '')''])"

definition boe_print_LoginResponse :: "byte list \<Rightarrow> piece list result" where
  "boe_print_LoginResponse mem = bind_result (read_struct boe_LoginResponse_size boe_LoginResponse_at mem) (\<lambda>m. Inr
         [P_lit '',status='',
          P_hhu (blp_status m),
          P_lit '',text='',
          P_s (blp_text m),
          P_lit '',no_unspecified_unit_replay='',
          P_hhu (blp_no_unspecified_unit_replay m),
          P_lit '',last_received_seq_num='',
          P_u (blp_last_received_seq_num m),
          P_lit '',number_of_units='',
          P_hhu (blp_number_of_units m),
          P_lit '',''])"

definition boe_print_LogoutResponse :: "byte list \<Rightarrow> piece list result" where
  "boe_print_LogoutResponse mem = bind_result (read_struct boe_LogoutResponse_size boe_LogoutResponse_at mem) (\<lambda>m. Inr
         [P_lit '',reason='',
          P_c (blg_reason m),
          P_lit '',text='',
          P_s (blg_text m),
          P_lit '',last_received_seq_num='',
          P_u (blg_last_received_seq_num m),
          P_lit '',number_of_units='',
          P_hhu (blg_number_of_units m),
          P_lit '',...''])"

definition boe_print_OrderAck :: "(u64 \<Rightarrow> byte list) \<Rightarrow> byte list \<Rightarrow> piece list result" where
  "boe_print_OrderAck dt mem = bind_result (read_struct boe_OrderAck_size boe_OrderAck_at mem) (\<lambda>m. Inr
         [P_lit '',transaction_time='',
          P_s (dt (ack_transaction_time m)),
          P_lit '',clordid='',
          P_s (ack_token m),
          P_lit '',order_id='',
          P_lu (ack_order_id m),
          P_lit '',reserved=0x'',
          P_x2 (ack_reserved m),
          P_lit '',num_bitfields='',
          P_hhu (ack_num_bitfields m),
          P_lit '',bitfield1='',
          P_hhu (ack_bitfield m ! 0),
          P_lit '',bitfield2='',
          P_hhu (ack_bitfield m ! 1),
          P_lit '',bitfield3='',
          P_hhu (ack_bitfield m ! 2),
          P_lit '',bitfield4='',
          P_hhu (ack_bitfield m ! 3),
          P_lit '',bitfield5='',
          P_hhu (ack_bitfield m ! 4),
          P_lit '',leaves_qty='',
          P_u (ack_leaves_qty m),
          P_lit '')''])"

definition boe_print_OrderModified :: "(u64 \<Rightarrow> byte list) \<Rightarrow> byte list \<Rightarrow> piece list result" where
  "boe_print_OrderModified dt mem = bind_result (read_struct boe_OrderModified_size boe_OrderModified_at mem) (\<lambda>m. Inr
         [P_lit '',transaction_time='',
          P_s (dt (bom_transaction_time m)),
          P_lit '',clordid='',
          P_s (bom_token m),
          P_lit '',order_id='',
          P_lu (bom_order_id m),
          P_lit '',reserved=0x'',
          P_x2 (bom_reserved m),
          P_lit '',num_bitfields='',
          P_hhu (bom_num_bitfields m),
          P_lit '',bitfield1='',
          P_hhu (bom_bitfield m ! 0),
          P_lit '',bitfield2='',
          P_hhu (bom_bitfield m ! 1),
          P_lit '',bitfield3='',
          P_hhu (bom_bitfield m ! 2),
          P_lit '',bitfield4='',
          P_hhu (bom_bitfield m ! 3),
          P_lit '',bitfield5='',
          P_hhu (bom_bitfield m ! 4),
          P_lit '',price='',
          P_lu (bom_price m),
          P_lit '',qty='',
          P_u (bom_qty m),
          P_lit '',leaves_qty='',
          P_u (bom_leaves_qty m),
          P_lit '')''])"

definition boe_print_OrderCanceled :: "(u64 \<Rightarrow> byte list) \<Rightarrow> byte list \<Rightarrow> piece list result" where
  "boe_print_OrderCanceled dt mem = bind_result (read_struct boe_OrderCanceled_size boe_OrderCanceled_at mem) (\<lambda>m. Inr
         [P_lit '',transaction_time='',
          P_s (dt (boc_transaction_time m)),
          P_lit '',clordid='',
          P_s (boc_token m),
          P_lit '',reason='',
          P_c (boc_reason m),
          P_lit '',reserved=0x'',
          P_x2 (boc_reserved m),
          P_lit '',num_bitfields='',
          P_hhu (boc_num_bitfields m),
          P_lit '',bitfield1='',
          P_hhu (boc_bitfield m ! 0),
          P_lit '',bitfield2='',
          P_hhu (boc_bitfield m ! 1),
          P_lit '',bitfield3='',
          P_hhu (boc_bitfield m ! 2),
          P_lit '',bitfield4='',
          P_hhu (boc_bitfield m ! 3),
          P_lit '',bitfield5='',
          P_hhu (boc_bitfield m ! 4),
          P_lit '',leaves_qty='',
          P_u (boc_leaves_qty m),
          P_lit '')''])"

definition boe_print_OrderExecution :: "(u64 \<Rightarrow> byte list) \<Rightarrow> byte list \<Rightarrow> piece list result" where
  "boe_print_OrderExecution dt mem = bind_result (read_struct boe_OrderExecution_size boe_OrderExecution_at mem) (\<lambda>m. Inr
         [P_lit '',transaction_time='',
          P_s (dt (oe_transaction_time m)),
          P_lit '',clordid='',
          P_s (oe_token m),
          P_lit '',exec_id='',
          P_lu (oe_exec_id m),
          P_lit '',last_shares='',
          P_u (oe_last_shares m),
          P_lit '',last_price='',
          P_lu (oe_last_price m),
          P_lit '',leaves_qty='',
          P_u (oe_leaves_qty m),
          P_lit '',base_liquidity_indicator='',
          P_c (zero_shown (oe_base_liquidity_indicator m)),
          P_lit '',sub_liquidity_indicator='',
          P_c (zero_shown (oe_sub_liquidity_indicator m)),
          P_lit '',contra_broker='',
          P_s (oe_contra_broker m),
          P_lit '',reserved=0x'',
          P_x (oe_reserved m),
          P_lit '',num_bitfields='',
          P_hhu (oe_num_bitfields m),
          P_lit '')''])"

definition boe_print_OrderRejected :: "(u64 \<Rightarrow> byte list) \<Rightarrow> byte list \<Rightarrow> piece list result" where
  "boe_print_OrderRejected dt mem = bind_result (read_struct boe_OrderRejected_size boe_OrderRejected_at mem) (\<lambda>m. Inr
         [P_lit '',transaction_time='',
          P_s (dt (boj_transaction_time m)),
          P_lit '',clordid='',
          P_s (boj_token m),
          P_lit '',reason=0x'',
          P_x2 (boj_reason m),
          P_lit '',text='',
          P_s (boj_text m),
          P_lit '',reserved=0x'',
          P_x2 (boj_reserved m),
          P_lit '',num_bitfields='',
          P_hhu (boj_num_bitfields m),
          P_lit '')''])"

definition boe_print_CancelRejected :: "(u64 \<Rightarrow> byte list) \<Rightarrow> byte list \<Rightarrow> piece list result" where
  "boe_print_CancelRejected dt mem = bind_result (read_struct boe_CancelRejected_size boe_CancelRejected_at mem) (\<lambda>m. Inr
         [P_lit '',transaction_time='',
          P_s (dt (bcr_transaction_time m)),
          P_lit '',clordid='',
          P_s (bcr_token m),
          P_lit '',reason=0x'',
          P_x2 (bcr_reason m),
          P_lit '',text='',
          P_s (bcr_text m),
          P_lit '',reserved=0x'',
          P_x2 (bcr_reserved m),
          P_lit '',num_bitfields='',
          P_hhu (bcr_num_bitfields m),
          P_lit '')''])"

definition boe_print_ModifyRejected :: "(u64 \<Rightarrow> byte list) \<Rightarrow> byte list \<Rightarrow> piece list result" where
  "boe_print_ModifyRejected dt mem = bind_result (read_struct boe_ModifyRejected_size boe_ModifyRejected_at mem) (\<lambda>m. Inr
         [P_lit '',transaction_time='',
          P_s (dt (mr_transaction_time m)),
          P_lit '',clordid='',
          P_s (mr_token m),
          P_lit '',reason=0x'',
          P_x2 (mr_reason m),
          P_lit '',text='',
          P_s (mr_text m),
          P_lit '',reserved=0x'',
          P_x2 (mr_reserved m),
          P_lit '',num_bitfields='',
          P_hhu (mr_num_bitfields m),
          P_lit '',...''])"

definition boe_print_OrderRestated :: "(u64 \<Rightarrow> byte list) \<Rightarrow> byte list \<Rightarrow> piece list result" where
  "boe_print_OrderRestated dt mem = bind_result (read_struct boe_OrderRestated_size boe_OrderRestated_at mem) (\<lambda>m. Inr
         [P_lit '',transaction_time='',
          P_s (dt (bre_transaction_time m)),
          P_lit '',clordid='',
          P_s (bre_token m),
          P_lit '',reason=0x'',
          P_x2 (bre_reason m),
          P_lit '',reserved=0x'',
          P_x2 (bre_reserved m),
          P_lit '',num_bitfields='',
          P_hhu (bre_num_bitfields m),
          P_lit '',bitfield1='',
          P_hhu (bre_bitfield m ! 0),
          P_lit '',bitfield2='',
          P_hhu (bre_bitfield m ! 1),
          P_lit '',bitfield3='',
          P_hhu (bre_bitfield m ! 2),
          P_lit '',bitfield4='',
          P_hhu (bre_bitfield m ! 3),
          P_lit '',bitfield5='',
          P_hhu (bre_bitfield m ! 4),
          P_lit '',qty='',
          P_u (bre_qty m),
          P_lit '',leaves_qty='',
          P_u (bre_leaves_qty m),
          P_lit '')''])"

definition boe_print_TradeCancelOrCorrect :: "(u64 \<Rightarrow> byte list) \<Rightarrow> byte list \<Rightarrow> piece list result" where
  "boe_print_TradeCancelOrCorrect dt mem = bind_result (read_struct boe_TradeCancelOrCorrect_size boe_TradeCancelOrCorrect_at mem) (\<lambda>m. Inr
         [P_lit '',transaction_time='',
          P_s (dt (btc_transaction_time m)),
          P_lit '',clordid='',
          P_s (btc_token m),
          P_lit '',order_id='',
          P_lu (btc_order_id m),
          P_lit '',exec_ref_id='',
          P_lu (btc_exec_ref_id m),
          P_lit '',side='',
          P_c (btc_side m),
          P_lit '',base_liquidity_indicator='',
          P_c (zero_shown (btc_base_liquidity_indicator m)),
          P_lit '',clearing_firm='',
          P_s (btc_clearing_firm m),
          P_lit '',clearing_acct='',
          P_s (btc_clearing_acct m),
          P_lit '',last_shares='',
          P_u (btc_last_shares m),
          P_lit '',last_price='',
          P_lu (btc_last_price m),
          P_lit '',corrected_price='',
          P_lu (btc_corrected_price m),
          P_lit '',orig_time='',
          P_s (dt (btc_orig_time m)),
          P_lit '',reserved=0x'',
          P_x2 (btc_reserved m),
          P_lit '',num_bitfields='',
          P_hhu (btc_num_bitfields m),
          P_lit '',...''])"

text \<open>
  The units of a login response, each read from memory behind the struct and printed behind the
  text \<open>t\<close> that is already in the \<open>room\<close> bytes. Once the text is longer than the room, the next
  \<^verbatim>\<open>snprintf\<close> gets a pointer past the buffer and a size that has wrapped below zero. At the end
  the last comma becomes a bracket and a NUL is written behind it.
\<close>

fun boe_print_units :: "nat \<Rightarrow> nat \<Rightarrow> nat \<Rightarrow> byte list \<Rightarrow> byte list \<Rightarrow> byte list result" where
  "boe_print_units 0 i room mem t =
     (if length t < room then Inr (butlast t @ [ch CHR '')'']) else Inl OutOfBounds)"
| "boe_print_units (Suc n) i room mem t =
     (if room < length t then Inl OutOfBounds
      else bind_result (read_struct boe_UnitSequence_size boe_UnitSequence_at
                         (drop (boe_LoginResponse_size + boe_UnitSequence_size * i) mem)) (\<lambda>u.
        boe_print_units n (Suc i) room mem
          (t @ render [P_lit ''matching_unit='', P_hhu (us_number u),
                       P_lit '',seq_num='', P_u (us_seq_num u), P_lit '',''])))"

definition boe_LoginResponse_to_string :: "nat \<Rightarrow> byte list \<Rightarrow> byte list result" where
  "boe_LoginResponse_to_string room mem =
     bind_result (boe_print_LoginResponse mem) (\<lambda>ps.
       boe_print_units (unat (blp_number_of_units (boe_LoginResponse_at mem))) 0 room mem (render ps))"

section \<open>Packets\<close>

definition all_MsgTypes :: "MsgType list" where
  "all_MsgTypes = [MT_CancelOrder, MT_ClientHeartbeat, MT_LoginRequest, MT_LogoutRequest, MT_ModifyOrder, MT_NewOrder, MT_CancelRejected, MT_LoginResponse, MT_LogoutResponse, MT_ModifyRejected, MT_OrderAck, MT_OrderCanceled, MT_OrderExecution, MT_OrderModified, MT_OrderRejected, MT_OrderRestated, MT_ReplayComplete, MT_ServerHeartbeat, MT_TradeCancelOrCorrect]"

definition boe_type_name :: "byte \<Rightarrow> string" where
  "boe_type_name b = (case List.find (\<lambda>e. MsgType_code e = b) all_MsgTypes of
     Some e \<Rightarrow> MsgType_to_string e | None \<Rightarrow> ''<unknown>'')"

definition boe_header_text :: "boe_MsgHeader \<Rightarrow> byte list" where
  "boe_header_text h = render
     [P_lit (boe_type_name (bh_type h)), P_lit ''(length='', P_hu (bh_length h), P_lit '',type=0x'',
      P_x2 (bh_type h), P_lit '',matching_unit='', P_hhu (bh_matching_unit h), P_lit '',seq_num='',
      P_u (bh_seq_num h)]"

text \<open>
  A type without fields of its own gets a bracket into the buffer but not into the string, whose
  length was taken before.
\<close>

definition boe_to_string :: "(u64 \<Rightarrow> byte list) \<Rightarrow> byte list \<Rightarrow> byte list result" where
  "boe_to_string dt mem =
     bind_result (read_struct boe_MsgHeader_size boe_MsgHeader_at mem) (\<lambda>h.
       let t = bh_type h; head = boe_header_text h in
       if t = MsgType_code MT_LoginRequest then print_after head (boe_print_LoginRequest mem)
       else if t = MsgType_code MT_NewOrder then print_after head (boe_print_NewOrder mem)
       else if t = MsgType_code MT_CancelOrder then print_after head (boe_print_CancelOrder mem)
       else if t = MsgType_code MT_ModifyOrder then print_after head (boe_print_ModifyOrder mem)
       else if t = MsgType_code MT_LoginResponse then bind_result (boe_LoginResponse_to_string (print_size - length head) mem) (\<lambda>x. Inr (head @ x))
       else if t = MsgType_code MT_LogoutResponse then print_after head (boe_print_LogoutResponse mem)
       else if t = MsgType_code MT_OrderAck then print_after head (boe_print_OrderAck dt mem)
       else if t = MsgType_code MT_OrderModified then print_after head (boe_print_OrderModified dt mem)
       else if t = MsgType_code MT_OrderCanceled then print_after head (boe_print_OrderCanceled dt mem)
       else if t = MsgType_code MT_OrderExecution then print_after head (boe_print_OrderExecution dt mem)
       else if t = MsgType_code MT_OrderRejected then print_after head (boe_print_OrderRejected dt mem)
       else if t = MsgType_code MT_CancelRejected then print_after head (boe_print_CancelRejected dt mem)
       else if t = MsgType_code MT_ModifyRejected then print_after head (boe_print_ModifyRejected dt mem)
       else if t = MsgType_code MT_OrderRestated then print_after head (boe_print_OrderRestated dt mem)
       else if t = MsgType_code MT_TradeCancelOrCorrect then print_after head (boe_print_TradeCancelOrCorrect dt mem)
       else Inr head)"

end
