(* ===== verification/TcpServer.thy ===== *)
theory TcpServer
  imports OuchMarket BoeSession OuchPrint BoePrint
begin

text \<open>
  The servers of \<^verbatim>\<open>tcp_server.h\<close> and \<^verbatim>\<open>tcp_server.cpp\<close>. A server owns one session, the receive
  buffer of 4096 bytes and a timer; the socket, the acceptor, the timer and the log are outside the
  repository, so what a handler asks of them is the list of its calls, in order. The two server
  classes differ in the session they own and in how they read a length field and print a packet:
  that difference is the record \<open>protocol\<close>, and \<open>read\<close> and \<open>send\<close>, written out twice in the code,
  are functions of it.
\<close>

section \<open>State\<close>

datatype call =
    Log "byte list"
  | Write "byte list"
  | Async_accept
  | Async_read
  | Async_wait
  | Cancel_timer
  | Delete_socket
  | Delete_endpoint
  | Delete_acceptor
  | Delete_market
  | Delete_timer

record 's tcp_server =
  market :: "'s session_scheme"
  buf :: "byte list"
  expires_at :: int
  calls :: "call list"

record 's protocol =
  log_name :: string
  header_size :: nat
  length_field :: "byte list \<Rightarrow> u16"
  recv_text :: "byte list \<Rightarrow> 's session_scheme \<Rightarrow> (byte list \<times> 's session_scheme) result"
  send_text :: "byte list \<Rightarrow> 's session_scheme \<Rightarrow> (byte list \<times> 's session_scheme) result"
  handle_packet :: "byte list \<Rightarrow> nat \<Rightarrow> 's session_scheme \<Rightarrow> (byte list \<times> 's session_scheme) result"
  market_logic :: "'s session_scheme \<Rightarrow> 's session_scheme"

definition buf_size :: nat where
  "buf_size = 4096"

text \<open>Milliseconds between two executions, \<^verbatim>\<open>1000/MAX_EXEC_PER_SECOND\<close>.\<close>

definition MAX_EXEC_PER_SECOND :: int where
  "MAX_EXEC_PER_SECOND = 3"

definition tick_ms :: int where
  "tick_ms = 1000 div MAX_EXEC_PER_SECOND"

definition ask :: "call list \<Rightarrow> 's tcp_server \<Rightarrow> 's tcp_server" where
  "ask cs v = v\<lparr>calls := calls v @ cs\<rparr>"

definition say_log :: "string \<Rightarrow> call" where
  "say_log s = Log (bytes_of_string s)"

section \<open>Construction and connection\<close>

text \<open>
  The constructor at time \<open>now\<close>, with the session \<open>m\<close> that the derived class makes and whatever
  the buffer \<open>g\<close> holds; \<open>given\<close> says that no pointer argument is null.
\<close>

definition new_tcp_server ::
    "bool \<Rightarrow> nat \<Rightarrow> int \<Rightarrow> 's session_scheme \<Rightarrow> byte list \<Rightarrow> 's tcp_server result" where
  "new_tcp_server given port now m g =
     (if \<not> given then Inl (RuntimeError ''nullptr'')
      else if port = 0 \<or> 65535 < port then Inl (InvalidArgument ''Invalid port number'')
      else Inr \<lparr>market = m, buf = g, expires_at = now + tick_ms,
                calls = [Log (bytes_of_string ''[TCP]Accepting Connection on port '' @ decimal port),
                         Async_accept]\<rparr>)"

definition tcp_accept :: "bool \<Rightarrow> 's tcp_server \<Rightarrow> 's tcp_server" where
  "tcp_accept error v =
     (if error then v
      else ask [Async_read, Async_wait]
             ((ask [say_log ''[TCP]Connection established''] v)\<lparr>market := set_logger (market v)\<rparr>))"

definition tcp_reconnect :: "'s tcp_server \<Rightarrow> 's tcp_server" where
  "tcp_reconnect v =
     ask [say_log ''[TCP]Attempt to reconnect'', Delete_socket, Async_accept]
       ((ask [Cancel_timer] v)\<lparr>market := disconnect (market v)\<rparr>)"

text \<open>
  What the destructor does; the socket, the session and the timer of a server that was constructed
  are never null.
\<close>

definition delete_TCPServer :: "'s tcp_server \<Rightarrow> call list" where
  "delete_TCPServer v =
     [say_log ''[TCP]Server shutdown'', Delete_endpoint, Delete_acceptor, Delete_socket, Delete_market, Delete_timer]"

section \<open>Sending\<close>

fun send_loop :: "'s protocol \<Rightarrow> byte list list \<Rightarrow> 's tcp_server \<Rightarrow> 's tcp_server result" where
  "send_loop P [] v = Inr v"
| "send_loop P (msg # msgs) v =
     bind_result (send_text P msg (market v)) (\<lambda>(t, m).
       send_loop P msgs
         (ask [Log (bytes_of_string (log_name P @ ''SEND: '') @ t), Write msg] (v\<lparr>market := m\<rparr>)))"

definition tcp_send :: "'s protocol \<Rightarrow> 's tcp_server \<Rightarrow> 's tcp_server result" where
  "tcp_send P v =
     bind_result (send_loop P (pending_out_messages (market v)) v) (\<lambda>v1.
       Inr (v1\<lparr>market := (market v1)\<lparr>pending_out_messages := []\<rparr>\<rparr>))"

section \<open>Reading\<close>

datatype error_code = No_error | Eof | Other_error

text \<open>
  The loop over the received bytes: \<open>pos\<close> is \<^verbatim>\<open>read_pos - buf.data()\<close>, \<open>n\<close> the bytes received. The
  session may write into the buffer. A packet length is at least 2, so the test for 0 always
  passes and the loop ends.
\<close>

function read_loop :: "'s protocol \<Rightarrow> nat \<Rightarrow> nat \<Rightarrow> 's tcp_server \<Rightarrow> 's tcp_server result" where
  "read_loop P n pos v =
     (if pos < n then
        let mem = drop pos (buf v) in
        bind_result (recv_text P mem (market v)) (\<lambda>(t, m1).
        bind_result (read_struct (header_size P) (length_field P) mem) (\<lambda>w.
          let packet_len = unat w + 2 in
          bind_result (if packet_len \<noteq> 0 then handle_packet P mem packet_len m1 else Inr (mem, m1))
            (\<lambda>(mem', m2).
              read_loop P n (pos + packet_len)
                (ask [Log (bytes_of_string (log_name P @ ''RECV: '') @ t)]
                  (v\<lparr>buf := take pos (buf v) @ mem', market := m2\<rparr>)))))
      else Inr v)"
  by pat_completeness auto
termination
  by (relation "measure (\<lambda>(P, n, pos, v). n - pos)") auto

declare read_loop.simps [simp del]

definition tcp_read :: "'s protocol \<Rightarrow> error_code \<Rightarrow> nat \<Rightarrow> 's tcp_server \<Rightarrow> 's tcp_server result" where
  "tcp_read P ec bytes_received v =
     (if ec = Eof
      then Inr (tcp_reconnect (ask [say_log (log_name P @ ''Connection Closed'')] v))
      else bind_result (read_loop P bytes_received 0 v) (\<lambda>v1.
           bind_result (tcp_send P v1) (\<lambda>v2. Inr (ask [Async_read] v2))))"

text \<open>What the network does before \<^verbatim>\<open>read\<close> is called: the new bytes overwrite the start of the buffer.\<close>

definition deliver :: "byte list \<Rightarrow> 's tcp_server \<Rightarrow> 's tcp_server" where
  "deliver data v = v\<lparr>buf := data @ drop (length data) (buf v)\<rparr>"

section \<open>The timer\<close>

definition tcp_process :: "'s protocol \<Rightarrow> bool \<Rightarrow> 's tcp_server \<Rightarrow> 's tcp_server result" where
  "tcp_process P error v =
     (if error then Inr v
      else bind_result (tcp_send P (v\<lparr>market := market_logic P (market v)\<rparr>)) (\<lambda>v1.
        Inr (ask [Async_wait] (v1\<lparr>expires_at := expires_at v1 + tick_ms\<rparr>))))"

lemma ask_sel [simp]:
  "market (ask cs v) = market v" "buf (ask cs v) = buf v" "expires_at (ask cs v) = expires_at v"
  "calls (ask cs v) = calls v @ cs"
  by (simp_all add: ask_def)

lemma send_loop_frame:
  "send_loop P msgs v = Inr v1 \<Longrightarrow> buf v1 = buf v \<and> expires_at v1 = expires_at v"
  by (induction msgs arbitrary: v) (fastforce simp: bind_result_Inr_iff split: prod.splits)+

lemma tcp_process_expires:
  "tcp_process P False v = Inr v1 \<Longrightarrow> expires_at v1 = expires_at v + tick_ms"
  using send_loop_frame by (fastforce simp: tcp_process_def tcp_send_def bind_result_Inr_iff)

text \<open>A wait on a timer that has expired by \<open>now\<close> ends at once.\<close>

function run_timer :: "'s protocol \<Rightarrow> int \<Rightarrow> 's tcp_server \<Rightarrow> 's tcp_server result" where
  "run_timer P now v =
     (if expires_at v \<le> now
      then (case tcp_process P False v of Inl e \<Rightarrow> Inl e | Inr v1 \<Rightarrow> run_timer P now v1)
      else Inr v)"
  by pat_completeness auto
termination
proof (relation "measure (\<lambda>(P, now, v). nat (now + 1 - expires_at v))", goal_cases)
  case 1
  show ?case by simp
next
  case (2 P now v v1)
  with tcp_process_expires [OF 2(2)] show ?case by (simp add: tick_ms_def MAX_EXEC_PER_SECOND_def)
qed

declare run_timer.simps [simp del]

section \<open>The two servers\<close>

type_synonym ouch_server = "unit ouch_session_ext tcp_server"
type_synonym boe_server = "unit boe_session_ext tcp_server"

definition ouch_recv_text :: "byte list \<Rightarrow> ouch_session \<Rightarrow> (byte list \<times> ouch_session) result" where
  "ouch_recv_text mem s =
     (let (g, s1) = on_env (uninit print_size) s
      in bind_result (ouch_outbound_to_string g mem) (\<lambda>t. Inr (t, s1)))"

definition ouch_send_text :: "byte list \<Rightarrow> ouch_session \<Rightarrow> (byte list \<times> ouch_session) result" where
  "ouch_send_text msg s =
     (let (g, s1) = on_env (uninit print_size) s
      in bind_result (ouch_inbound_to_string g msg) (\<lambda>t. Inr (t, s1)))"

definition boe_text ::
    "(u64 \<Rightarrow> byte list) \<Rightarrow> byte list \<Rightarrow> boe_session \<Rightarrow> (byte list \<times> boe_session) result" where
  "boe_text dt mem s = bind_result (boe_to_string dt mem) (\<lambda>t. Inr (t, s))"

definition ouch_protocol :: "unit ouch_session_ext protocol" where
  "ouch_protocol =
     \<lparr>log_name = ''[OUCH]'', header_size = ouch_MsgHeader_size,
      length_field = (\<lambda>mem. swap16 (mh_length (ouch_MsgHeader_at mem))),
      recv_text = ouch_recv_text, send_text = ouch_send_text,
      handle_packet = ouch_handle_packet, market_logic = ouch_market_logic\<rparr>"

definition boe_protocol :: "(u64 \<Rightarrow> byte list) \<Rightarrow> unit boe_session_ext protocol" where
  "boe_protocol dt =
     \<lparr>log_name = ''[BOE]'', header_size = boe_MsgHeader_size,
      length_field = (\<lambda>mem. bh_length (boe_MsgHeader_at mem)),
      recv_text = boe_text dt, send_text = boe_text dt,
      handle_packet = boe_handle_packet, market_logic = boe_market_logic\<rparr>"

definition SoupBinTCPServer_read :: "error_code \<Rightarrow> nat \<Rightarrow> ouch_server \<Rightarrow> ouch_server result" where
  "SoupBinTCPServer_read = tcp_read ouch_protocol"

definition SoupBinTCPServer_send :: "ouch_server \<Rightarrow> ouch_server result" where
  "SoupBinTCPServer_send = tcp_send ouch_protocol"

definition new_SoupBinTCPServer ::
    "bool \<Rightarrow> nat \<Rightarrow> int \<Rightarrow> env \<Rightarrow> byte list \<Rightarrow> ouch_server result" where
  "new_SoupBinTCPServer given port now e g = new_tcp_server given port now (new_ouch_session e) g"

definition BOEServer_read ::
    "(u64 \<Rightarrow> byte list) \<Rightarrow> error_code \<Rightarrow> nat \<Rightarrow> boe_server \<Rightarrow> boe_server result" where
  "BOEServer_read dt = tcp_read (boe_protocol dt)"

definition BOEServer_send :: "(u64 \<Rightarrow> byte list) \<Rightarrow> boe_server \<Rightarrow> boe_server result" where
  "BOEServer_send dt = tcp_send (boe_protocol dt)"

definition new_BOEServer ::
    "bool \<Rightarrow> nat \<Rightarrow> int \<Rightarrow> env \<Rightarrow> byte list \<Rightarrow> boe_server result" where
  "new_BOEServer given port now e g = new_tcp_server given port now (new_boe_session e) g"

end
