(* ===== verification/TcpFacts.thy ===== *)
theory TcpFacts
  imports TcpServer
begin

text \<open>
  What a server needs of the session it owns, as a locale, and the lemmas a server has from it: how
  a read is cut into packets, what a server keeps of its session's invariant, and how timer
  ticks are caught up.
\<close>

section \<open>References\<close>

text \<open>A packet as it should come: a whole header, and as long as its length field says.\<close>

definition framed_packet :: "'s protocol \<Rightarrow> byte list \<Rightarrow> bool" where
  "framed_packet P p \<longleftrightarrow> header_size P \<le> length p \<and> length p = unat (length_field P p) + 2"

text \<open>Packets handled one by one, each with what follows it in memory, without any buffer.\<close>

fun serve :: "'s protocol \<Rightarrow> byte list list \<Rightarrow> byte list \<Rightarrow> 's tcp_server \<Rightarrow> 's tcp_server result" where
  "serve P [] rest v = Inr v"
| "serve P (p # ps) rest v =
     bind_result (recv_text P (p @ concat ps @ rest) (market v)) (\<lambda>(t, m1).
     bind_result (handle_packet P (p @ concat ps @ rest) (length p) m1) (\<lambda>(mem', m2).
       serve P ps rest
         (ask [Log (bytes_of_string (log_name P @ ''RECV: '') @ t)] (v\<lparr>market := m2\<rparr>))))"

definition forget_buf :: "'s tcp_server result \<Rightarrow> 's tcp_server result" where
  "forget_buf = map_sum id (\<lambda>v. v\<lparr>buf := []\<rparr>)"

fun ticks :: "'s protocol \<Rightarrow> nat \<Rightarrow> 's tcp_server \<Rightarrow> 's tcp_server result" where
  "ticks P 0 v = Inr v"
| "ticks P (Suc n) v = bind_result (tcp_process P False v) (ticks P n)"

lemma forget_buf_bind:
  "(\<And>x. r = Inr x \<Longrightarrow> forget_buf (f x) = forget_buf (g x)) \<Longrightarrow>
   forget_buf (bind_result r f) = forget_buf (bind_result r g)"
  by (cases r) simp_all

lemma ask_buf:
  "ask cs (v\<lparr>buf := b, market := m\<rparr>) = (ask cs (v\<lparr>market := m\<rparr>))\<lparr>buf := b\<rparr>"
  by (simp add: ask_def)

lemma serve_buf: "forget_buf (serve P ps rest (v\<lparr>buf := b\<rparr>)) = forget_buf (serve P ps rest v)"
proof (induction ps arbitrary: v)
  case (Cons p ps)
  show ?case by (auto simp: ask_buf Cons.IH intro!: forget_buf_bind split: prod.splits)
qed (simp add: forget_buf_def)

section \<open>Facts that hold for every session\<close>

lemma read_loop_done: "n \<le> pos \<Longrightarrow> read_loop P n pos v = Inr v"
  by (simp add: read_loop.simps [of P n pos v])

lemma read_loop_step:
  fixes v :: "'s tcp_server"
  assumes "pos < n"
  defines "mem \<equiv> drop pos (buf v)"
  shows "read_loop P n pos v =
    bind_result (recv_text P mem (market v)) (\<lambda>(t, m1).
    bind_result (read_struct (header_size P) (length_field P) mem) (\<lambda>w.
    bind_result (handle_packet P mem (unat w + 2) m1) (\<lambda>(mem', m2).
      read_loop P n (pos + (unat w + 2))
        (ask [Log (bytes_of_string (log_name P @ ''RECV: '') @ t)]
          (v\<lparr>buf := take pos (buf v) @ mem', market := m2\<rparr>)))))"
  using assms(1) by (simp add: read_loop.simps [of P n pos v] mem_def Let_def)

text \<open>A read of \<open>n\<close> bytes takes at most \<open>(n + 1) div 2\<close> rounds, each of which logs one line.\<close>

lemma read_loop_rounds:
  "read_loop P n pos v = Inr v' \<Longrightarrow> length (calls v') \<le> length (calls v) + (n + 1 - pos) div 2"
proof (induction "n - pos" arbitrary: pos v rule: less_induct)
  case less
  show ?case
  proof (cases "pos < n")
    case False
    with less.prems show ?thesis by (simp add: read_loop_done)
  next
    case True
    with less.prems obtain w :: u16 and v1 where loop: "read_loop P n (pos + (unat w + 2)) v1 = Inr v'"
      and one: "length (calls v1) = length (calls v) + 1"
      by (fastforce simp: read_loop_step bind_result_Inr_iff)
    have "n - (pos + (unat w + 2)) < n - pos" using True by simp
    note less.hyps [OF this loop]
    moreover have "(n + 1 - (pos + (unat w + 2))) div 2 \<le> (n + 1 - (pos + 2)) div 2"
      by (intro div_le_mono) simp
    moreover have "1 + (n + 1 - (pos + 2)) div 2 = (n + 1 - pos) div 2" using True by simp
    ultimately show ?thesis using one by linarith
  qed
qed

lemma send_loop_sent:
  "send_loop P msgs v = Inr v' \<Longrightarrow>
   List.filter (\<lambda>c. \<exists>m. c = Write m) (calls v') =
   List.filter (\<lambda>c. \<exists>m. c = Write m) (calls v) @ List.map Write msgs"
proof (induction msgs arbitrary: v)
  case (Cons msg msgs)
  then obtain t m where "send_loop P msgs (ask [Log (bytes_of_string (log_name P @ ''SEND: '') @ t), Write msg]
      (v\<lparr>market := m\<rparr>)) = Inr v'"
    by (auto simp: bind_result_Inr_iff split: prod.splits)
  from Cons.IH [OF this] show ?case by simp
qed simp

section \<open>Catching up on ticks\<close>

text \<open>How many expiry times, \<open>tick_ms\<close> apart, lie between the first one and now.\<close>

definition due_ticks :: "int \<Rightarrow> int \<Rightarrow> nat" where
  "due_ticks first now = (if first \<le> now then nat ((now - first) div tick_ms) + 1 else 0)"

lemma due_ticks_step: "first \<le> now \<Longrightarrow> due_ticks first now = Suc (due_ticks (first + tick_ms) now)"
proof -
  assume "first \<le> now"
  moreover have "tick_ms = 333" by (simp add: tick_ms_def MAX_EXEC_PER_SECOND_def)
  moreover have "(now - first) div 333 = 1 + (now - (first + 333)) div 333" by simp
  ultimately show ?thesis
    by (cases "first + 333 \<le> now") (auto simp: due_ticks_def nat_add_distrib pos_imp_zdiv_nonneg_iff)
qed

lemma run_timer_ticks: "run_timer P now v = ticks P (due_ticks (expires_at v) now) v"
proof (induction P now v rule: run_timer.induct)
  case (1 P now v)
  show ?case
  proof (cases "expires_at v \<le> now")
    case False
    then show ?thesis by (simp add: run_timer.simps [of P now v] due_ticks_def)
  next
    case True
    note step = due_ticks_step [OF True]
    show ?thesis
    proof (cases "tcp_process P False v")
      case (Inl e)
      with True show ?thesis by (simp add: run_timer.simps [of P now v] step)
    next
      case (Inr v1)
      with True 1 [OF True Inr] tcp_process_expires [OF Inr] show ?thesis
        by (simp add: run_timer.simps [of P now v] step)
    qed
  qed
qed

section \<open>The interface of a session\<close>

text \<open>
  What a server relies on: handling a packet keeps the size of the memory it is given and
  everything behind the packet; the length field lies inside the header; and \<open>good\<close>, an invariant of
  the session, is kept by everything the server does to it.
\<close>

locale served_session =
  fixes P :: "'s protocol" and good :: "'s session_scheme \<Rightarrow> bool"
  assumes handle_keeps: "handle_packet P mem (unat (length_field P mem) + 2) m = Inr (mem', m') \<Longrightarrow>
      length mem' = length mem \<and>
      drop (unat (length_field P mem) + 2) mem' = drop (unat (length_field P mem) + 2) mem"
    and length_in_header: "header_size P \<le> length p \<Longrightarrow> length_field P (p @ r) = length_field P p"
    and good_handle: "good m \<Longrightarrow> handle_packet P mem k m = Inr (mem', m') \<Longrightarrow> good m'"
    and good_recv: "good m \<Longrightarrow> recv_text P mem m = Inr (t, m') \<Longrightarrow> good m'"
    and good_send: "good m \<Longrightarrow> send_text P mem m = Inr (t, m') \<Longrightarrow> good m'"
    and good_tick: "good m \<Longrightarrow> good (market_logic P m)"
    and good_sent: "good m \<Longrightarrow> good (m\<lparr>pending_out_messages := []\<rparr>)"
    and good_disconnect: "good m \<Longrightarrow> good (disconnect m)"
    and good_logger: "good m \<Longrightarrow> good (set_logger m)"
begin

lemma read_loop_serves:
  assumes "list_all (framed_packet P) ps" and "buf v = pre @ concat ps @ rest"
  shows "forget_buf (read_loop P (length pre + length (concat ps)) (length pre) v) =
    forget_buf (serve P ps rest v)"
  using assms
proof (induction ps arbitrary: pre v)
  case Nil
  then show ?case by (simp add: read_loop_done)
next
  case (Cons p ps)
  let ?n = "length pre + length (concat (p # ps))"
  let ?mem = "p @ concat ps @ rest"
  have p: "header_size P \<le> length p" "length p = unat (length_field P p) + 2"
    and ps: "list_all (framed_packet P) ps"
    using Cons.prems(1) unfolding list.pred_inject framed_packet_def by blast+
  have mem: "drop (length pre) (buf v) = ?mem" "take (length pre) (buf v) = pre"
    using Cons.prems(2) by simp_all
  have lf: "length_field P ?mem = length_field P p" by (rule length_in_header [OF p(1)])
  have pos: "length pre < ?n" using p(2) by simp
  have rest: "forget_buf (read_loop P ?n (length pre + length p) (ask cs (v\<lparr>buf := pre @ mem', market := m2\<rparr>))) =
      forget_buf (serve P ps rest (ask cs (v\<lparr>market := m2\<rparr>)))"
    if "handle_packet P ?mem (length p) m1 = Inr (mem', m2)" for m1 mem' m2 cs
  proof -
    have keep: "length mem' = length ?mem" "drop (length p) mem' = concat ps @ rest"
      using handle_keeps [of ?mem m1 mem' m2] that lf p(2) by simp_all
    from keep(2) have buf: "pre @ mem' = (pre @ take (length p) mem') @ concat ps @ rest"
      by (metis append.assoc append_take_drop_id)
    from keep(1) have len: "length (pre @ take (length p) mem') = length pre + length p" by simp
    have "forget_buf (read_loop P (length (pre @ take (length p) mem') + length (concat ps))
        (length (pre @ take (length p) mem')) (ask cs (v\<lparr>buf := pre @ mem', market := m2\<rparr>))) =
        forget_buf (serve P ps rest (ask cs (v\<lparr>buf := pre @ mem', market := m2\<rparr>)))"
      by (rule Cons.IH [OF ps]) (simp add: buf)
    then show ?thesis unfolding len ask_buf serve_buf by (simp add: add.assoc)
  qed
  have h: "read_struct (header_size P) (length_field P) ?mem = Inr (length_field P p)"
    using p(1) lf by (simp add: read_struct_def)
  have k: "unat (length_field P p) + 2 = length p" using p(2) by simp
  show ?case
    unfolding read_loop_step [OF pos] mem h bind_result_simps k serve.simps
  proof (rule forget_buf_bind, clarify)
    fix t m1
    show "forget_buf (bind_result (handle_packet P ?mem (length p) m1) (\<lambda>(mem', m2).
        read_loop P ?n (length pre + length p) (ask [Log (bytes_of_string (log_name P @ ''RECV: '') @ t)]
          (v\<lparr>buf := pre @ mem', market := m2\<rparr>)))) =
      forget_buf (bind_result (handle_packet P ?mem (length p) m1) (\<lambda>(mem', m2).
        serve P ps rest (ask [Log (bytes_of_string (log_name P @ ''RECV: '') @ t)] (v\<lparr>market := m2\<rparr>))))"
      by (rule forget_buf_bind, clarify, rule rest)
  qed
qed

text \<open>The session stays good and the buffer its size, whatever arrives.\<close>

lemma send_loop_good: "send_loop P msgs v = Inr v' \<Longrightarrow> good (market v) \<Longrightarrow> good (market v')"
proof (induction msgs arbitrary: v)
  case (Cons msg msgs)
  then obtain t m where t: "send_text P msg (market v) = Inr (t, m)"
    and r: "send_loop P msgs (ask [Log (bytes_of_string (log_name P @ ''SEND: '') @ t), Write msg]
      (v\<lparr>market := m\<rparr>)) = Inr v'"
    by (auto simp: bind_result_Inr_iff split: prod.splits)
  from good_send [OF Cons.prems(2) t] show ?case by (intro Cons.IH [OF r]) simp
qed simp

lemma tcp_send_good:
  assumes "tcp_send P v = Inr v'" and "good (market v)"
  shows "good (market v') \<and> buf v' = buf v"
proof -
  obtain v1 where v1: "send_loop P (pending_out_messages (market v)) v = Inr v1"
    "v' = v1\<lparr>market := (market v1)\<lparr>pending_out_messages := []\<rparr>\<rparr>"
    using assms(1) by (auto simp: tcp_send_def bind_result_Inr_iff)
  with send_loop_good [OF v1(1) assms(2)] send_loop_frame [OF v1(1)] show ?thesis
    by (simp add: good_sent)
qed

lemma read_loop_good:
  "read_loop P n pos v = Inr v' \<Longrightarrow> good (market v) \<Longrightarrow> n \<le> length (buf v) \<Longrightarrow>
   good (market v') \<and> length (buf v') = length (buf v)"
proof (induction "n - pos" arbitrary: pos v rule: less_induct)
  case less
  show ?case
  proof (cases "pos < n")
    case False
    with less.prems show ?thesis by (simp add: read_loop_done)
  next
    case True
    let ?mem = "drop pos (buf v)"
    from less.prems(1) obtain t m1 w mem' m2 where
      one: "recv_text P ?mem (market v) = Inr (t, m1)" "header_size P \<le> length ?mem" "w = length_field P ?mem"
        "handle_packet P ?mem (unat w + 2) m1 = Inr (mem', m2)"
      and loop: "read_loop P n (pos + (unat w + 2))
        (ask [Log (bytes_of_string (log_name P @ ''RECV: '') @ t)]
          (v\<lparr>buf := take pos (buf v) @ mem', market := m2\<rparr>)) = Inr v'" (is "read_loop P n ?pos ?v1 = _")
      by (auto simp: read_loop_step [OF True] bind_result_Inr_iff read_struct_Inr split: prod.splits)
    have "length mem' = length ?mem" using handle_keeps one(3,4) by blast
    then have len: "length (buf ?v1) = length (buf v)" using True less.prems(3) by auto
    have "good m1" by (rule good_recv [OF less.prems(2) one(1)])
    then have g: "good (market ?v1)" using good_handle [OF _ one(4)] by simp
    have d: "n - ?pos < n - pos" using True by simp
    have b: "n \<le> length (buf ?v1)" using len less.prems(3) by simp
    from less.hyps [OF d loop g b] len show ?thesis by simp
  qed
qed

lemma tcp_read_good:
  assumes "tcp_read P ec n v = Inr v'" and "good (market v)" and "n \<le> length (buf v)"
  shows "good (market v') \<and> length (buf v') = length (buf v)"
proof (cases "ec = Eof")
  case True
  with assms show ?thesis
    by (auto simp: tcp_read_def tcp_reconnect_def ask_def good_disconnect)
next
  case False
  then obtain v1 v2 where "read_loop P n 0 v = Inr v1" "tcp_send P v1 = Inr v2" "v' = ask [Async_read] v2"
    using assms(1) by (auto simp: tcp_read_def bind_result_Inr_iff)
  with read_loop_good [of n 0 v v1] tcp_send_good [of v1 v2] assms(2,3) show ?thesis by simp
qed

lemma tcp_process_good:
  assumes "tcp_process P error v = Inr v'" and "good (market v)"
  shows "good (market v') \<and> buf v' = buf v"
proof (cases error)
  case True
  with assms show ?thesis by (simp add: tcp_process_def)
next
  case False
  then obtain v1 where "tcp_send P (v\<lparr>market := market_logic P (market v)\<rparr>) = Inr v1"
    and "v' = ask [Async_wait] (v1\<lparr>expires_at := expires_at v1 + tick_ms\<rparr>)"
    using assms(1) by (auto simp: tcp_process_def bind_result_Inr_iff)
  with tcp_send_good [OF this(1)] good_tick [OF assms(2)] show ?thesis by simp
qed

lemma tcp_accept_good: "good (market v) \<Longrightarrow> good (market (tcp_accept error v)) \<and> buf (tcp_accept error v) = buf v"
  by (simp add: tcp_accept_def ask_def good_logger)

lemma received_good:
  assumes "tcp_read P ec (length data) (deliver data v) = Inr v'" and "good (market v)"
    and "length data \<le> length (buf v)"
  shows "good (market v') \<and> length (buf v') = length (buf v)"
proof -
  have "length (buf (deliver data v)) = length (buf v)" "market (deliver data v) = market v"
    using assms(3) by (simp_all add: deliver_def)
  with tcp_read_good [OF assms(1)] assms(2,3) show ?thesis by simp
qed

end

end
