(* ===== verification/PrintFacts.thy ===== *)
theory PrintFacts
  imports OuchPrint BoePrint
begin

text \<open>
  Where printing a packet stays inside its buffers and where it does not.
\<close>

section \<open>Printing only fails by leaving a buffer\<close>

lemma print_after_Inl: "print_after h r = Inl e \<Longrightarrow> (\<And>e. r = Inl e \<Longrightarrow> e = OutOfBounds) \<Longrightarrow> e = OutOfBounds"
  by (cases r) (auto simp: print_after_def string_of_buffer_def split: if_splits)

lemma bind_read_Inl:
  "bind_result (read_struct n f mem) k = Inl e \<Longrightarrow> (\<And>x. k x = Inl e \<Longrightarrow> e = OutOfBounds) \<Longrightarrow> e = OutOfBounds"
  by (auto simp: read_struct_def split: if_splits)

lemma bind_c_string_Inl:
  "bind_result (c_string mem) k = Inl e \<Longrightarrow> (\<And>x. k x = Inl e \<Longrightarrow> e = OutOfBounds) \<Longrightarrow> e = OutOfBounds"
  by (auto simp: c_string_def split: if_splits)

lemma print_text_struct_Inl:
  "print_text (bind_result (read_struct n f mem) (\<lambda>m. Inr (g m))) = Inl e \<Longrightarrow> e = OutOfBounds"
  unfolding print_text_def by (erule print_after_Inl) (auto simp: read_struct_def split: if_splits)

lemma ouch_print_Inl:
  "print_text (ouch_print_LoginAccepted mem) = Inl e \<Longrightarrow> e = OutOfBounds"
  "print_text (ouch_print_LoginRejected mem) = Inl e \<Longrightarrow> e = OutOfBounds"
  "print_text (ouch_print_ServerHeartbeat mem) = Inl e \<Longrightarrow> e = OutOfBounds"
  "print_text (ouch_print_EndOfSession mem) = Inl e \<Longrightarrow> e = OutOfBounds"
  "print_text (ouch_print_OrderAccepted mem) = Inl e \<Longrightarrow> e = OutOfBounds"
  "print_text (ouch_print_OrderRejected mem) = Inl e \<Longrightarrow> e = OutOfBounds"
  "print_text (ouch_print_AiqCanceled mem) = Inl e \<Longrightarrow> e = OutOfBounds"
  "print_text (ouch_print_CancelReject mem) = Inl e \<Longrightarrow> e = OutOfBounds"
  "print_text (ouch_print_Executed mem) = Inl e \<Longrightarrow> e = OutOfBounds"
  "print_text (ouch_print_ExecutedWithRefPrice mem) = Inl e \<Longrightarrow> e = OutOfBounds"
  "print_text (ouch_print_OrderCanceled mem) = Inl e \<Longrightarrow> e = OutOfBounds"
  "print_text (ouch_print_OrderModified mem) = Inl e \<Longrightarrow> e = OutOfBounds"
  "print_text (ouch_print_SystemEvent mem) = Inl e \<Longrightarrow> e = OutOfBounds"
  "print_text (ouch_print_BrokenTrade mem) = Inl e \<Longrightarrow> e = OutOfBounds"
  "print_text (ouch_print_CancelPending mem) = Inl e \<Longrightarrow> e = OutOfBounds"
  "print_text (ouch_print_PriorityUpdate mem) = Inl e \<Longrightarrow> e = OutOfBounds"
  "print_text (ouch_print_TradeCorrection mem) = Inl e \<Longrightarrow> e = OutOfBounds"
  "print_text (ouch_print_TradeNow mem) = Inl e \<Longrightarrow> e = OutOfBounds"
  unfolding ouch_print_LoginAccepted_def ouch_print_LoginRejected_def ouch_print_ServerHeartbeat_def
    ouch_print_EndOfSession_def ouch_print_OrderAccepted_def ouch_print_OrderRejected_def
    ouch_print_AiqCanceled_def ouch_print_CancelReject_def ouch_print_Executed_def
    ouch_print_ExecutedWithRefPrice_def ouch_print_OrderCanceled_def ouch_print_OrderModified_def
    ouch_print_SystemEvent_def ouch_print_BrokenTrade_def ouch_print_CancelPending_def
    ouch_print_PriorityUpdate_def ouch_print_TradeCorrection_def ouch_print_TradeNow_def
  by (erule print_text_struct_Inl)+

lemma ouch_print_OrderReplaced_Inl: "print_text (ouch_print_OrderReplaced mem) = Inl e \<Longrightarrow> e = OutOfBounds"
  unfolding print_text_def ouch_print_OrderReplaced_def
  by (erule print_after_Inl) (auto elim!: bind_read_Inl bind_c_string_Inl)

lemma ouch_inbound_message_Inl: "ouch_inbound_message_to_string g mem = Inl e \<Longrightarrow> e = OutOfBounds"
  unfolding ouch_inbound_message_to_string_def ouch_note_def
  by (erule bind_read_Inl)
    (simp split: if_split_asm add: ouch_print_Inl ouch_print_OrderReplaced_Inl)

lemma ouch_inbound_Inl: "ouch_inbound_to_string g mem = Inl e \<Longrightarrow> e = OutOfBounds"
  unfolding ouch_inbound_to_string_def ouch_note_def Let_def
  by (erule bind_read_Inl)
    (simp split: if_split_asm add: ouch_print_Inl ouch_inbound_message_Inl)

section \<open>The units of a login response\<close>

lemma decimal_not_empty: "1 \<le> length (decimal n)"
  by (subst decimal.simps) simp

abbreviation unit_text :: "boe_UnitSequence \<Rightarrow> byte list" where
  "unit_text u \<equiv> render [P_lit ''matching_unit='', P_hhu (us_number u), P_lit '',seq_num='',
     P_u (us_seq_num u), P_lit '','']"

lemma unit_text_length: "26 \<le> length (unit_text u)" "length (unit_text u) \<le> 37"
proof -
  show "26 \<le> length (unit_text u)"
    using decimal_not_empty [of "unat (us_number u)"] decimal_not_empty [of "unat (us_seq_num u)"]
    by (simp add: render_def bytes_of_string_def)
  show "length (unit_text u) \<le> 37"
    using length_render [of "[P_lit ''matching_unit='', P_hhu (us_number u), P_lit '',seq_num='',
     P_u (us_seq_num u), P_lit '','']"] by simp
qed

lemma boe_print_units_overrun:
  "room \<le> length t + 26 * n \<Longrightarrow> boe_print_units n i room mem t = Inl OutOfBounds"
proof (induction n arbitrary: i t)
  case (Suc n)
  show ?case
  proof (cases "room < length t")
    case False
    have "room \<le> length (t @ unit_text u) + 26 * n" for u
      using Suc.prems unit_text_length(1) [of u] by simp
    from Suc.IH [OF this] False show ?thesis
      by (auto simp: read_struct_def)
  qed simp
qed simp

lemma boe_print_units_fit:
  assumes "length t + 37 * n < room" and "boe_LoginResponse_size + 5 * (i + n) \<le> length mem"
  shows "\<exists>t'. boe_print_units n i room mem t = Inr t'"
  using assms
proof (induction n arbitrary: i t)
  case (Suc n)
  let ?u = "boe_UnitSequence_at (drop (boe_LoginResponse_size + boe_UnitSequence_size * i) mem)"
  have "length (t @ unit_text ?u) + 37 * n < room"
    using Suc.prems(1) unit_text_length(2) [of ?u] by simp
  moreover have "boe_LoginResponse_size + 5 * (Suc i + n) \<le> length mem" using Suc.prems(2) by simp
  ultimately have "\<exists>t'. boe_print_units n (Suc i) room mem (t @ unit_text ?u) = Inr t'" by (rule Suc.IH)
  then show ?case
    using Suc.prems by (simp add: read_struct_def boe_UnitSequence_size_def boe_LoginResponse_size_def)
qed simp

section \<open>Everything else fits\<close>

text \<open>The pieces printed for a struct that is there in full, and a bound on the text they make.\<close>

definition pieces_fit :: "nat \<Rightarrow> piece list result \<Rightarrow> bool" where
  "pieces_fit n r = (case r of Inl e \<Rightarrow> False | Inr ps \<Rightarrow> sum_list (List.map piece_room ps) \<le> n)"

lemma pieces_fit_print:
  "pieces_fit n r \<Longrightarrow> length h + n < print_size \<Longrightarrow> \<exists>t. print_after h r = Inr t"
  by (cases r) (use print_after_fits in \<open>auto simp: pieces_fit_def\<close>)

lemma boe_LoginRequest_fits:
  "boe_LoginRequest_size \<le> length mem \<Longrightarrow> pieces_fit 2000 (boe_print_LoginRequest mem)"
  by (simp add: pieces_fit_def boe_print_LoginRequest_def read_struct_def boe_LoginRequest_size_def boe_LoginRequest_at_def
      length_arr_at)

lemma boe_NewOrder_fits:
  "boe_NewOrder_size \<le> length mem \<Longrightarrow> pieces_fit 2000 (boe_print_NewOrder mem)"
  by (simp add: pieces_fit_def boe_print_NewOrder_def read_struct_def boe_NewOrder_size_def boe_NewOrder_at_def
      length_arr_at)

lemma boe_CancelOrder_fits:
  "boe_CancelOrder_size \<le> length mem \<Longrightarrow> pieces_fit 2000 (boe_print_CancelOrder mem)"
  by (simp add: pieces_fit_def boe_print_CancelOrder_def read_struct_def boe_CancelOrder_size_def boe_CancelOrder_at_def
      length_arr_at)

lemma boe_ModifyOrder_fits:
  "boe_ModifyOrder_size \<le> length mem \<Longrightarrow> pieces_fit 2000 (boe_print_ModifyOrder mem)"
  by (simp add: pieces_fit_def boe_print_ModifyOrder_def read_struct_def boe_ModifyOrder_size_def boe_ModifyOrder_at_def
      length_arr_at)

lemma boe_LoginResponse_fits:
  "boe_LoginResponse_size \<le> length mem \<Longrightarrow> pieces_fit 2000 (boe_print_LoginResponse mem)"
  by (simp add: pieces_fit_def boe_print_LoginResponse_def read_struct_def boe_LoginResponse_size_def boe_LoginResponse_at_def
      length_arr_at)

lemma boe_LogoutResponse_fits:
  "boe_LogoutResponse_size \<le> length mem \<Longrightarrow> pieces_fit 2000 (boe_print_LogoutResponse mem)"
  by (simp add: pieces_fit_def boe_print_LogoutResponse_def read_struct_def boe_LogoutResponse_size_def boe_LogoutResponse_at_def
      length_arr_at)

lemma boe_OrderAck_fits:
  assumes dt: "\<And>x. length (dt x) \<le> 32" and "boe_OrderAck_size \<le> length mem"
  shows "pieces_fit 2000 (boe_print_OrderAck dt mem)"
  using dt [of "u64_at 10 mem"] dt [of "u64_at 84 mem"] assms(2)
  by (simp add: pieces_fit_def boe_print_OrderAck_def read_struct_def boe_OrderAck_size_def boe_OrderAck_at_def
      length_arr_at)

lemma boe_OrderModified_fits:
  assumes dt: "\<And>x. length (dt x) \<le> 32" and "boe_OrderModified_size \<le> length mem"
  shows "pieces_fit 2000 (boe_print_OrderModified dt mem)"
  using dt [of "u64_at 10 mem"] dt [of "u64_at 84 mem"] assms(2)
  by (simp add: pieces_fit_def boe_print_OrderModified_def read_struct_def boe_OrderModified_size_def boe_OrderModified_at_def
      length_arr_at)

lemma boe_OrderCanceled_fits:
  assumes dt: "\<And>x. length (dt x) \<le> 32" and "boe_OrderCanceled_size \<le> length mem"
  shows "pieces_fit 2000 (boe_print_OrderCanceled dt mem)"
  using dt [of "u64_at 10 mem"] dt [of "u64_at 84 mem"] assms(2)
  by (simp add: pieces_fit_def boe_print_OrderCanceled_def read_struct_def boe_OrderCanceled_size_def boe_OrderCanceled_at_def
      length_arr_at)

lemma boe_OrderExecution_fits:
  assumes dt: "\<And>x. length (dt x) \<le> 32" and "boe_OrderExecution_size \<le> length mem"
  shows "pieces_fit 2000 (boe_print_OrderExecution dt mem)"
  using dt [of "u64_at 10 mem"] dt [of "u64_at 84 mem"] assms(2)
  by (simp add: pieces_fit_def boe_print_OrderExecution_def read_struct_def boe_OrderExecution_size_def boe_OrderExecution_at_def
      length_arr_at)

lemma boe_OrderRejected_fits:
  assumes dt: "\<And>x. length (dt x) \<le> 32" and "boe_OrderRejected_size \<le> length mem"
  shows "pieces_fit 2000 (boe_print_OrderRejected dt mem)"
  using dt [of "u64_at 10 mem"] dt [of "u64_at 84 mem"] assms(2)
  by (simp add: pieces_fit_def boe_print_OrderRejected_def read_struct_def boe_OrderRejected_size_def boe_OrderRejected_at_def
      length_arr_at)

lemma boe_CancelRejected_fits:
  assumes dt: "\<And>x. length (dt x) \<le> 32" and "boe_CancelRejected_size \<le> length mem"
  shows "pieces_fit 2000 (boe_print_CancelRejected dt mem)"
  using dt [of "u64_at 10 mem"] dt [of "u64_at 84 mem"] assms(2)
  by (simp add: pieces_fit_def boe_print_CancelRejected_def read_struct_def boe_CancelRejected_size_def boe_CancelRejected_at_def
      length_arr_at)

lemma boe_ModifyRejected_fits:
  assumes dt: "\<And>x. length (dt x) \<le> 32" and "boe_ModifyRejected_size \<le> length mem"
  shows "pieces_fit 2000 (boe_print_ModifyRejected dt mem)"
  using dt [of "u64_at 10 mem"] dt [of "u64_at 84 mem"] assms(2)
  by (simp add: pieces_fit_def boe_print_ModifyRejected_def read_struct_def boe_ModifyRejected_size_def boe_ModifyRejected_at_def
      length_arr_at)

lemma boe_OrderRestated_fits:
  assumes dt: "\<And>x. length (dt x) \<le> 32" and "boe_OrderRestated_size \<le> length mem"
  shows "pieces_fit 2000 (boe_print_OrderRestated dt mem)"
  using dt [of "u64_at 10 mem"] dt [of "u64_at 84 mem"] assms(2)
  by (simp add: pieces_fit_def boe_print_OrderRestated_def read_struct_def boe_OrderRestated_size_def boe_OrderRestated_at_def
      length_arr_at)

lemma boe_TradeCancelOrCorrect_fits:
  assumes dt: "\<And>x. length (dt x) \<le> 32" and "boe_TradeCancelOrCorrect_size \<le> length mem"
  shows "pieces_fit 2000 (boe_print_TradeCancelOrCorrect dt mem)"
  using dt [of "u64_at 10 mem"] dt [of "u64_at 84 mem"] assms(2)
  by (simp add: pieces_fit_def boe_print_TradeCancelOrCorrect_def read_struct_def boe_TradeCancelOrCorrect_size_def boe_TradeCancelOrCorrect_at_def
      length_arr_at)

lemma boe_type_name_length: "length (boe_type_name b) \<le> 20"
proof (cases "List.find (\<lambda>e. MsgType_code e = b) all_MsgTypes")
  case (Some e)
  then show ?thesis by (cases e) (simp_all add: boe_type_name_def)
qed (simp add: boe_type_name_def)

lemma boe_header_text_length: "length (boe_header_text h) \<le> 80"
proof -
  have "length (boe_header_text h) \<le> sum_list (List.map piece_room
      [P_lit (boe_type_name (bh_type h)), P_lit ''(length='', P_hu (bh_length h), P_lit '',type=0x'',
       P_x2 (bh_type h), P_lit '',matching_unit='', P_hhu (bh_matching_unit h), P_lit '',seq_num='',
       P_u (bh_seq_num h)])"
    unfolding boe_header_text_def by (rule length_render)
  with boe_type_name_length [of "bh_type h"] show ?thesis by simp
qed

lemma boe_LoginResponse_text:
  assumes "boe_LoginResponse_size \<le> length mem"
  obtains ps where "boe_print_LoginResponse mem = Inr ps" "14 \<le> length (render ps)" "length (render ps) \<le> 200"
proof -
  let ?ps = "case boe_print_LoginResponse mem of Inr ps \<Rightarrow> ps | Inl e \<Rightarrow> []"
  have eq: "boe_print_LoginResponse mem = Inr ?ps"
    using assms by (simp add: boe_print_LoginResponse_def read_struct_def)
  have "length (render ?ps) \<le> sum_list (List.map piece_room ?ps)" by (rule length_render)
  also have "\<dots> \<le> 200"
    using assms by (simp add: boe_print_LoginResponse_def read_struct_def boe_LoginResponse_size_def
        boe_LoginResponse_at_def length_arr_at)
  finally have "length (render ?ps) \<le> 200" .
  moreover have "14 \<le> length (render ?ps)"
    using assms by (simp add: boe_print_LoginResponse_def read_struct_def render_def bytes_of_string_def)
  ultimately show thesis by (intro that [OF eq])
qed

lemma boe_print_after_fits:
  "pieces_fit 2000 r \<Longrightarrow> \<exists>t. print_after (boe_header_text h) r = Inr t"
  using boe_header_text_length [of h] by (rule_tac n = 2000 in pieces_fit_print) (simp_all add: print_size_def)

lemma boe_LoginResponse_prints:
  assumes "boe_LoginResponse_size \<le> length mem"
  defines "k \<equiv> unat (blp_number_of_units (boe_LoginResponse_at mem))"
  shows "k \<le> 100 \<Longrightarrow> boe_LoginResponse_size + 5 * k \<le> length mem \<Longrightarrow> room \<ge> 4016 \<Longrightarrow>
      \<exists>t. boe_LoginResponse_to_string room mem = Inr t"
    and "157 \<le> k \<Longrightarrow> room \<le> 4096 \<Longrightarrow> boe_LoginResponse_to_string room mem = Inl OutOfBounds"
proof -
  obtain ps where ps: "boe_print_LoginResponse mem = Inr ps" "14 \<le> length (render ps)" "length (render ps) \<le> 200"
    by (rule boe_LoginResponse_text [OF assms(1)])
  then show "k \<le> 100 \<Longrightarrow> boe_LoginResponse_size + 5 * k \<le> length mem \<Longrightarrow> room \<ge> 4016 \<Longrightarrow>
      \<exists>t. boe_LoginResponse_to_string room mem = Inr t"
    and "157 \<le> k \<Longrightarrow> room \<le> 4096 \<Longrightarrow> boe_LoginResponse_to_string room mem = Inl OutOfBounds"
    using boe_print_units_fit [of "render ps" k room 0 mem] boe_print_units_overrun [of room "render ps" k 0 mem]
    by (simp_all add: boe_LoginResponse_to_string_def k_def)
qed

section \<open>Limits\<close>

lemmas boe_print_sizes = boe_LoginRequest_size_def boe_NewOrder_size_def boe_CancelOrder_size_def
  boe_ModifyOrder_size_def boe_LogoutResponse_size_def boe_OrderAck_size_def boe_OrderModified_size_def
  boe_OrderCanceled_size_def boe_OrderExecution_size_def boe_OrderRejected_size_def
  boe_CancelRejected_size_def boe_ModifyRejected_size_def boe_OrderRestated_size_def
  boe_TradeCancelOrCorrect_size_def

lemma boe_client_prints:
  assumes "boe_LogoutResponse_size \<le> length mem"
  shows "\<exists>t. print_after (boe_header_text h) (boe_print_LoginRequest mem) = Inr t"
    and "\<exists>t. print_after (boe_header_text h) (boe_print_NewOrder mem) = Inr t"
    and "\<exists>t. print_after (boe_header_text h) (boe_print_CancelOrder mem) = Inr t"
    and "\<exists>t. print_after (boe_header_text h) (boe_print_ModifyOrder mem) = Inr t"
    and "\<exists>t. print_after (boe_header_text h) (boe_print_LogoutResponse mem) = Inr t"
  using assms by (auto simp: boe_print_sizes intro!: boe_print_after_fits boe_LoginRequest_fits boe_NewOrder_fits boe_CancelOrder_fits boe_ModifyOrder_fits boe_LogoutResponse_fits)

lemma boe_exchange_prints:
  assumes "\<And>x. length (dt x) \<le> 32" and "boe_LogoutResponse_size \<le> length mem"
  shows "\<exists>t. print_after (boe_header_text h) (boe_print_OrderAck dt mem) = Inr t"
    and "\<exists>t. print_after (boe_header_text h) (boe_print_OrderModified dt mem) = Inr t"
    and "\<exists>t. print_after (boe_header_text h) (boe_print_OrderCanceled dt mem) = Inr t"
    and "\<exists>t. print_after (boe_header_text h) (boe_print_OrderExecution dt mem) = Inr t"
    and "\<exists>t. print_after (boe_header_text h) (boe_print_OrderRejected dt mem) = Inr t"
    and "\<exists>t. print_after (boe_header_text h) (boe_print_CancelRejected dt mem) = Inr t"
    and "\<exists>t. print_after (boe_header_text h) (boe_print_ModifyRejected dt mem) = Inr t"
    and "\<exists>t. print_after (boe_header_text h) (boe_print_OrderRestated dt mem) = Inr t"
    and "\<exists>t. print_after (boe_header_text h) (boe_print_TradeCancelOrCorrect dt mem) = Inr t"
  using assms by (auto simp: boe_print_sizes intro!: boe_print_after_fits boe_OrderAck_fits
      boe_OrderModified_fits
      boe_OrderCanceled_fits
      boe_OrderExecution_fits
      boe_OrderRejected_fits
      boe_CancelRejected_fits
      boe_ModifyRejected_fits
      boe_OrderRestated_fits
      boe_TradeCancelOrCorrect_fits)

lemma boe_print_room:
  "4016 \<le> print_size - length (boe_header_text h)" "print_size - length (boe_header_text h) \<le> 4096"
  using boe_header_text_length [of h] by (simp_all add: print_size_def)

lemma boe_to_string_fits:
  assumes "\<And>x. length (dt x) \<le> 32" and "boe_LogoutResponse_size \<le> length mem"
    and "bh_type (boe_MsgHeader_at mem) \<noteq> MsgType_code MT_LoginResponse"
  shows "\<exists>t. boe_to_string dt mem = Inr t"
  using boe_client_prints [OF assms(2), of "boe_MsgHeader_at mem"]
    boe_exchange_prints [OF assms(1,2), of "boe_MsgHeader_at mem"] assms(2,3)
  by (simp add: boe_to_string_def boe_LogoutResponse_size_def read_struct_def boe_MsgHeader_size_def Let_def)

lemma boe_to_string_response:
  assumes "boe_LoginResponse_size \<le> length mem"
    and "bh_type (boe_MsgHeader_at mem) = MsgType_code MT_LoginResponse"
  defines "head \<equiv> boe_header_text (boe_MsgHeader_at mem)"
  shows "boe_to_string dt mem =
    bind_result (boe_LoginResponse_to_string (print_size - length head) mem) (\<lambda>x. Inr (head @ x))"
  using assms(1,2) by (simp add: boe_to_string_def boe_LoginResponse_size_def read_struct_def
      boe_MsgHeader_size_def Let_def head_def)

lemma boe_to_string_overrun:
  assumes "boe_LoginResponse_size \<le> length mem"
    and "bh_type (boe_MsgHeader_at mem) = MsgType_code MT_LoginResponse"
    and "157 \<le> unat (blp_number_of_units (boe_LoginResponse_at mem))"
  shows "boe_to_string dt mem = Inl OutOfBounds"
  unfolding boe_to_string_response [OF assms(1,2)]
  by (simp add: boe_LoginResponse_prints(2) [OF assms(1,3) boe_print_room(2)])

text \<open>
  What the log can print of a BOE packet. Every packet that is in memory in full is printed
  inside the print buffer, a login response as long as it announces at most 100 units. A login
  response that announces 157 units or more is printed past the end of the buffer whatever the
  rest of it holds; the number of units is the sender's choice.
\<close>

theorem boe_print_limits:
  fixes dt :: "u64 \<Rightarrow> byte list"
  assumes "\<And>x. length (dt x) \<le> 32" and "boe_LogoutResponse_size \<le> length mem"
  defines "is_response \<equiv> bh_type (boe_MsgHeader_at mem) = MsgType_code MT_LoginResponse"
    and "units \<equiv> unat (blp_number_of_units (boe_LoginResponse_at mem))"
  shows "(\<not> is_response \<or> units \<le> 100 \<and> boe_LoginResponse_size + 5 * units \<le> length mem \<longrightarrow>
      (\<exists>t. boe_to_string dt mem = Inr t)) \<and>
    (is_response \<and> 157 \<le> units \<longrightarrow> boe_to_string dt mem = Inl OutOfBounds)"
proof -
  have size: "boe_LoginResponse_size \<le> length mem"
    using assms(2) by (simp add: boe_LogoutResponse_size_def boe_LoginResponse_size_def)
  have fits: "\<not> is_response \<Longrightarrow> \<exists>t. boe_to_string dt mem = Inr t"
    using boe_to_string_fits [of dt mem] assms(1,2) by (simp add: is_response_def)
  have "is_response \<Longrightarrow> units \<le> 100 \<Longrightarrow> boe_LoginResponse_size + 5 * units \<le> length mem \<Longrightarrow>
      \<exists>t. boe_to_string dt mem = Inr t"
    using boe_to_string_response [OF size, of dt] boe_LoginResponse_prints(1) [OF size _ _ boe_print_room(1)]
    unfolding is_response_def units_def by (metis bind_result_simps(2))
  moreover have "is_response \<Longrightarrow> 157 \<le> units \<Longrightarrow> boe_to_string dt mem = Inl OutOfBounds"
    using boe_to_string_overrun [OF size] by (simp add: is_response_def units_def)
  ultimately show ?thesis using fits by blast
qed

text \<open>A login response that announces \<open>k\<close> units.\<close>

definition login_response_of :: "byte \<Rightarrow> byte list" where
  "login_response_of k = [0xBA, 0xBA, 0, 0, MsgType_code MT_LoginResponse] @ replicate 71 0 @ [k] @ replicate 200 0"

lemma login_response_of_sel:
  "bh_type (boe_MsgHeader_at (login_response_of k @ r)) = MsgType_code MT_LoginResponse"
  "blp_number_of_units (boe_LoginResponse_at (login_response_of k @ r)) = k"
  "bh_length (boe_MsgHeader_at (login_response_of k @ r)) = 0"
  "length (login_response_of k) = 277"
  by (simp_all add: login_response_of_def boe_MsgHeader_at_def boe_LoginResponse_at_def u8_at_def u16_at_def of_le_def)

theorem boe_print_limits_witness:
  "boe_to_string (\<lambda>_. []) (login_response_of 200) = Inl OutOfBounds \<and>
   (\<exists>t. boe_to_string (\<lambda>_. []) (login_response_of 0) = Inr t)"
  using boe_print_limits [of "\<lambda>_. []" "login_response_of 200"] boe_print_limits [of "\<lambda>_. []" "login_response_of 0"]
    login_response_of_sel(1-3) [of _ "[]"]
  by (simp add: login_response_of_sel(4) boe_LogoutResponse_size_def boe_LoginResponse_size_def)

end
