(* ===== verification/TcpProps.thy ===== *)
theory TcpProps
  imports TcpFacts PrintFacts OuchTick BoeProps
begin

text \<open>
  The two servers on their sessions: both protocols are instances of the interface of
  \<open>TcpFacts\<close>, so the lemmas of that interface hold of \<open>SoupBinTCPServer\<close> and \<open>BOEServer\<close>.
\<close>

section \<open>Both sessions can be served\<close>

lemma declared_len_length_field: "declared_len mem = unat (length_field ouch_protocol mem) + 2"
  by (simp add: declared_len_def ouch_protocol_def nat_add_distrib)

lemma u16_at_append: "i + 2 \<le> length p \<Longrightarrow> u16_at i (p @ r) = u16_at i p"
  by (simp add: u16_at_def)

lemma ouch_recv_text_env:
  "ouch_recv_text mem s = Inr (t, s') \<Longrightarrow> \<exists>e. s' = s\<lparr>s_env := e\<rparr>"
  by (auto simp: ouch_recv_text_def on_env_result bind_result_Inr_iff)

lemma ouch_send_text_env:
  "ouch_send_text mem s = Inr (t, s') \<Longrightarrow> \<exists>e. s' = s\<lparr>s_env := e\<rparr>"
  by (auto simp: ouch_send_text_def on_env_result bind_result_Inr_iff)

lemma boe_text_same: "boe_text dt mem s = Inr (t, s') \<Longrightarrow> s' = s"
  by (auto simp: boe_text_def bind_result_Inr_iff)

lemma boe_handle_packet_mem: "boe_handle_packet mem len s = Inr (mem', s') \<Longrightarrow> mem' = mem"
  by (auto simp: boe_handle_packet_def bind_result_Inr_iff Let_def split: if_split_asm)

lemma ouch_protocol_sel [simp]:
  "handle_packet ouch_protocol = ouch_handle_packet" "market_logic ouch_protocol = ouch_market_logic"
  "recv_text ouch_protocol = ouch_recv_text" "send_text ouch_protocol = ouch_send_text"
  "header_size ouch_protocol = 3" "log_name ouch_protocol = ''[OUCH]''"
  by (simp_all add: ouch_protocol_def ouch_MsgHeader_size_def)

lemma boe_protocol_sel [simp]:
  "handle_packet (boe_protocol dt) = boe_handle_packet" "market_logic (boe_protocol dt) = boe_market_logic"
  "recv_text (boe_protocol dt) = boe_text dt" "send_text (boe_protocol dt) = boe_text dt"
  "header_size (boe_protocol dt) = 10" "log_name (boe_protocol dt) = ''[BOE]''"
  "length_field (boe_protocol dt) = (\<lambda>mem. bh_length (boe_MsgHeader_at mem))"
  by (simp_all add: boe_protocol_def boe_MsgHeader_size_def)

interpretation soup: served_session ouch_protocol ouch_reachable
proof
  fix mem m mem' m'
  assume "handle_packet ouch_protocol mem (unat (length_field ouch_protocol mem) + 2) m = Inr (mem', m')"
  then show "length mem' = length mem \<and>
      drop (unat (length_field ouch_protocol mem) + 2) mem' = drop (unat (length_field ouch_protocol mem) + 2) mem"
    using ouch_handle_packet_buffer unfolding declared_len_length_field [symmetric] by simp
next
  fix p r :: "byte list"
  assume "header_size ouch_protocol \<le> length p"
  then show "length_field ouch_protocol (p @ r) = length_field ouch_protocol p"
    by (simp add: ouch_protocol_def ouch_MsgHeader_at_def ouch_MsgHeader_size_def u16_at_append)
qed (auto intro: ouch_reachable.step ouch_step.intros dest!: ouch_recv_text_env ouch_send_text_env)

interpretation boe_served: served_session "boe_protocol dt" boe_reachable for dt
proof
  fix p r :: "byte list"
  assume "header_size (boe_protocol dt) \<le> length p"
  then show "length_field (boe_protocol dt) (p @ r) = length_field (boe_protocol dt) p"
    by (simp add: boe_MsgHeader_at_def u16_at_append)
qed (auto intro: boe_reachable.boe_next boe_step.intros dest!: boe_text_same dest: boe_handle_packet_mem)

text \<open>A server on port 9000 as its constructor leaves it.\<close>

definition fresh_server :: "'s session_scheme \<Rightarrow> 's tcp_server" where
  "fresh_server m = \<lparr>market = m, buf = replicate buf_size 0, expires_at = tick_ms,
     calls = [Log (bytes_of_string ''[TCP]Accepting Connection on port '' @ decimal 9000), Async_accept]\<rparr>"

lemma fresh_server_new: "new_tcp_server True 9000 0 m (replicate buf_size 0) = Inr (fresh_server m)"
  by (simp add: new_tcp_server_def fresh_server_def)

lemma fresh_server_sel [simp]:
  "market (fresh_server m) = m" "buf (fresh_server m) = replicate buf_size 0"
  by (simp_all add: fresh_server_def)

section \<open>Framing\<close>

lemma bind_result_assoc:
  "bind_result (bind_result r f) g = bind_result r (\<lambda>x. bind_result (f x) g)"
  by (cases r) simp_all

lemma send_loop_buf:
  "send_loop P msgs (v\<lparr>buf := b\<rparr>) = map_sum id (\<lambda>x. x\<lparr>buf := b\<rparr>) (send_loop P msgs v)"
proof (induction msgs arbitrary: v)
  case (Cons msg msgs)
  show ?case
    by (cases "send_text P msg (market v)") (simp_all add: ask_buf Cons.IH split: prod.splits)
qed simp

text \<open>The end of every read: what is pending is sent and the next read is requested.\<close>

definition after_read :: "'s protocol \<Rightarrow> 's tcp_server \<Rightarrow> 's tcp_server result" where
  "after_read P v = bind_result (tcp_send P v) (\<lambda>v2. Inr (ask [Async_read] v2))"

lemma after_read_buf: "forget_buf (after_read P (v\<lparr>buf := b\<rparr>)) = forget_buf (after_read P v)"
proof (cases "send_loop P (pending_out_messages (market v)) v")
  case (Inr v1)
  then show ?thesis by (simp add: after_read_def tcp_send_def send_loop_buf forget_buf_def ask_def)
qed (simp add: after_read_def tcp_send_def send_loop_buf forget_buf_def)

lemma forget_buf_after:
  assumes "forget_buf r = forget_buf r'"
  shows "forget_buf (bind_result r (after_read P)) = forget_buf (bind_result r' (after_read P))"
proof (cases r; cases r')
  fix x y assume eq: "r = Inr x" "r' = Inr y"
  with assms have "x\<lparr>buf := []\<rparr> = y\<lparr>buf := []\<rparr>" by (simp add: forget_buf_def)
  with eq after_read_buf [of P "[]" x] after_read_buf [of P "[]" y] show ?thesis by simp
qed (use assms in \<open>auto simp: forget_buf_def\<close>)

lemma tcp_read_data: "ec \<noteq> Eof \<Longrightarrow> tcp_read P ec n v = bind_result (read_loop P n 0 v) (after_read P)"
  by (simp add: tcp_read_def after_read_def [abs_def])

context served_session
begin

lemma tcp_read_serves:
  assumes "list_all (framed_packet P) ps" and "ec \<noteq> Eof"
  shows "forget_buf (tcp_read P ec (length (concat ps)) (deliver (concat ps) v)) =
    forget_buf (bind_result (serve P ps (drop (length (concat ps)) (buf v)) v) (after_read P))"
proof -
  let ?rest = "drop (length (concat ps)) (buf v)"
  have "forget_buf (read_loop P (length (concat ps)) 0 (deliver (concat ps) v)) =
      forget_buf (serve P ps ?rest (deliver (concat ps) v))"
    using read_loop_serves [OF assms(1), of "deliver (concat ps) v" "[]" ?rest] by (simp add: deliver_def)
  also have "\<dots> = forget_buf (serve P ps ?rest v)" unfolding deliver_def by (rule serve_buf)
  finally show ?thesis unfolding tcp_read_data [OF assms(2)] by (rule forget_buf_after)
qed

text \<open>A packet whose last bytes have not arrived yet is handled with what the buffer held there.\<close>

lemma tcp_read_partial:
  fixes v :: "'s tcp_server"
  assumes "framed_packet P p" and "header_size P \<le> k" and "0 < k" and "k < length p" and "ec \<noteq> Eof"
  defines "mem \<equiv> take k p @ drop k (buf v)"
  shows "tcp_read P ec k (deliver (take k p) v) =
    bind_result (recv_text P mem (market v)) (\<lambda>(t, m1).
    bind_result (handle_packet P mem (length p) m1) (\<lambda>(mem', m2).
      after_read P (ask [Log (bytes_of_string (log_name P @ ''RECV: '') @ t)]
        (v\<lparr>buf := mem', market := m2\<rparr>))))"
proof -
  have len: "length (take k p) = k" using assms(4) by simp
  have "length_field P mem = length_field P (take k p)"
    unfolding mem_def using assms(2) len by (intro length_in_header) simp
  also have "\<dots> = length_field P (take k p @ drop k p)"
    using assms(2) len by (intro length_in_header [symmetric]) simp
  finally have lf: "unat (length_field P mem) + 2 = length p"
    using assms(1) by (simp add: framed_packet_def)
  have v: "deliver (take k p) v = v\<lparr>buf := mem\<rparr>" using len by (simp add: deliver_def mem_def)
  have h: "read_struct (header_size P) (length_field P) mem = Inr (length_field P mem)"
    using assms(2) len by (simp add: read_struct_def mem_def)
  have stop: "read_loop P k (length p) u = Inr u" for u
    using assms(4) by (intro read_loop_done) simp
  show ?thesis
    unfolding tcp_read_data [OF assms(5)] v read_loop_step [OF assms(3)]
    by (simp add: h lf stop bind_result_assoc split_def del: add_2_eq_Suc')
qed

end

text \<open>
  C7: a read of whole packets, of either protocol, has the effect of handling the packets one by
  one, each with the packets behind it and the stale rest of the buffer in memory, and of one send
  at the end: packets that arrive together are neither lost nor handled twice.
\<close>

theorem read_serves_packets:
  assumes "list_all (framed_packet ouch_protocol) ps" and "list_all (framed_packet (boe_protocol dt)) qs"
    and "ec \<noteq> Eof"
  shows "forget_buf (SoupBinTCPServer_read ec (length (concat ps)) (deliver (concat ps) v)) =
      forget_buf (bind_result (serve ouch_protocol ps (drop (length (concat ps)) (buf v)) v)
        (after_read ouch_protocol)) \<and>
    forget_buf (BOEServer_read dt ec (length (concat qs)) (deliver (concat qs) w)) =
      forget_buf (bind_result (serve (boe_protocol dt) qs (drop (length (concat qs)) (buf w)) w)
        (after_read (boe_protocol dt)))"
  unfolding SoupBinTCPServer_read_def BOEServer_read_def
  by (intro conjI soup.tcp_read_serves [OF assms(1,3)] boe_served.tcp_read_serves [OF assms(2,3)])

text \<open>Two client heartbeats of the OUCH protocol, and a logout request of each protocol.\<close>

definition two_heartbeats :: "byte list list" where
  "two_heartbeats = [[0, 1, 82], [0, 1, 82]]"

definition boe_logout :: "byte list" where
  "boe_logout = [0xBA, 0xBA, 8, 0, 2, 0, 0, 0, 0, 0]"

theorem read_serves_packets_witness:
  "forget_buf (SoupBinTCPServer_read No_error 6
      (deliver [0, 1, 82, 0, 1, 82] (fresh_server sample_session))) =
    forget_buf (bind_result (serve ouch_protocol two_heartbeats (replicate 4090 0) (fresh_server sample_session))
      (after_read ouch_protocol))"
proof -
  have p: "list_all (framed_packet ouch_protocol) two_heartbeats"
    and q: "list_all (framed_packet (boe_protocol (\<lambda>_. []))) [boe_logout]"
    and c: "concat two_heartbeats = [0, 1, 82, 0, 1, 82]" "length [0, 1, 82, 0, 1, 82 :: byte] = 6"
    by code_simp+
  have "drop 6 (replicate 4096 0) = (replicate 4090 0 :: byte list)" by simp
  with conjunct1 [OF read_serves_packets [OF p q, of No_error "fresh_server sample_session"], unfolded c]
  show ?thesis by (simp only: error_code.distinct fresh_server_sel buf_size_def not_False_eq_True simp_thms)
qed

text \<open>
  C20: packets that are cut by the transport are not put together again. When only the first \<open>k\<close> bytes
  of a packet have arrived the server handles at once a packet of the full length whose rest
  is whatever the receive buffer held there before, and takes the bytes that arrive next for the
  header of a new packet.
\<close>

theorem split_packet_not_reassembled:
  assumes "framed_packet ouch_protocol p" and "3 \<le> k" and "k < length p"
    and "framed_packet (boe_protocol dt) q" and "10 \<le> j" and "j < length q" and "ec \<noteq> Eof"
  shows "SoupBinTCPServer_read ec k (deliver (take k p) v) =
      (let mem = take k p @ drop k (buf v) in
       bind_result (ouch_recv_text mem (market v)) (\<lambda>(t, m1).
       bind_result (ouch_handle_packet mem (length p) m1) (\<lambda>(mem', m2).
         after_read ouch_protocol (ask [Log (bytes_of_string ''[OUCH]RECV: '' @ t)]
           (v\<lparr>buf := mem', market := m2\<rparr>))))) \<and>
    BOEServer_read dt ec j (deliver (take j q) w) =
      (let mem = take j q @ drop j (buf w) in
       bind_result (boe_text dt mem (market w)) (\<lambda>(t, m1).
       bind_result (boe_handle_packet mem (length q) m1) (\<lambda>(mem', m2).
         after_read (boe_protocol dt) (ask [Log (bytes_of_string ''[BOE]RECV: '' @ t)]
           (w\<lparr>buf := mem', market := m2\<rparr>)))))"
  using soup.tcp_read_partial [OF assms(1) _ _ assms(3,7), of v]
    boe_served.tcp_read_partial [OF assms(4) _ _ assms(6,7), of w] assms(2,5)
  by (simp add: SoupBinTCPServer_read_def BOEServer_read_def Let_def)

text \<open>An order packet cut behind its token, over the bytes of an older one.\<close>

definition cut_order :: "boe_NewOrder \<Rightarrow> boe_NewOrder \<Rightarrow> boe_NewOrder" where
  "cut_order a b = b\<lparr>no_start_of_msg := no_start_of_msg a, no_length := no_length a, no_type := no_type a,
     no_matching_unit := no_matching_unit a, no_seq_num := no_seq_num a, no_token := no_token a\<rparr>"

lemma cut_order_bytes:
  "boe_NewOrder_ok a \<Longrightarrow> boe_NewOrder_ok b \<Longrightarrow>
   take 30 (boe_NewOrder_bytes a) @ drop 30 (boe_NewOrder_bytes b @ r) = boe_NewOrder_bytes (cut_order a b) @ r"
  by (simp add: boe_NewOrder_bytes_def boe_NewOrder_ok_def cut_order_def byte1_def)

definition old_order :: boe_NewOrder where
  "old_order = sample_no\<lparr>no_token := bytes_of_string ''BOE-ORDER-0000000000'', no_qty := 100\<rparr>"

lemma cut_sample:
  "boe_NewOrder_ok sample_no" "boe_NewOrder_ok old_order" "boe_NewOrder_ok (cut_order sample_no old_order)"
  "no_token (cut_order sample_no old_order) = boe_sample_token" "no_qty (cut_order sample_no old_order) = 100"
  "no_length sample_no = 110" "no_type (cut_order sample_no old_order) = MsgType_code MT_NewOrder"
  by (simp_all add: boe_NewOrder_ok_def sample_no_def old_order_def cut_order_def boe_sample_token_def
      bytes_of_string_def boe_NewOrder_at_def length_arr_at)

theorem split_packet_not_reassembled_witness:
  "\<exists>t mem. BOEServer_read (\<lambda>_. []) No_error 30 (deliver (take 30 (boe_NewOrder_bytes sample_no))
      ((fresh_server boe_sample)\<lparr>buf := boe_NewOrder_bytes old_order @ replicate 3984 0\<rparr>)) =
    after_read (boe_protocol (\<lambda>_. [])) (ask [Log (bytes_of_string ''[BOE]RECV: '' @ t)]
      ((fresh_server boe_sample)\<lparr>buf := mem,
         market := boe_enter_order (cut_order sample_no old_order) boe_sample\<rparr>))"
proof -
  let ?q = "boe_NewOrder_bytes sample_no"
  let ?mem = "boe_NewOrder_bytes (cut_order sample_no old_order) @ replicate 3984 0"
  have q: "length ?q = 112" using boe_NewOrder.length_bytes [OF cut_sample(1)] by (simp add: boe_NewOrder_size_def)
  have bq: "bh_length (boe_MsgHeader_at ?q) = 110"
    using cut_sample(1,6)
    by (simp add: boe_NewOrder_bytes_def boe_MsgHeader_at_def boe_NewOrder_ok_def at_skip at_here)
  have h: "boe_NewOrder_at ?mem = cut_order sample_no old_order"
    using boe_NewOrder.at_bytes [OF cut_sample(3)] by simp
  have ty: "bh_type (boe_MsgHeader_at ?mem) = MsgType_code MT_NewOrder"
    using cut_sample(3,7)
    by (simp add: boe_NewOrder_bytes_def boe_MsgHeader_at_def boe_NewOrder_ok_def at_skip at_here)
  have len: "length ?mem = 4096"
    using boe_NewOrder.length_bytes [OF cut_sample(3)] by (simp add: boe_NewOrder_size_def)
  obtain t where "boe_to_string (\<lambda>_. []) ?mem = Inr t"
    using boe_to_string_fits [of "\<lambda>_. []" ?mem] len ty by (auto simp: boe_LogoutResponse_size_def)
  then have recv: "boe_text (\<lambda>_. []) ?mem boe_sample = Inr (t, boe_sample)" by (simp add: boe_text_def)
  have handle: "boe_handle_packet ?mem 112 boe_sample =
      Inr (?mem, boe_enter_order (cut_order sample_no old_order) boe_sample)"
    using ty len h by (simp add: boe_handle_packet_def read_struct_def boe_MsgHeader_size_def boe_NewOrder_size_def)
  have "framed_packet ouch_protocol [0, 3, 82, 0, 0]" by code_simp
  moreover have "framed_packet (boe_protocol (\<lambda>_. [])) ?q" using q bq by (simp add: framed_packet_def)
  ultimately show ?thesis
    using split_packet_not_reassembled [of "[0, 3, 82, 0, 0]" 3 "\<lambda>_. []" ?q 30 No_error undefined
        "(fresh_server boe_sample)\<lparr>buf := boe_NewOrder_bytes old_order @ replicate 3984 0\<rparr>"]
      q recv handle cut_order_bytes [OF cut_sample(1,2), of "replicate 3984 0"]
    by (auto simp: Let_def)
qed

end
