(* ===== verification/TcpLimits.thy ===== *)
theory TcpLimits
  imports TcpProps
begin

text \<open>
  How the servers end: reads that always return, packets that crash a server, and the ticks that
  pile up while nobody is connected.
\<close>

section \<open>Reads that return\<close>

text \<open>
  The read loop of either server ends: a read of \<open>n\<close> bytes takes at most \<open>(n + 1) div 2\<close>
  rounds, because a packet is at least two bytes long whatever its length field says, and each round
  writes one line to the log.
\<close>

theorem read_loop_bounded:
  assumes "read_loop ouch_protocol n 0 v = Inr v'" and "read_loop (boe_protocol dt) n 0 w = Inr w'"
  shows "length (calls v') \<le> length (calls v) + (n + 1) div 2 \<and>
    length (calls w') \<le> length (calls w) + (n + 1) div 2"
  using read_loop_rounds [OF assms(1)] read_loop_rounds [OF assms(2)] by simp

theorem read_loop_bounded_witness:
  "length (calls (fresh_server sample_session)) \<le> length (calls (fresh_server sample_session)) + (0 + 1) div 2"
  using read_loop_bounded [of 0 "fresh_server sample_session" "fresh_server sample_session" "\<lambda>_. []"
      "fresh_server boe_sample" "fresh_server boe_sample"] by (simp add: read_loop_done)

lemma boe_handle_packet_returns:
  "112 \<le> length mem \<Longrightarrow> \<exists>m'. boe_handle_packet mem k m = Inr (mem, m')"
  by (simp add: boe_handle_packet_def read_struct_def boe_MsgHeader_size_def boe_LoginRequest_size_def
      boe_NewOrder_size_def boe_CancelOrder_size_def boe_ModifyOrder_size_def Let_def)

lemma boe_serve_returns:
  assumes "\<And>x. length (dt x) \<le> 32" and "boe_LogoutResponse_size \<le> length rest"
  shows "list_all (\<lambda>p. framed_packet (boe_protocol dt) p \<and> bh_type (boe_MsgHeader_at p) \<noteq> MsgType_code MT_LoginResponse) ps
    \<Longrightarrow> \<exists>v'. serve (boe_protocol dt) ps rest v = Inr v' \<and> length (calls v') = length (calls v) + length ps"
proof (induction ps arbitrary: v)
  case (Cons p ps)
  let ?mem = "p @ concat ps @ rest"
  have p: "10 \<le> length p" "bh_type (boe_MsgHeader_at p) \<noteq> MsgType_code MT_LoginResponse"
    using Cons.prems by (simp_all add: framed_packet_def)
  have "bh_type (boe_MsgHeader_at ?mem) = bh_type (boe_MsgHeader_at p)"
    using p(1) by (simp add: boe_MsgHeader_at_def u8_at_def nth_append)
  then obtain t where t: "boe_to_string dt ?mem = Inr t"
    using boe_to_string_fits [of dt ?mem] assms p(2) by auto
  obtain m' where m: "boe_handle_packet ?mem (length p) (market v) = Inr (?mem, m')"
    using boe_handle_packet_returns [of ?mem "length p" "market v"] assms(2)
    by (auto simp: boe_LogoutResponse_size_def)
  let ?v1 = "ask [Log (bytes_of_string (log_name (boe_protocol dt) @ ''RECV: '') @ t)] (v\<lparr>market := m'\<rparr>)"
  have "\<exists>v'. serve (boe_protocol dt) ps rest ?v1 = Inr v' \<and> length (calls v') = length (calls ?v1) + length ps"
    using Cons.prems by (intro Cons.IH) simp
  then show ?case by (auto simp: boe_text_def t m)
qed simp

text \<open>
  A read of whole BOE packets of any type but a login response, whatever their contents, always
  returns, after exactly one round for each packet, as long as 236 bytes of the buffer are behind
  them; so no such input stops the server.
\<close>

theorem boe_read_returns:
  fixes dt :: "u64 \<Rightarrow> byte list"
  assumes "\<And>x. length (dt x) \<le> 32" and "length (concat ps) + 236 \<le> length (buf v)"
    and "list_all (\<lambda>p. framed_packet (boe_protocol dt) p \<and> bh_type (boe_MsgHeader_at p) \<noteq> MsgType_code MT_LoginResponse) ps"
  shows "\<exists>v'. read_loop (boe_protocol dt) (length (concat ps)) 0 (deliver (concat ps) v) = Inr v' \<and>
    length (calls v') = length (calls v) + length ps"
proof -
  let ?rest = "drop (length (concat ps)) (buf v)"
  have "list_all (framed_packet (boe_protocol dt)) ps" using assms(3) by (simp add: list_all_iff)
  then have eq: "forget_buf (read_loop (boe_protocol dt) (length (concat ps)) 0 (deliver (concat ps) v)) =
      forget_buf (serve (boe_protocol dt) ps ?rest (deliver (concat ps) v))"
    using boe_served.read_loop_serves [of dt ps "deliver (concat ps) v" "[]" ?rest] by (simp add: deliver_def)
  have "boe_LogoutResponse_size \<le> length ?rest" using assms(2) by (simp add: boe_LogoutResponse_size_def)
  from boe_serve_returns [OF assms(1) this assms(3), of "deliver (concat ps) v"]
  obtain u where u: "serve (boe_protocol dt) ps ?rest (deliver (concat ps) v) = Inr u"
    "length (calls u) = length (calls v) + length ps" by (auto simp: deliver_def)
  with eq obtain v' where "read_loop (boe_protocol dt) (length (concat ps)) 0 (deliver (concat ps) v) = Inr v'"
    and "v'\<lparr>buf := []\<rparr> = u\<lparr>buf := []\<rparr>"
    by (cases "read_loop (boe_protocol dt) (length (concat ps)) 0 (deliver (concat ps) v)") (auto simp: forget_buf_def)
  moreover from this(2) have "calls v' = calls u" by (metis (no_types, lifting) tcp_server.ext_inject tcp_server.surjective tcp_server.update_convs(2))
  ultimately show ?thesis using u(2) by simp
qed

theorem boe_read_returns_witness:
  "\<exists>v'. read_loop (boe_protocol (\<lambda>_. [])) 10 0 (deliver boe_logout (fresh_server boe_sample)) = Inr v' \<and>
    length (calls v') = length (calls (fresh_server boe_sample)) + 1"
proof -
  have "framed_packet (boe_protocol (\<lambda>_. [])) boe_logout"
    "bh_type (boe_MsgHeader_at boe_logout) \<noteq> MsgType_code MT_LoginResponse" "length boe_logout = 10"
    by code_simp+
  then show ?thesis
    using boe_read_returns [of "\<lambda>_. []" "[boe_logout]" "fresh_server boe_sample"] by (simp add: buf_size_def)
qed

section \<open>Packets that stop a server\<close>

text \<open>
  C17: anyone who can connect stops the BOE server with one packet, without logging in: a packet of
  the login-response type, which no client should send, that announces at least 157 units makes the
  server print past the end of its buffer before it even looks at the type.
\<close>

theorem login_response_stops_server:
  assumes "boe_LoginResponse_size \<le> length data"
    and "bh_type (boe_MsgHeader_at data) = MsgType_code MT_LoginResponse"
    and "157 \<le> unat (blp_number_of_units (boe_LoginResponse_at data))" and "ec \<noteq> Eof"
  shows "BOEServer_read dt ec (length data) (deliver data v) = Inl OutOfBounds"
proof -
  let ?mem = "data @ drop (length data) (buf v)"
  have "bh_type (boe_MsgHeader_at ?mem) = bh_type (boe_MsgHeader_at data)"
    "blp_number_of_units (boe_LoginResponse_at ?mem) = blp_number_of_units (boe_LoginResponse_at data)"
    using assms(1)
    by (simp_all add: boe_MsgHeader_at_def boe_LoginResponse_at_def boe_LoginResponse_size_def u8_at_def nth_append)
  then have "boe_to_string dt ?mem = Inl OutOfBounds"
    using assms(1-3) by (intro boe_to_string_overrun) simp_all
  moreover have "0 < length data" using assms(1) by (auto simp: boe_LoginResponse_size_def)
  ultimately show ?thesis
    by (simp add: BOEServer_read_def tcp_read_data [OF assms(4)] read_loop_step deliver_def boe_text_def)
qed

theorem login_response_stops_server_witness:
  "BOEServer_read (\<lambda>_. []) No_error 277 (deliver (login_response_of 200) (fresh_server boe_sample)) =
     Inl OutOfBounds"
  using login_response_stops_server [of "login_response_of 200" No_error "\<lambda>_. []" "fresh_server boe_sample"]
    login_response_of_sel(1-3) [of 200 "[]"]
  by (simp add: login_response_of_sel(4) boe_LoginResponse_size_def)

text \<open>A replaced-order message is printed past its end: the old token is followed by no NUL.\<close>

lemma replaced_message_overruns:
  assumes "ouch_frame m" and "ouch_event_of m = Some (Ev_Replaced (order_replaced_msg g ts ro o1))"
    and "0 \<notin> set (existing_token ro)"
  shows "ouch_inbound_to_string h m = Inl OutOfBounds"
proof -
  let ?x = "ouch_OrderReplaced_at m"
  have t: "u8_at 2 m = PacketType_code PT_SequencedData" "u8_at 3 m = InboundMsgType_code In_OrderReplaced"
    "ouch_OrderReplaced_to_network ?x = order_replaced_msg g ts ro o1"
    using assms(2) by (auto simp: ouch_event_of_def Let_def split: if_split_asm)
  have "orp_length ?x = swap16 81" "orp_orig_token ?x = existing_token ro" "orp_bbo_weight_indicator ?x = ch CHR ''2''"
    using arg_cong [OF t(3), of orp_length] arg_cong [OF t(3), of orp_orig_token]
      arg_cong [OF t(3), of orp_bbo_weight_indicator]
    by (simp_all add: ouch_OrderReplaced_to_network_def order_replaced_msg_def)
  then have f: "u16_at 0 m = swap16 81" "arr_at 68 14 m = existing_token ro" "u8_at 82 m = ch CHR ''2''"
    by (simp_all add: ouch_OrderReplaced_at_def)
  have len: "length m = 83" using assms(1) f(1) by (simp add: ouch_frame_def)
  have "drop 82 m = [m ! 82]" using Cons_nth_drop_Suc [of 82 m] len by simp
  then have "drop 68 m = arr_at 68 14 m @ [u8_at 82 m]"
    using append_take_drop_id [of 14 "drop 68 m"] by (simp add: arr_at_def u8_at_def)
  then have "c_string (drop 68 m) = Inl OutOfBounds"
    using assms(3) f by (simp add: c_string_def ch_def)
  then show ?thesis
    using t(1,2) len
    by (simp add: ouch_inbound_to_string_def ouch_inbound_message_to_string_def ouch_print_OrderReplaced_def
        read_struct_def ouch_MsgHeader_size_def ouch_MsgHeader_at_def ouch_OrderReplaced_size_def
        Let_def print_text_def print_after_def ch_def)
qed

lemma ouch_send_text_Inl: "ouch_send_text m s = Inl e \<Longrightarrow> e = OutOfBounds"
  by (auto simp: ouch_send_text_def on_env_result bind_result_def ouch_inbound_Inl split: sum.splits)

lemma send_loop_overruns:
  "m \<in> set msgs \<Longrightarrow> (\<And>h. ouch_inbound_to_string h m = Inl OutOfBounds) \<Longrightarrow>
   send_loop ouch_protocol msgs v = Inl OutOfBounds"
proof (induction msgs arbitrary: v)
  case (Cons m1 msgs)
  show ?case
  proof (cases "ouch_send_text m1 (market v)")
    case (Inl e)
    then show ?thesis using ouch_send_text_Inl [OF Inl] by simp
  next
    case (Inr x)
    then have "m1 \<noteq> m" using Cons.prems(2) by (auto simp: ouch_send_text_def on_env_result)
    with Inr Cons show ?thesis by (simp split: prod.splits)
  qed
qed simp

text \<open>
  C27: carrying out a replacement makes the OUCH server read past the end of a message: the log
  prints the old token with \<^verbatim>\<open>%s\<close>, the token has no NUL and one byte follows it, so the send after
  any accepted replacement of a live order whose token has no NUL character leaves the buffer.
\<close>

theorem replacement_overruns_log:
  assumes "ouch_wf (market v)" and "pending_replace (market v) = [ro]"
    and "new_token ro \<noteq> existing_token ro"
    and "map_of (active_orders (market v)) (existing_token ro) = Some o1"
    and "uint (rpl_qty ro) \<le> 999999" and "executed_qty o1 < uint (rpl_qty ro)"
    and "0 \<notin> set (existing_token ro)"
  shows "SoupBinTCPServer_send (v\<lparr>market := ouch_replace_logic (market v)\<rparr>) = Inl OutOfBounds"
proof -
  let ?s = "ouch_replace_logic (market v)"
  have tok: "length (existing_token ro) = 14" "length (new_token ro) = 14"
    using assms(1,2) unfolding ouch_inv_def by auto
  obtain g ts where "ouch_events ?s = ouch_events (market v) @
      [Some (Ev_Replaced (order_replaced_msg g ts ro (replaced_order ro o1)))]"
    using replace_outcome_parts(2) [OF assms(2) tok assms(3,4)] assms(5,6) by auto
  then have "Some (Ev_Replaced (order_replaced_msg g ts ro (replaced_order ro o1))) \<in> set (ouch_events ?s)"
    by simp
  then obtain m where m: "m \<in> set (pending_out_messages ?s)"
    "ouch_event_of m = Some (Ev_Replaced (order_replaced_msg g ts ro (replaced_order ro o1)))"
    unfolding ouch_events_def by auto
  have "ouch_frame m"
    using ouch_inv_replace_logic [OF assms(1)] m(1) by (auto simp: ouch_inv_def ouch_framed_def)
  note overrun = replaced_message_overruns [OF this m(2) assms(7)]
  show ?thesis
    using send_loop_overruns [OF m(1) overrun] by (simp add: SoupBinTCPServer_send_def tcp_send_def)
qed

theorem replacement_overruns_log_witness:
  "SoupBinTCPServer_send (fresh_server (ouch_replace_logic (trading_session sample_order
     \<lparr>pending_replace := [sample_replace sample_token other_token]\<rparr>))) = Inl OutOfBounds"
proof -
  let ?s = "trading_session sample_order\<lparr>pending_replace := [sample_replace sample_token other_token]\<rparr>"
  have "ouch_wf (trading_session sample_order)" by (rule trading_session_wf [OF sample_order_ok])
  then have "ouch_wf ?s" by (simp add: ouch_inv_def ouch_framed_def)
  moreover have "0 \<notin> set sample_token" by code_simp
  ultimately show ?thesis
    using replacement_overruns_log [of "fresh_server ?s" "sample_replace sample_token other_token" sample_order]
    by (simp add: fresh_server_def)
qed

section \<open>Ticks while disconnected\<close>

text \<open>
  C19: a lost connection stops the timer without moving its expiry, so when the next client connects
  \<open>n\<close> tick lengths after the tick that was due, \<open>n + 1\<close> rounds of market logic run at once, where a
  connection that had stayed up would have run them a tick length apart; in general as many as
  expiry times lie between the tick that was due and the time of the new connection.
\<close>

theorem ticks_pile_up:
  "run_timer P now (tcp_accept False (tcp_reconnect v)) =
     ticks P (due_ticks (expires_at v) now) (tcp_accept False (tcp_reconnect v)) \<and>
   run_timer P (expires_at v + int n * tick_ms) (tcp_accept False (tcp_reconnect v)) =
     ticks P (n + 1) (tcp_accept False (tcp_reconnect v))"
proof -
  have e: "expires_at (tcp_accept False (tcp_reconnect v)) = expires_at v"
    by (simp add: tcp_accept_def tcp_reconnect_def ask_def)
  have "due_ticks (expires_at v) (expires_at v + int n * tick_ms) = n + 1"
    by (simp add: due_ticks_def tick_ms_def MAX_EXEC_PER_SECOND_def)
  then show ?thesis by (simp add: run_timer_ticks e)
qed

end
