(* ===== verification/AdminServer.thy ===== *)
theory AdminServer
  imports BehaviorManager Printing
begin

text \<open>
  The administrator console of \<^verbatim>\<open>adminserver.h\<close> and \<^verbatim>\<open>adminserver.cpp\<close>: a server with a table of
  commands, and one session for each connection, which reads lines, splits them into words and calls
  the command they name. A command's callback works on the rest of the program, a state of any type
  \<open>'w\<close>. Sockets, the acceptor and the log are outside: what a handler asks of them is the list of
  its calls. The \<open>ctx\<close>, \<open>cmd\<close> and \<open>error\<close> members of a command's context, which no callback reads, are
  left out. The session formats its log lines with \<^verbatim>\<open>sprintf\<close> into arrays of 100 characters.
\<close>

section \<open>State\<close>

datatype admin_state = Initial | PendingAuth | Running

primrec admin_state_str :: "admin_state \<Rightarrow> string" where
    "admin_state_str Initial = ''Initial''"
  | "admin_state_str PendingAuth = ''PendingAuth''"
  | "admin_state_str Running = ''Running''"

datatype admin_call =
    A_log "byte list"
  | A_warning "byte list"
  | A_write "byte list"
  | A_read_line
  | A_close
  | A_no_delay bool
  | A_accept
  | A_listen

type_synonym 'w admin_callback = "admin_context \<Rightarrow> 'w \<Rightarrow> admin_context \<times> 'w"

record 'w admin_cmd =
  cmd_ctx :: string
  cmd_cmd :: string
  cmd_args :: string
  cmd_help :: string
  cmd_callback :: "'w admin_callback"

record 'w admin_server =
  command_list :: "'w admin_cmd list"
  limits :: "nat list"
  server_name :: string
  server_calls :: "admin_call list"

text \<open>\<^verbatim>\<open>_input\<close> is the stream buffer of bytes received and not yet read.\<close>

record admin_session =
  a_state :: admin_state
  a_name :: "byte list"
  a_fd :: u32
  a_input :: string
  a_calls :: "admin_call list"

definition new_AdminServer :: "'w admin_server" where
  "new_AdminServer = \<lparr>command_list = [], limits = [], server_name = '''', server_calls = []\<rparr>"

definition new_AdminSession :: admin_session where
  "new_AdminSession = \<lparr>a_state = Initial, a_name = [], a_fd = - 1, a_input = '''', a_calls = []\<rparr>"

definition request :: "admin_call list \<Rightarrow> admin_session \<Rightarrow> admin_session" where
  "request cs a = a\<lparr>a_calls := a_calls a @ cs\<rparr>"

section \<open>Output of a session\<close>

text \<open>\<^verbatim>\<open>sprintf(text, ...)\<close> into \<^verbatim>\<open>char text[100]\<close>, the text and its NUL.\<close>

definition sprintf_100 :: "piece list \<Rightarrow> byte list result" where
  "sprintf_100 ps = (if length (render ps) < 100 then Inr (render ps) else Inl OutOfBounds)"

text \<open>Every log line of a session starts with its name and most with its descriptor.\<close>

definition session_line :: "admin_session \<Rightarrow> piece list \<Rightarrow> byte list result" where
  "session_line a ps = sprintf_100 ([P_s (a_name a), P_lit '' fd='', P_d (a_fd a)] @ ps)"

definition log_line :: "piece list \<Rightarrow> admin_session \<Rightarrow> admin_session result" where
  "log_line ps a = bind_result (session_line a ps) (\<lambda>t. Inr (request [A_log t] a))"

definition admin_send :: "byte list \<Rightarrow> bool \<Rightarrow> admin_session \<Rightarrow> admin_session" where
  "admin_send msg raw = request [A_write (if raw then msg else msg @ [46, 10])]"

definition handle_write :: "byte list option \<Rightarrow> admin_session \<Rightarrow> admin_session result" where
  "handle_write ec a =
     (case ec of
        Some message \<Rightarrow>
          bind_result (sprintf_100 [P_s (a_name a), P_lit '' handle_write ec='', P_s message]) (\<lambda>t.
            Inr (request [A_warning t] a))
      | None \<Rightarrow> Inr a)"

definition arm_read :: "admin_session \<Rightarrow> admin_session" where
  "arm_read = request [A_read_line]"

definition set_state :: "admin_state \<Rightarrow> admin_session \<Rightarrow> admin_session result" where
  "set_state st a =
     bind_result (log_line [P_lit '' set_state='', P_lit (admin_state_str st)] a) (\<lambda>a1.
       Inr (a1\<lparr>a_state := st\<rparr>))"

section \<open>Help\<close>

text \<open>\<^verbatim>\<open>left << setw(n) << s\<close>: blanks up to the width \<open>n\<close>, nothing is cut.\<close>

definition setw_left :: "nat \<Rightarrow> string \<Rightarrow> string" where
  "setw_left n s = s @ replicate (n - length s) CHR '' ''"

definition help_line :: "nat list \<Rightarrow> 'w admin_cmd \<Rightarrow> string" where
  "help_line ls c =
     '' '' @ setw_left (ls ! 0) (cmd_ctx c) @ setw_left (ls ! 1) (cmd_cmd c) @
     setw_left (ls ! 2) (cmd_args c) @ setw_left (ls ! 3) (cmd_help c) @ [CHR 0x0A]"

definition handle_help :: "'w admin_server \<Rightarrow> admin_session \<Rightarrow> admin_session" where
  "handle_help sv a =
     (if a_state a \<noteq> Running then admin_send (bytes_of_string (''please authenticate'' @ [CHR 0x0A])) True a
      else admin_send (bytes_of_string (concat (List.map (help_line (limits sv)) (command_list sv)))) False a)"

section \<open>Commands\<close>

text \<open>
  The response stream as bytes; how the stream prints a double is the parameter \<open>show_dbl\<close>.
\<close>

fun item_bytes :: "(dbl \<Rightarrow> byte list) \<Rightarrow> out_item \<Rightarrow> byte list" where
  "item_bytes show_dbl (Str s) = bytes_of_string s"
| "item_bytes show_dbl (IntV i) = signed_decimal i"
| "item_bytes show_dbl (DblV x) = show_dbl x"
| "item_bytes show_dbl Endl = [10]"

definition response_bytes :: "(dbl \<Rightarrow> byte list) \<Rightarrow> out_item list \<Rightarrow> byte list" where
  "response_bytes show_dbl items = concat (List.map (item_bytes show_dbl) items)"

definition names_command :: "string list \<Rightarrow> 'w admin_cmd \<Rightarrow> bool" where
  "names_command tokens c \<longleftrightarrow> cmd_ctx c = tokens ! 0 \<and> cmd_cmd c = tokens ! 1"

definition handle_command ::
    "(dbl \<Rightarrow> byte list) \<Rightarrow> 'w admin_server \<Rightarrow> string list \<Rightarrow> admin_session \<times> 'w \<Rightarrow>
     (admin_session \<times> 'w) result" where
  "handle_command show_dbl sv tokens = (\<lambda>(a, w).
     if a_state a \<noteq> Running
     then Inr (admin_send (bytes_of_string (''please authenticate'' @ [CHR 0x0A])) True a, w)
     else if length tokens < 2
     then Inr (admin_send (bytes_of_string (''invalid input'' @ [CHR 0x0A])) False a, w)
     else case List.find (names_command tokens) (command_list sv) of
       None \<Rightarrow> Inr (admin_send (bytes_of_string (''unknown command'' @ [CHR 0x0A])) False a, w)
     | Some c \<Rightarrow>
         let (context, w1) = cmd_callback c \<lparr>args = drop 2 tokens, response = []\<rparr> w;
             response = response_bytes show_dbl (response context);
             a1 = admin_send response True a
         in bind_result (log_line [P_lit '' response len='', P_d (of_nat (length response))] a1) (\<lambda>a2.
              Inr (a2, w1)))"

definition handle_login :: "admin_session \<Rightarrow> admin_session result" where
  "handle_login a = set_state Running (admin_send (bytes_of_string (''ok'' @ [CHR 0x0A])) True a)"

section \<open>Lines and words\<close>

text \<open>\<^verbatim>\<open>getline\<close>: the line and what stays in the stream.\<close>

definition getline :: "string \<Rightarrow> string \<times> string" where
  "getline s = (takeWhile (\<lambda>c. c \<noteq> CHR 0x0A) s, drop 1 (dropWhile (\<lambda>c. c \<noteq> CHR 0x0A) s))"

text \<open>\<^verbatim>\<open>boost::trim\<close> in the classic locale.\<close>

definition trim :: "string \<Rightarrow> string" where
  "trim s = rev (dropWhile is_space (rev (dropWhile is_space s)))"

text \<open>
  \<^verbatim>\<open>char_separator<char>(" \t", "")\<close>: words between blanks and tabs, empty words dropped.
\<close>

definition is_sep :: "char \<Rightarrow> bool" where
  "is_sep c \<longleftrightarrow> c = CHR '' '' \<or> c = CHR 0x09"

fun words_from :: "string \<Rightarrow> string \<Rightarrow> string list" where
  "words_from cur [] = (if cur = [] then [] else [cur])"
| "words_from cur (c # cs) =
     (if is_sep c then (if cur = [] then words_from [] cs else cur # words_from [] cs)
      else words_from (cur @ [c]) cs)"

definition tokenize :: "string \<Rightarrow> string list" where
  "tokenize = words_from []"

section \<open>Reading\<close>

text \<open>\<open>ec\<close> is whether the read failed and the text of its error code.\<close>

definition handle_read ::
    "(dbl \<Rightarrow> byte list) \<Rightarrow> 'w admin_server \<Rightarrow> bool \<times> byte list \<Rightarrow> admin_session \<times> 'w \<Rightarrow>
     (admin_session \<times> 'w) result" where
  "handle_read show_dbl sv = (\<lambda>(failed, message) (a, w).
     if failed \<or> a_input a = []
     then bind_result (log_line [P_lit '' disconnect ec='', P_s message] a) (\<lambda>a1.
            Inr (request [A_close] a1, w))
     else let (line, rest) = getline (a_input a); input = trim line; a1 = a\<lparr>a_input := rest\<rparr>
       in bind_result (log_line [P_lit '' input='', P_s (bytes_of_string input)] a1) (\<lambda>a2.
          let tokens = tokenize input in
          if tokens \<noteq> [] \<and> tokens ! 0 = ''login''
          then bind_result (handle_login a2) (\<lambda>a3. Inr (arm_read a3, w))
          else if length tokens = 1 \<and> (tokens ! 0 = ''help'' \<or> tokens ! 0 = ''?'')
          then Inr (arm_read (handle_help sv a2), w)
          else if length tokens = 1 \<and> tokens ! 0 = ''quit''
          then bind_result (log_line [P_lit '' quit''] a2) (\<lambda>a3. Inr (request [A_close] a3, w))
          else bind_result (handle_command show_dbl sv tokens (a2, w)) (\<lambda>(a3, w1).
            Inr (arm_read a3, w1))))"

section \<open>The server\<close>

text \<open>
  \<^verbatim>\<open>start()\<close> on a socket with the given peer; a socket without one throws.
\<close>

definition admin_start ::
    "'w admin_server \<Rightarrow> (byte list \<times> nat) option \<Rightarrow> u32 \<Rightarrow> admin_session \<Rightarrow> admin_session result" where
  "admin_start sv peer fd a =
     (case peer of
        None \<Rightarrow> Inl (RuntimeError ''remote_endpoint'')
      | Some (address, port) \<Rightarrow>
          let s_peer = address @ bytes_of_string '':'' @ decimal port;
              a1 = request [A_no_delay False]
                     (a\<lparr>a_name := bytes_of_string ''adminsession_'' @ s_peer, a_fd := fd\<rparr>)
          in bind_result (set_state Running a1) (\<lambda>a2. Inr (arm_read (handle_help sv a2))))"

text \<open>The error code of the accept is not looked at.\<close>

definition handle_accept ::
    "'w admin_server \<Rightarrow> bool \<Rightarrow> (byte list \<times> nat) option \<Rightarrow> u32 \<Rightarrow>
     (admin_session \<times> 'w admin_server) result" where
  "handle_accept sv error peer fd =
     bind_result (admin_start sv peer fd new_AdminSession) (\<lambda>a.
       Inr (a, sv\<lparr>server_calls := server_calls sv @ [A_accept]\<rparr>))"

text \<open>\<open>bind_error\<close> is the error of the port, when it cannot be had.\<close>

definition admin_init ::
    "string option \<Rightarrow> int \<Rightarrow> string \<Rightarrow> 'w admin_server \<Rightarrow> 'w admin_server result" where
  "admin_init bind_error port name sv =
     (case bind_error of
        Some what \<Rightarrow> Inl (EvtError (''adminserver::init: '' @ what))
      | None \<Rightarrow> Inr (sv\<lparr>server_name := name,
          server_calls := server_calls sv @ [A_accept, A_listen,
            A_log (bytes_of_string (name @ '' listening on port='') @ signed_decimal port)]\<rparr>))"

definition widen :: "nat list \<Rightarrow> 'w admin_cmd \<Rightarrow> nat list" where
  "widen ls c = [max (ls ! 0) (length (cmd_ctx c) + 2), max (ls ! 1) (length (cmd_cmd c) + 2),
                 max (ls ! 2) (length (cmd_args c) + 2), max (ls ! 3) (length (cmd_help c) + 2)]"

definition recalculate_limits :: "'w admin_server \<Rightarrow> 'w admin_server" where
  "recalculate_limits sv = sv\<lparr>limits := foldl widen (replicate 4 0) (command_list sv)\<rparr>"

definition find_space :: "string \<Rightarrow> nat option" where
  "find_space s = (let i = length (takeWhile (\<lambda>c. c \<noteq> CHR '' '') s) in if i < length s then Some i else None)"

definition register_admin ::
    "string \<Rightarrow> string \<Rightarrow> string \<Rightarrow> 'w admin_callback \<Rightarrow> 'w admin_server \<Rightarrow> 'w admin_server result" where
  "register_admin cmd params help callback sv =
     (case find_space cmd of
        None \<Rightarrow> Inl (EvtError (''register_admin: malformed command='' @ cmd))
      | Some spacesep \<Rightarrow>
          if spacesep > length cmd - 1 then Inl (EvtError (''register_admin: malformed command='' @ cmd))
          else let acmd = \<lparr>cmd_ctx = take spacesep cmd, cmd_cmd = drop (spacesep + 1) cmd,
                     cmd_args = params, cmd_help = help, cmd_callback = callback\<rparr>
            in Inr (recalculate_limits (sv\<lparr>command_list := command_list sv @ [acmd]\<rparr>)))"

end
