(* ===== verification/Simulator.thy ===== *)
theory Simulator
  imports AdminServer TcpServer
begin

text \<open>
  The rest of \<^verbatim>\<open>behavior_manager.cpp\<close> and \<^verbatim>\<open>main\<close>: the manager's command table, the
  callbacks the sessions register with it, and the program as one state. A registered callback is
  bound to the session that registers it, so the lists of callbacks are lists of sessions, in the
  order of registration. Both sessions run in the environment of the simulator: whatever runs a
  session lends it that environment and takes it back.
\<close>

section \<open>State\<close>

datatype session_id = Ouch_id | Boe_id

record simulator =
  sim_env :: env
  status_funcs :: "session_id list"
  cancel_funcs :: "session_id list"
  ouch_srv :: "ouch_server option"
  boe_srv :: "boe_server option"

text \<open>Run an operation of a session, if there is such a session.\<close>

definition lend :: "env \<Rightarrow> 's session_scheme \<Rightarrow> 's session_scheme" where
  "lend e s = s\<lparr>s_env := e\<rparr>"

definition run_ouch :: "'a \<Rightarrow> (ouch_session \<Rightarrow> 'a \<times> ouch_session) \<Rightarrow> simulator \<Rightarrow> 'a \<times> simulator" where
  "run_ouch d f sim =
     (case ouch_srv sim of
        None \<Rightarrow> (d, sim)
      | Some v \<Rightarrow>
          let (x, s) = f (lend (sim_env sim) (market v))
          in (x, sim\<lparr>sim_env := s_env s, ouch_srv := Some (v\<lparr>market := s\<rparr>)\<rparr>))"

definition run_boe :: "'a \<Rightarrow> (boe_session \<Rightarrow> 'a \<times> boe_session) \<Rightarrow> simulator \<Rightarrow> 'a \<times> simulator" where
  "run_boe d f sim =
     (case boe_srv sim of
        None \<Rightarrow> (d, sim)
      | Some v \<Rightarrow>
          let (x, s) = f (lend (sim_env sim) (market v))
          in (x, sim\<lparr>sim_env := s_env s, boe_srv := Some (v\<lparr>market := s\<rparr>)\<rparr>))"

definition call_status :: "session_id \<Rightarrow> simulator \<Rightarrow> out_item list \<times> simulator" where
  "call_status i =
     (case i of Ouch_id \<Rightarrow> run_ouch [] ouch_curr_status | Boe_id \<Rightarrow> run_boe [] boe_curr_status)"

definition call_cancel :: "session_id \<Rightarrow> simulator \<Rightarrow> int \<times> simulator" where
  "call_cancel i =
     (case i of Ouch_id \<Rightarrow> run_ouch 0 ouch_cancel_all | Boe_id \<Rightarrow> run_boe 0 boe_cancel_all)"

section \<open>Callbacks of the manager\<close>

definition register_status_function :: "session_id \<Rightarrow> simulator \<Rightarrow> simulator" where
  "register_status_function i sim = sim\<lparr>status_funcs := status_funcs sim @ [i]\<rparr>"

definition register_cancel_function :: "session_id \<Rightarrow> simulator \<Rightarrow> simulator" where
  "register_cancel_function i sim = sim\<lparr>cancel_funcs := cancel_funcs sim @ [i]\<rparr>"

fun status_loop :: "session_id list \<Rightarrow> admin_context \<Rightarrow> simulator \<Rightarrow> admin_context \<times> simulator" where
  "status_loop [] c sim = (c, sim)"
| "status_loop (i # is) c sim =
     (let (items, sim1) = call_status i sim in status_loop is (say (items @ [Endl]) c) sim1)"

definition display_status :: "admin_context \<Rightarrow> simulator \<Rightarrow> admin_context \<times> simulator" where
  "display_status c sim =
     status_loop (status_funcs sim)
       (if status_funcs sim = [] then say_line ''No status function registered'' c else c) sim"

fun cancel_loop :: "session_id list \<Rightarrow> admin_context \<Rightarrow> simulator \<Rightarrow> admin_context \<times> simulator" where
  "cancel_loop [] c sim = (c, sim)"
| "cancel_loop (i # is) c sim =
     (let (n, sim1) = call_cancel i sim
      in cancel_loop is (say [IntV n, Str '' order(s) canceled'', Endl] c) sim1)"

definition cancel_all :: "admin_context \<Rightarrow> simulator \<Rightarrow> admin_context \<times> simulator" where
  "cancel_all c sim =
     cancel_loop (cancel_funcs sim)
       (if cancel_funcs sim = [] then say_line ''No status function registered'' c else c) sim"

section \<open>The command table\<close>

text \<open>A command that only concerns the manager works on the environment.\<close>

definition in_env :: "(admin_context \<Rightarrow> env \<Rightarrow> admin_context \<times> env) \<Rightarrow> simulator admin_callback" where
  "in_env f c sim = (let (c1, e) = f c (sim_env sim) in (c1, sim\<lparr>sim_env := e\<rparr>))"

definition BehaviorManager_admin ::
    "(string \<Rightarrow> dbl option) \<Rightarrow> string option \<Rightarrow> int \<Rightarrow> simulator admin_server result" where
  "BehaviorManager_admin stod bind_error admin_port =
     bind_result (admin_init bind_error admin_port ''AdminServer'' new_AdminServer) (\<lambda>sv0.
     bind_result (register_admin ''bm set'' ''[action] [params...]'' '''' (in_env (set_action stod)) sv0) (\<lambda>sv1.
     bind_result (register_admin ''bm reset'' '''' '''' (in_env bm_reset) sv1) (\<lambda>sv2.
     bind_result (register_admin ''bm execute'' ''[qty]'' '''' (in_env set_execution_qty) sv2) (\<lambda>sv3.
     bind_result (register_admin ''bm status'' '''' '''' display_status sv3) (\<lambda>sv4.
     register_admin ''bm cancel_all'' '''' '''' cancel_all sv4)))))"

section \<open>Sessions register themselves\<close>

text \<open>What the constructor of either session does with the manager.\<close>

definition register_session :: "session_id \<Rightarrow> simulator \<Rightarrow> simulator" where
  "register_session i sim = register_cancel_function i (register_status_function i sim)"

text \<open>The constructors of the two servers and their sessions, in the simulator.\<close>

definition add_ouch_server :: "nat \<Rightarrow> int \<Rightarrow> byte list \<Rightarrow> simulator \<Rightarrow> simulator result" where
  "add_ouch_server port now g sim =
     bind_result (new_SoupBinTCPServer True port now (sim_env sim) g) (\<lambda>v.
       Inr (register_session Ouch_id (sim\<lparr>sim_env := s_env (market v), ouch_srv := Some v\<rparr>)))"

definition add_boe_server :: "nat \<Rightarrow> int \<Rightarrow> byte list \<Rightarrow> simulator \<Rightarrow> simulator result" where
  "add_boe_server port now g sim =
     bind_result (new_BOEServer True port now (sim_env sim) g) (\<lambda>v.
       Inr (register_session Boe_id (sim\<lparr>sim_env := s_env (market v), boe_srv := Some v\<rparr>)))"

section \<open>The main program\<close>

text \<open>The command line as \<^verbatim>\<open>boost::program_options\<close> gives it back.\<close>

record options =
  opt_help :: bool
  opt_adminserver :: "int option"
  opt_ouchport :: "int option"
  opt_boeport :: "int option"

datatype outcome = Return int | Serve "simulator admin_server" simulator

text \<open>An \<^verbatim>\<open>int\<close> passed as an \<^verbatim>\<open>unsigned int\<close>.\<close>

definition to_unsigned :: "int \<Rightarrow> nat" where
  "to_unsigned n = nat (n mod 2 ^ 32)"

text \<open>The servers asked for on the command line, the OUCH server first.\<close>

definition make_servers ::
    "options \<Rightarrow> int \<Rightarrow> byte list \<Rightarrow> byte list \<Rightarrow> simulator \<Rightarrow> simulator result" where
  "make_servers vm now g1 g2 sim =
     bind_result (case opt_ouchport vm of None \<Rightarrow> Inr sim
       | Some p \<Rightarrow> add_ouch_server (to_unsigned p) now g1 sim) (\<lambda>sim1.
     case opt_boeport vm of None \<Rightarrow> Inr sim1
       | Some p \<Rightarrow> add_boe_server (to_unsigned p) now g2 sim1)"

definition new_simulator :: "world \<Rightarrow> simulator" where
  "new_simulator w = \<lparr>sim_env = new_BehaviorManager w, status_funcs = [], cancel_funcs = [],
     ouch_srv = None, boe_srv = None\<rparr>"

text \<open>
  \<^verbatim>\<open>main\<close> up to \<^verbatim>\<open>io_service.run()\<close>: \<open>parsed\<close> is what parsing the command line gives, \<open>None\<close>
  for an options error; the world \<open>w\<close>, the time \<open>now\<close> and the contents of the two receive buffers
  are what the process starts in. An exception of a constructor leaves \<^verbatim>\<open>main\<close>.
\<close>

definition main_program ::
    "(string \<Rightarrow> dbl option) \<Rightarrow> options option \<Rightarrow> string option \<Rightarrow> world \<Rightarrow> int \<Rightarrow> byte list \<Rightarrow> byte list \<Rightarrow>
     outcome result" where
  "main_program stod parsed bind_error w now g1 g2 =
     (case parsed of
        None \<Rightarrow> Inr (Return 4)
      | Some vm \<Rightarrow>
          if opt_help vm then Inr (Return 1)
          else
            let as_port = (case opt_adminserver vm of None \<Rightarrow> 10001 | Some p \<Rightarrow> p)
            in bind_result (BehaviorManager_admin stod bind_error as_port) (\<lambda>admin.
               if opt_ouchport vm = None \<and> opt_boeport vm = None then Inr (Return 2)
               else bind_result (make_servers vm now g1 g2 (new_simulator w)) (\<lambda>sim.
                 Inr (Serve admin sim))))"

end
