(* ===== verification/SimulatorRun.thy ===== *)
theory SimulatorRun
  imports Simulator TcpProps
begin

text \<open>
  The whole program as a state machine: what the network, the clock and the console do to the
  simulator, and what every run of it keeps.
\<close>

section \<open>Steps\<close>

text \<open>A handler of a server runs in the simulator's environment and leaves its own behind.\<close>

definition step_ouch :: "(ouch_server \<Rightarrow> ouch_server result) \<Rightarrow> simulator \<Rightarrow> simulator result" where
  "step_ouch f sim =
     (case ouch_srv sim of
        None \<Rightarrow> Inr sim
      | Some v \<Rightarrow> bind_result (f (v\<lparr>market := lend (sim_env sim) (market v)\<rparr>)) (\<lambda>v1.
          Inr (sim\<lparr>sim_env := s_env (market v1), ouch_srv := Some v1\<rparr>)))"

definition step_boe :: "(boe_server \<Rightarrow> boe_server result) \<Rightarrow> simulator \<Rightarrow> simulator result" where
  "step_boe f sim =
     (case boe_srv sim of
        None \<Rightarrow> Inr sim
      | Some v \<Rightarrow> bind_result (f (v\<lparr>market := lend (sim_env sim) (market v)\<rparr>)) (\<lambda>v1.
          Inr (sim\<lparr>sim_env := s_env (market v1), boe_srv := Some v1\<rparr>)))"

text \<open>
  Runs of the program started by \<open>main_program\<close>: connections, reads of at most a buffer of data,
  timer events, and lines read by any console session.
\<close>

inductive sim_run ::
    "(u64 \<Rightarrow> byte list) \<Rightarrow> (dbl \<Rightarrow> byte list) \<Rightarrow> (string \<Rightarrow> dbl option) \<Rightarrow> simulator admin_server \<Rightarrow> simulator \<Rightarrow> bool"
  for dt show_dbl stod where
  started: "main_program stod parsed bind_error w now g1 g2 = Inr (Serve admin sim) \<Longrightarrow>
    length g1 = buf_size \<Longrightarrow> length g2 = buf_size \<Longrightarrow> sim_run dt show_dbl stod admin sim"
| ouch_accepted: "sim_run dt show_dbl stod admin sim \<Longrightarrow>
    step_ouch (\<lambda>v. Inr (tcp_accept error v)) sim = Inr sim' \<Longrightarrow> sim_run dt show_dbl stod admin sim'"
| ouch_received: "sim_run dt show_dbl stod admin sim \<Longrightarrow> length data \<le> buf_size \<Longrightarrow>
    step_ouch (\<lambda>v. SoupBinTCPServer_read ec (length data) (deliver data v)) sim = Inr sim' \<Longrightarrow>
    sim_run dt show_dbl stod admin sim'"
| ouch_timer: "sim_run dt show_dbl stod admin sim \<Longrightarrow>
    step_ouch (tcp_process ouch_protocol error) sim = Inr sim' \<Longrightarrow> sim_run dt show_dbl stod admin sim'"
| boe_accepted: "sim_run dt show_dbl stod admin sim \<Longrightarrow>
    step_boe (\<lambda>v. Inr (tcp_accept error v)) sim = Inr sim' \<Longrightarrow> sim_run dt show_dbl stod admin sim'"
| boe_received: "sim_run dt show_dbl stod admin sim \<Longrightarrow> length data \<le> buf_size \<Longrightarrow>
    step_boe (\<lambda>v. BOEServer_read dt ec (length data) (deliver data v)) sim = Inr sim' \<Longrightarrow>
    sim_run dt show_dbl stod admin sim'"
| boe_timer: "sim_run dt show_dbl stod admin sim \<Longrightarrow>
    step_boe (tcp_process (boe_protocol dt) error) sim = Inr sim' \<Longrightarrow> sim_run dt show_dbl stod admin sim'"
| console: "sim_run dt show_dbl stod admin sim \<Longrightarrow>
    handle_read show_dbl admin ec (a, sim) = Inr (a', sim') \<Longrightarrow> sim_run dt show_dbl stod admin sim'"

section \<open>The invariant\<close>

definition sim_ok :: "simulator \<Rightarrow> bool" where
  "sim_ok sim \<longleftrightarrow>
     (\<forall>v. ouch_srv sim = Some v \<longrightarrow> ouch_reachable (market v) \<and> length (buf v) = buf_size) \<and>
     (\<forall>v. boe_srv sim = Some v \<longrightarrow> boe_reachable (market v) \<and> length (buf v) = buf_size) \<and>
     status_funcs sim = (if ouch_srv sim = None then [] else [Ouch_id]) @ (if boe_srv sim = None then [] else [Boe_id]) \<and>
     cancel_funcs sim = status_funcs sim"

lemma lend_reachable:
  "ouch_reachable s \<Longrightarrow> ouch_reachable (lend e s)" "boe_reachable s' \<Longrightarrow> boe_reachable (lend e s')"
  unfolding lend_def
  by (auto intro: ouch_reachable.step ouch_step.environment boe_reachable.boe_next boe_step.boe_environment)

lemma step_ouch_ok:
  assumes "sim_ok sim" and "step_ouch f sim = Inr sim'"
    and "\<And>v v1. f v = Inr v1 \<Longrightarrow> ouch_reachable (market v) \<Longrightarrow> length (buf v) = buf_size \<Longrightarrow>
      ouch_reachable (market v1) \<and> length (buf v1) = buf_size"
  shows "sim_ok sim'"
proof (cases "ouch_srv sim")
  case None
  with assms(1,2) show ?thesis by (simp add: step_ouch_def)
next
  case (Some v)
  then obtain v1 where v1: "f (v\<lparr>market := lend (sim_env sim) (market v)\<rparr>) = Inr v1"
    and sim': "sim' = sim\<lparr>sim_env := s_env (market v1), ouch_srv := Some v1\<rparr>"
    using assms(2) by (auto simp: step_ouch_def bind_result_Inr_iff)
  have "ouch_reachable (market v1) \<and> length (buf v1) = buf_size"
    using assms(1) Some by (intro assms(3) [OF v1]) (simp_all add: sim_ok_def lend_reachable)
  then show ?thesis using assms(1) Some by (simp add: sim_ok_def sim')
qed

lemma step_boe_ok:
  assumes "sim_ok sim" and "step_boe f sim = Inr sim'"
    and "\<And>v v1. f v = Inr v1 \<Longrightarrow> boe_reachable (market v) \<Longrightarrow> length (buf v) = buf_size \<Longrightarrow>
      boe_reachable (market v1) \<and> length (buf v1) = buf_size"
  shows "sim_ok sim'"
proof (cases "boe_srv sim")
  case None
  with assms(1,2) show ?thesis by (simp add: step_boe_def)
next
  case (Some v)
  then obtain v1 where v1: "f (v\<lparr>market := lend (sim_env sim) (market v)\<rparr>) = Inr v1"
    and sim': "sim' = sim\<lparr>sim_env := s_env (market v1), boe_srv := Some v1\<rparr>"
    using assms(2) by (auto simp: step_boe_def bind_result_Inr_iff)
  have "boe_reachable (market v1) \<and> length (buf v1) = buf_size"
    using assms(1) Some by (intro assms(3) [OF v1]) (simp_all add: sim_ok_def lend_reachable)
  then show ?thesis using assms(1) Some by (simp add: sim_ok_def sim')
qed

lemma run_ouch_ok:
  assumes "sim_ok sim" and "run_ouch d f sim = (x, sim')" and "\<And>s. ouch_step s (snd (f s))"
  shows "sim_ok sim'"
proof (cases "ouch_srv sim")
  case None
  with assms(1,2) show ?thesis by (simp add: run_ouch_def)
next
  case (Some v)
  let ?s = "snd (f (lend (sim_env sim) (market v)))"
  have "ouch_reachable (lend (sim_env sim) (market v))"
    using assms(1) Some by (simp add: sim_ok_def lend_reachable)
  then have "ouch_reachable ?s" using assms(3) by (rule ouch_reachable.step)
  moreover have "sim' = sim\<lparr>sim_env := s_env ?s, ouch_srv := Some (v\<lparr>market := ?s\<rparr>)\<rparr>"
    using assms(2) Some by (auto simp: run_ouch_def split: prod.splits)
  ultimately show ?thesis using assms(1) Some by (simp add: sim_ok_def)
qed

lemma run_boe_ok:
  assumes "sim_ok sim" and "run_boe d f sim = (x, sim')" and "\<And>s. boe_step s (snd (f s))"
  shows "sim_ok sim'"
proof (cases "boe_srv sim")
  case None
  with assms(1,2) show ?thesis by (simp add: run_boe_def)
next
  case (Some v)
  let ?s = "snd (f (lend (sim_env sim) (market v)))"
  have "boe_reachable (lend (sim_env sim) (market v))"
    using assms(1) Some by (simp add: sim_ok_def lend_reachable)
  then have "boe_reachable ?s" using assms(3) by (rule boe_reachable.boe_next)
  moreover have "sim' = sim\<lparr>sim_env := s_env ?s, boe_srv := Some (v\<lparr>market := ?s\<rparr>)\<rparr>"
    using assms(2) Some by (auto simp: run_boe_def split: prod.splits)
  ultimately show ?thesis using assms(1) Some by (simp add: sim_ok_def)
qed

section \<open>The console keeps it\<close>

lemma call_ok:
  "sim_ok sim \<Longrightarrow> call_status i sim = (items, sim') \<Longrightarrow> sim_ok sim'"
  "sim_ok sim \<Longrightarrow> call_cancel i sim = (n, sim') \<Longrightarrow> sim_ok sim'"
  unfolding call_status_def call_cancel_def
  by (cases i; simp; erule (1) run_ouch_ok run_boe_ok; rule ouch_step.intros boe_step.intros)+

text \<open>
  What the console can do to the program. An invariant that does not look at the environment and is
  kept by the callbacks of the sessions is kept by every line typed at the console.
\<close>

definition keeps :: "(simulator \<Rightarrow> bool) \<Rightarrow> simulator admin_callback \<Rightarrow> bool" where
  "keeps I f \<longleftrightarrow> (\<forall>c sim. I sim \<longrightarrow> I (snd (f c sim)))"

locale console_invariant =
  fixes I :: "simulator \<Rightarrow> bool"
  assumes I_env: "I (sim\<lparr>sim_env := e\<rparr>) = I sim"
    and I_status: "I sim \<Longrightarrow> call_status i sim = (items, sim') \<Longrightarrow> I sim'"
    and I_cancel: "I sim \<Longrightarrow> call_cancel i sim = (n, sim') \<Longrightarrow> I sim'"
begin

lemma status_loop_keeps: "I sim \<Longrightarrow> I (snd (status_loop is c sim))"
  by (induction "is" arbitrary: c sim) (auto dest: I_status split: prod.splits)

lemma cancel_loop_keeps: "I sim \<Longrightarrow> I (snd (cancel_loop is c sim))"
  by (induction "is" arbitrary: c sim) (auto dest: I_cancel split: prod.splits)

lemma callbacks_keep: "keeps I (in_env f)" "keeps I display_status" "keeps I cancel_all"
  by (simp_all add: keeps_def in_env_def display_status_def cancel_all_def split_def Let_def I_env
      status_loop_keeps cancel_loop_keeps)

lemma handle_command_keeps:
  assumes "I sim" and "\<forall>c\<in>set (command_list sv). keeps I (cmd_callback c)"
    and "handle_command show_dbl sv tokens (a, sim) = Inr (a', sim')"
  shows "I sim'"
proof (cases "List.find (names_command tokens) (command_list sv)")
  case None
  with assms(1,3) show ?thesis by (auto simp: handle_command_def split: if_split_asm)
next
  case (Some c)
  then have "keeps I (cmd_callback c)" using assms(2) by (auto simp: find_Some_iff)
  then have "I (snd (cmd_callback c context sim))" for "context"
    using assms(1) by (simp add: keeps_def)
  with Some assms(1,3) show ?thesis
    by (auto simp: handle_command_def Let_def split_def bind_result_Inr_iff split: if_split_asm)
qed

lemma handle_read_keeps:
  assumes "I sim" and "\<forall>c\<in>set (command_list sv). keeps I (cmd_callback c)"
    and "handle_read show_dbl sv ec (a, sim) = Inr (a', sim')"
  shows "I sim'"
  using assms(3) handle_command_keeps [OF assms(1,2)] assms(1)
  by (auto simp: handle_read_def Let_def split_def bind_result_Inr_iff split: if_split_asm)

end

section \<open>The start\<close>

lemma bm_commands:
  assumes "BehaviorManager_admin stod bind_error port = Inr admin"
  shows "List.map cmd_ctx (command_list admin) = replicate 5 ''bm'' \<and>
    List.map cmd_cmd (command_list admin) = [''set'', ''reset'', ''execute'', ''status'', ''cancel_all''] \<and>
    List.map cmd_callback (command_list admin) =
      [in_env (set_action stod), in_env bm_reset, in_env set_execution_qty, display_status, cancel_all]"
  using assms
  by (auto simp: BehaviorManager_admin_def admin_init_def register_admin_def find_space_def
      recalculate_limits_def new_AdminServer_def numeral_eq_Suc Let_def split: option.splits)

context console_invariant
begin

lemma console_keeps:
  assumes "BehaviorManager_admin stod bind_error port = Inr admin" and "I sim"
    and "handle_read show_dbl admin ec (a, sim) = Inr (a', sim')"
  shows "I sim'"
proof -
  have "set (List.map cmd_callback (command_list admin)) \<subseteq> Collect (keeps I)"
    using bm_commands [OF assms(1)] by (simp add: callbacks_keep)
  then have "\<forall>c\<in>set (command_list admin). keeps I (cmd_callback c)" by auto
  from handle_read_keeps [OF assms(2) this assms(3)] show ?thesis .
qed

end

interpretation console_ok: console_invariant sim_ok
  by (unfold_locales, simp add: sim_ok_def) (erule (1) call_ok)+

lemma add_server_ok:
  "add_ouch_server port now g sim = Inr sim' \<Longrightarrow> length g = buf_size \<Longrightarrow> sim_ok sim \<Longrightarrow>
   ouch_srv sim = None \<Longrightarrow> boe_srv sim = None \<Longrightarrow> sim_ok sim' \<and> boe_srv sim' = None"
  "add_boe_server port now g sim = Inr sim' \<Longrightarrow> length g = buf_size \<Longrightarrow> sim_ok sim \<Longrightarrow>
   boe_srv sim = None \<Longrightarrow> sim_ok sim'"
  by (auto simp: add_ouch_server_def add_boe_server_def bind_result_Inr_iff new_SoupBinTCPServer_def
      new_BOEServer_def new_tcp_server_def sim_ok_def register_session_def register_status_function_def register_cancel_function_def
      ouch_reachable.start boe_reachable.boe_start split: if_split_asm)

lemma main_program_ok:
  assumes "main_program stod parsed bind_error w now g1 g2 = Inr (Serve admin sim)"
    and "length g1 = buf_size" and "length g2 = buf_size"
  shows "sim_ok sim \<and> (\<exists>port. BehaviorManager_admin stod bind_error port = Inr admin)"
proof -
  have ok0: "sim_ok (new_simulator w)" "ouch_srv (new_simulator w) = None" "boe_srv (new_simulator w) = None"
    by (simp_all add: sim_ok_def new_simulator_def)
  obtain vm port where admin: "BehaviorManager_admin stod bind_error port = Inr admin"
    and sim: "make_servers vm now g1 g2 (new_simulator w) = Inr sim"
    using assms(1)
    by (auto simp: main_program_def Let_def bind_result_Inr_iff split: option.split_asm if_split_asm)
  then obtain sim1 where
    sim1: "(case opt_ouchport vm of None \<Rightarrow> Inr (new_simulator w)
        | Some p \<Rightarrow> add_ouch_server (to_unsigned p) now g1 (new_simulator w)) = Inr sim1"
    and sim: "(case opt_boeport vm of None \<Rightarrow> Inr sim1
        | Some p \<Rightarrow> add_boe_server (to_unsigned p) now g2 sim1) = Inr sim"
    by (auto simp: make_servers_def bind_result_Inr_iff)
  have "sim_ok sim1 \<and> boe_srv sim1 = None"
    using sim1 ok0 add_server_ok(1) [OF _ assms(2) ok0] by (auto split: option.splits)
  then have "sim_ok sim"
    using sim add_server_ok(2) [OF _ assms(3)] by (auto split: option.splits)
  with admin show ?thesis by blast
qed

section \<open>Every run\<close>

lemma sim_run_ok:
  "sim_run dt show_dbl stod admin sim \<Longrightarrow>
   sim_ok sim \<and> (\<exists>bind_error port. BehaviorManager_admin stod bind_error port = Inr admin)"
proof (induction rule: sim_run.induct)
  case (started parsed bind_error w now g1 g2 admin sim)
  then show ?case using main_program_ok by blast
next
  case (ouch_accepted admin sim error sim')
  have "sim_ok sim'"
    by (rule step_ouch_ok [OF conjunct1 [OF ouch_accepted.IH] ouch_accepted(2)]) (use soup.tcp_accept_good in auto)
  with ouch_accepted.IH show ?case by blast
next
  case (ouch_received admin sim data ec sim')
  have "sim_ok sim'"
    by (rule step_ouch_ok [OF conjunct1 [OF ouch_received.IH] ouch_received(3)])
      (use soup.received_good ouch_received(2) in \<open>simp add: SoupBinTCPServer_read_def\<close>)
  with ouch_received.IH show ?case by blast
next
  case (ouch_timer admin sim error sim')
  have "sim_ok sim'"
    using step_ouch_ok [OF conjunct1 [OF ouch_timer.IH] ouch_timer(2)] soup.tcp_process_good by metis
  with ouch_timer.IH show ?case by blast
next
  case (boe_accepted admin sim error sim')
  have "sim_ok sim'"
    by (rule step_boe_ok [OF conjunct1 [OF boe_accepted.IH] boe_accepted(2)]) (use boe_served.tcp_accept_good in auto)
  with boe_accepted.IH show ?case by blast
next
  case (boe_received admin sim data ec sim')
  have "sim_ok sim'"
    by (rule step_boe_ok [OF conjunct1 [OF boe_received.IH] boe_received(3)])
      (use boe_served.received_good boe_received(2) in \<open>simp add: BOEServer_read_def\<close>)
  with boe_received.IH show ?case by blast
next
  case (boe_timer admin sim error sim')
  have "sim_ok sim'"
    using step_boe_ok [OF conjunct1 [OF boe_timer.IH] boe_timer(2)] boe_served.tcp_process_good by metis
  with boe_timer.IH show ?case by blast
next
  case (console admin sim ec a a' sim')
  then show ?case using console_ok.console_keeps by blast
qed

end
