(* ===== verification/AdminFacts.thy ===== *)
theory AdminFacts
  imports AdminServer PrintFacts
begin

text \<open>
  The console: nobody has to log in, the help text is aligned, a line of words reaches the command
  it names with its arguments, and a long line overruns the buffer it is logged from.
\<close>

section \<open>Calls of a session\<close>

lemma request_sel [simp]:
  "a_state (request cs a) = a_state a" "a_name (request cs a) = a_name a" "a_fd (request cs a) = a_fd a"
  "a_input (request cs a) = a_input a" "a_calls (request cs a) = a_calls a @ cs"
  by (simp_all add: request_def)

lemma request_request [simp]: "request ds (request cs a) = request (cs @ ds) a"
  by (simp add: request_def)

lemma admin_send_sel [simp]:
  "a_state (admin_send msg raw a) = a_state a" "a_name (admin_send msg raw a) = a_name a"
  "a_fd (admin_send msg raw a) = a_fd a" "a_input (admin_send msg raw a) = a_input a"
  by (simp_all add: admin_send_def)

lemma log_line_Inr: "log_line ps a = Inr a' \<longleftrightarrow> (\<exists>t. session_line a ps = Inr t \<and> a' = request [A_log t] a)"
  by (auto simp: log_line_def bind_result_Inr_iff)

lemma log_line_state: "log_line ps a = Inr a' \<Longrightarrow> a_state a' = a_state a"
  by (auto simp: log_line_Inr)

lemma set_state_Inr: "set_state st a = Inr a' \<Longrightarrow> a_state a' = st"
  by (auto simp: set_state_def bind_result_Inr_iff)

lemma handle_help_state [simp]: "a_state (handle_help sv a) = a_state a"
  by (simp add: handle_help_def)

text \<open>A log line that fits into its 100 characters, and one that cannot.\<close>

lemma session_line_fits:
  assumes "length (a_name a) + sum_list (List.map piece_room ps) \<le> 84"
  shows "\<exists>t. session_line a ps = Inr t"
  using assms length_render [of "[P_s (a_name a), P_lit '' fd='', P_d (a_fd a)] @ ps"]
  by (simp add: session_line_def sprintf_100_def)

lemma signed_decimal_not_empty: "1 \<le> length (signed_decimal i)"
  using decimal_not_empty by (simp add: signed_decimal_def)

lemma session_line_overruns: "95 \<le> length (render ps) \<Longrightarrow> session_line a ps = Inl OutOfBounds"
  using signed_decimal_not_empty [of "sint (a_fd a)"]
  by (simp add: session_line_def sprintf_100_def render_def bytes_of_string_def)

section \<open>Sessions are never asked to log in\<close>

text \<open>A console session of a server: accepted, sent any bytes, read from and written to.\<close>

inductive admin_run :: "'w admin_server \<Rightarrow> admin_session \<Rightarrow> bool" for sv where
  admin_accepted: "handle_accept sv error peer fd = Inr (a, sv') \<Longrightarrow> admin_run sv a"
| admin_received: "admin_run sv a \<Longrightarrow> admin_run sv (a\<lparr>a_input := a_input a @ data\<rparr>)"
| admin_read: "admin_run sv a \<Longrightarrow> handle_read show_dbl sv ec (a, w) = Inr (a', w') \<Longrightarrow> admin_run sv a'"
| admin_written: "admin_run sv a \<Longrightarrow> handle_write ec a = Inr a' \<Longrightarrow> admin_run sv a'"

lemma handle_command_state: "handle_command show_dbl sv tokens (a, w) = Inr (a', w') \<Longrightarrow> a_state a' = a_state a"
  by (auto simp: handle_command_def Let_def split_def bind_result_Inr_iff dest!: log_line_state
      split: if_split_asm option.split_asm)

lemma handle_read_state:
  assumes "handle_read show_dbl sv ec (a, w) = Inr (a', w')" and "a_state a = Running"
  shows "a_state a' = Running"
  using assms
  by (auto simp: handle_read_def handle_login_def arm_read_def Let_def split_def bind_result_Inr_iff
      dest!: log_line_state set_state_Inr handle_command_state split: if_split_asm)

lemma admin_run_state: "admin_run sv a \<Longrightarrow> a_state a = Running"
proof (induction rule: admin_run.induct)
  case (admin_accepted error peer fd a sv')
  then show ?case
    by (auto simp: handle_accept_def admin_start_def arm_read_def bind_result_Inr_iff Let_def
        dest!: set_state_Inr split: option.split_asm)
next
  case (admin_written a ec a')
  then show ?case by (auto simp: handle_write_def bind_result_Inr_iff split: option.split_asm)
qed (auto dest: handle_read_state)

definition please_authenticate :: "byte list" where
  "please_authenticate = bytes_of_string (''please authenticate'' @ [CHR 0x0A])"

text \<open>
  The console asks nobody to log in: a session is running from the moment it is accepted and
  stays so whatever is typed, so the answer \<^verbatim>\<open>please authenticate\<close> is never given, commands are
  carried out at once, and \<^verbatim>\<open>login\<close> with any or no password is answered \<^verbatim>\<open>ok\<close> and changes nothing.
\<close>

theorem console_needs_no_login:
  assumes "admin_run sv a"
  shows "a_state a = Running \<and>
    handle_help sv a = admin_send (bytes_of_string (concat (List.map (help_line (limits sv)) (command_list sv)))) False a \<and>
    (2 \<le> length tokens \<and> List.find (names_command tokens) (command_list sv) = None \<longrightarrow>
      handle_command show_dbl sv tokens (a, w) =
        Inr (admin_send (bytes_of_string (''unknown command'' @ [CHR 0x0A])) False a, w)) \<and>
    (\<forall>a'. handle_login a = Inr a' \<longrightarrow> a_state a' = a_state a)"
  using admin_run_state [OF assms] set_state_Inr
  by (auto simp: handle_help_def handle_command_def handle_login_def)

text \<open>A console whose only command answers its arguments.\<close>

definition echo_server :: "unit admin_server" where
  "echo_server = recalculate_limits (new_AdminServer\<lparr>command_list :=
     [\<lparr>cmd_ctx = ''say'', cmd_cmd = ''args'', cmd_args = ''[words...]'', cmd_help = '''',
       cmd_callback = (\<lambda>c w. (say_line (concat (args c)) c, w))\<rparr>]\<rparr>)"

definition local_peer :: "(byte list \<times> nat) option" where
  "local_peer = Some (bytes_of_string ''127.0.0.1'', 50000)"

definition echo_session :: admin_session where
  "echo_session = (case handle_accept echo_server False local_peer 7 of Inr (a, _) \<Rightarrow> a | Inl _ \<Rightarrow> new_AdminSession)"

lemma echo_session_run: "admin_run echo_server echo_session"
proof -
  have "length (decimal 50000) \<le> 5" using length_decimal [of 50000 4] by simp
  then have "length (bytes_of_string ''adminsession_'' @ bytes_of_string ''127.0.0.1'' @ bytes_of_string '':'' @
      decimal 50000) \<le> 28" by (simp add: bytes_of_string_def)
  then have "\<exists>a sv. handle_accept echo_server False local_peer 7 = Inr (a, sv)"
    using session_line_fits [of "request [A_no_delay False] (new_AdminSession\<lparr>a_name :=
        bytes_of_string ''adminsession_'' @ bytes_of_string ''127.0.0.1'' @ bytes_of_string '':'' @ decimal 50000, a_fd := 7\<rparr>)"
        "[P_lit '' set_state='', P_lit (admin_state_str Running)]"]
    by (auto simp: handle_accept_def admin_start_def local_peer_def set_state_def log_line_def)
  then obtain a sv where a: "handle_accept echo_server False local_peer 7 = Inr (a, sv)" by blast
  then have "echo_session = a" by (simp add: echo_session_def)
  with admin_run.admin_accepted [OF a] show ?thesis by simp
qed

theorem console_needs_no_login_witness:
  "a_state echo_session = Running \<and>
   handle_command (\<lambda>_. []) echo_server [''say'', ''nothing''] (echo_session, ()) =
     Inr (admin_send (bytes_of_string (''unknown command'' @ [CHR 0x0A])) False echo_session, ())"
  using console_needs_no_login [OF echo_session_run, of "[''say'', ''nothing'']" "\<lambda>_. []" "()"]
  by (simp add: echo_server_def recalculate_limits_def names_command_def new_AdminServer_def)

section \<open>Help\<close>

text \<open>Command tables made by registering commands.\<close>

inductive registered :: "'w admin_server \<Rightarrow> bool" where
  unregistered: "registered new_AdminServer"
| register: "registered sv \<Longrightarrow> register_admin cmd params hlp f sv = Inr sv' \<Longrightarrow> registered sv'"
| initialised: "registered sv \<Longrightarrow> admin_init bind_error port name sv = Inr sv' \<Longrightarrow> registered sv'"

definition widths :: "'w admin_cmd \<Rightarrow> nat list" where
  "widths c = [length (cmd_ctx c) + 2, length (cmd_cmd c) + 2, length (cmd_args c) + 2, length (cmd_help c) + 2]"

lemma widen_nth: "i < 4 \<Longrightarrow> widen ls c ! i = max (ls ! i) (widths c ! i)"
  by (auto simp: widen_def widths_def less_Suc_eq numeral_eq_Suc)

lemma foldl_widen:
  "length ls = 4 \<Longrightarrow> length (foldl widen ls cs) = 4 \<and> (\<forall>i<4. ls ! i \<le> foldl widen ls cs ! i) \<and>
     (\<forall>c\<in>set cs. \<forall>i<4. widths c ! i \<le> foldl widen ls cs ! i)"
proof (induction cs arbitrary: ls)
  case (Cons c cs)
  have "length (widen ls c) = 4" by (simp add: widen_def)
  note step = Cons.IH [OF this]
  have "ls ! i \<le> widen ls c ! i \<and> widths c ! i \<le> widen ls c ! i" if "i < 4" for i
    by (simp add: widen_nth [OF that])
  with step show ?case by (auto intro: order_trans)
qed simp

lemma registered_limits:
  "registered sv \<Longrightarrow> command_list sv = [] \<and> limits sv = [] \<or>
     length (limits sv) = 4 \<and> (\<forall>c\<in>set (command_list sv). \<forall>i<4. widths c ! i \<le> limits sv ! i)"
proof (induction rule: registered.induct)
  case (register sv cmd params hlp f sv')
  then obtain c where "sv' = recalculate_limits (sv\<lparr>command_list := command_list sv @ [c]\<rparr>)"
    by (auto simp: register_admin_def Let_def split: option.split_asm if_split_asm)
  then show ?case
    using foldl_widen [of "replicate 4 0" "command_list sv @ [c]"] by (simp add: recalculate_limits_def del: foldl_append)
next
  case (initialised sv bind_error port name sv')
  then show ?case by (auto simp: admin_init_def split: option.split_asm)
qed (simp add: new_AdminServer_def)

text \<open>
  The help text is aligned: every command of a table made by registration gets a line of the
  same length, one blank, four columns at least two wider than their longest entry, and a line end.
\<close>

theorem help_aligned:
  assumes "registered sv" and "c \<in> set (command_list sv)"
  shows "length (help_line (limits sv) c) = sum_list (limits sv) + 2 \<and>
    length (limits sv) = 4 \<and> (\<forall>i<4. widths c ! i \<le> limits sv ! i)"
proof -
  have l: "length (limits sv) = 4" "\<forall>i<4. widths c ! i \<le> limits sv ! i"
    using registered_limits [OF assms(1)] assms(2) by auto
  then obtain l0 l1 l2 l3 where ls: "limits sv = [l0, l1, l2, l3]"
    by (auto simp: numeral_eq_Suc length_Suc_conv)
  have "widths c ! 0 \<le> l0" "widths c ! 1 \<le> l1" "widths c ! 2 \<le> l2" "widths c ! 3 \<le> l3"
    using spec [OF l(2), of 0] spec [OF l(2), of 1] spec [OF l(2), of 2] spec [OF l(2), of 3]
    by (simp_all add: ls)
  then have "length (help_line (limits sv) c) = sum_list (limits sv) + 2"
    by (simp add: help_line_def setw_left_def widths_def ls)
  with l show ?thesis by blast
qed

theorem help_aligned_witness:
  "\<exists>sv c. registered sv \<and> command_list sv = [c] \<and>
     (length (help_line (limits sv) c) = sum_list (limits sv) + 2) \<and> (limits sv = [4, 8, 7, 2 :: nat]) \<and>
     cmd_ctx (c :: unit admin_cmd) = ''bm''"
proof -
  let ?f = "(\<lambda>c w. (c, w)) :: unit admin_callback"
  let ?c = "\<lparr>cmd_ctx = ''bm'', cmd_cmd = ''status'', cmd_args = ''[qty]'', cmd_help = '''', cmd_callback = ?f\<rparr>"
  let ?sv = "recalculate_limits (new_AdminServer\<lparr>command_list := [?c]\<rparr>)"
  have "register_admin ''bm status'' ''[qty]'' '''' ?f new_AdminServer = Inr ?sv"
    by (simp add: register_admin_def find_space_def Let_def new_AdminServer_def)
  note reg = registered.register [OF registered.unregistered this]
  have "command_list ?sv = [?c]" "limits ?sv = [4, 8, 7, 2]"
    by (simp_all add: recalculate_limits_def widen_def numeral_eq_Suc)
  with help_aligned [OF reg, of ?c] reg show ?thesis
    by (intro exI [of _ ?sv] exI [of _ ?c]) simp
qed

end
