(* ===== verification/AdminConsole.thy ===== *)
theory AdminConsole
  imports AdminFacts
begin

text \<open>
  From the characters typed at the console to the command they call: trimming, splitting and
  dispatch, and the length of line the console can stand.
\<close>

section \<open>Lines made of words\<close>

definition good_word :: "string \<Rightarrow> bool" where
  "good_word w \<longleftrightarrow> w \<noteq> [] \<and> (\<forall>c\<in>set w. \<not> is_space c)"

definition gap :: "string \<Rightarrow> bool" where
  "gap g \<longleftrightarrow> g \<noteq> [] \<and> (\<forall>c\<in>set g. is_sep c)"

text \<open>A word and, each behind its gap, the words that follow it.\<close>

fun spread :: "string \<Rightarrow> (string \<times> string) list \<Rightarrow> string" where
  "spread w [] = w"
| "spread w ((g, w') # ps) = w @ g @ spread w' ps"

definition good_words :: "string \<Rightarrow> (string \<times> string) list \<Rightarrow> bool" where
  "good_words w ps \<longleftrightarrow> good_word w \<and> list_all (\<lambda>(g, w'). gap g \<and> good_word w') ps"

lemma is_sep_space: "is_sep c \<Longrightarrow> is_space c"
  by (auto simp: is_sep_def is_space_def)

lemma words_from_word: "\<forall>c\<in>set w. \<not> is_space c \<Longrightarrow> words_from cur (w @ r) = words_from (cur @ w) r"
  by (induction w arbitrary: cur) (use is_sep_space in auto)

lemma words_from_blank: "\<forall>c\<in>set g. is_sep c \<Longrightarrow> words_from [] (g @ r) = words_from [] r"
  by (induction g) auto

lemma words_from_gap: "gap g \<Longrightarrow> cur \<noteq> [] \<Longrightarrow> words_from cur (g @ r) = cur # words_from [] r"
  by (cases g) (auto simp: gap_def words_from_blank)

lemma tokenize_spread: "good_words w ps \<Longrightarrow> tokenize (spread w ps) = w # List.map snd ps"
proof (induction w ps rule: spread.induct)
  case (1 w)
  then have "words_from [] (w @ []) = words_from w []"
    by (subst words_from_word) (auto simp: good_words_def good_word_def)
  with 1 show ?case by (simp add: tokenize_def good_words_def good_word_def)
next
  case (2 w g w' ps)
  then have ih: "words_from [] (spread w' ps) = w' # List.map snd ps" by (simp add: tokenize_def good_words_def)
  have "words_from [] (w @ g @ spread w' ps) = words_from w (g @ spread w' ps)"
    using 2 by (subst words_from_word) (auto simp: good_words_def good_word_def)
  also have "\<dots> = w # words_from [] (spread w' ps)"
    using 2 by (intro words_from_gap) (auto simp: good_words_def good_word_def)
  finally show ?case by (simp add: tokenize_def ih)
qed

lemma spread_ends:
  "good_words w ps \<Longrightarrow> spread w ps \<noteq> [] \<and> \<not> is_space (hd (spread w ps)) \<and> \<not> is_space (last (spread w ps))"
proof (induction w ps rule: spread.induct)
  case (1 w)
  then show ?case by (cases w) (auto simp: good_words_def good_word_def)
next
  case (2 w g w' ps)
  then have "spread w' ps \<noteq> [] \<and> \<not> is_space (last (spread w' ps))" by (simp add: good_words_def)
  with 2 show ?case by (cases w) (auto simp: good_words_def good_word_def)
qed

lemma newline_space: "is_space CHR 0x0A" "\<not> is_sep CHR 0x0A"
  by (simp_all add: is_space_def is_sep_def)

lemma good_no_newline: "good_word w \<Longrightarrow> CHR 0x0A \<notin> set w" "gap g \<Longrightarrow> CHR 0x0A \<notin> set g"
  using newline_space unfolding good_word_def gap_def by blast+

lemma spread_no_newline: "good_words w ps \<Longrightarrow> CHR 0x0A \<notin> set (spread w ps)"
  by (induction w ps rule: spread.induct) (simp_all add: good_words_def good_no_newline)

lemma dropWhile_whole: "\<forall>c\<in>set xs. P c \<Longrightarrow> dropWhile P (xs @ ys) = dropWhile P ys"
  by (induction xs) auto

lemma takeWhile_whole: "\<forall>c\<in>set xs. P c \<Longrightarrow> takeWhile P (xs @ ys) = xs @ takeWhile P ys"
  by (induction xs) auto

lemma trim_core:
  assumes "\<forall>c\<in>set pre. is_space c" and "\<forall>c\<in>set post. is_space c"
    and "core \<noteq> []" and "\<not> is_space (hd core)" and "\<not> is_space (last core)"
  shows "trim (pre @ core @ post) = core"
proof -
  have "dropWhile is_space (pre @ core @ post) = core @ post"
    using assms(1,3,4) by (cases core) (simp_all add: dropWhile_whole)
  moreover have "dropWhile is_space (rev post @ rev core) = rev core"
    using assms(2,3,5) by (cases core rule: rev_cases) (simp_all add: dropWhile_whole)
  ultimately show ?thesis by (simp add: trim_def)
qed

lemma getline_line: "CHR 0x0A \<notin> set s \<Longrightarrow> getline (s @ [CHR 0x0A] @ rest) = (s, rest)"
proof -
  assume "CHR 0x0A \<notin> set s"
  then have "\<forall>c\<in>set s. c \<noteq> CHR 0x0A" by auto
  then show ?thesis by (simp add: getline_def takeWhile_whole dropWhile_whole)
qed

section \<open>Commands\<close>

lemma handle_command_calls:
  assumes "a_state a = Running" and "2 \<le> length tokens" and "length (a_name a) \<le> 34"
    and "List.find (names_command tokens) (command_list sv) = Some c"
    and "cmd_callback c \<lparr>args = drop 2 tokens, response = []\<rparr> w = (context, w1)"
  shows "\<exists>t. handle_command show_dbl sv tokens (a, w) =
    Inr (request [A_write (response_bytes show_dbl (response context)), A_log t] a, w1)"
proof -
  let ?a1 = "admin_send (response_bytes show_dbl (response context)) True a"
  obtain t where "session_line ?a1 [P_lit '' response len='', P_d (of_nat (length (response_bytes show_dbl (response context))))] = Inr t"
    using session_line_fits [of ?a1 "[P_lit '' response len='', P_d (of_nat (length (response_bytes show_dbl (response context))))]"]
      assms(3) by auto
  then have "log_line [P_lit '' response len='', P_d (of_nat (length (response_bytes show_dbl (response context))))] ?a1 =
      Inr (request [A_log t] ?a1)" by (simp add: log_line_def)
  with assms(1,2,4,5) show ?thesis by (auto simp: handle_command_def Let_def admin_send_def)
qed

lemma handle_read_line:
  assumes "a_state a = Running" and "length (a_name a) \<le> 34" and "length (spread ctx ((g, cmd) # ps)) \<le> 43"
    and "a_input a = pre @ spread ctx ((g, cmd) # ps) @ post @ [CHR 0x0A] @ rest"
    and "good_words ctx ((g, cmd) # ps)" and "ctx \<noteq> ''login''"
    and "\<forall>c\<in>set (pre @ post). is_space c \<and> c \<noteq> CHR 0x0A"
    and "List.find (names_command (ctx # cmd # List.map snd ps)) (command_list sv) = Some c"
    and "cmd_callback c \<lparr>args = List.map snd ps, response = []\<rparr> w = (context, w1)"
  shows "\<exists>t1 t2. handle_read show_dbl sv (False, m) (a, w) =
    Inr (request [A_log t1, A_write (response_bytes show_dbl (response context)), A_log t2, A_read_line]
           (a\<lparr>a_input := rest\<rparr>), w1)"
proof -
  let ?line = "spread ctx ((g, cmd) # ps)" and ?a1 = "a\<lparr>a_input := rest\<rparr>"
  let ?tokens = "ctx # cmd # List.map snd ps"
  have "getline (a_input a) = (pre @ ?line @ post, rest)"
    using getline_line [of "pre @ ?line @ post" rest] spread_no_newline [OF assms(5)] assms(4,7) by auto
  moreover have "trim (pre @ ?line @ post) = ?line"
    using assms(7) spread_ends [OF assms(5)] by (intro trim_core) auto
  moreover have "tokenize ?line = ?tokens" using tokenize_spread [OF assms(5)] by simp
  moreover have "a_input a \<noteq> []" using assms(4) by simp
  moreover obtain t1 where "log_line [P_lit '' input='', P_s (bytes_of_string ?line)] ?a1 = Inr (request [A_log t1] ?a1)"
    using session_line_fits [of ?a1 "[P_lit '' input='', P_s (bytes_of_string ?line)]"] assms(2,3)
    by (auto simp: log_line_def bytes_of_string_def)
  moreover obtain t2 where "handle_command show_dbl sv ?tokens (request [A_log t1] ?a1, w) =
      Inr (request [A_write (response_bytes show_dbl (response context)), A_log t2] (request [A_log t1] ?a1), w1)"
    using handle_command_calls [of "request [A_log t1] ?a1" ?tokens sv c w] assms(1,2,8,9) by auto
  ultimately show ?thesis using assms(6) by (auto simp: handle_read_def Let_def arm_read_def)
qed

text \<open>
  C28: a line typed at the console reaches the command it names: however the words are spread with
  blanks and tabs, the first command of the table with these two names runs once with exactly the
  words behind them as its arguments, its response is sent back, the next line is awaited and what
  followed the line end stays in the input. (The line may have 43 characters, a session's name 34.)
\<close>

theorem typed_line_calls_command:
  assumes "a_state a = Running" and "length (a_name a) \<le> 34" and "length (spread ctx ((g, cmd) # ps)) \<le> 43"
    and "a_input a = pre @ spread ctx ((g, cmd) # ps) @ post @ [CHR 0x0A] @ rest"
    and "good_words ctx ((g, cmd) # ps)" and "ctx \<noteq> ''login''"
    and "\<forall>c\<in>set (pre @ post). is_space c \<and> c \<noteq> CHR 0x0A"
    and "List.find (names_command (ctx # cmd # List.map snd ps)) (command_list sv) = Some c"
    and "cmd_callback c \<lparr>args = List.map snd ps, response = []\<rparr> w = (context, w1)"
  shows "\<exists>t1 t2. handle_read show_dbl sv (False, m) (a, w) =
    Inr (request [A_log t1, A_write (response_bytes show_dbl (response context)), A_log t2, A_read_line]
           (a\<lparr>a_input := rest\<rparr>), w1)"
  by (rule handle_read_line [OF assms])

theorem typed_line_calls_command_witness:
  "\<exists>t1 t2. handle_read (\<lambda>_. []) echo_server (False, [])
      (echo_session\<lparr>a_name := [], a_input := ''  say args  one two '' @ [CHR 0x0A] @ ''help''\<rparr>, ()) =
    Inr (request [A_log t1, A_write (bytes_of_string ''onetwo'' @ [10]), A_log t2, A_read_line]
           (echo_session\<lparr>a_name := [], a_input := ''help''\<rparr>), ())"
proof -
  let ?a = "echo_session\<lparr>a_name := [], a_input := ''  say args  one two '' @ [CHR 0x0A] @ ''help''\<rparr>"
  let ?c = "hd (command_list echo_server)"
  have "a_state ?a = Running" "a_name ?a = []" using admin_run_state [OF echo_session_run] by simp_all
  moreover have "good_words ''say'' [('' '', ''args''), (''  '', ''one''), ('' '', ''two'')]"
    by (simp add: good_words_def good_word_def gap_def is_sep_def is_space_def)
  moreover have "List.find (names_command [''say'', ''args'', ''one'', ''two'']) (command_list echo_server) = Some ?c"
    "cmd_callback ?c \<lparr>args = [''one'', ''two''], response = []\<rparr> () =
      (\<lparr>args = [''one'', ''two''], response = [Str ''onetwo'', Endl]\<rparr>, ())"
    by (simp_all add: echo_server_def recalculate_limits_def names_command_def say_line_def say_def)
  ultimately show ?thesis
    using typed_line_calls_command [of ?a "''say''" "'' ''" "''args''" "[(''  '', ''one''), ('' '', ''two'')]" "''  ''" "'' ''" "''help''"
        echo_server ?c "()" "\<lparr>args = [''one'', ''two''], response = [Str ''onetwo'', Endl]\<rparr>" "()" "\<lambda>_. []" "[]"]
    by (simp add: is_space_def response_bytes_def)
qed

section \<open>Long lines\<close>

lemma ch_eq_0: "ch c = 0 \<longleftrightarrow> c = CHR 0x00"
proof
  assume "ch c = 0"
  then have "(of_nat (of_char c) :: 8 word) = 0" unfolding ch_def by (metis of_nat_of_char)
  then have "(of_char c :: nat) mod 256 = 0" using unat_of_nat [of "of_char c", where 'a = 8] by simp
  then have "(of_char c :: nat) = 0" by simp
  have "c = char_of (of_char c :: nat)" by simp
  also have "\<dots> = CHR 0x00" unfolding \<open>(of_char c :: nat) = 0\<close> by code_simp
  finally show "c = CHR 0x00" .
qed (simp add: ch_def)



end
