(* ===== verification/SimulatorProps.thy ===== *)
theory SimulatorProps
  imports SimulatorRun AdminConsole
begin

text \<open>What the whole program keeps and does: its start, its runs and the console's hold on both sessions.\<close>

section \<open>Starting\<close>

lemma add_server_eqs:
  "add_ouch_server port now g sim =
     (if port = 0 \<or> 65535 < port then Inl (InvalidArgument ''Invalid port number'')
      else Inr (register_cancel_function Ouch_id (register_status_function Ouch_id
        (let s = new_ouch_session (sim_env sim) in sim\<lparr>sim_env := s_env s, ouch_srv :=
          Some \<lparr>market = s, buf = g, expires_at = now + tick_ms, calls =
            [Log (bytes_of_string ''[TCP]Accepting Connection on port '' @ decimal port), Async_accept]\<rparr>\<rparr>))))"
  "add_boe_server port now g sim =
     (if port = 0 \<or> 65535 < port then Inl (InvalidArgument ''Invalid port number'')
      else Inr (register_cancel_function Boe_id (register_status_function Boe_id
        (let s = new_boe_session (sim_env sim) in sim\<lparr>sim_env := s_env s, boe_srv :=
          Some \<lparr>market = s, buf = g, expires_at = now + tick_ms, calls =
            [Log (bytes_of_string ''[TCP]Accepting Connection on port '' @ decimal port), Async_accept]\<rparr>\<rparr>))))"
  by (simp_all add: add_ouch_server_def add_boe_server_def new_SoupBinTCPServer_def new_BOEServer_def
      new_tcp_server_def register_session_def Let_def)

lemma bm_admin_result:
  "(\<exists>admin. BehaviorManager_admin stod None port = Inr admin) \<and>
   BehaviorManager_admin stod (Some what) port = Inl (EvtError (''adminserver::init: '' @ what))"
  by (simp add: BehaviorManager_admin_def admin_init_def register_admin_def find_space_def Let_def
      recalculate_limits_def new_AdminServer_def)

lemma sim_sel [simp]:
  "ouch_srv (register_status_function i sim) = ouch_srv sim" "boe_srv (register_status_function i sim) = boe_srv sim"
  "ouch_srv (register_cancel_function i sim) = ouch_srv sim" "boe_srv (register_cancel_function i sim) = boe_srv sim"
  "status_funcs (register_status_function i sim) = status_funcs sim @ [i]"
  "status_funcs (register_cancel_function i sim) = status_funcs sim"
  "cancel_funcs (register_cancel_function i sim) = cancel_funcs sim @ [i]"
  "cancel_funcs (register_status_function i sim) = cancel_funcs sim"
  by (simp_all add: register_status_function_def register_cancel_function_def)


section \<open>Running\<close>

text \<open>
  C1: whatever the clients of both servers send, whenever they connect and leave, however the timers
  fire and whatever is typed at the console, in any order and with one shared behaviour manager:
  both sessions stay reachable and well-formed, both receive buffers keep their 4096 bytes, every
  callback the console has belongs to a session that exists, and its commands are the manager's five.
\<close>

theorem program_run_sound:
  assumes "sim_run dt show_dbl stod admin sim"
  shows "(\<forall>v. ouch_srv sim = Some v \<longrightarrow> ouch_reachable (market v) \<and> ouch_wf (market v) \<and> length (buf v) = buf_size) \<and>
    (\<forall>w. boe_srv sim = Some w \<longrightarrow> boe_reachable (market w) \<and> boe_inv (market w) \<and> length (buf w) = buf_size) \<and>
    (Ouch_id \<in> set (status_funcs sim) \<longleftrightarrow> ouch_srv sim \<noteq> None) \<and>
    (Boe_id \<in> set (status_funcs sim) \<longleftrightarrow> boe_srv sim \<noteq> None) \<and>
    cancel_funcs sim = status_funcs sim \<and>
    List.map cmd_cmd (command_list admin) = [''set'', ''reset'', ''execute'', ''status'', ''cancel_all'']"
proof -
  obtain bind_error port where ok: "sim_ok sim" and admin: "BehaviorManager_admin stod bind_error port = Inr admin"
    using sim_run_ok [OF assms] by blast
  from bm_commands [OF admin] have "List.map cmd_cmd (command_list admin) =
      [''set'', ''reset'', ''execute'', ''status'', ''cancel_all'']" by blast
  with ok show ?thesis using ouch_reachable_wf boe_reachable_inv by (auto simp: sim_ok_def)
qed

definition sample_start :: "simulator admin_server \<times> simulator" where
  "sample_start =
     (case main_program (\<lambda>_. None) (Some \<lparr>opt_help = False, opt_adminserver = None, opt_ouchport = Some 9000,
        opt_boeport = Some 9001\<rparr>) None sample_world 0 (replicate buf_size 0) (replicate buf_size 0) of
        Inr (Serve admin sim) \<Rightarrow> (admin, sim) | _ \<Rightarrow> (new_AdminServer, new_simulator sample_world))"

lemma sample_start_run:
  "sim_run dt show_dbl (\<lambda>_. None) (fst sample_start) (snd sample_start) \<and>
   ouch_srv (snd sample_start) \<noteq> None \<and> boe_srv (snd sample_start) \<noteq> None"
proof -
  obtain admin where admin: "BehaviorManager_admin (\<lambda>_. None) None 10001 = Inr admin"
    using bm_admin_result by blast
  have "\<exists>sim. main_program (\<lambda>_. None) (Some \<lparr>opt_help = False, opt_adminserver = None, opt_ouchport = Some 9000,
      opt_boeport = Some 9001\<rparr>) None sample_world 0 (replicate buf_size 0) (replicate buf_size 0) =
      Inr (Serve admin sim) \<and> ouch_srv sim \<noteq> None \<and> boe_srv sim \<noteq> None"
    by (simp add: main_program_def admin make_servers_def add_server_eqs Let_def to_unsigned_def)
  then obtain sim where m: "main_program (\<lambda>_. None) (Some \<lparr>opt_help = False, opt_adminserver = None, opt_ouchport = Some 9000,
      opt_boeport = Some 9001\<rparr>) None sample_world 0 (replicate buf_size 0) (replicate buf_size 0) =
      Inr (Serve admin sim)" "ouch_srv sim \<noteq> None" "boe_srv sim \<noteq> None" by blast
  then have "fst sample_start = admin" "snd sample_start = sim" by (simp_all add: sample_start_def)
  with m sim_run.started [OF m(1)] show ?thesis by simp
qed

theorem program_run_sound_witness:
  "\<exists>v w. ouch_srv (snd sample_start) = Some v \<and> ouch_wf (market v) \<and>
     boe_srv (snd sample_start) = Some w \<and> boe_inv (market w)"
  using program_run_sound [OF conjunct1 [OF sample_start_run]] sample_start_run by blast

section \<open>The console's hold on both sessions\<close>

lemma cancel_all_effect:
  assumes "sim_ok sim" and "cancel_all c sim = (c', sim')"
  shows "(\<forall>v. ouch_srv sim = Some v \<longrightarrow>
      ouch_srv sim' = Some (v\<lparr>market := snd (ouch_cancel_all (lend (sim_env sim) (market v)))\<rparr>)) \<and>
    (\<forall>w. boe_srv sim = Some w \<longrightarrow>
      (\<exists>e. boe_srv sim' = Some (w\<lparr>market := snd (boe_cancel_all (lend e (market w)))\<rparr>)))"
  using assms
  by (cases "ouch_srv sim"; cases "boe_srv sim")
    (auto simp: sim_ok_def cancel_all_def call_cancel_def run_ouch_def run_boe_def split_def Let_def)

lemma cancel_all_tables:
  "active_orders (snd (ouch_cancel_all s)) = []" "boe_active (snd (boe_cancel_all s')) = []"
  by (simp_all add: ouch_cancel_all_def boe_cancel_all_def split_def Let_def)

lemma find_cancel_all:
  assumes "BehaviorManager_admin stod bind_error port = Inr admin"
  shows "\<exists>c. List.find (names_command [''bm'', ''cancel_all'']) (command_list admin) = Some c \<and> cmd_callback c = cancel_all"
proof -
  note eqs = bm_commands [OF assms]
  obtain c1 c2 c3 c4 c5 where "command_list admin = [c1, c2, c3, c4, c5]"
    using arg_cong [OF conjunct1 [OF eqs], of length] by (auto simp: length_Suc_conv numeral_eq_Suc)
  with eqs show ?thesis by (simp add: names_command_def numeral_eq_Suc)
qed



end
