(* ===== verification/TcpTrace.thy ===== *)
theory TcpTrace
  imports TcpProps PrintFacts
begin

text \<open>
  What the servers put on the wire and into the log. Every message a session queues can be printed,
  apart from one case of the OUCH protocol; every message written to a socket is one of the
  protocol's typed messages and has just been logged.
\<close>

section \<open>Printing what a server sends\<close>

lemma boe_typed_prints:
  assumes "boe_typed m" and "\<And>x. length (dt x) \<le> 32"
  shows "\<exists>t. boe_to_string dt m = Inr t"
proof (cases "u8_at 4 m = MsgType_code MT_LoginResponse")
  case True
  then have m: "length m = 122" "unat (blp_number_of_units (boe_LoginResponse_at m)) = 1"
    using assms(1) by (simp_all add: boe_typed_def boe_sent_size_def boe_LoginResponse_size_def boe_UnitSequence_size_def)
  have size: "boe_LoginResponse_size \<le> length m" using m(1) by (simp add: boe_LoginResponse_size_def)
  have type: "bh_type (boe_MsgHeader_at m) = MsgType_code MT_LoginResponse"
    using True by (simp add: boe_MsgHeader_at_def)
  have "\<exists>t. boe_LoginResponse_to_string (print_size - length (boe_header_text (boe_MsgHeader_at m))) m = Inr t"
    using m by (intro boe_LoginResponse_prints(1) [OF size _ _ boe_print_room(1)]) (simp_all add: boe_LoginResponse_size_def)
  then show ?thesis unfolding boe_to_string_response [OF size type] by auto
next
  case False
  note fits = boe_OrderAck_fits boe_OrderRejected_fits boe_OrderModified_fits boe_ModifyRejected_fits
    boe_OrderCanceled_fits boe_CancelRejected_fits boe_OrderExecution_fits
  from False assms(1) consider "u8_at 4 m = MsgType_code MT_ServerHeartbeat" "length m = boe_ServerHeartbeat_size"
    | "u8_at 4 m = MsgType_code MT_OrderAck" "length m = boe_OrderAck_size"
    | "u8_at 4 m = MsgType_code MT_OrderRejected" "length m = boe_OrderRejected_size"
    | "u8_at 4 m = MsgType_code MT_OrderModified" "length m = boe_OrderModified_size"
    | "u8_at 4 m = MsgType_code MT_ModifyRejected" "length m = boe_ModifyRejected_size"
    | "u8_at 4 m = MsgType_code MT_OrderCanceled" "length m = boe_OrderCanceled_size"
    | "u8_at 4 m = MsgType_code MT_CancelRejected" "length m = boe_CancelRejected_size"
    | "u8_at 4 m = MsgType_code MT_OrderExecution" "length m = boe_OrderExecution_size"
    by (auto simp: boe_typed_def boe_sent_size_def split: if_split_asm)
  then show ?thesis
    by cases (auto simp: boe_to_string_def read_struct_def boe_MsgHeader_at_def boe_MsgHeader_size_def
        boe_ServerHeartbeat_size_def boe_print_sizes Let_def intro!: boe_print_after_fits fits assms(2))
qed

lemma ouch_pieces_fit_print: "pieces_fit 2000 r \<Longrightarrow> \<exists>t. print_text r = Inr t"
  unfolding print_text_def by (erule pieces_fit_print) (simp add: print_size_def)

lemma ouch_prints_fit:
  "length m = ouch_LoginAccepted_size \<Longrightarrow> pieces_fit 2000 (ouch_print_LoginAccepted m)"
  "length m = ouch_LoginRejected_size \<Longrightarrow> pieces_fit 2000 (ouch_print_LoginRejected m)"
  "length m = ouch_ServerHeartbeat_size \<Longrightarrow> pieces_fit 2000 (ouch_print_ServerHeartbeat m)"
  "length m = ouch_OrderAccepted_size \<Longrightarrow> pieces_fit 2000 (ouch_print_OrderAccepted m)"
  "length m = ouch_OrderRejected_size \<Longrightarrow> pieces_fit 2000 (ouch_print_OrderRejected m)"
  "length m = ouch_OrderCanceled_size \<Longrightarrow> pieces_fit 2000 (ouch_print_OrderCanceled m)"
  "length m = ouch_OrderModified_size \<Longrightarrow> pieces_fit 2000 (ouch_print_OrderModified m)"
  "length m = ouch_Executed_size \<Longrightarrow> pieces_fit 2000 (ouch_print_Executed m)"
  "length m = ouch_CancelReject_size \<Longrightarrow> pieces_fit 2000 (ouch_print_CancelReject m)"
  by (simp_all add: pieces_fit_def read_struct_def length_arr_at
      ouch_print_LoginAccepted_def ouch_LoginAccepted_size_def ouch_LoginAccepted_at_def
      ouch_print_LoginRejected_def ouch_LoginRejected_size_def ouch_LoginRejected_at_def
      ouch_print_ServerHeartbeat_def ouch_ServerHeartbeat_size_def ouch_ServerHeartbeat_at_def
      ouch_print_OrderAccepted_def ouch_OrderAccepted_size_def ouch_OrderAccepted_at_def
      ouch_print_OrderRejected_def ouch_OrderRejected_size_def ouch_OrderRejected_at_def
      ouch_print_OrderCanceled_def ouch_OrderCanceled_size_def ouch_OrderCanceled_at_def
      ouch_print_OrderModified_def ouch_OrderModified_size_def ouch_OrderModified_at_def
      ouch_print_Executed_def ouch_Executed_size_def ouch_Executed_at_def
      ouch_print_CancelReject_def ouch_CancelReject_size_def ouch_CancelReject_at_def)

text \<open>
  The old token of a replaced-order message is the one field printed as a C string straight from
  memory; a NUL in it is the only thing that stops the print.
\<close>

definition runs_over :: "byte list \<Rightarrow> bool" where
  "runs_over m \<longleftrightarrow> u8_at 2 m = PacketType_code PT_SequencedData \<and>
     u8_at 3 m = InboundMsgType_code In_OrderReplaced \<and> 0 \<notin> set (drop 68 m)"

lemma ouch_replaced_prints:
  assumes "length m = ouch_OrderReplaced_size"
  shows "0 \<in> set (drop 68 m) \<Longrightarrow> pieces_fit 2000 (ouch_print_OrderReplaced m)"
    and "0 \<notin> set (drop 68 m) \<Longrightarrow> ouch_print_OrderReplaced m = Inl OutOfBounds"
proof -
  assume zero: "0 \<in> set (drop 68 m)"
  have "length (takeWhile (\<lambda>b. b \<noteq> 0) (drop 68 m)) \<le> 15"
    using length_takeWhile_le [of "\<lambda>b. b \<noteq> 0" "drop 68 m"] assms by (simp add: ouch_OrderReplaced_size_def)
  then show "pieces_fit 2000 (ouch_print_OrderReplaced m)"
    using assms zero by (simp add: pieces_fit_def read_struct_def length_arr_at c_string_def
        ouch_print_OrderReplaced_def ouch_OrderReplaced_size_def ouch_OrderReplaced_at_def)
next
  assume "0 \<notin> set (drop 68 m)"
  then show "ouch_print_OrderReplaced m = Inl OutOfBounds"
    using assms by (simp add: ouch_print_OrderReplaced_def read_struct_def c_string_def)
qed

lemma ouch_typed_cases [consumes 1, case_names login_accepted login_rejected heartbeat accepted rejected
    canceled modified replaced executed cancel_reject]:
  assumes "ouch_typed m"
  obtains "u8_at 2 m = PacketType_code PT_LoginAccepted" "length m = ouch_LoginAccepted_size"
    | "u8_at 2 m = PacketType_code PT_LoginRejected" "length m = ouch_LoginRejected_size"
    | "u8_at 2 m = PacketType_code PT_ServerHeartbeat" "length m = ouch_ServerHeartbeat_size"
    | "u8_at 2 m = PacketType_code PT_SequencedData" "u8_at 3 m = InboundMsgType_code In_OrderAccepted" "length m = ouch_OrderAccepted_size"
    | "u8_at 2 m = PacketType_code PT_SequencedData" "u8_at 3 m = InboundMsgType_code In_OrderRejected" "length m = ouch_OrderRejected_size"
    | "u8_at 2 m = PacketType_code PT_SequencedData" "u8_at 3 m = InboundMsgType_code In_OrderCanceled" "length m = ouch_OrderCanceled_size"
    | "u8_at 2 m = PacketType_code PT_SequencedData" "u8_at 3 m = InboundMsgType_code In_OrderModified" "length m = ouch_OrderModified_size"
    | "u8_at 2 m = PacketType_code PT_SequencedData" "u8_at 3 m = InboundMsgType_code In_OrderReplaced" "length m = ouch_OrderReplaced_size"
    | "u8_at 2 m = PacketType_code PT_SequencedData" "u8_at 3 m = InboundMsgType_code In_Executed" "length m = ouch_Executed_size"
    | "u8_at 2 m = PacketType_code PT_SequencedData" "u8_at 3 m = InboundMsgType_code In_CancelReject" "length m = ouch_CancelReject_size"
  using assms by (auto simp: ouch_typed_def ouch_sent_size_def split: if_split_asm)

lemmas ouch_inbound_defs = ouch_inbound_to_string_def ouch_inbound_message_to_string_def read_struct_def
  ouch_MsgHeader_size_def ouch_MsgHeader_at_def Let_def ch_def

lemma ouch_typed_prints:
  assumes "ouch_typed m"
  shows "(\<exists>t. ouch_inbound_to_string g m = Inr t) \<longleftrightarrow> \<not> runs_over m"
    and "runs_over m \<Longrightarrow> ouch_inbound_to_string g m = Inl OutOfBounds"
proof -
  show over: "runs_over m \<Longrightarrow> ouch_inbound_to_string g m = Inl OutOfBounds"
  proof -
    assume r: "runs_over m"
    with assms have "length m = 83"
      by (simp add: runs_over_def ouch_typed_def ouch_sent_size_def ouch_OrderReplaced_size_def ch_def)
    with r ouch_replaced_prints(2) [of m] show ?thesis
      by (simp add: runs_over_def ouch_inbound_defs ouch_OrderReplaced_size_def print_text_def print_after_def)
  qed
  have "\<exists>t. ouch_inbound_to_string g m = Inr t" if "\<not> runs_over m"
    using assms
  proof (cases rule: ouch_typed_cases)
    case replaced
    then have "0 \<in> set (drop 68 m)" using that by (simp add: runs_over_def)
    with replaced show ?thesis
      using ouch_pieces_fit_print [OF ouch_replaced_prints(1)] by (simp add: ouch_inbound_defs ouch_OrderReplaced_size_def)
  qed (use ouch_pieces_fit_print [OF ouch_prints_fit(1)] ouch_pieces_fit_print [OF ouch_prints_fit(2)]
      ouch_pieces_fit_print [OF ouch_prints_fit(3)] ouch_pieces_fit_print [OF ouch_prints_fit(4)]
      ouch_pieces_fit_print [OF ouch_prints_fit(5)] ouch_pieces_fit_print [OF ouch_prints_fit(6)]
      ouch_pieces_fit_print [OF ouch_prints_fit(7)] ouch_pieces_fit_print [OF ouch_prints_fit(8)]
      ouch_pieces_fit_print [OF ouch_prints_fit(9)]
    in \<open>simp add: ouch_inbound_defs ouch_LoginAccepted_size_def ouch_LoginRejected_size_def
      ouch_ServerHeartbeat_size_def ouch_OrderAccepted_size_def ouch_OrderRejected_size_def ouch_OrderCanceled_size_def
      ouch_OrderModified_size_def ouch_Executed_size_def ouch_CancelReject_size_def\<close>)+
  with over show "(\<exists>t. ouch_inbound_to_string g m = Inr t) \<longleftrightarrow> \<not> runs_over m" by auto
qed

section \<open>The calls a server makes\<close>

text \<open>
  A list of calls in which every write is of a message of the protocol and comes right after the
  log line that prints that message.
\<close>

inductive well_sent :: "string \<Rightarrow> (byte list \<Rightarrow> bool) \<Rightarrow> (byte list \<Rightarrow> byte list \<Rightarrow> bool) \<Rightarrow> call list \<Rightarrow> bool"
  for name typed prints where
  well_sent_Nil: "well_sent name typed prints []"
| well_sent_other: "well_sent name typed prints cs \<Longrightarrow> \<forall>m. c \<noteq> Write m \<Longrightarrow> well_sent name typed prints (cs @ [c])"
| well_sent_write: "well_sent name typed prints cs \<Longrightarrow> typed m \<Longrightarrow> prints m t \<Longrightarrow>
    well_sent name typed prints (cs @ [Log (bytes_of_string (name @ ''SEND: '') @ t), Write m])"

lemma well_sent_append:
  "well_sent name typed prints cs \<Longrightarrow> \<forall>c\<in>set cs'. \<forall>m. c \<noteq> Write m \<Longrightarrow> well_sent name typed prints (cs @ cs')"
proof (induction cs' rule: rev_induct)
  case (snoc c cs')
  then have "well_sent name typed prints ((cs @ cs') @ [c])" by (intro well_sent_other) auto
  then show ?case by simp
qed simp

lemma well_sent_nth:
  "well_sent name typed prints cs \<Longrightarrow> i < length cs \<Longrightarrow> cs ! i = Write m \<Longrightarrow>
   typed m \<and> 0 < i \<and> (\<exists>t. cs ! (i - 1) = Log (bytes_of_string (name @ ''SEND: '') @ t) \<and> prints m t)"
proof (induction arbitrary: i rule: well_sent.induct)
  case (well_sent_other cs c)
  then show ?case by (cases "i < length cs") (auto simp: nth_append less_Suc_eq)
next
  case (well_sent_write cs m' t)
  show ?case
  proof (cases "i < length cs")
    case True
    with well_sent_write have "typed m \<and> 0 < i \<and>
        (\<exists>t. cs ! (i - 1) = Log (bytes_of_string (name @ ''SEND: '') @ t) \<and> prints m t)"
      by (simp add: nth_append)
    with True show ?thesis by (auto simp: nth_append)
  next
    case False
    with well_sent_write have "i = length cs + 1" "m' = m" by (auto simp: nth_append nth_Cons split: nat.splits)
    with well_sent_write show ?thesis by (auto simp: nth_append)
  qed
qed simp

lemma read_loop_logs:
  "read_loop P n pos v = Inr v' \<Longrightarrow> \<exists>ts. calls v' = calls v @ List.map Log ts"
proof (induction "n - pos" arbitrary: pos v rule: less_induct)
  case less
  show ?case
  proof (cases "pos < n")
    case False
    with less.prems show ?thesis by (auto simp: read_loop_done intro: exI [of _ "[]"])
  next
    case True
    with less.prems obtain w :: u16 and v1 t where loop: "read_loop P n (pos + (unat w + 2)) v1 = Inr v'"
      and one: "calls v1 = calls v @ [Log t]"
      by (fastforce simp: read_loop_step bind_result_Inr_iff)
    have "n - (pos + (unat w + 2)) < n - pos" using True by simp
    from less.hyps [OF this loop] one obtain ts where "calls v' = calls v @ List.map Log (t # ts)" by auto
    then show ?thesis by blast
  qed
qed

section \<open>Sessions whose messages are typed\<close>

text \<open>
  What more a server relies on to send: the pending messages are typed, and the text it logs is
  that of the message.
\<close>

locale typed_session = served_session P good for P :: "'s protocol" and good +
  fixes typed :: "byte list \<Rightarrow> bool" and prints :: "byte list \<Rightarrow> byte list \<Rightarrow> bool"
  assumes good_typed: "good m \<Longrightarrow> x \<in> set (pending_out_messages m) \<Longrightarrow> typed x"
    and send_text_prints: "send_text P x m = Inr (t, m') \<Longrightarrow> prints x t"
begin

lemma send_loop_well_sent:
  "send_loop P msgs v = Inr v' \<Longrightarrow> \<forall>x\<in>set msgs. typed x \<Longrightarrow>
   well_sent (log_name P) typed prints (calls v) \<Longrightarrow> well_sent (log_name P) typed prints (calls v')"
proof (induction msgs arbitrary: v)
  case (Cons msg msgs)
  then obtain t m where t: "send_text P msg (market v) = Inr (t, m)"
    and r: "send_loop P msgs (ask [Log (bytes_of_string (log_name P @ ''SEND: '') @ t), Write msg]
      (v\<lparr>market := m\<rparr>)) = Inr v'"
    by (auto simp: bind_result_Inr_iff split: prod.splits)
  show ?case
    by (rule Cons.IH [OF r]) (use Cons.prems(2,3) send_text_prints [OF t] in \<open>auto intro: well_sent_write\<close>)
qed simp

lemma tcp_send_well_sent:
  assumes "tcp_send P v = Inr v'" and "good (market v)" and "well_sent (log_name P) typed prints (calls v)"
  shows "well_sent (log_name P) typed prints (calls v')"
proof -
  obtain v1 where "send_loop P (pending_out_messages (market v)) v = Inr v1" "calls v' = calls v1"
    using assms(1) by (auto simp: tcp_send_def bind_result_Inr_iff)
  with send_loop_well_sent [OF this(1)] good_typed [OF assms(2)] assms(3) show ?thesis by simp
qed

lemma tcp_read_well_sent:
  assumes "tcp_read P ec n v = Inr v'" and "good (market v)" and "n \<le> length (buf v)"
    and "well_sent (log_name P) typed prints (calls v)"
  shows "well_sent (log_name P) typed prints (calls v')"
proof (cases "ec = Eof")
  case True
  then have "calls v' = calls v @ [say_log (log_name P @ ''Connection Closed''), Cancel_timer,
      say_log ''[TCP]Attempt to reconnect'', Delete_socket, Async_accept]"
    using assms(1) by (auto simp: tcp_read_def tcp_reconnect_def)
  with well_sent_append [OF assms(4)] show ?thesis by (simp add: say_log_def)
next
  case False
  then obtain v1 v2 where v1: "read_loop P n 0 v = Inr v1" and v2: "tcp_send P v1 = Inr v2"
    and v': "calls v' = calls v2 @ [Async_read]"
    using assms(1) by (auto simp: tcp_read_def bind_result_Inr_iff)
  obtain ts where "calls v1 = calls v @ List.map Log ts" using read_loop_logs [OF v1] by blast
  then have "well_sent (log_name P) typed prints (calls v1)" using well_sent_append [OF assms(4)] by auto
  then have "well_sent (log_name P) typed prints (calls v2)"
    using tcp_send_well_sent [OF v2] read_loop_good [OF v1 assms(2,3)] by simp
  then show ?thesis unfolding v' by (rule well_sent_other) simp
qed

lemma tcp_process_well_sent:
  assumes "tcp_process P error v = Inr v'" and "good (market v)" and "well_sent (log_name P) typed prints (calls v)"
  shows "well_sent (log_name P) typed prints (calls v')"
proof (cases error)
  case True
  with assms show ?thesis by (simp add: tcp_process_def)
next
  case False
  then obtain v1 where v1: "tcp_send P (v\<lparr>market := market_logic P (market v)\<rparr>) = Inr v1"
    and v': "calls v' = calls v1 @ [Async_wait]"
    using assms(1) by (auto simp: tcp_process_def bind_result_Inr_iff)
  have "well_sent (log_name P) typed prints (calls v1)"
    using tcp_send_well_sent [OF v1] good_tick [OF assms(2)] assms(3) by simp
  then show ?thesis unfolding v' by (rule well_sent_other) simp
qed

lemma tcp_accept_well_sent:
  assumes "well_sent (log_name P) typed prints (calls v)"
  shows "well_sent (log_name P) typed prints (calls (tcp_accept error v))"
  using well_sent_append [OF assms, of "[say_log ''[TCP]Connection established'', Async_read, Async_wait]"] assms
  by (simp add: tcp_accept_def say_log_def)

end

text \<open>The messages of each protocol, and their log text.\<close>

definition ouch_message :: "byte list \<Rightarrow> bool" where
  "ouch_message m \<longleftrightarrow> ouch_frame m \<and> ouch_event_of m \<noteq> None \<and> ouch_typed m"

definition boe_message :: "byte list \<Rightarrow> bool" where
  "boe_message m \<longleftrightarrow> boe_frame m \<and> boe_event_of m \<noteq> None \<and> boe_typed m"

definition ouch_prints :: "byte list \<Rightarrow> byte list \<Rightarrow> bool" where
  "ouch_prints m t \<longleftrightarrow> (\<exists>g. ouch_inbound_to_string g m = Inr t)"

definition boe_prints :: "(u64 \<Rightarrow> byte list) \<Rightarrow> byte list \<Rightarrow> byte list \<Rightarrow> bool" where
  "boe_prints dt m t \<longleftrightarrow> boe_to_string dt m = Inr t"

lemma ouch_reachable_messages: "ouch_reachable s \<Longrightarrow> m \<in> set (pending_out_messages s) \<Longrightarrow> ouch_message m"
  using ouch_reachable_wf by (auto simp: ouch_inv_def ouch_framed_def ouch_message_def)

lemma boe_reachable_messages: "boe_reachable s \<Longrightarrow> m \<in> set (pending_out_messages s) \<Longrightarrow> boe_message m"
  using boe_reachable_inv by (auto simp: boe_inv_def boe_framed_def boe_message_def)

interpretation soup_sender: typed_session ouch_protocol ouch_reachable ouch_message ouch_prints
  by unfold_locales
    (auto simp: ouch_reachable_messages ouch_prints_def ouch_send_text_def on_env_result bind_result_Inr_iff)

interpretation boe_sender: typed_session "boe_protocol dt" boe_reachable boe_message "boe_prints dt" for dt
  by unfold_locales (auto simp: boe_reachable_messages boe_prints_def boe_text_def bind_result_Inr_iff)

section \<open>Sends that return\<close>

definition written :: "call list \<Rightarrow> byte list list" where
  "written cs = concat (List.map (\<lambda>c. case c of Write m \<Rightarrow> [m] | _ \<Rightarrow> []) cs)"

lemma written_simps [simp]:
  "written [] = []" "written (cs @ cs') = written cs @ written cs'" "written (Write m # cs) = m # written cs"
  "written (Log t # cs) = written cs" "written (Async_wait # cs) = written cs" "written (Async_read # cs) = written cs"
  by (simp_all add: written_def)

lemma send_loop_returns:
  assumes "\<And>x s. x \<in> set msgs \<Longrightarrow> \<exists>t s'. send_text P x s = Inr (t, s')"
  shows "\<exists>v'. send_loop P msgs v = Inr v' \<and> written (calls v') = written (calls v) @ msgs"
  using assms
proof (induction msgs arbitrary: v)
  case (Cons msg msgs)
  obtain t m where t: "send_text P msg (market v) = Inr (t, m)" using Cons.prems [of msg "market v"] by auto
  let ?v1 = "ask [Log (bytes_of_string (log_name P @ ''SEND: '') @ t), Write msg] (v\<lparr>market := m\<rparr>)"
  have "\<exists>v'. send_loop P msgs ?v1 = Inr v' \<and> written (calls v') = written (calls ?v1) @ msgs"
    by (rule Cons.IH) (use Cons.prems in simp)
  with t show ?case by auto
qed simp

lemma tcp_send_returns:
  assumes "\<And>x s. x \<in> set (pending_out_messages (market v)) \<Longrightarrow> \<exists>t s'. send_text P x s = Inr (t, s')"
  shows "\<exists>v'. tcp_send P v = Inr v' \<and> pending_out_messages (market v') = [] \<and>
    written (calls v') = written (calls v) @ pending_out_messages (market v)"
proof -
  obtain v1 where "send_loop P (pending_out_messages (market v)) v = Inr v1"
    "written (calls v1) = written (calls v) @ pending_out_messages (market v)"
    using send_loop_returns [OF assms] by blast
  then show ?thesis by (simp add: tcp_send_def)
qed

lemma boe_send_returns:
  assumes "\<And>x. length (dt x) \<le> 32" and "boe_reachable (market v)"
  shows "\<exists>v'. tcp_send (boe_protocol dt) v = Inr v' \<and> pending_out_messages (market v') = [] \<and>
    written (calls v') = written (calls v) @ pending_out_messages (market v)"
proof (rule tcp_send_returns)
  fix x s assume "x \<in> set (pending_out_messages (market v))"
  then have "boe_typed x" using boe_reachable_messages [OF assms(2)] by (simp add: boe_message_def)
  then obtain t where "boe_to_string dt x = Inr t" using boe_typed_prints [of x dt] assms(1) by blast
  then show "\<exists>t s'. send_text (boe_protocol dt) x s = Inr (t, s')" by (simp add: boe_text_def)
qed

lemma ouch_send_returns:
  assumes "ouch_reachable (market v)" and "\<forall>x\<in>set (pending_out_messages (market v)). \<not> runs_over x"
  shows "\<exists>v'. tcp_send ouch_protocol v = Inr v' \<and> pending_out_messages (market v') = [] \<and>
    written (calls v') = written (calls v) @ pending_out_messages (market v)"
proof (rule tcp_send_returns)
  fix x :: "byte list" and s :: ouch_session
  assume x: "x \<in> set (pending_out_messages (market v))"
  then have "ouch_typed x" using ouch_reachable_messages [OF assms(1)] by (simp add: ouch_message_def)
  with x assms(2) have "\<exists>t. ouch_inbound_to_string g x = Inr t" for g by (simp add: ouch_typed_prints)
  then obtain t where "ouch_inbound_to_string (fst (uninit print_size (s_env s))) x = Inr t" by blast
  then show "\<exists>t s'. send_text ouch_protocol x s = Inr (t, s')"
    by (simp add: ouch_send_text_def on_env_result)
qed

end
