(* ===== verification/SimulatorTrace.thy ===== *)
theory SimulatorTrace
  imports SimulatorProps TcpTrace TcpLimits
begin

text \<open>
  What the running program puts on the wire and into its log, and when its servers go on: a second
  invariant of every run, on the calls both servers have made.
\<close>

section \<open>The invariant\<close>

definition sim_sent :: "(u64 \<Rightarrow> byte list) \<Rightarrow> simulator \<Rightarrow> bool" where
  "sim_sent dt sim \<longleftrightarrow>
     (\<forall>v. ouch_srv sim = Some v \<longrightarrow> well_sent ''[OUCH]'' ouch_message ouch_prints (calls v)) \<and>
     (\<forall>v. boe_srv sim = Some v \<longrightarrow> well_sent ''[BOE]'' boe_message (boe_prints dt) (calls v))"

lemma run_sent:
  "sim_sent dt sim \<Longrightarrow> run_ouch d f sim = (x, sim') \<Longrightarrow> sim_sent dt sim'"
  "sim_sent dt sim \<Longrightarrow> run_boe d g sim = (x, sim') \<Longrightarrow> sim_sent dt sim'"
  by (auto simp: sim_sent_def run_ouch_def run_boe_def split: option.split_asm prod.split_asm)

lemma call_sent:
  "sim_sent dt sim \<Longrightarrow> call_status i sim = (items, sim') \<Longrightarrow> sim_sent dt sim'"
  "sim_sent dt sim \<Longrightarrow> call_cancel i sim = (n, sim') \<Longrightarrow> sim_sent dt sim'"
  unfolding call_status_def call_cancel_def by (cases i; simp; erule (1) run_sent)+

interpretation console_sent: console_invariant "sim_sent dt" for dt
  by (unfold_locales, simp add: sim_sent_def) (erule (1) call_sent)+

lemma step_ouch_sent:
  assumes "sim_ok sim" and "sim_sent dt sim" and "step_ouch f sim = Inr sim'"
    and "\<And>v v1. f v = Inr v1 \<Longrightarrow> ouch_reachable (market v) \<Longrightarrow> length (buf v) = buf_size \<Longrightarrow>
      well_sent ''[OUCH]'' ouch_message ouch_prints (calls v) \<Longrightarrow> well_sent ''[OUCH]'' ouch_message ouch_prints (calls v1)"
  shows "sim_sent dt sim'"
proof (cases "ouch_srv sim")
  case None
  with assms(2,3) show ?thesis by (simp add: step_ouch_def)
next
  case (Some v)
  then obtain v1 where v1: "f (v\<lparr>market := lend (sim_env sim) (market v)\<rparr>) = Inr v1"
    and sim': "sim' = sim\<lparr>sim_env := s_env (market v1), ouch_srv := Some v1\<rparr>"
    using assms(3) by (auto simp: step_ouch_def bind_result_Inr_iff)
  have "well_sent ''[OUCH]'' ouch_message ouch_prints (calls v1)"
    by (rule assms(4) [OF v1]) (use assms(1,2) Some in \<open>simp_all add: sim_ok_def sim_sent_def lend_reachable\<close>)
  then show ?thesis using assms(2) by (simp add: sim_sent_def sim')
qed

lemma step_boe_sent:
  assumes "sim_ok sim" and "sim_sent dt sim" and "step_boe f sim = Inr sim'"
    and "\<And>v v1. f v = Inr v1 \<Longrightarrow> boe_reachable (market v) \<Longrightarrow> length (buf v) = buf_size \<Longrightarrow>
      well_sent ''[BOE]'' boe_message (boe_prints dt) (calls v) \<Longrightarrow> well_sent ''[BOE]'' boe_message (boe_prints dt) (calls v1)"
  shows "sim_sent dt sim'"
proof (cases "boe_srv sim")
  case None
  with assms(2,3) show ?thesis by (simp add: step_boe_def)
next
  case (Some v)
  then obtain v1 where v1: "f (v\<lparr>market := lend (sim_env sim) (market v)\<rparr>) = Inr v1"
    and sim': "sim' = sim\<lparr>sim_env := s_env (market v1), boe_srv := Some v1\<rparr>"
    using assms(3) by (auto simp: step_boe_def bind_result_Inr_iff)
  have "well_sent ''[BOE]'' boe_message (boe_prints dt) (calls v1)"
    by (rule assms(4) [OF v1]) (use assms(1,2) Some in \<open>simp_all add: sim_ok_def sim_sent_def lend_reachable\<close>)
  then show ?thesis using assms(2) by (simp add: sim_sent_def sim')
qed

lemma new_server_sent:
  assumes "new_tcp_server given port now m g = Inr v"
  shows "well_sent name typed prints (calls v)"
proof -
  have "well_sent name typed prints ([] @ [Log (bytes_of_string ''[TCP]Accepting Connection on port '' @ decimal port), Async_accept])"
    by (rule well_sent_append [OF well_sent_Nil]) simp
  with assms show ?thesis by (auto simp: new_tcp_server_def split: if_split_asm)
qed

lemma add_server_sent:
  "add_ouch_server port now g sim = Inr sim' \<Longrightarrow> sim_sent dt sim \<Longrightarrow> sim_sent dt sim'"
  "add_boe_server port now g sim = Inr sim' \<Longrightarrow> sim_sent dt sim \<Longrightarrow> sim_sent dt sim'"
  by (auto simp: add_ouch_server_def add_boe_server_def new_SoupBinTCPServer_def new_BOEServer_def
      bind_result_Inr_iff sim_sent_def register_session_def register_status_function_def register_cancel_function_def
      intro: new_server_sent)

lemma main_program_sent:
  assumes "main_program stod parsed bind_error w now g1 g2 = Inr (Serve admin sim)"
  shows "sim_sent dt sim"
proof -
  have new: "sim_sent dt (new_simulator w)" by (simp add: sim_sent_def new_simulator_def)
  obtain vm where "make_servers vm now g1 g2 (new_simulator w) = Inr sim"
    using assms by (auto simp: main_program_def Let_def bind_result_Inr_iff split: option.split_asm if_split_asm)
  with new add_server_sent show ?thesis
    by (auto simp: make_servers_def bind_result_Inr_iff split: option.split_asm)
qed

lemma sim_run_sent: "sim_run dt show_dbl stod admin sim \<Longrightarrow> sim_sent dt sim"
proof (induction rule: sim_run.induct)
  case (started parsed bind_error w now g1 g2 admin sim)
  then show ?case using main_program_sent by blast
next
  case (ouch_accepted admin sim error sim')
  then show ?case
    using step_ouch_sent [OF conjunct1 [OF sim_run_ok [OF ouch_accepted(1)]] ouch_accepted.IH ouch_accepted(2)]
      soup_sender.tcp_accept_well_sent by auto
next
  case (ouch_received admin sim data ec sim')
  have "length (buf (deliver data v)) = length (buf v)" "calls (deliver data v) = calls v" "market (deliver data v) = market v"
    if "length (buf v) = buf_size" for v :: ouch_server
    using that ouch_received(2) by (simp_all add: deliver_def)
  then show ?case
    using step_ouch_sent [OF conjunct1 [OF sim_run_ok [OF ouch_received(1)]] ouch_received.IH ouch_received(3)]
      soup_sender.tcp_read_well_sent ouch_received(2) by (fastforce simp: SoupBinTCPServer_read_def)
next
  case (ouch_timer admin sim error sim')
  then show ?case
    using step_ouch_sent [OF conjunct1 [OF sim_run_ok [OF ouch_timer(1)]] ouch_timer.IH ouch_timer(2)]
      soup_sender.tcp_process_well_sent by auto
next
  case (boe_accepted admin sim error sim')
  then show ?case
    using step_boe_sent [OF conjunct1 [OF sim_run_ok [OF boe_accepted(1)]] boe_accepted.IH boe_accepted(2)]
      boe_sender.tcp_accept_well_sent by auto
next
  case (boe_received admin sim data ec sim')
  have "length (buf (deliver data v)) = length (buf v)" "calls (deliver data v) = calls v" "market (deliver data v) = market v"
    if "length (buf v) = buf_size" for v :: boe_server
    using that boe_received(2) by (simp_all add: deliver_def)
  then show ?case
    using step_boe_sent [OF conjunct1 [OF sim_run_ok [OF boe_received(1)]] boe_received.IH boe_received(3)]
      boe_sender.tcp_read_well_sent boe_received(2) by (fastforce simp: BOEServer_read_def)
next
  case (boe_timer admin sim error sim')
  then show ?case
    using step_boe_sent [OF conjunct1 [OF sim_run_ok [OF boe_timer(1)]] boe_timer.IH boe_timer(2)]
      boe_sender.tcp_process_well_sent by auto
next
  case (console admin sim ec a a' sim')
  then show ?case using sim_run_ok [OF console(1)] console_sent.console_keeps by blast
qed

section \<open>A run\<close>

text \<open>A client of the BOE server logs in: some answer is on the wire.\<close>

definition sample_login :: "byte list" where
  "sample_login = [0xBA, 0xBA, 72, 0, MsgType_code MT_LoginRequest] @ replicate 69 0"

lemma sample_login_sel:
  "length sample_login = 74" "framed_packet (boe_protocol dt) sample_login"
  "bh_type (boe_MsgHeader_at (sample_login @ r)) = MsgType_code MT_LoginRequest"
  "bh_type (boe_MsgHeader_at sample_login) \<noteq> MsgType_code MT_LoginResponse"
  by (simp_all add: sample_login_def framed_packet_def boe_MsgHeader_at_def u8_at_def u16_at_def of_le_def nth_append)

lemma set_written: "m \<in> set (written cs) \<longleftrightarrow> Write m \<in> set cs"
  by (auto simp: written_def split: call.split_asm intro!: bexI [of _ "Write m"])

lemma login_answered: "pending_out_messages (boe_handle_login_request mem s) \<noteq> []"
  by (simp add: boe_handle_login_request_def boe_construct_login_response_def on_env_result Let_def)

lemma boe_login_read:
  assumes "\<And>x. length (dt x) \<le> 32" and "boe_reachable (market v)" and "length (buf v) = buf_size"
  shows "\<exists>v' m. BOEServer_read dt No_error 74 (deliver sample_login v) = Inr v' \<and> Write m \<in> set (calls v')"
proof -
  let ?P = "boe_protocol dt" and ?rest = "drop 74 (buf v)"
  let ?mem = "sample_login @ ?rest" and ?m = "boe_handle_login_request (sample_login @ ?rest) (market v)"
  have len: "236 \<le> length ?mem" using assms(3) by (simp add: sample_login_sel buf_size_def)
  then obtain t where t: "boe_to_string dt ?mem = Inr t"
    using boe_to_string_fits [of dt ?mem] assms(1) by (auto simp: boe_LogoutResponse_size_def sample_login_sel(3))
  have h: "boe_handle_packet ?mem 74 (market v) = Inr (?mem, ?m)"
    using len by (simp add: boe_handle_packet_def read_struct_def boe_MsgHeader_size_def boe_LoginRequest_size_def
        sample_login_sel Let_def)
  have "boe_reachable ?m" using boe_reachable.boe_next [OF assms(2) boe_step.boe_packet [OF h]] .
  from boe_send_returns [of dt "ask [Log (bytes_of_string ''[BOE]RECV: '' @ t)] (v\<lparr>market := ?m\<rparr>)", OF assms(1)] this
  obtain v2 where v2: "tcp_send ?P (ask [Log (bytes_of_string ''[BOE]RECV: '' @ t)] (v\<lparr>market := ?m\<rparr>)) = Inr v2"
    "written (calls v2) = written (calls v @ [Log (bytes_of_string ''[BOE]RECV: '' @ t)]) @ pending_out_messages ?m" by auto
  have "forget_buf (tcp_read ?P No_error 74 (deliver sample_login v)) = forget_buf (Inr (ask [Async_read] v2))"
    using boe_served.tcp_read_serves [of dt "[sample_login]" No_error v] v2(1)
    by (simp add: sample_login_sel boe_text_def t h after_read_def del: forget_buf_def)
  then obtain v' where v': "BOEServer_read dt No_error 74 (deliver sample_login v) = Inr v'"
    "v'\<lparr>buf := []\<rparr> = (ask [Async_read] v2)\<lparr>buf := []\<rparr>"
    by (cases "tcp_read ?P No_error 74 (deliver sample_login v)") (auto simp: forget_buf_def BOEServer_read_def)
  from arg_cong [OF v'(2), of calls] have "calls v' = calls v2 @ [Async_read]" by simp
  moreover have "hd (pending_out_messages ?m) \<in> set (written (calls v2))" using v2(2) login_answered by simp
  ultimately show ?thesis using v'(1) set_written by fastforce
qed

lemma sample_login_run:
  "\<exists>sim v m. sim_run (\<lambda>_. []) (\<lambda>_. []) (\<lambda>_. None) (fst sample_start) sim \<and> boe_srv sim = Some v \<and> Write m \<in> set (calls v)"
proof -
  have run: "sim_run (\<lambda>_. []) (\<lambda>_. []) (\<lambda>_. None) (fst sample_start) (snd sample_start)" using sample_start_run by blast
  obtain v where v: "boe_srv (snd sample_start) = Some v" using sample_start_run by blast
  let ?v = "v\<lparr>market := lend (sim_env (snd sample_start)) (market v)\<rparr>"
  have "boe_reachable (market ?v)" "length (buf ?v) = buf_size"
    using sim_run_ok [OF run] v by (simp_all add: sim_ok_def lend_reachable)
  then obtain v' m where v': "BOEServer_read (\<lambda>_. []) No_error 74 (deliver sample_login ?v) = Inr v'" "Write m \<in> set (calls v')"
    using boe_login_read [of "\<lambda>_. []" ?v] by auto
  then have "step_boe (\<lambda>v. BOEServer_read (\<lambda>_. []) No_error (length sample_login) (deliver sample_login v)) (snd sample_start) =
      Inr ((snd sample_start)\<lparr>sim_env := s_env (market v'), boe_srv := Some v'\<rparr>)"
    by (simp add: step_boe_def v sample_login_sel)
  from sim_run.boe_received [OF run _ this] v'(2) show ?thesis
    by (intro exI [of _ "(snd sample_start)\<lparr>sim_env := s_env (market v'), boe_srv := Some v'\<rparr>"] exI [of _ v'])
      (auto simp: sample_login_sel buf_size_def)
qed

section \<open>Wire and log\<close>

text \<open>
  C2: type safety of the wire. In every run of the program, everything either server has written to
  a socket or has waiting to be written is a message of its protocol: it declares its own length,
  a member decodes it, and its type bytes determine its exact size - a struct is never sent cut
  short, with trailing bytes or under the type of another. A BOE login response announces one unit.
\<close>

theorem wire_messages_typed:
  assumes "sim_run dt show_dbl stod admin sim"
  shows "(\<forall>v m. ouch_srv sim = Some v \<and> (Write m \<in> set (calls v) \<or> m \<in> set (pending_out_messages (market v))) \<longrightarrow>
      ouch_frame m \<and> ouch_event_of m \<noteq> None \<and> length m = ouch_sent_size (u8_at 2 m) (u8_at 3 m)) \<and>
    (\<forall>v m. boe_srv sim = Some v \<and> (Write m \<in> set (calls v) \<or> m \<in> set (pending_out_messages (market v))) \<longrightarrow>
      boe_frame m \<and> boe_event_of m \<noteq> None \<and> length m = boe_sent_size (u8_at 4 m) \<and>
      (u8_at 4 m = MsgType_code MT_LoginResponse \<longrightarrow> blp_number_of_units (boe_LoginResponse_at m) = 1))"
proof -
  have ok: "sim_ok sim" and sent: "sim_sent dt sim" using sim_run_ok [OF assms] sim_run_sent [OF assms] by blast+
  have "ouch_message m" if "ouch_srv sim = Some v"
    "Write m \<in> set (calls v) \<or> m \<in> set (pending_out_messages (market v))" for v m
    using that ok sent ouch_reachable_messages well_sent_nth [of "''[OUCH]''" ouch_message ouch_prints "calls v"]
    unfolding sim_ok_def sim_sent_def in_set_conv_nth [of "Write m"] by metis
  moreover have "boe_message m" if "boe_srv sim = Some v"
    "Write m \<in> set (calls v) \<or> m \<in> set (pending_out_messages (market v))" for v m
    using that ok sent boe_reachable_messages well_sent_nth [of "''[BOE]''" boe_message "boe_prints dt" "calls v"]
    unfolding sim_ok_def sim_sent_def in_set_conv_nth [of "Write m"] by metis
  ultimately show ?thesis
    unfolding ouch_message_def boe_message_def ouch_typed_def boe_typed_def by blast
qed

theorem wire_messages_typed_witness:
  "\<exists>sim v m. sim_run (\<lambda>_. []) (\<lambda>_. []) (\<lambda>_. None) (fst sample_start) sim \<and> boe_srv sim = Some v \<and>
     Write m \<in> set (calls v) \<and> boe_frame m \<and> length m = boe_sent_size (u8_at 4 m)"
proof -
  obtain sim v m where s: "sim_run (\<lambda>_. []) (\<lambda>_. []) (\<lambda>_. None) (fst sample_start) sim" "boe_srv sim = Some v"
    "Write m \<in> set (calls v)" using sample_login_run by blast
  from wire_messages_typed [OF s(1)] s(2,3) have "boe_frame m" "length m = boe_sent_size (u8_at 4 m)" by blast+
  with s show ?thesis by blast
qed

text \<open>
  C6: the log is written ahead of the wire. In every run, each write to a socket by either server
  comes directly after a log line that starts with the name of the protocol and \<^verbatim>\<open>SEND:\<close> and
  continues with the text the printer makes of exactly the bytes written.
\<close>

theorem sends_are_logged:
  assumes "sim_run dt show_dbl stod admin sim"
  shows "(\<forall>v i m. ouch_srv sim = Some v \<and> i < length (calls v) \<and> calls v ! i = Write m \<longrightarrow>
      0 < i \<and> (\<exists>g t. calls v ! (i - 1) = Log (bytes_of_string ''[OUCH]SEND: '' @ t) \<and>
        ouch_inbound_to_string g m = Inr t)) \<and>
    (\<forall>v i m. boe_srv sim = Some v \<and> i < length (calls v) \<and> calls v ! i = Write m \<longrightarrow>
      0 < i \<and> (\<exists>t. calls v ! (i - 1) = Log (bytes_of_string ''[BOE]SEND: '' @ t) \<and> boe_to_string dt m = Inr t))"
proof -
  note sent = sim_run_sent [OF assms, unfolded sim_sent_def]
  have "0 < i \<and> (\<exists>t. calls v ! (i - 1) = Log (bytes_of_string (''[OUCH]'' @ ''SEND: '') @ t) \<and> ouch_prints m t)"
    if "ouch_srv sim = Some v" "i < length (calls v)" "calls v ! i = Write m" for v i m
    using sent that well_sent_nth [of "''[OUCH]''" ouch_message ouch_prints "calls v" i m] by blast
  moreover have "0 < i \<and> (\<exists>t. calls v ! (i - 1) = Log (bytes_of_string (''[BOE]'' @ ''SEND: '') @ t) \<and> boe_prints dt m t)"
    if "boe_srv sim = Some v" "i < length (calls v)" "calls v ! i = Write m" for v i m
    using sent that well_sent_nth [of "''[BOE]''" boe_message "boe_prints dt" "calls v" i m] by blast
  ultimately show ?thesis unfolding ouch_prints_def boe_prints_def append.simps by blast
qed

theorem sends_are_logged_witness:
  "\<exists>sim v i m t. sim_run (\<lambda>_. []) (\<lambda>_. []) (\<lambda>_. None) (fst sample_start) sim \<and> boe_srv sim = Some v \<and>
     calls v ! i = Write m \<and> calls v ! (i - 1) = Log (bytes_of_string ''[BOE]SEND: '' @ t) \<and>
     boe_to_string (\<lambda>_. []) m = Inr t"
proof -
  obtain sim v m where s: "sim_run (\<lambda>_. []) (\<lambda>_. []) (\<lambda>_. None) (fst sample_start) sim" "boe_srv sim = Some v"
    "Write m \<in> set (calls v)" using sample_login_run by blast
  from s(3) obtain i where "i < length (calls v)" "calls v ! i = Write m" by (auto simp: in_set_conv_nth)
  with sends_are_logged [OF s(1)] s(1,2) show ?thesis by blast
qed

section \<open>Servers that go on\<close>

lemma boe_process_returns:
  assumes "\<And>x. length (dt x) \<le> 32" and "boe_reachable (market v)"
  shows "\<exists>v'. tcp_process (boe_protocol dt) False v = Inr v' \<and> pending_out_messages (market v') = [] \<and>
    written (calls v') = written (calls v) @ pending_out_messages (boe_market_logic (market v))"
proof -
  have "boe_reachable (boe_market_logic (market v))" using assms(2) boe_step.boe_tick by (rule boe_reachable.boe_next)
  then have "\<exists>v1. tcp_send (boe_protocol dt) (v\<lparr>market := boe_market_logic (market v)\<rparr>) = Inr v1 \<and>
      pending_out_messages (market v1) = [] \<and>
      written (calls v1) = written (calls v) @ pending_out_messages (boe_market_logic (market v))"
    using boe_send_returns [OF assms(1), of "v\<lparr>market := boe_market_logic (market v)\<rparr>"] by simp
  then show ?thesis by (auto simp: tcp_process_def)
qed

lemma boe_received_returns:
  fixes dt :: "u64 \<Rightarrow> byte list"
  assumes "\<And>x. length (dt x) \<le> 32" and "boe_reachable (market v)" and "ec \<noteq> Eof"
    and "length (concat ps) + 236 \<le> length (buf v)"
    and "list_all (\<lambda>p. framed_packet (boe_protocol dt) p \<and> bh_type (boe_MsgHeader_at p) \<noteq> MsgType_code MT_LoginResponse) ps"
  shows "\<exists>v'. BOEServer_read dt ec (length (concat ps)) (deliver (concat ps) v) = Inr v'"
proof -
  obtain v1 where v1: "read_loop (boe_protocol dt) (length (concat ps)) 0 (deliver (concat ps) v) = Inr v1"
    using boe_read_returns [OF assms(1,4,5)] by blast
  have "boe_reachable (market v1)"
    using boe_served.read_loop_good [OF v1] assms(2,4) by (simp add: deliver_def)
  from boe_send_returns [of dt, OF assms(1) this] obtain v2 where "tcp_send (boe_protocol dt) v1 = Inr v2" by blast
  with v1 assms(3) show ?thesis by (simp add: BOEServer_read_def tcp_read_def)
qed



text \<open>
  C12: when a tick ends the program. A timer event of the OUCH server fails exactly when the tick
  leaves a confirmation of a replacement pending that has no NUL from its old token, at byte 68, to
  its end; the failure is a read past the end of that message. In every other case the tick writes
  exactly the pending messages, in their order.
\<close>

theorem ouch_tick_outcome:
  assumes "sim_run dt show_dbl stod admin sim" and "ouch_srv sim = Some v"
  defines "sent \<equiv> pending_out_messages (ouch_market_logic (lend (sim_env sim) (market v)))"
    and "fatal \<equiv> \<lambda>m. u8_at 2 m = PacketType_code PT_SequencedData \<and>
      u8_at 3 m = InboundMsgType_code In_OrderReplaced \<and> 0 \<notin> set (drop 68 m)"
  shows "if \<exists>m\<in>set sent. fatal m
    then step_ouch (tcp_process ouch_protocol False) sim = Inl OutOfBounds
    else \<exists>sim' v'. step_ouch (tcp_process ouch_protocol False) sim = Inr sim' \<and> ouch_srv sim' = Some v' \<and>
      written (calls v') = written (calls v) @ sent"
proof -
  let ?v = "v\<lparr>market := lend (sim_env sim) (market v)\<rparr>"
  let ?w = "?v\<lparr>market := ouch_market_logic (market ?v)\<rparr>"
  have "ouch_reachable (market ?v)" using sim_run_ok [OF assms(1)] assms(2) by (simp add: sim_ok_def lend_reachable)
  then have r: "ouch_reachable (market ?w)" using ouch_reachable.step ouch_step.tick by simp
  have fatal: "fatal m = runs_over m" for m by (simp add: fatal_def runs_over_def)
  show ?thesis
  proof (cases "\<exists>m\<in>set sent. fatal m")
    case True
    then obtain m where m: "m \<in> set sent" "runs_over m" by (auto simp: fatal)
    then have "ouch_typed m" using ouch_reachable_messages [OF r] by (simp add: sent_def ouch_message_def)
    from send_loop_overruns [of m sent, OF m(1) ouch_typed_prints(2) [OF this m(2)]]
    have "tcp_send ouch_protocol ?w = Inl OutOfBounds" by (simp add: tcp_send_def sent_def)
    with True show ?thesis by (simp add: step_ouch_def assms(2) tcp_process_def)
  next
    case False
    then obtain v1 where "tcp_send ouch_protocol ?w = Inr v1" "written (calls v1) = written (calls v) @ sent"
      using ouch_send_returns [OF r] by (auto simp: fatal sent_def)
    with False show ?thesis by (simp add: step_ouch_def assms(2) tcp_process_def)
  qed
qed

lemma quiet_tick:
  "session_state s = NotLoggedIn \<Longrightarrow> active_orders s = [] \<Longrightarrow> pending_cancel s = [] \<Longrightarrow> pending_modify s = [] \<Longrightarrow>
   pending_replace s = [] \<Longrightarrow> pending_out_messages (ouch_market_logic s) = pending_out_messages s"
  by (simp add: ouch_market_logic_def ouch_heartbeat_logic_def heartbeat_with_def ouch_cancel_logic_def
      ouch_modify_logic_def ouch_replace_logic_def ouch_execution_logic_def erase_active_def visit_def on_env_result Let_def)

lemma sample_start_ouch: "\<exists>v e. ouch_srv (snd sample_start) = Some v \<and> market v = new_ouch_session e"
proof -
  obtain admin where admin: "BehaviorManager_admin (\<lambda>_. None) None 10001 = Inr admin"
    using bm_admin_result by blast
  have "\<exists>sim v e. main_program (\<lambda>_. None) (Some \<lparr>opt_help = False, opt_adminserver = None, opt_ouchport = Some 9000,
      opt_boeport = Some 9001\<rparr>) None sample_world 0 (replicate buf_size 0) (replicate buf_size 0) =
      Inr (Serve admin sim) \<and> ouch_srv sim = Some v \<and> market v = new_ouch_session e"
    by (auto simp: main_program_def admin make_servers_def add_server_eqs Let_def to_unsigned_def)
  then show ?thesis by (auto simp: sample_start_def)
qed

theorem ouch_tick_outcome_witness:
  "\<exists>sim'. step_ouch (tcp_process ouch_protocol False) (snd sample_start) = Inr sim'"
proof -
  obtain v e where v: "ouch_srv (snd sample_start) = Some v" "market v = new_ouch_session e"
    using sample_start_ouch by blast
  have "pending_out_messages (ouch_market_logic (lend (sim_env (snd sample_start)) (market v))) = []"
    by (subst quiet_tick) (simp_all add: v(2) lend_def new_ouch_session_def split_def Let_def)
  with ouch_tick_outcome [OF conjunct1 [OF sample_start_run] v(1)] show ?thesis by auto
qed

end
