(* ===== verification/Logger.thy ===== *)
theory Logger
  imports Printing "HOL-Library.Sublist"
begin

text \<open>
  The class \<^verbatim>\<open>Logger\<close> of \<^verbatim>\<open>evtsim_util.h\<close> and \<^verbatim>\<open>evtsim_util.cpp\<close>: its file, its lines
  and their time stamps. Outside the repository, and parameters here: \<open>localtime\<close>, which turns a
  time into its fields; whether the shell can make the directory and the system can open a file; and
  \<open>spill\<close>, how much of a file stream's buffer an insertion moves to the disk. All that is used of
  \<open>spill\<close> is that it keeps the characters in their order, which every stream buffer does.
\<close>

section \<open>Time stamps\<close>

text \<open>\<^verbatim>\<open>struct tm\<close>, as far as the formats read it.\<close>

record tm =
  tm_sec :: nat
  tm_min :: nat
  tm_hour :: nat
  tm_mday :: nat
  tm_mon :: nat
  tm_year :: nat

text \<open>The conversions of \<^verbatim>\<open>put_time\<close> the program uses: numbers padded with a zero to two digits, and the year.\<close>

definition two_digits :: "nat \<Rightarrow> byte list" where
  "two_digits n = (if n < 10 then [48] else []) @ decimal n"

definition get_time_string :: "tm \<Rightarrow> byte list" where
  "get_time_string c =
     two_digits (tm_hour c) @ [ch CHR '':''] @ two_digits (tm_min c) @ [ch CHR '':''] @ two_digits (tm_sec c)"

definition get_datetime_string :: "tm \<Rightarrow> byte list" where
  "get_datetime_string c =
     decimal (tm_year c + 1900) @ [ch CHR ''-''] @ two_digits (tm_mon c + 1) @ [ch CHR ''-''] @
     two_digits (tm_mday c) @ [ch CHR ''-''] @
     two_digits (tm_hour c) @ [ch CHR '':''] @ two_digits (tm_min c) @ [ch CHR '':''] @ two_digits (tm_sec c)"

section \<open>State\<close>

text \<open>What the logger writes to: a directory \<^verbatim>\<open>logs\<close>, files by name, the terminal.\<close>

record disk =
  logs_dir :: bool
  files :: "byte list \<Rightarrow> byte list option"
  terminal :: "byte list"

text \<open>\<open>log_file\<close> is the name of the open file, \<open>unwritten\<close> the characters still in the stream's buffer.\<close>

record logger =
  also_print :: bool
  log_file :: "byte list option"
  unwritten :: "byte list"

definition log_path :: "tm \<Rightarrow> byte list" where
  "log_path c = bytes_of_string ''./logs/'' @ get_datetime_string c @ bytes_of_string ''.txt''"

section \<open>Operations\<close>

text \<open>
  The constructor. A \<^verbatim>\<open>mkdir\<close> that fails is not noticed, nor is a file that does not open; opening
  for output empties a file that is there already.
\<close>

definition new_Logger :: "(int \<Rightarrow> tm) \<Rightarrow> bool \<Rightarrow> (byte list \<Rightarrow> bool) \<Rightarrow> int \<Rightarrow> disk \<Rightarrow> logger \<times> disk" where
  "new_Logger localtime mkdir_ok can_open t d =
     (let d1 = (if mkdir_ok then d\<lparr>logs_dir := True\<rparr> else d);
          file_name = log_path (localtime t)
      in if logs_dir d1 \<and> can_open file_name
         then (\<lparr>also_print = True, log_file = Some file_name, unwritten = []\<rparr>,
               d1\<lparr>files := (files d1)(file_name \<mapsto> [])\<rparr>)
         else (\<lparr>also_print = True, log_file = None, unwritten = []\<rparr>, d1))"

text \<open>Characters that leave the buffer are appended to the file. A stream without a file drops them.\<close>

definition append_file :: "byte list \<Rightarrow> byte list \<Rightarrow> disk \<Rightarrow> disk" where
  "append_file name bs d = d\<lparr>files := (files d)(name \<mapsto> (case files d name of None \<Rightarrow> [] | Some c \<Rightarrow> c) @ bs)\<rparr>"

type_synonym spill = "byte list \<Rightarrow> byte list \<times> byte list"

definition insert_text :: "spill \<Rightarrow> byte list \<Rightarrow> logger \<times> disk \<Rightarrow> logger \<times> disk" where
  "insert_text spill log_text = (\<lambda>(l, d).
     let d1 = (if also_print l then d\<lparr>terminal := terminal d @ log_text\<rparr> else d)
     in case log_file l of
          None \<Rightarrow> (l, d1)
        | Some name \<Rightarrow>
            let (out, rest) = spill (unwritten l @ log_text)
            in (l\<lparr>unwritten := rest\<rparr>, append_file name out d1))"

definition line_text :: "tm \<Rightarrow> byte list \<Rightarrow> byte list" where
  "line_text c text = [ch CHR ''[''] @ get_time_string c @ bytes_of_string ''] '' @ text @ [10]"

definition warning_text :: "tm \<Rightarrow> byte list \<Rightarrow> byte list" where
  "warning_text c text = [ch CHR ''[''] @ get_time_string c @ bytes_of_string ''][Warning] '' @ text @ [10]"

definition log_write :: "(int \<Rightarrow> tm) \<Rightarrow> spill \<Rightarrow> int \<Rightarrow> byte list \<Rightarrow> logger \<times> disk \<Rightarrow> logger \<times> disk" where
  "log_write localtime spill t text = insert_text spill (line_text (localtime t) text)"

definition log_write_warning :: "(int \<Rightarrow> tm) \<Rightarrow> spill \<Rightarrow> int \<Rightarrow> byte list \<Rightarrow> logger \<times> disk \<Rightarrow> logger \<times> disk" where
  "log_write_warning localtime spill t text = insert_text spill (warning_text (localtime t) text)"

text \<open>The destructor closes the file, and closing writes what is left in the buffer.\<close>

definition delete_Logger :: "logger \<times> disk \<Rightarrow> logger \<times> disk" where
  "delete_Logger = (\<lambda>(l, d).
     case log_file l of
       None \<Rightarrow> (l, d)
     | Some name \<Rightarrow> (l\<lparr>log_file := None, unwritten := []\<rparr>, append_file name (unwritten l) d))"

section \<open>A whole log\<close>

text \<open>What the program asks the logger to write, and the moments it does.\<close>

datatype entry = Line "byte list" | Warning "byte list"

fun entry_text :: "tm \<Rightarrow> entry \<Rightarrow> byte list" where
  "entry_text c (Line text) = line_text c text"
| "entry_text c (Warning text) = warning_text c text"

fun write_entry :: "(int \<Rightarrow> tm) \<Rightarrow> spill \<Rightarrow> int \<times> entry \<Rightarrow> logger \<times> disk \<Rightarrow> logger \<times> disk" where
  "write_entry localtime spill (t, Line text) = log_write localtime spill t text"
| "write_entry localtime spill (t, Warning text) = log_write_warning localtime spill t text"

definition write_entries :: "(int \<Rightarrow> tm) \<Rightarrow> spill \<Rightarrow> (int \<times> entry) list \<Rightarrow> logger \<times> disk \<Rightarrow> logger \<times> disk" where
  "write_entries localtime spill = fold (write_entry localtime spill)"

definition log_text :: "(int \<Rightarrow> tm) \<Rightarrow> (int \<times> entry) list \<Rightarrow> byte list" where
  "log_text localtime es = concat (List.map (\<lambda>(t, e). entry_text (localtime t) e) es)"

text \<open>What is known of \<open>spill\<close>.\<close>

definition keeps_order :: "spill \<Rightarrow> bool" where
  "keeps_order spill \<longleftrightarrow> (\<forall>bs. fst (spill bs) @ snd (spill bs) = bs)"

lemma write_entry_insert: "write_entry localtime spill (t, e) = insert_text spill (entry_text (localtime t) e)"
  by (cases e) (simp_all add: log_write_def log_write_warning_def)

lemma insert_text_open:
  assumes "keeps_order spill" and "log_file l = Some name" and "files d name = Some c" and "also_print l"
  shows "\<exists>l' d' c'. insert_text spill txt (l, d) = (l', d') \<and> log_file l' = Some name \<and> also_print l' \<and>
    files d' name = Some c' \<and> c' @ unwritten l' = c @ unwritten l @ txt \<and> prefix c c' \<and>
    terminal d' = terminal d @ txt \<and> logs_dir d' = logs_dir d \<and> (\<forall>n. n \<noteq> name \<longrightarrow> files d' n = files d n)"
  using assms unfolding keeps_order_def
  by (simp add: insert_text_def append_file_def split_def Let_def prefix_def)

lemma write_entries_open:
  assumes "keeps_order spill"
  shows "log_file l = Some name \<Longrightarrow> files d name = Some c \<Longrightarrow> also_print l \<Longrightarrow>
    \<exists>l' d' c'. write_entries localtime spill es (l, d) = (l', d') \<and> log_file l' = Some name \<and> also_print l' \<and>
    files d' name = Some c' \<and> c' @ unwritten l' = c @ unwritten l @ log_text localtime es \<and> prefix c c' \<and>
    terminal d' = terminal d @ log_text localtime es \<and> logs_dir d' = logs_dir d \<and>
    (\<forall>n. n \<noteq> name \<longrightarrow> files d' n = files d n)"
proof (induction es arbitrary: l d c)
  case Nil
  then show ?case by (simp add: write_entries_def log_text_def)
next
  case (Cons te es)
  obtain t e where te: "te = (t, e)" by (cases te)
  obtain l1 d1 c1 where s: "write_entry localtime spill te (l, d) = (l1, d1)" "log_file l1 = Some name" "also_print l1"
    "files d1 name = Some c1" "c1 @ unwritten l1 = c @ unwritten l @ entry_text (localtime t) e" "prefix c c1"
    "terminal d1 = terminal d @ entry_text (localtime t) e" "logs_dir d1 = logs_dir d" "\<forall>n. n \<noteq> name \<longrightarrow> files d1 n = files d n"
    using insert_text_open [OF assms Cons.prems, of "entry_text (localtime t) e"] unfolding te write_entry_insert by blast
  from Cons.IH [OF s(2,4,3)] obtain l2 d2 c2 where
    r: "write_entries localtime spill es (l1, d1) = (l2, d2)" "log_file l2 = Some name" "also_print l2" "files d2 name = Some c2"
      "c2 @ unwritten l2 = c1 @ unwritten l1 @ log_text localtime es" "prefix c1 c2"
      "terminal d2 = terminal d1 @ log_text localtime es" "logs_dir d2 = logs_dir d1" "\<forall>n. n \<noteq> name \<longrightarrow> files d2 n = files d1 n"
    by blast
  have "write_entries localtime spill (te # es) (l, d) = (l2, d2)" using s(1) r(1) by (simp add: write_entries_def)
  moreover have "c2 @ unwritten l2 = c @ unwritten l @ log_text localtime (te # es)"
    using r(5) arg_cong [OF s(5), of "\<lambda>x. x @ log_text localtime es"] by (simp add: log_text_def te)
  moreover have "terminal d2 = terminal d @ log_text localtime (te # es)"
    using r(7) s(7) by (simp add: log_text_def te)
  moreover have "prefix c c2" using s(6) r(6) by (rule prefix_order.trans)
  ultimately show ?case using r s by auto
qed

end
