(* ===== verification/LogFile.thy ===== *)
theory LogFile
  imports Logger
begin

text \<open>
  What a log file holds: after the logger is closed, everything that was written to it, in order;
  read back line by line, the entries, unless one of them holds a newline; and whose file it is.
\<close>

section \<open>Digits\<close>

definition valid_tm :: "tm \<Rightarrow> bool" where
  "valid_tm c \<longleftrightarrow> tm_sec c < 100 \<and> tm_min c < 60 \<and> tm_hour c < 24 \<and> tm_mday c < 32 \<and> tm_mon c < 12"

lemma two_digits_eq: "n < 100 \<Longrightarrow> two_digits n = [48 + of_nat (n div 10), 48 + of_nat (n mod 10)]"
  by (simp add: two_digits_def decimal.simps [of n] decimal.simps [of "n div 10"])

lemma digit_inj: "48 + of_nat m = (48 + of_nat n :: byte) \<Longrightarrow> m < 10 \<Longrightarrow> n < 10 \<Longrightarrow> m = n"
  by (auto dest!: arg_cong [of _ _ unat] simp: unat_of_nat)

lemma digit_not_newline: "n < 10 \<Longrightarrow> 48 + of_nat n \<noteq> (10 :: byte)"
  by (auto dest!: arg_cong [of _ _ unat] simp: unat_of_nat unat_word_ariths)

lemma decimal_inj: "decimal m = decimal n \<Longrightarrow> m = n"
proof (induction m arbitrary: n rule: decimal.induct)
  case (1 m)
  have last: "last (decimal k) = 48 + of_nat (k mod 10)" for k by (subst decimal.simps) simp
  from arg_cong [OF 1(2), of last] have mod: "m mod 10 = n mod 10" unfolding last by (rule digit_inj) simp_all
  have len: "decimal k = butlast (decimal k) @ [48 + of_nat (k mod 10)]" for k by (subst (1 2) decimal.simps) simp
  have butlast: "butlast (decimal k) = (if k < 10 then [] else decimal (k div 10))" for k by (subst decimal.simps) simp
  have ne: "decimal k \<noteq> []" for k by (subst decimal.simps) simp
  from arg_cong [OF 1(2), of butlast] have "(m < 10) = (n < 10) \<and> (\<not> m < 10 \<longrightarrow> m div 10 = n div 10)"
    using 1(1) unfolding butlast by (auto simp: ne ne [symmetric] split: if_split_asm)
  then show ?case using mod by (metis div_mult_mod_eq mod_less)
qed

lemma length_two_digits: "n < 100 \<Longrightarrow> length (two_digits n) = 2"
  by (simp add: two_digits_eq)

lemma two_digits_inj:
  assumes "two_digits m = two_digits n" and "m < 100" and "n < 100"
  shows "m = n"
proof -
  have "48 + of_nat (m div 10) = (48 + of_nat (n div 10) :: byte)" "48 + of_nat (m mod 10) = (48 + of_nat (n mod 10) :: byte)"
    using assms by (simp_all add: two_digits_eq)
  then have "m div 10 = n div 10" "m mod 10 = n mod 10"
    using assms(2,3) by (intro digit_inj; simp add: less_mult_imp_div_less)+
  then show ?thesis by (metis div_mult_mod_eq)
qed

lemma two_digits_no_newline: "n < 100 \<Longrightarrow> 10 \<notin> set (two_digits n)"
  using digit_not_newline [of "n div 10"] digit_not_newline [of "n mod 10"] by (auto simp: two_digits_eq)

lemma length_time_string: "valid_tm c \<Longrightarrow> length (get_time_string c) = 8"
  by (simp add: get_time_string_def valid_tm_def length_two_digits)

lemma time_string_no_newline: "valid_tm c \<Longrightarrow> 10 \<notin> set (get_time_string c)"
  by (simp add: get_time_string_def valid_tm_def two_digits_no_newline ch_def)

text \<open>Two file names are equal only when every field of the time is.\<close>

lemma datetime_string_inj:
  assumes "valid_tm c" and "valid_tm c'" and eq: "get_datetime_string c = get_datetime_string c'"
  shows "c = c'"
proof -
  note v = assms(1,2) [unfolded valid_tm_def]
  have "two_digits (tm_sec c) = two_digits (tm_sec c') \<and> two_digits (tm_min c) = two_digits (tm_min c') \<and>
      two_digits (tm_hour c) = two_digits (tm_hour c') \<and> two_digits (tm_mday c) = two_digits (tm_mday c') \<and>
      two_digits (tm_mon c + 1) = two_digits (tm_mon c' + 1) \<and> decimal (tm_year c + 1900) = decimal (tm_year c' + 1900)"
    using eq v by (simp add: get_datetime_string_def append_eq_append_conv length_two_digits del: append.simps)
  then show ?thesis
    using v two_digits_inj [of "tm_sec c" "tm_sec c'"] two_digits_inj [of "tm_min c" "tm_min c'"]
      two_digits_inj [of "tm_hour c" "tm_hour c'"] two_digits_inj [of "tm_mday c" "tm_mday c'"]
      two_digits_inj [of "tm_mon c + 1" "tm_mon c' + 1"] decimal_inj [of "tm_year c + 1900" "tm_year c' + 1900"]
    by (intro tm.equality) simp_all
qed

section \<open>The life of a log\<close>

text \<open>The logger made, the entries written, the logger deleted; the first state is before the deletion.\<close>

definition log_life ::
    "(int \<Rightarrow> tm) \<Rightarrow> spill \<Rightarrow> bool \<Rightarrow> (byte list \<Rightarrow> bool) \<Rightarrow> int \<Rightarrow> (int \<times> entry) list \<Rightarrow> disk \<Rightarrow> disk \<times> disk" where
  "log_life localtime spill mkdir_ok can_open t0 es d =
     (let ld = write_entries localtime spill es (new_Logger localtime mkdir_ok can_open t0 d)
      in (snd ld, snd (delete_Logger ld)))"

lemma write_entries_closed:
  "log_file l = None \<Longrightarrow> also_print l \<Longrightarrow>
   write_entries localtime spill es (l, d) = (l, d\<lparr>terminal := terminal d @ log_text localtime es\<rparr>)"
proof (induction es arbitrary: d)
  case (Cons te es)
  then show ?case
    by (cases te) (simp add: write_entries_def write_entry_insert insert_text_def log_text_def)
qed (simp add: write_entries_def log_text_def)

lemma log_life_outcome:
  fixes localtime :: "int \<Rightarrow> tm" and t0 :: int
  assumes "keeps_order spill"
  defines "name \<equiv> log_path (localtime t0)"
  shows "(logs_dir d \<or> mkdir_ok) \<and> can_open name \<Longrightarrow>
      \<exists>d1 d2 c. log_life localtime spill mkdir_ok can_open t0 es d = (d1, d2) \<and>
        files d1 name = Some c \<and> prefix c (log_text localtime es) \<and> files d2 name = Some (log_text localtime es) \<and>
        terminal d2 = terminal d @ log_text localtime es \<and> logs_dir d2 \<and> (\<forall>n. n \<noteq> name \<longrightarrow> files d2 n = files d n)"
    and "\<not> ((logs_dir d \<or> mkdir_ok) \<and> can_open name) \<Longrightarrow>
      \<exists>d1 d2. log_life localtime spill mkdir_ok can_open t0 es d = (d1, d2) \<and> files d2 = files d \<and>
        terminal d2 = terminal d @ log_text localtime es"
proof -
  let ?d = "if mkdir_ok then d\<lparr>logs_dir := True\<rparr> else d"
  assume opens: "(logs_dir d \<or> mkdir_ok) \<and> can_open name"
  let ?l = "\<lparr>also_print = True, log_file = Some name, unwritten = []\<rparr>"
  let ?d0 = "?d\<lparr>files := (files ?d)(name \<mapsto> [])\<rparr>"
  have new: "new_Logger localtime mkdir_ok can_open t0 d = (?l, ?d0)"
    using opens by (auto simp: new_Logger_def name_def Let_def)
  have l0: "log_file ?l = Some name" "files ?d0 name = Some []" "also_print ?l" by simp_all
  obtain l1 d1 c where w: "write_entries localtime spill es (?l, ?d0) = (l1, d1)" "log_file l1 = Some name"
    "files d1 name = Some c" "c @ unwritten l1 = [] @ unwritten ?l @ log_text localtime es"
    "terminal d1 = terminal ?d0 @ log_text localtime es" "logs_dir d1 = logs_dir ?d0" "\<forall>n. n \<noteq> name \<longrightarrow> files d1 n = files ?d0 n"
    using write_entries_open [OF assms(1) l0, of localtime es] by blast
  from w(4) have c: "c @ unwritten l1 = log_text localtime es" by simp
  have life: "log_life localtime spill mkdir_ok can_open t0 es d = (d1, append_file name (unwritten l1) d1)"
    by (simp add: log_life_def new w(1) delete_Logger_def w(2))
  have closed: "files (append_file name (unwritten l1) d1) name = Some (log_text localtime es)"
    "terminal (append_file name (unwritten l1) d1) = terminal d @ log_text localtime es"
    "logs_dir (append_file name (unwritten l1) d1)"
    using w(3,5,6) c opens by (auto simp: append_file_def)
  have others: "\<forall>n. n \<noteq> name \<longrightarrow> files (append_file name (unwritten l1) d1) n = files d n"
    using w(7) by (simp add: append_file_def)
  have "prefix c (log_text localtime es)" using c by (metis prefixI)
  with life closed others w(3) show "\<exists>d1 d2 c. log_life localtime spill mkdir_ok can_open t0 es d = (d1, d2) \<and>
        files d1 name = Some c \<and> prefix c (log_text localtime es) \<and> files d2 name = Some (log_text localtime es) \<and>
        terminal d2 = terminal d @ log_text localtime es \<and> logs_dir d2 \<and> (\<forall>n. n \<noteq> name \<longrightarrow> files d2 n = files d n)"
    by blast
next
  assume closed: "\<not> ((logs_dir d \<or> mkdir_ok) \<and> can_open name)"
  then have new: "new_Logger localtime mkdir_ok can_open t0 d =
      (\<lparr>also_print = True, log_file = None, unwritten = []\<rparr>, if mkdir_ok then d\<lparr>logs_dir := True\<rparr> else d)"
    by (auto simp: new_Logger_def name_def Let_def)
  show "\<exists>d1 d2. log_life localtime spill mkdir_ok can_open t0 es d = (d1, d2) \<and> files d2 = files d \<and>
        terminal d2 = terminal d @ log_text localtime es"
    by (simp add: log_life_def new delete_Logger_def write_entries_closed)
qed

section \<open>Reading a log back\<close>

fun split_lines :: "byte list \<Rightarrow> byte list list" where
  "split_lines [] = []"
| "split_lines (b # bs) =
     (if b = 10 then [] # split_lines bs
      else case split_lines bs of [] \<Rightarrow> [[b]] | l # ls \<Rightarrow> (b # l) # ls)"

text \<open>A line without its newline: the time between the brackets, then one of the two separators.\<close>

definition read_line :: "byte list \<Rightarrow> byte list \<times> entry" where
  "read_line l =
     (if take 11 (drop 9 l) = bytes_of_string ''][Warning] ''
      then (take 8 (drop 1 l), Warning (drop 20 l))
      else (take 8 (drop 1 l), Line (drop 11 l)))"

definition read_log :: "byte list \<Rightarrow> (byte list \<times> entry) list" where
  "read_log c = List.map read_line (split_lines c)"

fun entry_bytes :: "entry \<Rightarrow> byte list" where
  "entry_bytes (Line text) = text"
| "entry_bytes (Warning text) = text"

lemma split_lines_append: "split_lines (xs @ 10 # ys) = split_lines (xs @ [10]) @ split_lines ys"
proof (induction xs)
  case (Cons b xs)
  have "split_lines (xs @ [10]) \<noteq> []" by (induction xs) (auto split: list.split)
  with Cons show ?case by (auto split: list.split)
qed simp

lemma split_lines_one: "10 \<notin> set xs \<Longrightarrow> split_lines (xs @ [10]) = [xs]"
  by (induction xs) auto

lemma split_lines_cons: "10 \<notin> set xs \<Longrightarrow> split_lines (xs @ 10 # ys) = xs # split_lines ys"
  using split_lines_append [of xs ys] by (simp add: split_lines_one)

lemma entry_text_line:
  assumes "valid_tm c"
  shows "\<exists>l. entry_text c e = l @ [10] \<and> read_line l = (get_time_string c, e) \<and>
    (10 \<notin> set (entry_bytes e) \<longrightarrow> 10 \<notin> set l)"
proof (cases e)
  case (Line bs)
  let ?l = "[ch CHR ''[''] @ get_time_string c @ bytes_of_string ''] '' @ bs"
  have "entry_text c e = ?l @ [10] \<and> read_line ?l = (get_time_string c, e) \<and>
      (10 \<notin> set (entry_bytes e) \<longrightarrow> 10 \<notin> set ?l)"
    using length_time_string [OF assms] time_string_no_newline [OF assms] Line
    by (simp add: line_text_def read_line_def bytes_of_string_def ch_def)
  then show ?thesis by blast
next
  case (Warning bs)
  let ?l = "[ch CHR ''[''] @ get_time_string c @ bytes_of_string ''][Warning] '' @ bs"
  have "entry_text c e = ?l @ [10] \<and> read_line ?l = (get_time_string c, e) \<and>
      (10 \<notin> set (entry_bytes e) \<longrightarrow> 10 \<notin> set ?l)"
    using length_time_string [OF assms] time_string_no_newline [OF assms] Warning
    by (simp add: warning_text_def read_line_def bytes_of_string_def ch_def)
  then show ?thesis by blast
qed

lemma read_log_append:
  assumes "\<And>t. valid_tm (localtime t)"
  shows "list_all (\<lambda>(t, e). 10 \<notin> set (entry_bytes e)) es \<Longrightarrow>
    read_log (log_text localtime es @ c) = List.map (\<lambda>(t, e). (get_time_string (localtime t), e)) es @ read_log c"
proof (induction es)
  case (Cons te es)
  obtain t e where te: "te = (t, e)" by (cases te)
  obtain l where l: "entry_text (localtime t) e = l @ [10]" "read_line l = (get_time_string (localtime t), e)" "10 \<notin> set l"
    using entry_text_line [OF assms] Cons.prems te by fastforce
  then show ?case
    using Cons split_lines_append [of l "log_text localtime es @ c"] split_lines_one [OF l(3)]
    by (simp add: read_log_def log_text_def te)
qed (simp add: read_log_def log_text_def)

lemma read_log_Nil: "read_log [] = []"
  by (simp add: read_log_def)

lemmas read_log_text = read_log_append [where c = "[]", unfolded append_Nil2 read_log_Nil]

section \<open>What a log holds\<close>

text \<open>
  C23: a log can be read back. Once the logger is deleted, its file holds the entries that were
  written to it, in their order, each with its time and whether it is a warning, and the terminal
  has been shown the same text; before that the file holds a beginning of the text, so a crash
  loses only its end. All of this for whatever the stream keeps in its buffer, as long as the file
  opened and no entry has a newline in it.
\<close>

theorem log_file_reads_back:
  fixes localtime :: "int \<Rightarrow> tm" and t0 :: int
  assumes "keeps_order spill" and "\<And>t. valid_tm (localtime t)"
    and "logs_dir d \<or> mkdir_ok" and "can_open (log_path (localtime t0))"
    and "list_all (\<lambda>(t, e). 10 \<notin> set (entry_bytes e)) es"
  shows "\<exists>running closed c c'. log_life localtime spill mkdir_ok can_open t0 es d = (running, closed) \<and>
    files closed (log_path (localtime t0)) = Some c \<and>
    read_log c = List.map (\<lambda>(t, e). (get_time_string (localtime t), e)) es \<and>
    terminal closed = terminal d @ c \<and> files running (log_path (localtime t0)) = Some c' \<and> prefix c' c"
proof -
  obtain running closed c' where "log_life localtime spill mkdir_ok can_open t0 es d = (running, closed)"
    "files running (log_path (localtime t0)) = Some c'" "prefix c' (log_text localtime es)"
    "files closed (log_path (localtime t0)) = Some (log_text localtime es)"
    "terminal closed = terminal d @ log_text localtime es"
    using log_life_outcome(1) [OF assms(1), of d mkdir_ok can_open localtime t0 es] assms(3,4) by auto
  with read_log_text [OF assms(2,5)] show ?thesis by simp
qed

definition sample_tm :: "int \<Rightarrow> tm" where
  "sample_tm t = \<lparr>tm_sec = nat (t mod 60), tm_min = nat (t div 60 mod 60), tm_hour = 9, tm_mday = 1, tm_mon = 0, tm_year = 115\<rparr>"

lemma sample_tm_valid: "valid_tm (sample_tm t)"
proof -
  have "t mod 60 < 60" "t div 60 mod 60 < 60" by simp_all
  then show ?thesis by (simp add: valid_tm_def sample_tm_def nat_less_iff)
qed

definition empty_disk :: disk where
  "empty_disk = \<lparr>logs_dir = False, files = Map.empty, terminal = []\<rparr>"

definition sample_entries :: "(int \<times> entry) list" where
  "sample_entries = [(1, Line (bytes_of_string ''[TCP]Connection established'')), (2, Warning (bytes_of_string ''stoi''))]"

lemma sample_entries_ok: "list_all (\<lambda>(t, e). 10 \<notin> set (entry_bytes e)) sample_entries"
  by code_simp

lemma buffered_keeps_order: "keeps_order (\<lambda>bs. ([], bs))"
  by (simp add: keeps_order_def)

theorem log_file_reads_back_witness:
  "\<exists>running closed c. log_life sample_tm (\<lambda>bs. ([], bs)) True (\<lambda>_. True) 0 sample_entries empty_disk = (running, closed) \<and>
     files closed (log_path (sample_tm 0)) = Some c \<and>
     read_log c = [(get_time_string (sample_tm 1), Line (bytes_of_string ''[TCP]Connection established'')),
       (get_time_string (sample_tm 2), Warning (bytes_of_string ''stoi''))]"
proof -
  have "List.map (\<lambda>(t, e). (get_time_string (sample_tm t), e)) sample_entries =
      [(get_time_string (sample_tm 1), Line (bytes_of_string ''[TCP]Connection established'')),
       (get_time_string (sample_tm 2), Warning (bytes_of_string ''stoi''))]"
    by (simp add: sample_entries_def)
  with log_file_reads_back [of "\<lambda>bs. ([], bs)" sample_tm empty_disk True "\<lambda>_. True" 0 sample_entries,
      OF buffered_keeps_order sample_tm_valid _ _ sample_entries_ok]
  show ?thesis by metis
qed

text \<open>
  C29: the log of one run outlives another run exactly when the two start in different seconds. The
  name of the file has every field of the time in it, so a program that starts in another second
  leaves the file alone; one that starts in the same second empties it, and what the first run
  wrote is gone.
\<close>

theorem log_outlives_next_run:
  fixes localtime :: "int \<Rightarrow> tm" and t0 t1 :: int
  assumes "keeps_order spill" and "\<And>t. valid_tm (localtime t)" and "logs_dir d \<or> mkdir_ok" and "\<And>n. can_open n"
  shows "\<exists>r0 d0 r1 d1. log_life localtime spill mkdir_ok can_open t0 es0 d = (r0, d0) \<and>
    log_life localtime spill mkdir_ok can_open t1 es1 d0 = (r1, d1) \<and>
    files d1 (log_path (localtime t0)) =
      Some (if localtime t1 = localtime t0 then log_text localtime es1 else log_text localtime es0)"
proof -
  let ?n0 = "log_path (localtime t0)" and ?n1 = "log_path (localtime t1)"
  obtain r0 d0 where d0: "log_life localtime spill mkdir_ok can_open t0 es0 d = (r0, d0)"
    "files d0 ?n0 = Some (log_text localtime es0)" "logs_dir d0"
    using log_life_outcome(1) [OF assms(1), of d mkdir_ok can_open localtime t0 es0] assms(3,4) by blast
  obtain r1 d1 where d1: "log_life localtime spill mkdir_ok can_open t1 es1 d0 = (r1, d1)"
    "files d1 ?n1 = Some (log_text localtime es1)" "\<forall>n. n \<noteq> ?n1 \<longrightarrow> files d1 n = files d0 n"
    using log_life_outcome(1) [OF assms(1), of d0 mkdir_ok can_open localtime t1 es1] d0(3) assms(4) by blast
  have same: "?n0 = ?n1 \<longleftrightarrow> localtime t1 = localtime t0"
    using datetime_string_inj [OF assms(2,2), of t0 t1] by (auto simp: log_path_def)
  have "files d1 ?n0 = Some (if localtime t1 = localtime t0 then log_text localtime es1 else log_text localtime es0)"
  proof (cases "localtime t1 = localtime t0")
    case True
    then show ?thesis using d1(2) by simp
  next
    case False
    then have "?n0 \<noteq> ?n1" using same by blast
    then show ?thesis using False d0(2) d1(3) by simp
  qed
  with d0(1) d1(1) show ?thesis by blast
qed

theorem log_outlives_next_run_witness:
  "\<exists>r0 d0 r1 d1. log_life sample_tm (\<lambda>bs. ([], bs)) True (\<lambda>_. True) 0 sample_entries empty_disk = (r0, d0) \<and>
     log_life sample_tm (\<lambda>bs. ([], bs)) True (\<lambda>_. True) 7 [] d0 = (r1, d1) \<and>
     files d1 (log_path (sample_tm 0)) = Some (log_text sample_tm sample_entries)"
proof -
  have "sample_tm 7 \<noteq> sample_tm 0" by (simp add: sample_tm_def)
  then show ?thesis
    using log_outlives_next_run [of "\<lambda>bs. ([], bs)" sample_tm empty_disk True "\<lambda>_. True" 0 sample_entries 7 "[]",
      OF buffered_keeps_order sample_tm_valid] by simp
qed

end
