(* ===== verification/Shutdown.thy ===== *)
theory Shutdown
  imports SimulatorTrace LogFile
begin

text \<open>
  The program's log and its end: the lines each server writes as entries of the log, the handler of
  the interrupt signal, and what \<^verbatim>\<open>main\<close> destroys when the event loop returns.
\<close>

section \<open>The end of the program\<close>

definition get_evtsim_version :: "string option \<Rightarrow> string" where
  "get_evtsim_version EVTSIM_VERSION = (case EVTSIM_VERSION of Some v \<Rightarrow> v | None \<Rightarrow> ''undef'')"

text \<open>The log lines among the calls of a server.\<close>

definition server_log :: "call list \<Rightarrow> entry list" where
  "server_log cs = concat (List.map (\<lambda>c. case c of Log t \<Rightarrow> [Line t] | _ \<Rightarrow> []) cs)"

text \<open>The handler of SIGINT writes a line and stops the event loop.\<close>

definition interrupt_line :: "byte list" where
  "interrupt_line = bytes_of_string (CHR 0x0A # ''interrupt signal'')"

definition signal_handler :: "(int \<Rightarrow> tm) \<Rightarrow> spill \<Rightarrow> int \<Rightarrow> logger \<times> disk \<Rightarrow> (logger \<times> disk) \<times> bool" where
  "signal_handler localtime spill t ld = (log_write localtime spill t interrupt_line ld, True)"

text \<open>
  The vector of servers goes, the OUCH server first, after the manager, which has nothing to say.
\<close>

definition delete_servers :: "simulator \<Rightarrow> call list \<times> simulator" where
  "delete_servers sim =
     ((case ouch_srv sim of None \<Rightarrow> [] | Some v \<Rightarrow> delete_TCPServer v) @
      (case boe_srv sim of None \<Rightarrow> [] | Some v \<Rightarrow> delete_TCPServer v),
      sim\<lparr>ouch_srv := None, boe_srv := None\<rparr>)"

text \<open>
  From the signal to the exit: the event loop returns, \<^verbatim>\<open>main\<close> returns 0, the servers and at last
  the logger, a global, are destroyed. The lines of the servers are written at the times \<open>ts\<close>.
\<close>

definition interrupt_program ::
    "(int \<Rightarrow> tm) \<Rightarrow> spill \<Rightarrow> int \<Rightarrow> (nat \<Rightarrow> int) \<Rightarrow> simulator \<Rightarrow> logger \<times> disk \<Rightarrow> int \<times> simulator \<times> logger \<times> disk" where
  "interrupt_program localtime spill t ts sim ld =
     (let (ld1, stopped) = signal_handler localtime spill t ld;
          (cs, sim1) = delete_servers sim;
          es = List.map (\<lambda>(i, e). (ts i, e)) (List.enumerate 0 (server_log cs))
      in (0, sim1, delete_Logger (write_entries localtime spill es ld1)))"

lemma server_log_simps [simp]:
  "server_log [] = []" "server_log (cs @ cs') = server_log cs @ server_log cs'"
  "server_log (Log t # cs) = Line t # server_log cs"
  by (simp_all add: server_log_def)

lemma server_log_set: "Log t \<in> set cs \<Longrightarrow> Line t \<in> set (server_log cs)"
  by (force simp: server_log_def)

definition shutdown_entry :: entry where
  "shutdown_entry = Line (bytes_of_string ''[TCP]Server shutdown'')"

lemma server_log_delete: "server_log (delete_TCPServer v) = [shutdown_entry]"
  by (simp add: delete_TCPServer_def shutdown_entry_def say_log_def server_log_def)

lemma log_text_append: "log_text localtime (es @ es') = log_text localtime es @ log_text localtime es'"
  by (simp add: log_text_def)

lemma write_entries_append:
  "write_entries localtime spill es' (write_entries localtime spill es ld) = write_entries localtime spill (es @ es') ld"
  by (simp add: write_entries_def)

lemma signal_handler_entry:
  "signal_handler localtime spill t ld = (write_entries localtime spill [(t, Line interrupt_line)] ld, True)"
  by (simp add: signal_handler_def write_entries_def)

text \<open>The servers of a running program.\<close>

definition servers_up :: "simulator \<Rightarrow> nat" where
  "servers_up sim = (if ouch_srv sim = None then 0 else 1) + (if boe_srv sim = None then 0 else 1)"

lemma server_log_delete_servers: "server_log (fst (delete_servers sim)) = replicate (servers_up sim) shutdown_entry"
  by (simp add: delete_servers_def servers_up_def server_log_delete split: option.split)

lemma interrupt_entries:
  "interrupt_program localtime spill t ts sim (write_entries localtime spill es ld) =
     (0, snd (delete_servers sim), delete_Logger (write_entries localtime spill
       (es @ (t, Line interrupt_line) # List.map (\<lambda>i. (ts i, shutdown_entry)) [0..<servers_up sim]) ld))"
proof -
  have "List.map (\<lambda>(i, e). (ts i, e)) (List.enumerate 0 (replicate n e)) = List.map (\<lambda>i. (ts i, e)) [0..<n]" for n and e :: entry
    by (rule nth_equalityI) (simp_all add: nth_enumerate_eq)
  then show ?thesis
    by (simp add: interrupt_program_def signal_handler_entry split_def Let_def write_entries_append server_log_delete_servers)
qed

lemma read_interrupt:
  assumes "valid_tm c"
  shows "read_log (entry_text c (Line interrupt_line) @ r) =
    [(get_time_string c, Line []), (bytes_of_string ''nterrupt'', Line (bytes_of_string ''ignal''))] @ read_log r"
proof -
  let ?a = "[ch CHR ''[''] @ get_time_string c @ bytes_of_string ''] ''" and ?b = "bytes_of_string ''interrupt signal''"
  have eq: "entry_text c (Line interrupt_line) @ r = ?a @ 10 # ?b @ 10 # r"
    by (simp add: line_text_def interrupt_line_def bytes_of_string_def ch_def)
  have two: "split_lines (a @ 10 # b @ 10 # r) = [a, b] @ split_lines r" if "10 \<notin> set a" "10 \<notin> set b" for a b
    using that by (simp add: split_lines_cons)
  have "split_lines (entry_text c (Line interrupt_line) @ r) = [?a, ?b] @ split_lines r"
    unfolding eq using time_string_no_newline [OF assms] by (intro two) (simp_all add: bytes_of_string_def ch_def)
  moreover have "read_line ?a = (get_time_string c, Line [])"
    using length_time_string [OF assms] by (simp add: read_line_def bytes_of_string_def)
  moreover have "read_line ?b = (bytes_of_string ''nterrupt'', Line (bytes_of_string ''ignal''))" by code_simp
  ultimately show ?thesis by (simp add: read_log_def)
qed

lemma delete_Logger_closed: "log_file (fst (delete_Logger ld)) = None"
  by (simp add: delete_Logger_def split: prod.split option.split)

text \<open>
  C15: an interrupted program keeps its whole log. Whatever the servers have done, an interrupt ends
  the program with exit code 0, destroys both servers and closes the log, whose file then holds
  every line written so far, the line of the interrupt and one shutdown line for each server, in
  this order, and nothing is lost in a buffer. Read back, the line of the interrupt is not one
  entry but two: its text starts with a newline, so a stamp without a text is followed by a line
  without a stamp.
\<close>

theorem interrupted_program_log:
  fixes localtime :: "int \<Rightarrow> tm" and t0 t :: int
  assumes "sim_run dt show_dbl stod admin sim" and "keeps_order spill" and "\<And>t. valid_tm (localtime t)"
    and "logs_dir d \<or> mkdir_ok" and "can_open (log_path (localtime t0))"
    and "list_all (\<lambda>(t, e). 10 \<notin> set (entry_bytes e)) es"
  shows "\<exists>sim' l' d' c. interrupt_program localtime spill t ts sim
      (write_entries localtime spill es (new_Logger localtime mkdir_ok can_open t0 d)) = (0, sim', l', d') \<and>
    ouch_srv sim' = None \<and> boe_srv sim' = None \<and> log_file l' = None \<and>
    files d' (log_path (localtime t0)) = Some c \<and>
    read_log c = List.map (\<lambda>(t, e). (get_time_string (localtime t), e)) es @
      [(get_time_string (localtime t), Line []), (bytes_of_string ''nterrupt'', Line (bytes_of_string ''ignal''))] @
      List.map (\<lambda>i. (get_time_string (localtime (ts i)), Line (bytes_of_string ''[TCP]Server shutdown'')))
        [0..<length (status_funcs sim)]"
proof -
  let ?down = "List.map (\<lambda>i. (ts i, shutdown_entry)) [0..<servers_up sim]"
  let ?all = "es @ (t, Line interrupt_line) # ?down"
  let ?ld = "write_entries localtime spill ?all (new_Logger localtime mkdir_ok can_open t0 d)"
  obtain d1 d2 where "log_life localtime spill mkdir_ok can_open t0 ?all d = (d1, d2)"
    "files d2 (log_path (localtime t0)) = Some (log_text localtime ?all)"
    using log_life_outcome(1) [OF assms(2), of d mkdir_ok can_open localtime t0 ?all] assms(4,5) by auto
  then have stored: "files (snd (delete_Logger ?ld)) (log_path (localtime t0)) = Some (log_text localtime ?all)"
    by (auto simp: log_life_def Let_def)
  have up: "servers_up sim = length (status_funcs sim)"
    using sim_run_ok [OF assms(1)] by (auto simp: sim_ok_def servers_up_def)
  have down: "list_all (\<lambda>(t, e). 10 \<notin> set (entry_bytes e)) ?down"
    by (simp add: list_all_iff shutdown_entry_def bytes_of_string_def ch_def)
  have all: "log_text localtime ?all =
      log_text localtime es @ entry_text (localtime t) (Line interrupt_line) @ log_text localtime ?down"
    by (simp add: log_text_def)
  have "read_log (log_text localtime ?all) = List.map (\<lambda>(t, e). (get_time_string (localtime t), e)) es @
      [(get_time_string (localtime t), Line []), (bytes_of_string ''nterrupt'', Line (bytes_of_string ''ignal''))] @
      List.map (\<lambda>(t, e). (get_time_string (localtime t), e)) ?down"
    unfolding all read_log_append [OF assms(3,6)] read_interrupt [OF assms(3)] read_log_text [OF assms(3) down] ..
  then have reads: "read_log (log_text localtime ?all) = List.map (\<lambda>(t, e). (get_time_string (localtime t), e)) es @
      [(get_time_string (localtime t), Line []), (bytes_of_string ''nterrupt'', Line (bytes_of_string ''ignal''))] @
      List.map (\<lambda>i. (get_time_string (localtime (ts i)), Line (bytes_of_string ''[TCP]Server shutdown'')))
        [0..<length (status_funcs sim)]"
    by (simp add: up shutdown_entry_def)
  have closed: "log_file (fst (delete_Logger ?ld)) = None" by (rule delete_Logger_closed)
  have gone: "ouch_srv (snd (delete_servers sim)) = None" "boe_srv (snd (delete_servers sim)) = None"
    by (simp_all add: delete_servers_def)
  show ?thesis
    unfolding interrupt_entries using stored reads closed gone
    by (intro exI [of _ "snd (delete_servers sim)"] exI [of _ "fst (delete_Logger ?ld)"]
        exI [of _ "snd (delete_Logger ?ld)"] exI [of _ "log_text localtime ?all"]) simp
qed

theorem interrupted_program_log_witness:
  "\<exists>sim' l' d' c. interrupt_program sample_tm (\<lambda>bs. ([], bs)) 5 (\<lambda>_. 6) (snd sample_start)
      (write_entries sample_tm (\<lambda>bs. ([], bs)) sample_entries (new_Logger sample_tm True (\<lambda>_. True) 0 empty_disk)) =
      (0, sim', l', d') \<and> files d' (log_path (sample_tm 0)) = Some c \<and> 2 < length (read_log c)"
proof -
  from interrupted_program_log [of "\<lambda>_. []" "\<lambda>_. []" "\<lambda>_. None" "fst sample_start" "snd sample_start" "\<lambda>bs. ([], bs)"
      sample_tm empty_disk True "\<lambda>_. True" 0 sample_entries 5 "\<lambda>_. 6",
      OF conjunct1 [OF sample_start_run] buffered_keeps_order sample_tm_valid _ _ sample_entries_ok]
  obtain sim' l' d' c where "interrupt_program sample_tm (\<lambda>bs. ([], bs)) 5 (\<lambda>_. 6) (snd sample_start)
      (write_entries sample_tm (\<lambda>bs. ([], bs)) sample_entries (new_Logger sample_tm True (\<lambda>_. True) 0 empty_disk)) =
      (0, sim', l', d')" "files d' (log_path (sample_tm 0)) = Some c"
    "read_log c = List.map (\<lambda>(t, e). (get_time_string (sample_tm t), e)) sample_entries @
      [(get_time_string (sample_tm 5), Line []), (bytes_of_string ''nterrupt'', Line (bytes_of_string ''ignal''))] @
      List.map (\<lambda>i. (get_time_string (sample_tm 6), Line (bytes_of_string ''[TCP]Server shutdown'')))
        [0..<length (status_funcs (snd sample_start))]"
    by auto
  moreover from this(3) have "2 < length (read_log c)" by (simp add: sample_entries_def)
  ultimately show ?thesis by blast
qed

section \<open>Packets in the log\<close>

lemma log_text_entry:
  assumes "e \<in> set (List.map snd es)"
  shows "\<exists>pre t post. log_text localtime es = pre @ entry_text (localtime t) e @ post"
proof -
  obtain t where "(t, e) \<in> set es" using assms by auto
  then obtain es1 es2 where "es = es1 @ (t, e) # es2" by (auto dest: split_list)
  then have "log_text localtime es = log_text localtime es1 @ entry_text (localtime t) e @ log_text localtime es2"
    by (simp add: log_text_def)
  then show ?thesis by blast
qed

lemma server_line_logged:
  assumes "calls v ! (i - 1) = Log b" and "i < length (calls v)" and "subseq (server_log (calls v)) (List.map snd es)"
  shows "\<exists>pre t post. log_text localtime es = pre @ line_text (localtime t) b @ post"
proof -
  have "Log b \<in> set (calls v)" using assms(1,2) by (metis diff_le_self le_less_trans nth_mem)
  then have "Line b \<in> set (server_log (calls v))" by (rule server_log_set)
  from list_emb_set [OF assms(3) this] have "Line b \<in> set (List.map snd es)" by metis
  from log_text_entry [OF this, of localtime] show ?thesis by simp
qed

text \<open>
  C14: everything on the wire can be found in the log file. When the log of a run has the lines of
  a server in their order among its entries, the file of the closed log has, for every packet the
  server has written to a socket, a stamped line with the printed text of that packet - whatever
  else is written between the lines and however the stream buffers them.
\<close>

theorem wire_is_in_log_file:
  fixes localtime :: "int \<Rightarrow> tm" and t0 :: int
  assumes "sim_run dt show_dbl stod admin sim" and "keeps_order spill"
    and "logs_dir d \<or> mkdir_ok" and "can_open (log_path (localtime t0))"
  shows "\<exists>c. files (snd (log_life localtime spill mkdir_ok can_open t0 es d)) (log_path (localtime t0)) = Some c \<and>
    (\<forall>v m. ouch_srv sim = Some v \<and> subseq (server_log (calls v)) (List.map snd es) \<and> Write m \<in> set (calls v) \<longrightarrow>
      (\<exists>g b pre t post. ouch_inbound_to_string g m = Inr b \<and>
        c = pre @ line_text (localtime t) (bytes_of_string ''[OUCH]SEND: '' @ b) @ post)) \<and>
    (\<forall>v m. boe_srv sim = Some v \<and> subseq (server_log (calls v)) (List.map snd es) \<and> Write m \<in> set (calls v) \<longrightarrow>
      (\<exists>b pre t post. boe_to_string dt m = Inr b \<and>
        c = pre @ line_text (localtime t) (bytes_of_string ''[BOE]SEND: '' @ b) @ post))"
proof -
  note sent = sim_run_sent [OF assms(1), unfolded sim_sent_def]
  obtain d1 d2 where "log_life localtime spill mkdir_ok can_open t0 es d = (d1, d2)"
    "files d2 (log_path (localtime t0)) = Some (log_text localtime es)"
    using log_life_outcome(1) [OF assms(2), of d mkdir_ok can_open localtime t0 es] assms(3,4) by auto
  then have stored: "files (snd (log_life localtime spill mkdir_ok can_open t0 es d)) (log_path (localtime t0)) =
      Some (log_text localtime es)" by simp
  have ouch: "\<exists>g b pre t post. ouch_inbound_to_string g m = Inr b \<and>
        log_text localtime es = pre @ line_text (localtime t) (bytes_of_string (''[OUCH]'' @ ''SEND: '') @ b) @ post"
    if v: "ouch_srv sim = Some v" "subseq (server_log (calls v)) (List.map snd es)" "Write m \<in> set (calls v)" for v m
  proof -
    obtain i where i: "i < length (calls v)" "calls v ! i = Write m" using v(3) by (auto simp: in_set_conv_nth)
    have "well_sent ''[OUCH]'' ouch_message ouch_prints (calls v)" using sent v(1) by simp
    from well_sent_nth [OF this i] server_line_logged [OF _ i(1) v(2)] show ?thesis
      unfolding ouch_prints_def by blast
  qed
  have boe: "\<exists>b pre t post. boe_to_string dt m = Inr b \<and>
        log_text localtime es = pre @ line_text (localtime t) (bytes_of_string (''[BOE]'' @ ''SEND: '') @ b) @ post"
    if v: "boe_srv sim = Some v" "subseq (server_log (calls v)) (List.map snd es)" "Write m \<in> set (calls v)" for v m
  proof -
    obtain i where i: "i < length (calls v)" "calls v ! i = Write m" using v(3) by (auto simp: in_set_conv_nth)
    have "well_sent ''[BOE]'' boe_message (boe_prints dt) (calls v)" using sent v(1) by simp
    from well_sent_nth [OF this i] server_line_logged [OF _ i(1) v(2)] show ?thesis
      unfolding boe_prints_def by blast
  qed
  show ?thesis using stored ouch boe unfolding append.simps by blast
qed

section \<open>Forged lines\<close>

lemma read_forged:
  assumes "length hms = 8" and "10 \<notin> set hms" and "10 \<notin> set msg"
  shows "\<exists>more. (hms, Line (msg @ more)) \<in>
    set (read_log (x @ 10 # ch CHR ''['' # hms @ bytes_of_string ''] '' @ msg @ y @ [10]))"
proof -
  let ?s = "ch CHR ''['' # hms @ bytes_of_string ''] '' @ msg"
  obtain y1 y2 where y: "y @ [10] = y1 @ 10 # y2" "10 \<notin> set y1"
    using split_list_first [of "10 :: byte" "y @ [10]"] by auto
  have s: "10 \<notin> set (?s @ y1)" using assms(2,3) y(2) by (auto simp: bytes_of_string_def ch_def)
  have "x @ 10 # ch CHR ''['' # hms @ bytes_of_string ''] '' @ msg @ y @ [10] = x @ 10 # (?s @ y1) @ 10 # y2"
    using y(1) by simp
  then have "?s @ y1 \<in> set (split_lines (x @ 10 # ch CHR ''['' # hms @ bytes_of_string ''] '' @ msg @ y @ [10]))"
    using split_lines_append [of x "(?s @ y1) @ 10 # y2"] split_lines_cons [OF s, of y2] by simp
  moreover have "read_line (?s @ y1) = (hms, Line (msg @ y1))"
    using assms(1) by (simp add: read_line_def bytes_of_string_def ch_def)
  ultimately show ?thesis
    unfolding read_log_def set_map by (intro exI [of _ y1]) (rule rev_image_eqI [OF _ sym])
qed

lemma boe_NewOrder_text:
  assumes "boe_NewOrder_size \<le> length mem" and "bh_type (boe_MsgHeader_at mem) = MsgType_code MT_NewOrder"
    and "0 \<notin> set (no_token (boe_NewOrder_at mem))"
  shows "\<exists>pre post. boe_to_string dt mem = Inr (pre @ no_token (boe_NewOrder_at mem) @ post)"
proof -
  obtain ps where ps: "boe_print_NewOrder mem = Inr ps" 
    using boe_NewOrder_fits [OF assms(1)] by (cases "boe_print_NewOrder mem") (simp_all add: pieces_fit_def)
  obtain qs where qs: "ps = P_lit '',clordid='' # P_s (no_token (boe_NewOrder_at mem)) # qs"
    using ps assms(1) by (auto simp: boe_print_NewOrder_def read_struct_def)
  have "sum_list (List.map piece_room ps) \<le> 2000"
    using boe_NewOrder_fits [OF assms(1)] by (simp add: ps pieces_fit_def)
  then have "print_after (boe_header_text h) (Inr ps) = Inr (boe_header_text h @ render ps)" for h
    using boe_header_text_length [of h] by (intro print_after_fits) (simp add: print_size_def)
  moreover have "boe_to_string dt mem = print_after (boe_header_text (boe_MsgHeader_at mem)) (Inr ps)"
    using assms(1,2) by (simp add: boe_to_string_def read_struct_def boe_MsgHeader_size_def boe_NewOrder_size_def ps Let_def)
  moreover have "render ps = bytes_of_string '',clordid='' @ no_token (boe_NewOrder_at mem) @ render qs"
    using assms(3) by (auto simp: qs render_def takeWhile_eq_all_conv)
  ultimately have "boe_to_string dt mem = Inr ((boe_header_text (boe_MsgHeader_at mem) @ bytes_of_string '',clordid='') @
      no_token (boe_NewOrder_at mem) @ render qs)" by simp
  then show ?thesis by blast
qed

text \<open>
  A client can write lines of its own into the log, logged in or not. Nothing keeps a newline out
  of the text of a packet: an order of the BOE protocol whose client order id is a newline, a time of
  the sender's choice in brackets and eight more characters is logged as one line by the program
  and read back as an entry of that time with that text, which nobody has written.
\<close>

theorem client_forges_log_line:
  fixes localtime :: "int \<Rightarrow> tm"
  assumes "boe_NewOrder_size \<le> length mem" and "bh_type (boe_MsgHeader_at mem) = MsgType_code MT_NewOrder"
    and "no_token (boe_NewOrder_at mem) = 10 # ch CHR ''['' # hms @ bytes_of_string ''] '' @ msg"
    and "length hms = 8" and "10 \<notin> set hms \<union> set msg" and "0 \<notin> set hms \<union> set msg"
  shows "\<exists>b more. boe_to_string dt mem = Inr b \<and>
    (hms, Line (msg @ more)) \<in>
      set (read_log (log_text localtime [(t, Line (bytes_of_string ''[BOE]RECV: '' @ b))]))"
proof -
  have "0 \<notin> set (no_token (boe_NewOrder_at mem))"
    using assms(3,6) by (simp add: bytes_of_string_def ch_def)
  from boe_NewOrder_text [OF assms(1,2) this] obtain pre post where
    b: "boe_to_string dt mem = Inr (pre @ no_token (boe_NewOrder_at mem) @ post)" by blast
  let ?x = "[ch CHR ''[''] @ get_time_string (localtime t) @ bytes_of_string ''] '' @ bytes_of_string ''[BOE]RECV: '' @ pre"
  have "log_text localtime [(t, Line (bytes_of_string ''[BOE]RECV: '' @ pre @ no_token (boe_NewOrder_at mem) @ post))] =
      ?x @ 10 # ch CHR ''['' # hms @ bytes_of_string ''] '' @ msg @ post @ [10]"
    by (simp add: log_text_def line_text_def assms(3))
  moreover obtain more where "(hms, Line (msg @ more)) \<in>
      set (read_log (?x @ 10 # ch CHR ''['' # hms @ bytes_of_string ''] '' @ msg @ post @ [10]))"
    using read_forged [OF assms(4), of msg ?x post] assms(5) by auto
  ultimately show ?thesis using b by metis
qed

definition forged_order :: "byte list" where
  "forged_order = [0xBA, 0xBA, 110, 0, MsgType_code MT_NewOrder, 0, 0, 0, 0, 0] @ [10] @
     bytes_of_string ''[10:00:00] shutdown'' @ replicate 82 0"

theorem client_forges_log_line_witness:
  "\<exists>b more. boe_to_string (\<lambda>_. []) forged_order = Inr b \<and>
     (bytes_of_string ''10:00:00'', Line (bytes_of_string ''shutdown'' @ more)) \<in>
       set (read_log (log_text sample_tm [(3, Line (bytes_of_string ''[BOE]RECV: '' @ b))]))"
proof -
  have "boe_NewOrder_size \<le> length forged_order" "bh_type (boe_MsgHeader_at forged_order) = MsgType_code MT_NewOrder"
    "no_token (boe_NewOrder_at forged_order) =
       10 # ch CHR ''['' # bytes_of_string ''10:00:00'' @ bytes_of_string ''] '' @ bytes_of_string ''shutdown''"
    "length (bytes_of_string ''10:00:00'') = 8"
    "10 \<notin> set (bytes_of_string ''10:00:00'') \<union> set (bytes_of_string ''shutdown'')"
    "0 \<notin> set (bytes_of_string ''10:00:00'') \<union> set (bytes_of_string ''shutdown'')" by code_simp+
  from client_forges_log_line [OF this] show ?thesis .
qed

theorem wire_is_in_log_file_witness:
  "\<exists>sim v m es b pre t post. sim_run (\<lambda>_. []) (\<lambda>_. []) (\<lambda>_. None) (fst sample_start) sim \<and> boe_srv sim = Some v \<and>
     Write m \<in> set (calls v) \<and> boe_to_string (\<lambda>_. []) m = Inr b \<and>
     files (snd (log_life sample_tm (\<lambda>bs. ([], bs)) True (\<lambda>_. True) 0 es empty_disk)) (log_path (sample_tm 0)) =
       Some (pre @ line_text (sample_tm t) (bytes_of_string ''[BOE]SEND: '' @ b) @ post)"
proof -
  obtain sim v m where s: "sim_run (\<lambda>_. []) (\<lambda>_. []) (\<lambda>_. None) (fst sample_start) sim" "boe_srv sim = Some v"
    "Write m \<in> set (calls v)" using sample_login_run by blast
  let ?es = "List.map (\<lambda>e. (0, e)) (server_log (calls v))"
  have "subseq (server_log (calls v)) (List.map snd ?es)" by (simp add: comp_def)
  with wire_is_in_log_file [OF s(1) buffered_keeps_order, of empty_disk True "\<lambda>_. True" sample_tm 0 ?es] s(2,3)
  obtain c b pre t post where "files (snd (log_life sample_tm (\<lambda>bs. ([], bs)) True (\<lambda>_. True) 0 ?es empty_disk))
      (log_path (sample_tm 0)) = Some c" "boe_to_string (\<lambda>_. []) m = Inr b"
    "c = pre @ line_text (sample_tm t) (bytes_of_string ''[BOE]SEND: '' @ b) @ post" by metis
  with s show ?thesis by blast
qed

end
