(* ===== verification/Enumerations.thy ===== *)
theory Enumerations
  imports OuchSession BoeMessages
begin

text \<open>
  The enumerations of both protocols that no message struct refers to, and the two parameter groups
  of the BOE login. An enumeration made with \<^verbatim>\<open>BOOST_ENUM_VALUES\<close> can be looked up by its value
  and has a name for each enumerator; one made with \<^verbatim>\<open>BOOST_ENUM\<close> has the names only. The
  session spells the characters it accepts out once more: that they are the ones of the
  enumerations is a theorem.
\<close>

section \<open>Coded enumerations\<close>

text \<open>\<^verbatim>\<open>get_by_value\<close>, for an enumeration with the enumerators \<open>all\<close>.\<close>

definition get_by_value :: "('e \<Rightarrow> byte) \<Rightarrow> 'e list \<Rightarrow> byte \<Rightarrow> 'e option" where
  "get_by_value code all b = List.find (\<lambda>e. code e = b) all"

locale coded_enum =
  fixes code :: "'e \<Rightarrow> byte" and all :: "'e list"
  assumes complete: "x \<in> set all"
    and distinct_codes: "distinct (List.map code all)"
begin

lemma code_inject: "code x = code y \<longleftrightarrow> x = y"
  using distinct_codes complete by (auto simp: distinct_map dest: inj_onD)

lemma get_by_value_code [simp]: "get_by_value code all (code x) = Some x"
proof (cases "get_by_value code all (code x)")
  case None
  then show ?thesis using complete by (auto simp: get_by_value_def find_None_iff)
next
  case (Some y)
  then have "code y = code x" by (auto simp: get_by_value_def find_Some_iff)
  with Some show ?thesis by (simp add: code_inject)
qed

lemma get_by_value_iff: "get_by_value code all b = Some x \<longleftrightarrow> code x = b"
  using get_by_value_code [of x] by (auto simp: get_by_value_def find_Some_iff)

lemma code_range: "(\<exists>x. b = code x) \<longleftrightarrow> b \<in> set (List.map code all)"
  using complete by auto

end

section \<open>OUCH\<close>

datatype EventCode = EC_StartOfDay | EC_EndOfDay

primrec EventCode_code :: "EventCode \<Rightarrow> byte" where
    "EventCode_code EC_StartOfDay = ch CHR ''S''"
  | "EventCode_code EC_EndOfDay = ch CHR ''E''"

primrec EventCode_str :: "EventCode \<Rightarrow> string" where
    "EventCode_str EC_StartOfDay = ''StartOfDay''"
  | "EventCode_str EC_EndOfDay = ''EndOfDay''"

definition all_EventCode :: "EventCode list" where
  "all_EventCode = [EC_StartOfDay, EC_EndOfDay]"

interpretation EventCode_enum: coded_enum EventCode_code all_EventCode
  by unfold_locales (simp_all add: all_EventCode_def ch_def inj_on_def split: if_split_asm, (case_tac x; simp)?)

datatype ouch_OrderType = OT_Limit | OT_Market | OT_Algo | OT_PegToMid | OT_PegToBid | OT_PegToAsk | OT_OnOpen | OT_OnClose | OT_ISO

primrec ouch_OrderType_str :: "ouch_OrderType \<Rightarrow> string" where
    "ouch_OrderType_str OT_Limit = ''Limit''"
  | "ouch_OrderType_str OT_Market = ''Market''"
  | "ouch_OrderType_str OT_Algo = ''Algo''"
  | "ouch_OrderType_str OT_PegToMid = ''PegToMid''"
  | "ouch_OrderType_str OT_PegToBid = ''PegToBid''"
  | "ouch_OrderType_str OT_PegToAsk = ''PegToAsk''"
  | "ouch_OrderType_str OT_OnOpen = ''OnOpen''"
  | "ouch_OrderType_str OT_OnClose = ''OnClose''"
  | "ouch_OrderType_str OT_ISO = ''ISO''"

definition all_ouch_OrderType :: "ouch_OrderType list" where
  "all_ouch_OrderType = [OT_Limit, OT_Market, OT_Algo, OT_PegToMid, OT_PegToBid, OT_PegToAsk, OT_OnOpen, OT_OnClose, OT_ISO]"

datatype InventoryFlag = IF_Init | IF_Cover

primrec InventoryFlag_str :: "InventoryFlag \<Rightarrow> string" where
    "InventoryFlag_str IF_Init = ''Init''"
  | "InventoryFlag_str IF_Cover = ''Cover''"

definition all_InventoryFlag :: "InventoryFlag list" where
  "all_InventoryFlag = [IF_Init, IF_Cover]"

datatype OrderDisplay = OD_Normal | OD_Hidden

primrec OrderDisplay_str :: "OrderDisplay \<Rightarrow> string" where
    "OrderDisplay_str OD_Normal = ''Normal''"
  | "OrderDisplay_str OD_Hidden = ''Hidden''"

definition all_OrderDisplay :: "OrderDisplay list" where
  "all_OrderDisplay = [OD_Normal, OD_Hidden]"

datatype OrderCapacity = OC_Agent | OC_Principal

primrec OrderCapacity_str :: "OrderCapacity \<Rightarrow> string" where
    "OrderCapacity_str OC_Agent = ''Agent''"
  | "OrderCapacity_str OC_Principal = ''Principal''"

definition all_OrderCapacity :: "OrderCapacity list" where
  "all_OrderCapacity = [OC_Agent, OC_Principal]"

datatype LiquidityCode = LC_Unknown | LC_AddLit | LC_RemoveLit | LC_AddDark | LC_RemoveDark | LC_AddMidpoint | LC_TakeMidpoint

primrec LiquidityCode_code :: "LiquidityCode \<Rightarrow> byte" where
    "LiquidityCode_code LC_Unknown = ch CHR ''U''"
  | "LiquidityCode_code LC_AddLit = ch CHR ''A''"
  | "LiquidityCode_code LC_RemoveLit = ch CHR ''R''"
  | "LiquidityCode_code LC_AddDark = ch CHR ''a''"
  | "LiquidityCode_code LC_RemoveDark = ch CHR ''r''"
  | "LiquidityCode_code LC_AddMidpoint = ch CHR ''m''"
  | "LiquidityCode_code LC_TakeMidpoint = ch CHR ''M''"

primrec LiquidityCode_str :: "LiquidityCode \<Rightarrow> string" where
    "LiquidityCode_str LC_Unknown = ''Unknown''"
  | "LiquidityCode_str LC_AddLit = ''AddLit''"
  | "LiquidityCode_str LC_RemoveLit = ''RemoveLit''"
  | "LiquidityCode_str LC_AddDark = ''AddDark''"
  | "LiquidityCode_str LC_RemoveDark = ''RemoveDark''"
  | "LiquidityCode_str LC_AddMidpoint = ''AddMidpoint''"
  | "LiquidityCode_str LC_TakeMidpoint = ''TakeMidpoint''"

definition all_LiquidityCode :: "LiquidityCode list" where
  "all_LiquidityCode = [LC_Unknown, LC_AddLit, LC_RemoveLit, LC_AddDark, LC_RemoveDark, LC_AddMidpoint, LC_TakeMidpoint]"

interpretation LiquidityCode_enum: coded_enum LiquidityCode_code all_LiquidityCode
  by unfold_locales (simp_all add: all_LiquidityCode_def ch_def inj_on_def split: if_split_asm, (case_tac x; simp)?)

datatype Display = Disp_AttributablePriceToDisplay | Disp_AnonymousPriceToComply | Disp_NonDisplay | Disp_PostOnly | Disp_ImbalanceOnly | Disp_MidpointPeg | Disp_MidpointPegPostOnly | Disp_PostOnlyAndAttributable | Disp_RetailOrderType1 | Disp_RetailOrderType2 | Disp_RetailPriceImprovement

primrec Display_code :: "Display \<Rightarrow> byte" where
    "Display_code Disp_AttributablePriceToDisplay = ch CHR ''A''"
  | "Display_code Disp_AnonymousPriceToComply = ch CHR ''Y''"
  | "Display_code Disp_NonDisplay = ch CHR ''N''"
  | "Display_code Disp_PostOnly = ch CHR ''P''"
  | "Display_code Disp_ImbalanceOnly = ch CHR ''I''"
  | "Display_code Disp_MidpointPeg = ch CHR ''M''"
  | "Display_code Disp_MidpointPegPostOnly = ch CHR ''W''"
  | "Display_code Disp_PostOnlyAndAttributable = ch CHR ''L''"
  | "Display_code Disp_RetailOrderType1 = ch CHR ''O''"
  | "Display_code Disp_RetailOrderType2 = ch CHR ''T''"
  | "Display_code Disp_RetailPriceImprovement = ch CHR ''Q''"

primrec Display_str :: "Display \<Rightarrow> string" where
    "Display_str Disp_AttributablePriceToDisplay = ''AttributablePriceToDisplay''"
  | "Display_str Disp_AnonymousPriceToComply = ''AnonymousPriceToComply''"
  | "Display_str Disp_NonDisplay = ''NonDisplay''"
  | "Display_str Disp_PostOnly = ''PostOnly''"
  | "Display_str Disp_ImbalanceOnly = ''ImbalanceOnly''"
  | "Display_str Disp_MidpointPeg = ''MidpointPeg''"
  | "Display_str Disp_MidpointPegPostOnly = ''MidpointPegPostOnly''"
  | "Display_str Disp_PostOnlyAndAttributable = ''PostOnlyAndAttributable''"
  | "Display_str Disp_RetailOrderType1 = ''RetailOrderType1''"
  | "Display_str Disp_RetailOrderType2 = ''RetailOrderType2''"
  | "Display_str Disp_RetailPriceImprovement = ''RetailPriceImprovement''"

definition all_Display :: "Display list" where
  "all_Display = [Disp_AttributablePriceToDisplay, Disp_AnonymousPriceToComply, Disp_NonDisplay, Disp_PostOnly, Disp_ImbalanceOnly, Disp_MidpointPeg, Disp_MidpointPegPostOnly, Disp_PostOnlyAndAttributable, Disp_RetailOrderType1, Disp_RetailOrderType2, Disp_RetailPriceImprovement]"

interpretation Display_enum: coded_enum Display_code all_Display
  by unfold_locales (simp_all add: all_Display_def ch_def inj_on_def split: if_split_asm, (case_tac x; simp)?)

datatype Capacity = Cap_Agency | Cap_Principal | Cap_Riskless | Cap_Other

primrec Capacity_code :: "Capacity \<Rightarrow> byte" where
    "Capacity_code Cap_Agency = ch CHR ''A''"
  | "Capacity_code Cap_Principal = ch CHR ''P''"
  | "Capacity_code Cap_Riskless = ch CHR ''R''"
  | "Capacity_code Cap_Other = ch CHR ''O''"

primrec Capacity_str :: "Capacity \<Rightarrow> string" where
    "Capacity_str Cap_Agency = ''Agency''"
  | "Capacity_str Cap_Principal = ''Principal''"
  | "Capacity_str Cap_Riskless = ''Riskless''"
  | "Capacity_str Cap_Other = ''Other''"

definition all_Capacity :: "Capacity list" where
  "all_Capacity = [Cap_Agency, Cap_Principal, Cap_Riskless, Cap_Other]"

interpretation Capacity_enum: coded_enum Capacity_code all_Capacity
  by unfold_locales (simp_all add: all_Capacity_def ch_def inj_on_def split: if_split_asm, (case_tac x; simp)?)

datatype CrossType = Cross_NoCrossContinuousMarket | Cross_OpeningCross | Cross_ClosingCross | Cross_HaltOrIpoCross | Cross_SupplementalOrder | Cross_Retail

primrec CrossType_code :: "CrossType \<Rightarrow> byte" where
    "CrossType_code Cross_NoCrossContinuousMarket = ch CHR ''N''"
  | "CrossType_code Cross_OpeningCross = ch CHR ''O''"
  | "CrossType_code Cross_ClosingCross = ch CHR ''C''"
  | "CrossType_code Cross_HaltOrIpoCross = ch CHR ''H''"
  | "CrossType_code Cross_SupplementalOrder = ch CHR ''S''"
  | "CrossType_code Cross_Retail = ch CHR ''R''"

primrec CrossType_str :: "CrossType \<Rightarrow> string" where
    "CrossType_str Cross_NoCrossContinuousMarket = ''NoCrossContinuousMarket''"
  | "CrossType_str Cross_OpeningCross = ''OpeningCross''"
  | "CrossType_str Cross_ClosingCross = ''ClosingCross''"
  | "CrossType_str Cross_HaltOrIpoCross = ''HaltOrIpoCross''"
  | "CrossType_str Cross_SupplementalOrder = ''SupplementalOrder''"
  | "CrossType_str Cross_Retail = ''Retail''"

definition all_CrossType :: "CrossType list" where
  "all_CrossType = [Cross_NoCrossContinuousMarket, Cross_OpeningCross, Cross_ClosingCross, Cross_HaltOrIpoCross, Cross_SupplementalOrder, Cross_Retail]"

interpretation CrossType_enum: coded_enum CrossType_code all_CrossType
  by unfold_locales (simp_all add: all_CrossType_def ch_def inj_on_def split: if_split_asm, (case_tac x; simp)?)

section \<open>BOE\<close>

datatype ParamGroupType = PG_ReturnBitfields | PG_UnitSequences

primrec ParamGroupType_code :: "ParamGroupType \<Rightarrow> byte" where
    "ParamGroupType_code PG_ReturnBitfields = 0x81"
  | "ParamGroupType_code PG_UnitSequences = 0x80"

definition all_ParamGroupType :: "ParamGroupType list" where
  "all_ParamGroupType = [PG_ReturnBitfields, PG_UnitSequences]"

interpretation ParamGroupType_enum: coded_enum ParamGroupType_code all_ParamGroupType
  by unfold_locales (simp_all add: all_ParamGroupType_def ch_def inj_on_def split: if_split_asm, (case_tac x; simp)?)

datatype boe_Side = BSide_Buy | BSide_Sell | BSide_SellShort | BSide_SellShortExempt

primrec boe_Side_code :: "boe_Side \<Rightarrow> byte" where
    "boe_Side_code BSide_Buy = ch CHR ''1''"
  | "boe_Side_code BSide_Sell = ch CHR ''2''"
  | "boe_Side_code BSide_SellShort = ch CHR ''5''"
  | "boe_Side_code BSide_SellShortExempt = ch CHR ''6''"

definition all_boe_Side :: "boe_Side list" where
  "all_boe_Side = [BSide_Buy, BSide_Sell, BSide_SellShort, BSide_SellShortExempt]"

interpretation boe_Side_enum: coded_enum boe_Side_code all_boe_Side
  by unfold_locales (simp_all add: all_boe_Side_def ch_def inj_on_def split: if_split_asm, (case_tac x; simp)?)

datatype boe_TimeInForce = BTif_Day | BTif_GTC | BTif_AtTheOpen | BTif_IOC | BTif_FOK | BTif_GTX | BTif_GTD | BTif_AtTheClose | BTif_Pre | BTif_RHO | BTif_PTD | BTif_PTX

primrec boe_TimeInForce_code :: "boe_TimeInForce \<Rightarrow> byte" where
    "boe_TimeInForce_code BTif_Day = ch CHR ''0''"
  | "boe_TimeInForce_code BTif_GTC = ch CHR ''1''"
  | "boe_TimeInForce_code BTif_AtTheOpen = ch CHR ''2''"
  | "boe_TimeInForce_code BTif_IOC = ch CHR ''3''"
  | "boe_TimeInForce_code BTif_FOK = ch CHR ''4''"
  | "boe_TimeInForce_code BTif_GTX = ch CHR ''5''"
  | "boe_TimeInForce_code BTif_GTD = ch CHR ''6''"
  | "boe_TimeInForce_code BTif_AtTheClose = ch CHR ''7''"
  | "boe_TimeInForce_code BTif_Pre = ch CHR ''E''"
  | "boe_TimeInForce_code BTif_RHO = ch CHR ''R''"
  | "boe_TimeInForce_code BTif_PTD = ch CHR ''T''"
  | "boe_TimeInForce_code BTif_PTX = ch CHR ''X''"

definition all_boe_TimeInForce :: "boe_TimeInForce list" where
  "all_boe_TimeInForce = [BTif_Day, BTif_GTC, BTif_AtTheOpen, BTif_IOC, BTif_FOK, BTif_GTX, BTif_GTD, BTif_AtTheClose, BTif_Pre, BTif_RHO, BTif_PTD, BTif_PTX]"

interpretation boe_TimeInForce_enum: coded_enum boe_TimeInForce_code all_boe_TimeInForce
  by unfold_locales (simp_all add: all_boe_TimeInForce_def ch_def inj_on_def split: if_split_asm, (case_tac x; simp)?)

datatype DisplayIndicator = BDisp_Normal | BDisp_Hidden

primrec DisplayIndicator_code :: "DisplayIndicator \<Rightarrow> byte" where
    "DisplayIndicator_code BDisp_Normal = ch CHR ''V''"
  | "DisplayIndicator_code BDisp_Hidden = ch CHR ''r''"

definition all_DisplayIndicator :: "DisplayIndicator list" where
  "all_DisplayIndicator = [BDisp_Normal, BDisp_Hidden]"

interpretation DisplayIndicator_enum: coded_enum DisplayIndicator_code all_DisplayIndicator
  by unfold_locales (simp_all add: all_DisplayIndicator_def ch_def inj_on_def split: if_split_asm, (case_tac x; simp)?)

datatype boe_Capacity = BCap_Agency | BCap_Principal | BCap_RisklessPrincipal

primrec boe_Capacity_code :: "boe_Capacity \<Rightarrow> byte" where
    "boe_Capacity_code BCap_Agency = ch CHR ''A''"
  | "boe_Capacity_code BCap_Principal = ch CHR ''P''"
  | "boe_Capacity_code BCap_RisklessPrincipal = ch CHR ''R''"

definition all_boe_Capacity :: "boe_Capacity list" where
  "all_boe_Capacity = [BCap_Agency, BCap_Principal, BCap_RisklessPrincipal]"

interpretation boe_Capacity_enum: coded_enum boe_Capacity_code all_boe_Capacity
  by unfold_locales (simp_all add: all_boe_Capacity_def ch_def inj_on_def split: if_split_asm, (case_tac x; simp)?)

datatype boe_OrderType = BOT_Market | BOT_Limit | BOT_Stop | BOT_StopLimit | BOT_Pegged

primrec boe_OrderType_code :: "boe_OrderType \<Rightarrow> byte" where
    "boe_OrderType_code BOT_Market = ch CHR ''1''"
  | "boe_OrderType_code BOT_Limit = ch CHR ''2''"
  | "boe_OrderType_code BOT_Stop = ch CHR ''3''"
  | "boe_OrderType_code BOT_StopLimit = ch CHR ''4''"
  | "boe_OrderType_code BOT_Pegged = ch CHR ''P''"

definition all_boe_OrderType :: "boe_OrderType list" where
  "all_boe_OrderType = [BOT_Market, BOT_Limit, BOT_Stop, BOT_StopLimit, BOT_Pegged]"

interpretation boe_OrderType_enum: coded_enum boe_OrderType_code all_boe_OrderType
  by unfold_locales (simp_all add: all_boe_OrderType_def ch_def inj_on_def split: if_split_asm, (case_tac x; simp)?)

section \<open>Parameter groups of the BOE login\<close>

record boe_UnitSequencesParamGroup =
  usp_length :: u16
  usp_type :: byte
  usp_no_unspecified_unit_replay :: byte
  usp_number_of_units :: byte

definition boe_UnitSequencesParamGroup_size :: nat where
  "boe_UnitSequencesParamGroup_size = 5"

definition boe_UnitSequencesParamGroup_bytes :: "boe_UnitSequencesParamGroup \<Rightarrow> byte list" where
  "boe_UnitSequencesParamGroup_bytes x =
     le_bytes 2 (usp_length x) @ byte1 (usp_type x) @ byte1 (usp_no_unspecified_unit_replay x) @
     byte1 (usp_number_of_units x)"

definition boe_UnitSequencesParamGroup_at :: "byte list \<Rightarrow> boe_UnitSequencesParamGroup" where
  "boe_UnitSequencesParamGroup_at m =
     \<lparr>usp_length = u16_at 0 m, usp_type = u8_at 2 m, usp_no_unspecified_unit_replay = u8_at 3 m,
      usp_number_of_units = u8_at 4 m\<rparr>"

interpretation boe_UnitSequencesParamGroup: packed_struct boe_UnitSequencesParamGroup_size
    boe_UnitSequencesParamGroup_bytes boe_UnitSequencesParamGroup_at "\<lambda>_. True"
  by unfold_locales (auto simp: boe_UnitSequencesParamGroup_size_def boe_UnitSequencesParamGroup_bytes_def
      boe_UnitSequencesParamGroup_at_def struct_proof)

record boe_ReturnBitfieldParamGroup =
  rbp_length :: u16
  rbp_type :: byte
  rbp_msg_type :: byte
  rbp_num_bitfields :: byte

definition boe_ReturnBitfieldParamGroup_size :: nat where
  "boe_ReturnBitfieldParamGroup_size = 5"

definition boe_ReturnBitfieldParamGroup_bytes :: "boe_ReturnBitfieldParamGroup \<Rightarrow> byte list" where
  "boe_ReturnBitfieldParamGroup_bytes x =
     le_bytes 2 (rbp_length x) @ byte1 (rbp_type x) @ byte1 (rbp_msg_type x) @ byte1 (rbp_num_bitfields x)"

definition boe_ReturnBitfieldParamGroup_at :: "byte list \<Rightarrow> boe_ReturnBitfieldParamGroup" where
  "boe_ReturnBitfieldParamGroup_at m =
     \<lparr>rbp_length = u16_at 0 m, rbp_type = u8_at 2 m, rbp_msg_type = u8_at 3 m, rbp_num_bitfields = u8_at 4 m\<rparr>"

interpretation boe_ReturnBitfieldParamGroup: packed_struct boe_ReturnBitfieldParamGroup_size
    boe_ReturnBitfieldParamGroup_bytes boe_ReturnBitfieldParamGroup_at "\<lambda>_. True"
  by unfold_locales (auto simp: boe_ReturnBitfieldParamGroup_size_def boe_ReturnBitfieldParamGroup_bytes_def
      boe_ReturnBitfieldParamGroup_at_def struct_proof)

section \<open>What validation accepts\<close>

definition all_Side :: "Side list" where
  "all_Side = [Side_Buy, Side_Sell, Side_SellShort, Side_SellShortExempt]"

interpretation Side_enum: coded_enum Side_code all_Side
  by unfold_locales (simp_all add: all_Side_def ch_def inj_on_def split: if_split_asm, (case_tac x; simp)?)

lemma side_chars: "b \<in> set (bytes_of_string ''BSTE'') \<longleftrightarrow> get_by_value Side_code all_Side b \<noteq> None"
  using Side_enum.code_range [of b] Side_enum.get_by_value_iff [of b]
  by (auto simp: bytes_of_string_def all_Side_def)

lemma display_chars: "display_ok b \<longleftrightarrow> get_by_value Display_code all_Display b \<noteq> None"
  using Display_enum.code_range [of b] Display_enum.get_by_value_iff [of b]
  by (auto simp: display_ok_def bytes_of_string_def all_Display_def)

lemma cross_chars: "b \<in> set (bytes_of_string ''NOCHSR'') \<longleftrightarrow> get_by_value CrossType_code all_CrossType b \<noteq> None"
  using CrossType_enum.code_range [of b] CrossType_enum.get_by_value_iff [of b]
  by (auto simp: bytes_of_string_def all_CrossType_def)


end
