(* ===== verification/Spec2Isabelle.thy ===== *)
theory Spec2Isabelle
  imports OuchPackets OuchTick OuchExecution BehaviorFacts BoeProps BoeExecution TcpLimits
    SimulatorProps SimulatorTrace Shutdown Enumerations
begin

text \<open>
  The exchange simulator: a program that plays the exchange's side of two order-entry protocols,
  OUCH over SoupBinTCP and BOE, so that trading systems can be tried against it. One process has up
  to two servers, each with one session, a behaviour manager both sessions ask before they accept
  anything, an administrator console that changes the manager, and a log. There is no order book:
  on a timer each session executes, cancels, modifies and expires the orders it holds by itself.

  How the parts interact. \<^verbatim>\<open>main\<close> makes the manager, which opens the console and registers five
  commands, and then the servers asked for. A server reads packets from its socket into a buffer of
  4096 bytes, logs each and hands it to its session (\<^verbatim>\<open>handle_packet\<close>), sends what the session has
  posted, and on a timer runs the session's \<^verbatim>\<open>market_logic\<close> and sends again. A session queues
  cancels, modifications and replacements as they arrive and carries them out at the next tick. When
  it is made it registers two callbacks, which the console commands \<^verbatim>\<open>bm status\<close> and
  \<^verbatim>\<open>bm cancel_all\<close> call.

  Theories and the code they model (under \<^verbatim>\<open>src/\<close>):

  \<^item> \<open>Prelude\<close>: bytes, little-endian reading and writing, byte order, packed structs as an interface
    (the locale \<open>packed_struct\<close>, interpreted for every struct), results with errors, tables.
  \<^item> \<open>World\<close>: clocks, \<^verbatim>\<open>rand()\<close>, uninitialised memory and hash-table order as streams of answers.
  \<^item> \<open>OuchMessages\<close>, \<open>OuchNotices\<close> (\<^verbatim>\<open>ouch_messages.h\<close>); \<open>BoeMessages\<close>, \<open>BoeNotices\<close>
    (\<^verbatim>\<open>boe_messages.h\<close>): enumerations and structs, one record each with its size, bytes and reading.
    \<open>Enumerations\<close> has the enumerations of field values of both headers, with the names and the lookup
    by value that \<^verbatim>\<open>BOOST_ENUM\<close> makes.
  \<^item> \<open>Orders\<close>, \<open>BoeOrders\<close> (\<^verbatim>\<open>order.h\<close>, \<^verbatim>\<open>ouch_order.cpp\<close>, \<^verbatim>\<open>boe_order.cpp\<close>): orders and requests.
  \<^item> \<open>BehaviorManager\<close> (\<^verbatim>\<open>behavior_manager.h\<close>, \<^verbatim>\<open>behavior_manager.cpp\<close>): behaviours and \<^verbatim>\<open>bm\<close> commands.
  \<^item> \<open>Session\<close> (\<^verbatim>\<open>session.h\<close>); \<open>OuchSession\<close>, \<open>OuchMarket\<close> (\<^verbatim>\<open>ouch_session.cpp\<close>: packets, tick);
    \<open>BoeSession\<close> (\<^verbatim>\<open>boe_session.cpp\<close>).
  \<^item> \<open>Printing\<close>, \<open>OuchPrint\<close>, \<open>BoePrint\<close> (\<^verbatim>\<open>evtsim_util.cpp\<close>): \<^verbatim>\<open>snprintf\<close> as a list of pieces and the
    log text of every message, with the 4096 bytes it is printed into.
  \<^item> \<open>Logger\<close> (\<^verbatim>\<open>evtsim_util.h\<close>, \<^verbatim>\<open>evtsim_util.cpp\<close>): the log file, its time stamps and its buffer.
  \<^item> \<open>TcpServer\<close> (\<^verbatim>\<open>tcp_server.h\<close>, \<^verbatim>\<open>tcp_server.cpp\<close>): the two servers, as one record of state and one
    record of what the protocols differ in.
  \<^item> \<open>AdminServer\<close> (\<^verbatim>\<open>adminserver.h\<close>, \<^verbatim>\<open>adminserver.cpp\<close>): the console.
  \<^item> \<open>Simulator\<close> (the rest of \<^verbatim>\<open>behavior_manager.cpp\<close>, \<^verbatim>\<open>evtsim_main.cpp\<close>): the whole program as one
    state, the callbacks, and \<^verbatim>\<open>main\<close>. \<open>Shutdown\<close> (\<^verbatim>\<open>evtsim_main.cpp\<close>): the signal handler and what
    is destroyed when the event loop returns.

  What the lemmas show:

  \<^item> Sessions: \<open>OuchInv\<close>, \<open>OuchReach\<close> and \<open>BoeInv\<close> have each session as a step relation and its
    invariant (tables keyed by the token of their order, tokens of the right length, outgoing packets
    framed); \<open>OuchFacts\<close> and \<open>BoeFacts\<close> decode outgoing packets into events, so that answers are stated
    as messages and not as bytes.
  \<^item> Packets: \<open>OuchEntry\<close> and \<open>OuchPackets\<close> (every packet handled in place, validation, login, order
    entry end to end), \<open>BoeProps\<close> and \<open>BoeNumbering\<close> (order entry, requests, login, sequence numbers).
  \<^item> Ticks: \<open>OuchTick\<close> (cancel, modify, replace and their answers, console cancel), \<open>OuchExecution\<close>
    and \<open>BoeExecution\<close> (an order is never executed for more than its quantity, and what was executed
    and cancelled accounts for what it lost; a live OUCH order is finished after finitely many ticks);
    both interpret the locales of \<open>ExecutionRounds\<close>, where a loop over the table is taken apart into
    the rounds of its entries.
  \<^item> Manager: \<open>BehaviorFacts\<close>. Printing: \<open>PrintFacts\<close> (what fits the print buffer, what overruns it).
  \<^item> Servers: \<open>TcpFacts\<close> states what a server needs of its session as the locale \<open>served_session\<close> and
    proves framing and the session's invariant from it; \<open>TcpProps\<close> interprets it for both protocols,
    where the split of a read into packets is shown to be a sequence of single packets, and a cut
    packet not to be put together again; \<open>TcpLimits\<close> has the reads that return, the packets that stop a
    server and the ticks that pile up; \<open>TcpTrace\<close> extends the locale to \<open>typed_session\<close>, whose messages are
    typed and printable, and proves from it what stands in front of every write.
  \<^item> Console: \<open>AdminFacts\<close> (no login, aligned help), \<open>AdminConsole\<close> (from typed characters to the
    command they call; lines that overrun their buffer).
  \<^item> Program: \<open>SimulatorRun\<close> (every step of the program and its invariant), \<open>SimulatorProps\<close> (exit codes,
    soundness of every run, a console line that cancels the orders of both sessions); what the console
    needs of an invariant is the locale \<open>console_invariant\<close>, used twice. \<open>SimulatorTrace\<close> has a second
    invariant, on all that was ever sent: type safety of the wire, log lines before writes, and when
    a server goes on. \<open>Samples\<close> holds concrete packets and sessions.
  \<^item> Log: \<open>LogFile\<close> (a closed log reads back as its entries; runs that start in different seconds
    keep their logs) and \<open>Shutdown\<close> (the log of an interrupted program, the wire found again in the file,
    a client that forges a line). \<open>Enumerations\<close>: validation accepts exactly the enumerators.

  Conventions. A handler is a function from state to state, with \<open>Inl\<close> for an exception that is thrown
  and for memory accessed out of bounds (\<open>OutOfBounds\<close>), which C++ leaves undefined: a theorem that
  ends in \<open>OutOfBounds\<close> says that the access happens. A cast of received bytes to a struct asks for the
  whole struct to be in memory. Hash tables are association lists with a visiting order of the
  world. Unsigned integers have the width of the code; the signed 64-bit quantities of an
  order, which the code sets from 32-bit fields and only changes by 32-bit amounts, and signed times
  are \<open>int\<close>, with the narrowing to 32 bits written out where the code narrows. Both sessions run in one shared
  environment, which the simulator lends to whichever runs. The log of warnings keeps the literal
  text and the packet; the log of packets is among the calls of a server.

  Bounds and fuel. No fuel is used: every loop is structural or has a termination proof (the read
  loop, because a packet is at least two bytes long; the catching up of the timer, because each tick
  moves its expiry). Bounds in theorems are those of the code: buffers of 4096 and 100 bytes,
  1,000,000 and 999,999 shares. The 43 characters of a console line and the 34 of a session name are
  what the 100 bytes of a log line leave room for.

  Parameters, for what is not in the repository: the text of a time stamp (\<^verbatim>\<open>nsec_to_datetime\<close>, assumed
  to fit the 32 bytes it is given), how a stream prints a double, \<^verbatim>\<open>std::stod\<close>, the result of parsing
  the command line, whether the console's port can be had, \<^verbatim>\<open>localtime\<close> (assumed to keep its fields in
  their ranges), whether the log's directory can be made and its file opened, and how much of its
  buffer a file stream writes at a time (assumed to keep the order of the characters).

  Not modelled: sockets and the event loop beyond the order of the calls made on them; the texts the
  option parser prints; the order of warnings among the packet lines of one read, so the log of a run
  is tied to the calls of its servers by the order of each server's own lines only; a signal that
  arrives in the middle of a write, where the handler would run on a half-written line; bit-field
  helpers of the message headers that no code uses.
\<close>

end
